(* ===== verification/Prelude.thy ===== *)
theory Prelude
  imports Main "HOL-Library.Word" "HOL-Library.Stream"
begin

text \<open>
  What the components share: machine integer types, the string operations of the Rust
  standard library that the source calls, decimal printing and parsing, and the contract
  of a system with an inductive invariant.

  A Rust \<^verbatim>\<open>str\<close> is modelled by its UTF-8 bytes, a \<^typ>\<open>string\<close>.  The operations that look at
  whole characters (\<^verbatim>\<open>trim\<close>, \<^verbatim>\<open>split_whitespace\<close>, \<^verbatim>\<open>from_utf8\<close>, \<^verbatim>\<open>from_utf8_lossy\<close>) work on the
  encoded bytes and agree with the standard library on every well-formed string; the
  operations that look for an ASCII character or a substring are byte operations anyway.
\<close>

named_theorems str_simps \<open>rewriting of string operations\<close>
named_theorems kube_simps \<open>rewriting of API calls\<close>

type_synonym u8 = "8 word"
type_synonym u16 = "16 word"
type_synonym u32 = "32 word"
type_synonym u64 = "64 word"
type_synonym i32 = "32 word"
type_synonym bytes = string

section \<open>Strings\<close>

subsection \<open>Prefixes, substrings and splitting at an ASCII character\<close>

fun strip_prefix :: "string \<Rightarrow> string \<Rightarrow> string option" where
  "strip_prefix [] s = Some s"
| "strip_prefix (p # ps) [] = None"
| "strip_prefix (p # ps) (c # cs) = (if p = c then strip_prefix ps cs else None)"

definition starts_with :: "string \<Rightarrow> string \<Rightarrow> bool" where
  "starts_with s p \<longleftrightarrow> strip_prefix p s \<noteq> None"

fun str_contains :: "string \<Rightarrow> string \<Rightarrow> bool" where
  "str_contains [] p = (p = [])"
| "str_contains (c # cs) p = (starts_with (c # cs) p \<or> str_contains cs p)"

fun split_once :: "char \<Rightarrow> string \<Rightarrow> (string \<times> string) option" where
  "split_once d [] = None"
| "split_once d (c # cs) =
     (if c = d then Some ([], cs)
      else map_option (\<lambda>(a, b). (c # a, b)) (split_once d cs))"

fun split_char :: "char \<Rightarrow> string \<Rightarrow> string list" where
  "split_char d [] = [[]]"
| "split_char d (c # cs) =
     (if c = d then [] # split_char d cs
      else (case split_char d cs of [] \<Rightarrow> [[c]] | w # ws \<Rightarrow> (c # w) # ws))"

text \<open>\<^verbatim>\<open>splitn(n, d)\<close> stops splitting once \<open>n\<close> pieces exist.\<close>

fun splitn_char :: "nat \<Rightarrow> char \<Rightarrow> string \<Rightarrow> string list" where
  "splitn_char 0 d s = []"
| "splitn_char (Suc 0) d s = [s]"
| "splitn_char (Suc (Suc n)) d s =
     (case split_once d s of None \<Rightarrow> [s] | Some (a, b) \<Rightarrow> a # splitn_char (Suc n) d b)"

text \<open>\<^verbatim>\<open>str::replace\<close> with a character pattern.\<close>

definition replace_char :: "char \<Rightarrow> string \<Rightarrow> string \<Rightarrow> string" where
  "replace_char d r s = concat (map (\<lambda>c. if c = d then r else [c]) s)"

text \<open>\<^verbatim>\<open>str::replace\<close> with a non-empty string pattern: leftmost, non-overlapping.\<close>

lemma strip_prefix_length: "strip_prefix p s = Some r \<Longrightarrow> length s = length p + length r"
  by (induction p s rule: strip_prefix.induct) (auto split: if_splits)

function replace_str :: "string \<Rightarrow> string \<Rightarrow> string \<Rightarrow> string" where
  "replace_str p r s =
     (if p = [] then s
      else (case strip_prefix p s of
              Some rest \<Rightarrow> r @ replace_str p r rest
            | None \<Rightarrow> (case s of [] \<Rightarrow> [] | c # cs \<Rightarrow> c # replace_str p r cs)))"
  by pat_completeness auto
termination
  by (relation "measure (\<lambda>(p, r, s). length s)") (auto dest: strip_prefix_length)

declare replace_str.simps [simp del]

text \<open>
  \<^verbatim>\<open>str::lines\<close>: split after every line feed, strip the line feed and a carriage return
  before it; a last line without a line feed is kept as it is, an empty one is dropped.
\<close>

definition strip_cr :: "string \<Rightarrow> string" where
  "strip_cr s = (if s \<noteq> [] \<and> last s = CHR 0x0D then butlast s else s)"

definition str_lines :: "string \<Rightarrow> string list" where
  "str_lines s =
     (let ps = split_char (CHR 0x0A) s
      in map strip_cr (butlast ps) @ (if last ps = [] then [] else [last ps]))"

subsection \<open>White space\<close>

text \<open>The UTF-8 encodings of the characters with the Unicode property \<^verbatim>\<open>White_Space\<close>.\<close>

definition ws_encodings :: "string list" where
  "ws_encodings =
     [[CHR 0x09], [CHR 0x0A], [CHR 0x0B], [CHR 0x0C], [CHR 0x0D], [CHR 0x20],
      [CHR 0xC2, CHR 0x85], [CHR 0xC2, CHR 0xA0], [CHR 0xE1, CHR 0x9A, CHR 0x80],
      [CHR 0xE2, CHR 0x80, CHR 0x80], [CHR 0xE2, CHR 0x80, CHR 0x81],
      [CHR 0xE2, CHR 0x80, CHR 0x82], [CHR 0xE2, CHR 0x80, CHR 0x83],
      [CHR 0xE2, CHR 0x80, CHR 0x84], [CHR 0xE2, CHR 0x80, CHR 0x85],
      [CHR 0xE2, CHR 0x80, CHR 0x86], [CHR 0xE2, CHR 0x80, CHR 0x87],
      [CHR 0xE2, CHR 0x80, CHR 0x88], [CHR 0xE2, CHR 0x80, CHR 0x89],
      [CHR 0xE2, CHR 0x80, CHR 0x8A], [CHR 0xE2, CHR 0x80, CHR 0xA8],
      [CHR 0xE2, CHR 0x80, CHR 0xA9], [CHR 0xE2, CHR 0x80, CHR 0xAF],
      [CHR 0xE2, CHR 0x81, CHR 0x9F], [CHR 0xE3, CHR 0x80, CHR 0x80]]"

text \<open>The rest of a string after one leading pattern of a list, if there is one.\<close>

fun strip_any :: "string list \<Rightarrow> string \<Rightarrow> string option" where
  "strip_any [] s = None"
| "strip_any (p # ps) s =
     (case strip_prefix p s of Some r \<Rightarrow> Some r | None \<Rightarrow> strip_any ps s)"

lemma strip_any_length:
  "strip_any ps s = Some r \<Longrightarrow> [] \<notin> set ps \<Longrightarrow> length r < length s"
  by (induction ps) (auto split: option.splits dest: strip_prefix_length)

function trim_start_with :: "string list \<Rightarrow> string \<Rightarrow> string" where
  "trim_start_with ps s =
     (if [] \<in> set ps then s
      else (case strip_any ps s of Some r \<Rightarrow> trim_start_with ps r | None \<Rightarrow> s))"
  by pat_completeness auto
termination
  by (relation "measure (\<lambda>(ps, s). length s)") (auto dest: strip_any_length)

declare trim_start_with.simps [simp del]

definition trim_start :: "string \<Rightarrow> string" where
  "trim_start s = trim_start_with ws_encodings s"

definition trim_end :: "string \<Rightarrow> string" where
  "trim_end s = rev (trim_start_with (map rev ws_encodings) (rev s))"

definition trim :: "string \<Rightarrow> string" where
  "trim s = trim_end (trim_start s)"

text \<open>\<^verbatim>\<open>str::trim_end_matches\<close> with a character.\<close>

definition trim_end_char :: "char \<Rightarrow> string \<Rightarrow> string" where
  "trim_end_char d s = rev (dropWhile (\<lambda>c. c = d) (rev s))"

text \<open>The lines of a multi-line literal.\<close>

fun join_lines :: "string list \<Rightarrow> string" where
  "join_lines [] = []"
| "join_lines [l] = l"
| "join_lines (l # ls) = l @ [CHR 0x0A] @ join_lines ls"

subsection \<open>UTF-8\<close>

definition in_range :: "nat \<Rightarrow> nat \<Rightarrow> char \<Rightarrow> bool" where
  "in_range lo hi c \<longleftrightarrow> lo \<le> of_char c \<and> of_char c \<le> hi"

text \<open>
  The ranges of the bytes after a leading byte (Table 3-7 of the Unicode standard);
  \<^const>\<open>None\<close> for a byte that starts no sequence.
\<close>

definition utf8_tail :: "char \<Rightarrow> (nat \<times> nat) list option" where
  "utf8_tail c =
     (if in_range 0x00 0x7F c then Some []
      else if in_range 0xC2 0xDF c then Some [(0x80, 0xBF)]
      else if in_range 0xE0 0xE0 c then Some [(0xA0, 0xBF), (0x80, 0xBF)]
      else if in_range 0xE1 0xEC c then Some [(0x80, 0xBF), (0x80, 0xBF)]
      else if in_range 0xED 0xED c then Some [(0x80, 0x9F), (0x80, 0xBF)]
      else if in_range 0xEE 0xEF c then Some [(0x80, 0xBF), (0x80, 0xBF)]
      else if in_range 0xF0 0xF0 c then Some [(0x90, 0xBF), (0x80, 0xBF), (0x80, 0xBF)]
      else if in_range 0xF1 0xF3 c then Some [(0x80, 0xBF), (0x80, 0xBF), (0x80, 0xBF)]
      else if in_range 0xF4 0xF4 c then Some [(0x80, 0x8F), (0x80, 0xBF), (0x80, 0xBF)]
      else None)"

text \<open>
  How many of the expected continuation bytes are there, and whether all of them are: the
  longest part of a sequence that is well formed so far.
\<close>

fun take_ranges :: "(nat \<times> nat) list \<Rightarrow> string \<Rightarrow> string \<times> bool \<times> string" where
  "take_ranges [] s = ([], True, s)"
| "take_ranges (r # rs) [] = ([], False, [])"
| "take_ranges (r # rs) (c # cs) =
     (if in_range (fst r) (snd r) c
      then (case take_ranges rs cs of (a, ok, rest) \<Rightarrow> (c # a, ok, rest))
      else ([], False, c # cs))"

lemma take_ranges_length: "length (snd (snd (take_ranges rs s))) \<le> length s"
  by (induction rs s rule: take_ranges.induct) (auto split: prod.splits)

definition utf8_replacement :: string where
  "utf8_replacement = [CHR 0xEF, CHR 0xBF, CHR 0xBD]"

text \<open>
  \<^verbatim>\<open>String::from_utf8_lossy\<close>: each maximal ill-formed part becomes U+FFFD.  The Boolean
  component says whether the input was well formed, which is \<^verbatim>\<open>str::from_utf8\<close>.
\<close>

function utf8_decode :: "bytes \<Rightarrow> bool \<times> string" where
  "utf8_decode [] = (True, [])"
| "utf8_decode (c # cs) =
     (case utf8_tail c of
        None \<Rightarrow> (False, utf8_replacement @ snd (utf8_decode cs))
      | Some rs \<Rightarrow>
          (let t = take_ranges rs cs; d = utf8_decode (snd (snd t))
           in if fst (snd t) then (fst d, c # fst t @ snd d)
              else (False, utf8_replacement @ snd d)))"
  by pat_completeness auto
termination
  by (relation "measure length") (auto simp: less_Suc_eq_le take_ranges_length)

definition from_utf8 :: "bytes \<Rightarrow> string option" where
  "from_utf8 b = (if fst (utf8_decode b) then Some b else None)"

definition from_utf8_lossy :: "bytes \<Rightarrow> string" where
  "from_utf8_lossy b = snd (utf8_decode b)"

subsection \<open>Words of a string\<close>

lemma ws_encodings_nonempty: "[] \<notin> set ws_encodings"
  by (simp add: ws_encodings_def)

text \<open>\<^verbatim>\<open>str::split_whitespace\<close>; the first argument is the word being read.\<close>

function split_ws_from :: "string \<Rightarrow> string \<Rightarrow> string list" where
  "split_ws_from w s =
     (case strip_any ws_encodings s of
        Some r \<Rightarrow> (if w = [] then [] else [w]) @ split_ws_from [] r
      | None \<Rightarrow>
          (case s of
             [] \<Rightarrow> (if w = [] then [] else [w])
           | c # cs \<Rightarrow> split_ws_from (w @ [c]) cs))"
  by pat_completeness auto
termination
  by (relation "measure (\<lambda>(w, s). length s)")
    (auto dest: strip_any_length [OF _ ws_encodings_nonempty])

declare split_ws_from.simps [simp del]

definition split_whitespace :: "string \<Rightarrow> string list" where
  "split_whitespace s = split_ws_from [] s"

subsection \<open>Decimal numbers\<close>

definition digit :: "nat \<Rightarrow> char" where
  "digit n = char_of (48 + n)"

fun show_nat :: "nat \<Rightarrow> string" where
  "show_nat n = (if n < 10 then [digit n] else show_nat (n div 10) @ [digit (n mod 10)])"

declare show_nat.simps [simp del]

definition is_digit :: "char \<Rightarrow> bool" where
  "is_digit c \<longleftrightarrow> in_range 48 57 c"

definition read_digits :: "string \<Rightarrow> nat" where
  "read_digits s = foldl (\<lambda>n c. 10 * n + (of_char c - 48)) 0 s"

text \<open>\<^verbatim>\<open>str::parse\<close> into an unsigned integer below a bound: an optional plus sign, then digits.\<close>

definition parse_uint :: "nat \<Rightarrow> string \<Rightarrow> nat option" where
  "parse_uint bound s =
     (let ds = (case s of [] \<Rightarrow> [] | c # cs \<Rightarrow> if c = CHR ''+'' then cs else s)
      in if ds \<noteq> [] \<and> list_all is_digit ds \<and> read_digits ds < bound
         then Some (read_digits ds) else None)"

section \<open>Collections\<close>

text \<open>
  \<^verbatim>\<open>Iterator::collect\<close> into a \<^verbatim>\<open>HashMap\<close>: a later pair with the same key replaces an earlier one.
\<close>

definition collect_map :: "('k \<times> 'v) list \<Rightarrow> ('k \<rightharpoonup> 'v)" where
  "collect_map kvs = map_of (rev kvs)"

text \<open>\<^verbatim>\<open>Option::unwrap_or\<close>.\<close>

definition unwrap_or :: "'a option \<Rightarrow> 'a \<Rightarrow> 'a" where
  "unwrap_or x d = (case x of None \<Rightarrow> d | Some y \<Rightarrow> y)"

text \<open>\<^verbatim>\<open>Iterator::filter_map\<close>.\<close>

definition filter_map :: "('a \<Rightarrow> 'b option) \<Rightarrow> 'a list \<Rightarrow> 'b list" where
  "filter_map f xs = map (\<lambda>x. the (f x)) (filter (\<lambda>x. f x \<noteq> None) xs)"

text \<open>\<^verbatim>\<open>slice::first\<close>.\<close>

definition first :: "'a list \<Rightarrow> 'a option" where
  "first xs = (case xs of [] \<Rightarrow> None | x # _ \<Rightarrow> Some x)"

section \<open>Lemmas\<close>

lemma strip_prefix_iff [simp]: "strip_prefix p s = Some r \<longleftrightarrow> s = p @ r"
  by (induction p s rule: strip_prefix.induct) auto

lemma strip_prefix_append [simp]: "strip_prefix p (p @ s) = Some s"
  by simp

lemma starts_with_iff: "starts_with s p \<longleftrightarrow> (\<exists>r. s = p @ r)"
  by (auto simp: starts_with_def)

lemma starts_with_append [simp]: "starts_with (p @ s) p"
  by (auto simp: starts_with_iff)

lemma str_contains_iff: "str_contains s p \<longleftrightarrow> (\<exists>a b. s = a @ p @ b)"
proof (induction s)
  case (Cons c cs)
  show ?case
  proof
    assume "str_contains (c # cs) p"
    then consider r where "c # cs = p @ r" | "str_contains cs p"
      by (auto simp: starts_with_iff)
    then show "\<exists>a b. c # cs = a @ p @ b"
    proof cases
      case 1
      then have "c # cs = [] @ p @ r" by simp
      then show ?thesis by blast
    next
      case 2
      with Cons.IH obtain a b where "cs = a @ p @ b" by auto
      then have "c # cs = (c # a) @ p @ b" by simp
      then show ?thesis by blast
    qed
  next
    assume "\<exists>a b. c # cs = a @ p @ b"
    then obtain a b where eq: "c # cs = a @ p @ b" by auto
    show "str_contains (c # cs) p"
    proof (cases a)
      case Nil
      with eq have "starts_with (c # cs) p" by (auto simp: starts_with_iff)
      then show ?thesis by simp
    next
      case (Cons x a')
      with eq have "cs = a' @ p @ b" by simp
      with Cons.IH show ?thesis by auto
    qed
  qed
qed auto

lemma split_once_Some_iff:
  "split_once d s = Some (a, b) \<longleftrightarrow> s = a @ d # b \<and> d \<notin> set a"
proof (induction s arbitrary: a)
  case (Cons c cs)
  show ?case by (cases a) (auto simp: Cons.IH)
qed auto

lemma split_once_None_iff: "split_once d s = None \<longleftrightarrow> d \<notin> set s"
  by (induction s) auto

lemma split_once_append [simp]: "d \<notin> set a \<Longrightarrow> split_once d (a @ d # b) = Some (a, b)"
  by (simp add: split_once_Some_iff)

lemma split_char_nonempty [simp]: "split_char d s \<noteq> []"
  by (induction s) (auto split: list.splits)

lemma split_char_no_sep: "d \<notin> set s \<Longrightarrow> split_char d s = [s]"
  by (induction s) auto

lemma split_char_append:
  "d \<notin> set a \<Longrightarrow> split_char d (a @ d # b) = a # split_char d b"
  by (induction a) auto

lemma split_char_join: "split_char d (a @ d # b) = split_char d a @ split_char d b"
  by (induction a) (auto split: list.split)

lemma split_char_pieces: "w \<in> set (split_char d s) \<Longrightarrow> d \<notin> set w"
  by (induction s arbitrary: w) (auto split: list.splits if_splits)

lemma hd_split_char: "hd (split_char d s) = takeWhile (\<lambda>c. c \<noteq> d) s"
proof (induction s)
  case (Cons c cs)
  then show ?case by (cases "split_char d cs") auto
qed simp

lemma last_separator_unique:
  "d \<notin> set n \<Longrightarrow> d \<notin> set m \<Longrightarrow> a @ d # n = b @ d # m \<longleftrightarrow> a = b \<and> n = m"
  by (auto simp: append_eq_append_conv2 Cons_eq_append_conv append_eq_Cons_conv)

lemma unwrap_or_simps [simp]: "unwrap_or None d = d" "unwrap_or (Some x) d = x"
  by (simp_all add: unwrap_or_def)

lemma option_eqI: "(\<And>x. a = Some x \<longleftrightarrow> b = Some x) \<Longrightarrow> a = b"
  by (cases a; cases b) auto

lemma first_simps [simp]: "first [] = None" "first (x # xs) = Some x"
  by (simp_all add: first_def)

lemma first_append:
  "first (xs @ ys) = (case first xs of Some x \<Rightarrow> Some x | None \<Rightarrow> first ys)"
  by (cases xs) auto

lemma filter_map_simps [simp]:
  "filter_map f [] = []"
  "filter_map f (x # xs) = (case f x of None \<Rightarrow> filter_map f xs | Some y \<Rightarrow> y # filter_map f xs)"
  by (auto simp: filter_map_def split: option.splits)

lemma set_filter_map: "set (filter_map f xs) = {y. \<exists>x \<in> set xs. f x = Some y}"
  by (induction xs) (auto split: option.splits)

lemma collect_map_simps [simp]:
  "collect_map [] = Map.empty"
  "collect_map (kvs @ [(k, v)]) = (collect_map kvs)(k \<mapsto> v)"
  by (simp_all add: collect_map_def)

subsection \<open>Trimming and lines\<close>

lemma strip_any_split:
  "strip_any ps s = Some r \<Longrightarrow> \<exists>p \<in> set ps. s = p @ r"
  by (induction ps) (auto split: option.splits)

lemma trim_start_with_split:
  "\<exists>x. s = x @ trim_start_with ps s \<and> set x \<subseteq> \<Union> (set ` set ps)"
proof (induction ps s rule: trim_start_with.induct)
  case (1 ps s)
  show ?case
  proof (cases "[] \<in> set ps \<or> strip_any ps s = None")
    case True
    then show ?thesis by (auto simp: trim_start_with.simps [of ps s])
  next
    case False
    then obtain r where r: "strip_any ps s = Some r" and ne: "[] \<notin> set ps" by auto
    from strip_any_split [OF r] obtain p where p: "p \<in> set ps" "s = p @ r" by blast
    from "1.IH" [OF ne r] obtain x where
      x: "r = x @ trim_start_with ps r" "set x \<subseteq> \<Union> (set ` set ps)" by blast
    have "trim_start_with ps s = trim_start_with ps r"
      using r ne by (simp add: trim_start_with.simps [of ps s])
    then have "s = (p @ x) @ trim_start_with ps s"
      using p(2) x(1) by simp
    moreover have "set (p @ x) \<subseteq> \<Union> (set ` set ps)" using p(1) x(2) by auto
    ultimately show ?thesis by blast
  qed
qed

definition ws_bytes :: "char set" where
  "ws_bytes = \<Union> (set ` set ws_encodings)"

lemma trim_keeps: "c \<in> set s \<Longrightarrow> c \<notin> ws_bytes \<Longrightarrow> c \<in> set (trim s)"
proof -
  assume c: "c \<in> set s" "c \<notin> ws_bytes"
  obtain x where "s = x @ trim_start s" "set x \<subseteq> ws_bytes"
    using trim_start_with_split [of s ws_encodings]
    by (auto simp: trim_start_def ws_bytes_def)
  with c have 1: "c \<in> set (trim_start s)" by (metis UnE set_append subsetD)
  obtain y where "rev (trim_start s) = y @ rev (trim s)" "set y \<subseteq> ws_bytes"
    using trim_start_with_split [of "rev (trim_start s)" "map rev ws_encodings"]
    by (auto simp: trim_def trim_end_def ws_bytes_def)
  with c 1 show ?thesis by (metis UnE set_append set_rev subsetD)
qed

lemma colon_not_ws: "CHR '':'' \<notin> ws_bytes"
  by (simp add: ws_bytes_def ws_encodings_def)

lemma str_lines_Nil [simp]: "str_lines [] = []"
  by (simp add: str_lines_def)

lemma str_lines_append:
  assumes "CHR 0x0A \<notin> set a" and "a = [] \<or> last a \<noteq> CHR 0x0D"
  shows "str_lines (a @ CHR 0x0A # b) = a # str_lines b"
  using assms by (auto simp: str_lines_def split_char_append strip_cr_def Let_def)

lemma str_lines_crlf:
  "CHR 0x0A \<notin> set a \<Longrightarrow> str_lines (a @ [CHR 0x0D, CHR 0x0A] @ b) = a # str_lines b"
  using split_char_append [of "CHR 0x0A" "a @ [CHR 0x0D]" b]
  by (simp add: str_lines_def strip_cr_def Let_def)

lemma str_lines_crlfs:
  "list_all (\<lambda>a. CHR 0x0A \<notin> set a) as \<Longrightarrow>
   str_lines (concat (map (\<lambda>a. a @ [CHR 0x0D, CHR 0x0A]) as)) = as"
proof (induction as)
  case (Cons a as)
  then show ?case using str_lines_crlf [of a "concat (map (\<lambda>a. a @ [CHR 0x0D, CHR 0x0A]) as)"] by simp
qed simp

subsection \<open>Plain ASCII text and its words\<close>

definition is_ascii :: "char \<Rightarrow> bool" where
  "is_ascii c \<longleftrightarrow> of_char c < (128 :: nat)"

lemma utf8_decode_ascii_append: "list_all is_ascii s \<Longrightarrow> utf8_decode (s @ t) = (fst (utf8_decode t), s @ snd (utf8_decode t))"
  by (induction s) (auto simp: is_ascii_def utf8_tail_def in_range_def Let_def)

lemma utf8_decode_ascii: "list_all is_ascii s \<Longrightarrow> utf8_decode s = (True, s)"
  using utf8_decode_ascii_append [of s "[]"] by simp

lemma strip_any_not_ws: "c \<notin> ws_bytes \<Longrightarrow> strip_any ws_encodings (c # cs) = None"
proof (rule ccontr)
  assume c: "c \<notin> ws_bytes" and "strip_any ws_encodings (c # cs) \<noteq> None"
  then obtain r p where p: "p \<in> set ws_encodings" "c # cs = p @ r" using strip_any_split by blast
  then have "p \<noteq> []" using ws_encodings_nonempty by metis
  with p(2) have "c \<in> set p" by (cases p) auto
  with p(1) c show False by (auto simp: ws_bytes_def)
qed

lemma printable_not_ws: "in_range 32 126 c \<Longrightarrow> c \<noteq> CHR '' '' \<Longrightarrow> c \<notin> ws_bytes"
  by (auto simp: ws_bytes_def ws_encodings_def in_range_def)

lemma trim_start_keep: "c \<notin> ws_bytes \<Longrightarrow> trim_start (c # s) = c # s"
  by (simp add: trim_start_def trim_start_with.simps strip_any_not_ws)

lemma strip_any_rev_not_ws: "c \<notin> ws_bytes \<Longrightarrow> strip_any (map rev ws_encodings) (c # cs) = None"
proof (rule ccontr)
  assume c: "c \<notin> ws_bytes" and "strip_any (map rev ws_encodings) (c # cs) \<noteq> None"
  then obtain r p where p: "p \<in> set ws_encodings" "c # cs = rev p @ r" using strip_any_split by fastforce
  then have "rev p \<noteq> []" using ws_encodings_nonempty by (metis rev_is_Nil_conv)
  with p(2) have "c \<in> set (rev p)" by (cases "rev p") auto
  with p(1) c show False by (auto simp: ws_bytes_def)
qed

lemma trim_end_keep: "c \<notin> ws_bytes \<Longrightarrow> trim_end (s @ [c]) = s @ [c]"
  by (simp add: trim_end_def trim_start_with.simps strip_any_rev_not_ws)

lemma trim_end_line_break: "trim_end (s @ [CHR 0x0A]) = trim_end s"
proof -
  have "[] \<notin> set (map rev ws_encodings)" by (simp add: ws_encodings_def)
  moreover have "strip_any (map rev ws_encodings) (CHR 0x0A # rev s) = Some (rev s)"
    by (simp add: ws_encodings_def)
  ultimately show ?thesis
    by (simp add: trim_end_def trim_start_with.simps [of _ "CHR 0x0A # rev s"])
qed

lemma trim_start_space: "trim_start (CHR '' '' # s) = trim_start s"
proof -
  have "[] \<notin> set ws_encodings" by (simp add: ws_encodings_def)
  moreover have "strip_any ws_encodings (CHR '' '' # s) = Some s" by (simp add: ws_encodings_def)
  ultimately show ?thesis by (simp add: trim_start_def trim_start_with.simps [of _ "CHR '' '' # s"])
qed

lemma trim_end_space: "trim_end (s @ [CHR '' '']) = trim_end s"
proof -
  have "[] \<notin> set (map rev ws_encodings)" by (simp add: ws_encodings_def)
  moreover have "strip_any (map rev ws_encodings) (CHR '' '' # rev s) = Some (rev s)"
    by (simp add: ws_encodings_def)
  ultimately show ?thesis
    by (simp add: trim_end_def trim_start_with.simps [of _ "CHR '' '' # rev s"])
qed

lemma trim_parts_length: "length (trim_start s) \<le> length s" "length (trim_end s) \<le> length s"
proof -
  have *: "length (trim_start_with ps s) \<le> length s" for ps s
    using trim_start_with_split [of s ps] by (metis le_add2 length_append)
  show "length (trim_start s) \<le> length s" "length (trim_end s) \<le> length s"
    using * [of ws_encodings s] * [of "map rev ws_encodings" "rev s"] by (simp_all add: trim_start_def trim_end_def)
qed

lemma trimmed_ends:
  assumes "trim s = s" and "s \<noteq> []"
  shows "hd s \<noteq> CHR '' ''" and "last s \<noteq> CHR '' ''"
proof -
  have len: "length s \<le> length (trim_start s)"
    using trim_parts_length(2) [of "trim_start s"] assms(1) by (simp add: trim_def)
  show "hd s \<noteq> CHR '' ''"
  proof
    assume "hd s = CHR '' ''"
    then obtain t where "s = CHR '' '' # t" using assms(2) by (cases s) auto
    then show False using len trim_start_space [of t] trim_parts_length(1) [of t] by simp
  qed
  obtain x where x: "s = x @ trim_start s"
    using trim_start_with_split [of s ws_encodings] by (auto simp: trim_start_def)
  then have "length s = length x + length (trim_start s)" by (metis length_append)
  with len x have start: "trim_start s = s" by simp
  show "last s \<noteq> CHR '' ''"
  proof
    assume "last s = CHR '' ''"
    then obtain t where "s = t @ [CHR '' '']" using assms(2) by (metis append_butlast_last_id)
    then show False
      using trim_end_space [of t] trim_parts_length(2) [of t] assms(1) start by (simp add: trim_def)
  qed
qed

lemma split_join_lines:
  "ls \<noteq> [] \<Longrightarrow> list_all (\<lambda>l. CHR 0x0A \<notin> set l) ls \<Longrightarrow> split_char (CHR 0x0A) (join_lines ls) = ls"
  by (induction ls rule: join_lines.induct) (simp_all add: split_char_no_sep split_char_append)

lemma join_lines_ends:
  "ls \<noteq> [] \<Longrightarrow> [] \<notin> set ls \<Longrightarrow> join_lines ls \<noteq> [] \<and> hd (join_lines ls) = hd (hd ls) \<and> last (join_lines ls) = last (last ls)"
  by (induction ls rule: join_lines.induct) auto

lemma join_lines_concat: "ls \<noteq> [] \<Longrightarrow> concat (map (\<lambda>l. l @ [CHR 0x0A]) ls) = join_lines ls @ [CHR 0x0A]"
  by (induction ls rule: join_lines.induct) auto

lemma trim_lines:
  assumes "ls \<noteq> []" and "[] \<notin> set ls" and "hd (hd ls) \<notin> ws_bytes" and "last (last ls) \<notin> ws_bytes"
  shows "trim (join_lines ls @ [CHR 0x0A]) = join_lines ls"
proof -
  note ends = join_lines_ends [OF assms(1,2)]
  obtain a s where s: "join_lines ls = a # s" "a \<notin> ws_bytes" using ends assms(3) by (cases "join_lines ls") auto
  obtain t b where t: "join_lines ls = t @ [b]" "b \<notin> ws_bytes"
    using ends assms(4) by (metis append_butlast_last_id)
  have "trim_start (join_lines ls @ [CHR 0x0A]) = join_lines ls @ [CHR 0x0A]"
    using s by (simp add: trim_start_keep)
  then show ?thesis
    using t(1) trim_end_line_break [of "join_lines ls"] trim_end_keep [OF t(2), of t] by (simp add: trim_def)
qed

lemma trim_end_char_snoc: "s = [] \<or> last s \<noteq> d \<Longrightarrow> trim_end_char d (s @ [d]) = s"
  by (cases s rule: rev_cases) (auto simp: trim_end_char_def)

lemma split_ws_word:
  "set v \<inter> ws_bytes = {} \<Longrightarrow> split_ws_from w (v @ s) = split_ws_from (w @ v) s"
proof (induction v arbitrary: w)
  case (Cons c v)
  then have "split_ws_from w ((c # v) @ s) = split_ws_from (w @ [c]) (v @ s)"
    by (simp add: split_ws_from.simps [of w] strip_any_not_ws)
  with Cons show ?case by simp
qed simp

lemma split_ws_space:
  "split_ws_from w (CHR '' '' # s) = (if w = [] then [] else [w]) @ split_ws_from [] s"
  by (subst split_ws_from.simps) (simp add: ws_encodings_def)

subsection \<open>Decimal numbers are read back\<close>

lemma digit_simps [simp]:
  "digit 0 = CHR ''0''" "digit 1 = CHR ''1''" "digit (Suc 0) = CHR ''1''" "digit 2 = CHR ''2''"
  "digit 3 = CHR ''3''" "digit 4 = CHR ''4''" "digit 5 = CHR ''5''" "digit 6 = CHR ''6''"
  "digit 7 = CHR ''7''" "digit 8 = CHR ''8''" "digit 9 = CHR ''9''"
  by (code_simp)+

lemma of_char_digit: "n < 10 \<Longrightarrow> of_char (digit n) = 48 + n"
  by (simp add: digit_def)

lemma is_digit_digit: "n < 10 \<Longrightarrow> is_digit (digit n)"
  by (simp add: is_digit_def in_range_def of_char_digit)

lemma read_digits_snoc: "read_digits (s @ [c]) = 10 * read_digits s + (of_char c - 48)"
  by (simp add: read_digits_def)

lemma read_show_nat [simp]: "read_digits (show_nat n) = n"
proof (induction n rule: show_nat.induct)
  case (1 n)
  show ?case
  proof (cases "n < 10")
    case True
    then show ?thesis
      by (simp add: show_nat.simps [of n] read_digits_def of_char_digit)
  next
    case False
    with "1.IH" show ?thesis
      by (simp add: show_nat.simps [of n] read_digits_snoc of_char_digit)
  qed
qed

lemma show_nat_inj [simp]: "show_nat m = show_nat n \<longleftrightarrow> m = n"
  by (metis read_show_nat)

lemma show_nat_digits: "c \<in> set (show_nat n) \<Longrightarrow> is_digit c"
proof (induction n rule: show_nat.induct)
  case (1 n)
  then show ?case
    by (cases "n < 10") (auto simp: show_nat.simps [of n] is_digit_digit)
qed

lemma show_nat_nonempty [simp]: "show_nat n \<noteq> []"
  by (subst show_nat.simps) simp

lemma show_nat_no_sep: "\<not> is_digit d \<Longrightarrow> d \<notin> set (show_nat n)"
  using show_nat_digits by blast

lemma parse_show_nat: "n < bound \<Longrightarrow> parse_uint bound (show_nat n) = Some n"
proof -
  assume "n < bound"
  obtain c cs where eq: "show_nat n = c # cs"
    by (meson neq_Nil_conv show_nat_nonempty)
  have "is_digit c" using show_nat_digits [of c n] eq by simp
  then have "c \<noteq> CHR ''+''" by (auto simp: is_digit_def in_range_def)
  then have ds: "(case show_nat n of [] \<Rightarrow> [] | c # cs \<Rightarrow> if c = CHR ''+'' then cs else show_nat n)
    = show_nat n" by (simp add: eq)
  have "list_all is_digit (show_nat n)" by (simp add: list_all_iff show_nat_digits)
  then show ?thesis using \<open>n < bound\<close> by (simp add: parse_uint_def ds)
qed

lemma parse_uint_bound: "parse_uint bound s = Some n \<Longrightarrow> n < bound"
  by (auto simp: parse_uint_def Let_def split: if_splits)

subsection \<open>Systems with an inductive invariant\<close>

locale invariant_system =
  fixes init :: "'s \<Rightarrow> bool"
    and step :: "'s \<Rightarrow> 's \<Rightarrow> bool"
    and inv :: "'s \<Rightarrow> bool"
  assumes inv_init: "init s \<Longrightarrow> inv s"
    and inv_step: "inv s \<Longrightarrow> step s t \<Longrightarrow> inv t"
begin

lemma inv_steps: "inv s \<Longrightarrow> step\<^sup>*\<^sup>* s t \<Longrightarrow> inv t"
  by (erule rtranclp_induct) (auto intro: inv_step)

lemma reachable_inv: "init s \<Longrightarrow> step\<^sup>*\<^sup>* s t \<Longrightarrow> inv t"
  by (blast intro: inv_init inv_steps)

end

text \<open>
  A table that is written key by key: the contract of the maps and caches in which the last
  write of a key counts.
\<close>

locale write_table =
  fixes emp :: 't
    and upd :: "'k \<Rightarrow> 'v \<Rightarrow> 't \<Rightarrow> 't"
    and lkp :: "'t \<Rightarrow> 'k \<Rightarrow> 'v option"
  assumes lkp_emp: "lkp emp k = None"
    and lkp_upd: "lkp (upd k v t) k' = (if k = k' then Some v else lkp t k')"
begin

abbreviation written :: "('k \<times> 'v) list \<Rightarrow> 't" where
  "written ws \<equiv> fold (\<lambda>(k, v). upd k v) ws emp"

lemma lkp_written: "lkp (written ws) k = map_of (rev ws) k"
  by (induction ws rule: rev_induct) (auto simp: lkp_emp lkp_upd)

lemma written_mem: "lkp (written ws) k = Some v \<Longrightarrow> (k, v) \<in> set ws"
  using map_of_SomeD [of "rev ws" k v] by (simp add: lkp_written)

lemma written_dom: "lkp (written ws) k = None \<longleftrightarrow> k \<notin> fst ` set ws"
  by (simp add: lkp_written map_of_eq_None_iff)

lemma written_last: "k \<notin> fst ` set ws' \<Longrightarrow> lkp (written (ws @ (k, v) # ws')) k = Some v"
  unfolding lkp_written
  by (simp add: map_add_def map_of_eq_None_iff [of "rev ws'", simplified, symmetric])

end

end
