(* ===== verification/Json.thy ===== *)
theory Json
  imports Prelude "HOL-Library.AList"
begin

text \<open>
  JSON documents as the source handles them: the public enumeration of \<^verbatim>\<open>serde_json::Value\<close>
  with the accessors the source calls, and the two documented ways in which the API server
  changes a document that the controllers rely on, JSON Merge Patch (RFC 7386) and the
  \<^verbatim>\<open>add\<close> operation of JSON Patch (RFC 6902).  The server itself is not part of the program, so
  both appear as functions with a law; \<open>rfc_merge\<close> and \<open>rfc_add\<close> are the algorithms the RFCs
  print, and satisfy the laws.
\<close>

datatype number = PosInt u64 | NegInt u64 | Float u64

datatype json =
    JNull
  | JBool bool
  | JNumber number
  | JString string
  | JArray "json list"
  | JObject "(string \<times> json) list"

section \<open>Accessors\<close>

fun jget :: "json \<Rightarrow> string \<Rightarrow> json option" where
  "jget (JObject fs) k = map_of fs k"
| "jget _ k = None"

fun as_str :: "json \<Rightarrow> string option" where
  "as_str (JString s) = Some s"
| "as_str _ = None"

fun as_bool :: "json \<Rightarrow> bool option" where
  "as_bool (JBool b) = Some b"
| "as_bool _ = None"

fun as_u64 :: "json \<Rightarrow> u64 option" where
  "as_u64 (JNumber (PosInt n)) = Some n"
| "as_u64 _ = None"

fun as_array :: "json \<Rightarrow> json list option" where
  "as_array (JArray xs) = Some xs"
| "as_array _ = None"

fun is_object :: "json \<Rightarrow> bool" where
  "is_object (JObject fs) = True"
| "is_object _ = False"

text \<open>\<^verbatim>\<open>value.get(k1).and_then(|v| v.get(k2))\<close> and so on.\<close>

fun jpath :: "json \<Rightarrow> string list \<Rightarrow> json option" where
  "jpath j [] = Some j"
| "jpath j (k # ks) = Option.bind (jget j k) (\<lambda>v. jpath v ks)"

text \<open>\<^verbatim>\<open>value[k]\<close>: \<^verbatim>\<open>Null\<close> when there is no such field.\<close>

definition jindex :: "json \<Rightarrow> string \<Rightarrow> json" where
  "jindex j k = unwrap_or (jget j k) JNull"

text \<open>\<^verbatim>\<open>value[k] = v\<close> on an object, and \<^verbatim>\<open>Map::insert\<close>.\<close>

fun jset :: "json \<Rightarrow> string \<Rightarrow> json \<Rightarrow> json" where
  "jset (JObject fs) k v = JObject (AList.update k v fs)"
| "jset j k v = j"

text \<open>\<^verbatim>\<open>value.get(k).and_then(|v| v.as_str())\<close>.\<close>

definition get_str :: "json \<Rightarrow> string \<Rightarrow> string option" where
  "get_str j k = Option.bind (jget j k) as_str"

definition path_str :: "json \<Rightarrow> string list \<Rightarrow> string option" where
  "path_str j ks = Option.bind (jpath j ks) as_str"

definition path_array :: "json \<Rightarrow> string list \<Rightarrow> json list option" where
  "path_array j ks = Option.bind (jpath j ks) as_array"

abbreviation JStrings :: "string list \<Rightarrow> json" where
  "JStrings ss \<equiv> JArray (map JString ss)"

text \<open>A document of string fields, \<^verbatim>\<open>BTreeMap<String, String>\<close> as JSON.\<close>

definition json_of_map :: "(string \<times> string) list \<Rightarrow> json" where
  "json_of_map kvs = JObject (map (\<lambda>(k, v). (k, JString v)) kvs)"

section \<open>What the API server does to a document\<close>

definition merge_patch_law :: "(json \<Rightarrow> json \<Rightarrow> json) \<Rightarrow> bool" where
  "merge_patch_law m \<longleftrightarrow>
     (\<forall>t v. \<not> is_object v \<longrightarrow> m t v = v) \<and>
     (\<forall>t ps k. jget (m t (JObject ps)) k =
        (case map_of ps k of
           None \<Rightarrow> jget t k
         | Some v \<Rightarrow> if v = JNull then None else Some (m (jindex t k) v)))"

fun obj_fields :: "json \<Rightarrow> (string \<times> json) list" where
  "obj_fields (JObject fs) = fs"
| "obj_fields _ = []"

fun rfc_merge :: "json \<Rightarrow> json \<Rightarrow> json"
  and rfc_merge_fields :: "json \<Rightarrow> (string \<times> json) list \<Rightarrow> (string \<times> json) list" where
  "rfc_merge t (JObject ps) = JObject (rfc_merge_fields t ps)"
| "rfc_merge t v = v"
| "rfc_merge_fields t [] = obj_fields t"
| "rfc_merge_fields t ((k, v) # ps) =
     (if v = JNull then AList.delete k (rfc_merge_fields t ps)
      else AList.update k (rfc_merge (jindex t k) v) (rfc_merge_fields t ps))"

text \<open>
  \<^verbatim>\<open>{"op": "add", "path": p, "value": v}\<close> with a path of object fields: every field but the
  last must exist; the last is set.  \<^const>\<open>None\<close> is a rejected patch.
\<close>

definition add_op_law :: "(json \<Rightarrow> string list \<Rightarrow> json \<Rightarrow> json option) \<Rightarrow> bool" where
  "add_op_law a \<longleftrightarrow>
     (\<forall>j k v. is_object j \<longrightarrow> (\<exists>j'. a j [k] v = Some j' \<and> is_object j' \<and>
        (\<forall>k'. jget j' k' = (if k' = k then Some v else jget j k')))) \<and>
     (\<forall>j k ks v u u'. ks \<noteq> [] \<longrightarrow> jget j k = Some u \<longrightarrow> a u ks v = Some u' \<longrightarrow>
        (\<exists>j'. a j (k # ks) v = Some j' \<and>
          (\<forall>k'. jget j' k' = (if k' = k then Some u' else jget j k'))))"

fun rfc_add :: "json \<Rightarrow> string list \<Rightarrow> json \<Rightarrow> json option" where
  "rfc_add j [] v = Some v"
| "rfc_add j (k # ks) v =
     (if \<not> is_object j then None
      else if ks = [] then Some (jset j k v)
      else Option.bind (jget j k) (\<lambda>u. map_option (jset j k) (rfc_add u ks v)))"

text \<open>A JSON Patch \<^verbatim>\<open>add\<close> operation, and the reference tokens of a JSON pointer without escapes.\<close>

definition add_op :: "string \<Rightarrow> json \<Rightarrow> json" where
  "add_op path v = JObject [(''op'', JString ''add''), (''path'', JString path), (''value'', v)]"

definition pointer_keys :: "string \<Rightarrow> string list" where
  "pointer_keys p = tl (split_char (CHR ''/'') p)"

section \<open>Lemmas\<close>

lemma add_op_fields [simp]:
  "get_str (add_op p v) ''path'' = Some p" "jget (add_op p v) ''value'' = Some v"
  by (simp_all add: add_op_def get_str_def)

lemma jget_jset: "is_object j \<Longrightarrow> jget (jset j k v) k' = (if k' = k then Some v else jget j k')"
  by (cases j) (auto simp: update_conv')

lemma is_object_jset [simp]: "is_object (jset j k v) = is_object j"
  by (cases j) auto

lemma jget_Some_is_object: "jget j k = Some v \<Longrightarrow> is_object j"
  by (cases j) auto

lemma jget_obj_fields: "map_of (obj_fields t) k = jget t k"
  by (cases t) auto

lemma map_of_rfc_merge_fields:
  "map_of (rfc_merge_fields t ps) k =
     (case map_of ps k of
        None \<Rightarrow> jget t k
      | Some v \<Rightarrow> if v = JNull then None else Some (rfc_merge (jindex t k) v))"
  by (induction ps) (auto simp: jget_obj_fields update_conv' delete_conv')

lemma rfc_merge_law: "merge_patch_law rfc_merge"
proof -
  have "rfc_merge t v = v" if "\<not> is_object v" for t v
    using that by (cases v) auto
  then show ?thesis
    by (auto simp: merge_patch_law_def map_of_rfc_merge_fields)
qed

lemma rfc_add_law: "add_op_law rfc_add"
  unfolding add_op_law_def
  by (auto simp: jget_jset dest: jget_Some_is_object)

lemma jpath_append: "jpath j (ks @ ks') = Option.bind (jpath j ks) (\<lambda>v. jpath v ks')"
  by (induction ks arbitrary: j) (auto split: Option.bind_splits)

subsection \<open>Merge patches\<close>

locale merge_server =
  fixes merge :: "json \<Rightarrow> json \<Rightarrow> json"
  assumes law: "merge_patch_law merge"
begin

lemma merge_leaf [simp]:
  "merge t (JString s) = JString s"
  "merge t (JArray xs) = JArray xs"
  "merge t (JBool b) = JBool b"
  "merge t (JNumber n) = JNumber n"
  using law by (simp_all add: merge_patch_law_def)

lemma jget_merge:
  "jget (merge t (JObject ps)) k =
     (case map_of ps k of
        None \<Rightarrow> jget t k
      | Some v \<Rightarrow> if v = JNull then None else Some (merge (jindex t k) v))"
  using law by (simp add: merge_patch_law_def)

lemma jget_merge_single [simp]:
  "v \<noteq> JNull \<Longrightarrow> jget (merge t (JObject [(k, v)])) k = Some (merge (jindex t k) v)"
  by (simp add: jget_merge)

lemma jget_merge_other [simp]:
  "map_of ps k = None \<Longrightarrow> jget (merge t (JObject ps)) k = jget t k"
  by (simp add: jget_merge)

end

interpretation rfc: merge_server rfc_merge
  by unfold_locales (rule rfc_merge_law)

end
