(* ===== verification/Kube.thy ===== *)
theory Kube
  imports Json "HOL-Library.AList"
begin

text \<open>
  The Kubernetes client as the source uses it.  The API server is not part of the program:
  it is a function that answers each request knowing every request made before it, so a
  statement for all such functions covers every server state, every failure and every interleaving
  with other clients.  A call appends its request to the log and decodes the answer; an
  answer of the wrong kind is the client library's deserialisation error.

  The records hold the fields of the API types that the source sets or reads; \<^verbatim>\<open>Default\<close>
  values (\<open>None\<close> or empty) are written out.
\<close>

section \<open>API types\<close>

record api_resource =
  ar_group :: string
  ar_version :: string
  ar_api_version :: string
  ar_kind :: string
  ar_plural :: string

type_synonym str_map = "(string \<times> string) list"

record owner_reference =
  or_api_version :: string
  or_kind :: string
  or_name :: string
  or_uid :: string
  or_controller :: "bool option"
  or_block_owner_deletion :: "bool option"

record object_meta =
  om_name :: "string option"
  om_generate_name :: "string option"
  om_namespace :: "string option"
  om_labels :: "str_map option"
  om_annotations :: "str_map option"
  om_uid :: "string option"
  om_generation :: "int option"
  om_owner_references :: "owner_reference list option"

definition default_meta :: object_meta where
  "default_meta = \<lparr>om_name = None, om_generate_name = None, om_namespace = None,
     om_labels = None, om_annotations = None, om_uid = None, om_generation = None,
     om_owner_references = None\<rparr>"

text \<open>
  \<^verbatim>\<open>ResourceExt::name_any\<close>: documented as the name, else the generate name, else the empty
  string.
\<close>

definition name_any :: "object_meta \<Rightarrow> string" where
  "name_any m = (case om_name m of Some n \<Rightarrow> n | None \<Rightarrow> unwrap_or (om_generate_name m) [])"

record dynobj =
  do_meta :: object_meta
  do_data :: json

record namespace =
  ns_meta :: object_meta
  ns_status :: "string option option" \<comment> \<open>status, and its phase\<close>

record node_address =
  na_type :: string
  na_address :: string

record node =
  node_status :: "node_address list option option" \<comment> \<open>status, and its addresses\<close>

record secret =
  sec_meta :: object_meta
  sec_type :: "string option"
  sec_data :: "(string \<times> bytes) list option"
  sec_string_data :: "str_map option"

record config_map =
  cm_meta :: object_meta
  cm_data :: "str_map option"

datatype int_or_string = IntVal i32 | StrVal string

record service_port =
  sp_name :: "string option"
  sp_port :: i32
  sp_target_port :: "int_or_string option"
  sp_protocol :: "string option"

record service_spec =
  ss_type :: "string option"
  ss_cluster_ip :: "string option"
  ss_ports :: "service_port list option"
  ss_selector :: "str_map option"

record service =
  svc_meta :: object_meta
  svc_spec :: "service_spec option"
  svc_status :: "json option" \<comment> \<open>a \<^verbatim>\<open>ServiceStatus\<close>, as its JSON document\<close>

record endpoint_port =
  ep_port_name :: "string option"
  ep_port_port :: i32
  ep_port_protocol :: "string option"

record endpoint_subset =
  es_addresses :: "string list option" \<comment> \<open>the IPs of the addresses\<close>
  es_ports :: "endpoint_port list option"

record endpoints =
  ep_meta :: object_meta
  ep_subsets :: "endpoint_subset list option"

record volume_mount =
  vm_name :: string
  vm_mount_path :: string
  vm_read_only :: "bool option"

record container_port =
  cp_container_port :: i32
  cp_name :: "string option"
  cp_protocol :: "string option"

record container =
  co_name :: string
  co_image :: "string option"
  co_args :: "string list option"
  co_ports :: "container_port list option"
  co_volume_mounts :: "volume_mount list option"

datatype volume_source = ConfigMapVol string | SecretVol string "bool option"

record volume =
  vol_name :: string
  vol_source :: volume_source

text \<open>The fields of a pod specification that the program never looks at stay one document.\<close>

record pod_spec =
  ps_containers :: "container list"
  ps_volumes :: "volume list option"
  ps_other :: json

record pod_template_spec =
  pt_labels :: "str_map option"
  pt_spec :: "pod_spec option"

record job_spec =
  js_template :: pod_template_spec
  js_other :: json

record job_status =
  jst_succeeded :: "i32 option"
  jst_failed :: "i32 option"

record job =
  job_meta :: object_meta
  job_spec_of :: "job_spec option"
  job_status_of :: "job_status option"

record deployment =
  dep_meta :: object_meta
  dep_replicas :: "i32 option"
  dep_match_labels :: "str_map option"
  dep_template :: pod_template_spec

record rule_with_operations =
  rwo_api_groups :: "string list option"
  rwo_api_versions :: "string list option"
  rwo_operations :: "string list option"
  rwo_resources :: "string list option"
  rwo_scope :: "string option"

record webhook =
  wh_name :: string
  wh_url :: "string option"
  wh_ca_bundle :: "bytes option"
  wh_rules :: "rule_with_operations list option"
  wh_failure_policy :: "string option"
  wh_side_effects :: string
  wh_admission_review_versions :: "string list"
  wh_ns_not_in :: "(string \<times> string list) option" \<comment> \<open>namespace selector: label key, \<^verbatim>\<open>NotIn\<close> values\<close>
  wh_reinvocation_policy :: "string option"
  wh_timeout_seconds :: "i32 option"

record webhook_configuration =
  wc_meta :: object_meta
  wc_webhooks :: "webhook list option"

datatype kobj =
    KDyn dynobj
  | KNamespace namespace
  | KNode node
  | KSecret secret
  | KConfigMap config_map
  | KService service
  | KEndpoints endpoints
  | KPod object_meta
  | KJob job
  | KDeployment deployment
  | KMutatingWebhook webhook_configuration
  | KValidatingWebhook webhook_configuration

fun as_dyn :: "kobj \<Rightarrow> dynobj option" where
  "as_dyn (KDyn x) = Some x" | "as_dyn _ = None"

fun as_namespace :: "kobj \<Rightarrow> namespace option" where
  "as_namespace (KNamespace x) = Some x" | "as_namespace _ = None"

fun as_node :: "kobj \<Rightarrow> node option" where
  "as_node (KNode x) = Some x" | "as_node _ = None"

fun as_secret :: "kobj \<Rightarrow> secret option" where
  "as_secret (KSecret x) = Some x" | "as_secret _ = None"

fun as_config_map :: "kobj \<Rightarrow> config_map option" where
  "as_config_map (KConfigMap x) = Some x" | "as_config_map _ = None"

fun as_service :: "kobj \<Rightarrow> service option" where
  "as_service (KService x) = Some x" | "as_service _ = None"

fun as_endpoints :: "kobj \<Rightarrow> endpoints option" where
  "as_endpoints (KEndpoints x) = Some x" | "as_endpoints _ = None"

fun as_pod :: "kobj \<Rightarrow> object_meta option" where
  "as_pod (KPod x) = Some x" | "as_pod _ = None"

fun as_job :: "kobj \<Rightarrow> job option" where
  "as_job (KJob x) = Some x" | "as_job _ = None"

fun as_deployment :: "kobj \<Rightarrow> deployment option" where
  "as_deployment (KDeployment x) = Some x" | "as_deployment _ = None"

section \<open>Requests and answers\<close>

datatype resource =
    ResDyn api_resource
  | ResNamespace | ResNode | ResSecret | ResConfigMap | ResService | ResEndpoints | ResPod
  | ResJob | ResDeployment | ResMutatingWebhook | ResValidatingWebhook

datatype scope = Cluster | InNs string

datatype patch = Merge json | ApplyObj kobj | ApplyJson json | JsonPatch "json list"

text \<open>\<^verbatim>\<open>PatchParams\<close> carries the field manager: \<^verbatim>\<open>apply(m)\<close> or \<^verbatim>\<open>default()\<close>.\<close>

type_synonym patch_params = "string option"

datatype req =
    Get resource scope string
  | GetOpt resource scope string
  | ListAll resource scope "string option" \<comment> \<open>label selector\<close>
  | Create resource scope kobj
  | Delete resource scope string
  | Patch resource scope string patch_params patch
  | PatchStatus resource scope string patch_params patch

datatype kube_error = Api u16 | SerdeError | OtherError string

datatype resp =
    RErr kube_error
  | ROk
  | RObj kobj
  | ROpt "kobj option"
  | RList "kobj list"

type_synonym api_server = "req list \<Rightarrow> req \<Rightarrow> resp"

datatype action = AwaitChange | Requeue nat \<comment> \<open>seconds\<close>

text \<open>A computation that adds to a log and may fail, and one that calls the API.\<close>

type_synonym ('l, 'e, 'a) logged = "'l \<Rightarrow> ('e + 'a) \<times> 'l"

type_synonym 'a kio = "(req list, kube_error, 'a) logged"

section \<open>Calls\<close>

definition call :: "api_server \<Rightarrow> req \<Rightarrow> req list \<Rightarrow> resp \<times> req list" where
  "call env r l = (env l r, l @ [r])"

definition kreturn :: "'a \<Rightarrow> ('l, 'e, 'a) logged" where
  "kreturn x l = (Inr x, l)"

definition kfail :: "'e \<Rightarrow> ('l, 'e, 'a) logged" where
  "kfail e l = (Inl e, l)"

text \<open>\<^verbatim>\<open>m?\<close> followed by the rest of the block.\<close>

definition kbind :: "('l, 'e, 'a) logged \<Rightarrow> ('a \<Rightarrow> ('l, 'e, 'b) logged) \<Rightarrow> ('l, 'e, 'b) logged" where
  "kbind m f l = (case m l of (Inl e, l') \<Rightarrow> (Inl e, l') | (Inr x, l') \<Rightarrow> f x l')"

text \<open>\<^verbatim>\<open>match m.await\<close> on the result, success or failure.\<close>

definition ktry :: "('l, 'e, 'a) logged \<Rightarrow> ('e + 'a \<Rightarrow> ('l, 'f, 'b) logged) \<Rightarrow> ('l, 'f, 'b) logged" where
  "ktry m f l = (case m l of (r, l') \<Rightarrow> f r l')"

text \<open>A \<^verbatim>\<open>for\<close> loop over a list that updates local variables and may return early with an error.\<close>

fun kfold :: "('a \<Rightarrow> 's \<Rightarrow> ('l, 'e, 's) logged) \<Rightarrow> 'a list \<Rightarrow> 's \<Rightarrow> ('l, 'e, 's) logged" where
  "kfold f [] s = kreturn s"
| "kfold f (x # xs) s = kbind (f x s) (kfold f xs)"

fun decode_opt :: "(kobj \<Rightarrow> 'a option) \<Rightarrow> resp \<Rightarrow> kube_error + 'a option" where
  "decode_opt f (RErr e) = Inl e"
| "decode_opt f (ROpt None) = Inr None"
| "decode_opt f (ROpt (Some x)) = (case f x of Some y \<Rightarrow> Inr (Some y) | None \<Rightarrow> Inl SerdeError)"
| "decode_opt f _ = Inl SerdeError"

fun decode_obj :: "(kobj \<Rightarrow> 'a option) \<Rightarrow> resp \<Rightarrow> kube_error + 'a" where
  "decode_obj f (RErr e) = Inl e"
| "decode_obj f (RObj x) = (case f x of Some y \<Rightarrow> Inr y | None \<Rightarrow> Inl SerdeError)"
| "decode_obj f _ = Inl SerdeError"

fun decode_list :: "(kobj \<Rightarrow> 'a option) \<Rightarrow> resp \<Rightarrow> kube_error + 'a list" where
  "decode_list f (RErr e) = Inl e"
| "decode_list f (RList xs) =
     (if list_all (\<lambda>x. f x \<noteq> None) xs then Inr (map (\<lambda>x. the (f x)) xs) else Inl SerdeError)"
| "decode_list f _ = Inl SerdeError"

fun decode_unit :: "resp \<Rightarrow> kube_error + unit" where
  "decode_unit (RErr e) = Inl e"
| "decode_unit _ = Inr ()"

definition perform :: "api_server \<Rightarrow> req \<Rightarrow> (resp \<Rightarrow> kube_error + 'a) \<Rightarrow> 'a kio" where
  "perform env r dec l = (case call env r l of (a, l') \<Rightarrow> (dec a, l'))"

definition api_get :: "api_server \<Rightarrow> (kobj \<Rightarrow> 'a option) \<Rightarrow> resource \<Rightarrow> scope \<Rightarrow> string \<Rightarrow> 'a kio" where
  "api_get env f r sc n = perform env (Get r sc n) (decode_obj f)"

definition api_get_opt ::
    "api_server \<Rightarrow> (kobj \<Rightarrow> 'a option) \<Rightarrow> resource \<Rightarrow> scope \<Rightarrow> string \<Rightarrow> 'a option kio" where
  "api_get_opt env f r sc n = perform env (GetOpt r sc n) (decode_opt f)"

definition api_list ::
    "api_server \<Rightarrow> (kobj \<Rightarrow> 'a option) \<Rightarrow> resource \<Rightarrow> scope \<Rightarrow> string option \<Rightarrow> 'a list kio" where
  "api_list env f r sc sel = perform env (ListAll r sc sel) (decode_list f)"

definition api_create :: "api_server \<Rightarrow> resource \<Rightarrow> scope \<Rightarrow> kobj \<Rightarrow> unit kio" where
  "api_create env r sc x = perform env (Create r sc x) decode_unit"

definition api_delete :: "api_server \<Rightarrow> resource \<Rightarrow> scope \<Rightarrow> string \<Rightarrow> unit kio" where
  "api_delete env r sc n = perform env (Delete r sc n) decode_unit"

definition api_patch ::
    "api_server \<Rightarrow> resource \<Rightarrow> scope \<Rightarrow> string \<Rightarrow> patch_params \<Rightarrow> patch \<Rightarrow> unit kio" where
  "api_patch env r sc n pp p = perform env (Patch r sc n pp p) decode_unit"

definition api_patch_obj ::
    "api_server \<Rightarrow> (kobj \<Rightarrow> 'a option) \<Rightarrow> resource \<Rightarrow> scope \<Rightarrow> string \<Rightarrow> patch_params \<Rightarrow> patch \<Rightarrow> 'a kio" where
  "api_patch_obj env f r sc n pp p = perform env (Patch r sc n pp p) (decode_obj f)"

definition api_patch_status ::
    "api_server \<Rightarrow> resource \<Rightarrow> scope \<Rightarrow> string \<Rightarrow> patch_params \<Rightarrow> patch \<Rightarrow> unit kio" where
  "api_patch_status env r sc n pp p = perform env (PatchStatus r sc n pp p) decode_unit"

section \<open>Lemmas\<close>

lemmas api_defs = api_get_def api_get_opt_def api_list_def api_create_def api_delete_def
  api_patch_def api_patch_obj_def api_patch_status_def

declare api_defs [kube_simps]

lemma perform_eq [kube_simps]: "perform env r dec l = (dec (env l r), l @ [r])"
  by (simp add: perform_def call_def)

lemma kbind_return [kube_simps]: "kbind (kreturn x) f = f x"
  by (rule ext) (simp add: kbind_def kreturn_def)

lemma kbind_fail [kube_simps]: "kbind (kfail e) f = kfail e"
  by (rule ext) (simp add: kbind_def kfail_def)

lemma kbind_assoc: "kbind (kbind m f) g = kbind m (\<lambda>x. kbind (f x) g)"
  by (rule ext) (auto simp: kbind_def split: sum.splits prod.splits)

lemma kbind_perform [kube_simps]:
  "kbind (perform env r dec) f l =
     (case dec (env l r) of Inl e \<Rightarrow> (Inl e, l @ [r]) | Inr x \<Rightarrow> f x (l @ [r]))"
  by (simp add: kbind_def perform_eq)

lemma ktry_perform [kube_simps]: "ktry (perform env r dec) f l = f (dec (env l r)) (l @ [r])"
  by (simp add: ktry_def perform_eq)

declare kreturn_def [kube_simps] kfail_def [kube_simps]

text \<open>A loop whose iterations all succeed, each with its own requests.\<close>

lemma kfold_run:
  assumes "\<And>x s l. x \<in> set xs \<Longrightarrow> f x s l = (Inr (g x s), l @ r x)"
  shows "kfold f xs s l = (Inr (fold g xs s), l @ concat (map r xs))"
  using assms by (induction xs arbitrary: s l) (auto simp: kbind_def kreturn_def)

text \<open>
  A computation only ever adds requests to the log.  Programs built from the calls and the
  two ways of sequencing them keep this.
\<close>

definition extends_log :: "'a kio \<Rightarrow> bool" where
  "extends_log m \<longleftrightarrow> (\<forall>l. \<exists>rs. snd (m l) = l @ rs)"

lemma extends_log_return [intro]: "extends_log (kreturn x)"
  by (simp add: extends_log_def kreturn_def)

lemma extends_log_fail [intro]: "extends_log (kfail e)"
  by (simp add: extends_log_def kfail_def)

lemma extends_log_perform [intro]: "extends_log (perform env r dec)"
  by (simp add: extends_log_def perform_eq)

lemma extends_log_bind [intro]:
  assumes "extends_log m" and "\<And>x. extends_log (f x)"
  shows "extends_log (kbind m f)"
  unfolding extends_log_def
proof
  fix l
  obtain r l' where m: "m l = (r, l')" by fastforce
  with assms(1) obtain rs where "l' = l @ rs" unfolding extends_log_def by (metis snd_conv)
  with m assms(2) show "\<exists>rs. snd (kbind m f l) = l @ rs"
    unfolding extends_log_def kbind_def by (cases r) (auto, metis append.assoc)
qed

lemma extends_log_try [intro]:
  assumes "extends_log m" and "\<And>x. extends_log (f x)"
  shows "extends_log (ktry m f)"
  unfolding extends_log_def
proof
  fix l
  obtain r l' where m: "m l = (r, l')" by fastforce
  with assms(1) obtain rs where "l' = l @ rs" unfolding extends_log_def by (metis snd_conv)
  with m assms(2) show "\<exists>rs. snd (ktry m f l) = l @ rs"
    unfolding extends_log_def ktry_def by auto (metis append.assoc)
qed

section \<open>Controllers\<close>

text \<open>
  One delivery of an object by the controller runtime: it calls the reconciler and, on an
  error, asks the error policy what to do.
\<close>

definition deliver ::
    "('o \<Rightarrow> action kio) \<Rightarrow> ('o \<Rightarrow> kube_error \<Rightarrow> action) \<Rightarrow> 'o \<Rightarrow> req list \<Rightarrow> action \<times> req list" where
  "deliver reconcile error_policy x l =
     (case reconcile x l of
        (Inr a, l') \<Rightarrow> (a, l')
      | (Inl e, l') \<Rightarrow> (error_policy x e, l'))"

lemma deliver_log: "snd (deliver r p x l) = snd (r x l)"
  by (simp add: deliver_def split: prod.split sum.split)

text \<open>
  What the API server does with a merge patch of the status of an object: the \<^verbatim>\<open>status\<close> field
  of the merged document is stored, the other fields are left alone.
\<close>

fun apply_status :: "(json \<Rightarrow> json \<Rightarrow> json) \<Rightarrow> req \<Rightarrow> dynobj \<Rightarrow> dynobj" where
  "apply_status merge (PatchStatus r sc n pp (Merge p)) x =
     (case jget (merge (do_data x) p) ''status'' of
        Some v \<Rightarrow> x\<lparr>do_data := jset (do_data x) ''status'' v\<rparr>
      | None \<Rightarrow> x)"
| "apply_status merge r x = x"

definition apply_statuses :: "(json \<Rightarrow> json \<Rightarrow> json) \<Rightarrow> req list \<Rightarrow> dynobj \<Rightarrow> dynobj" where
  "apply_statuses merge rs x = fold (apply_status merge) rs x"

lemma apply_statuses_simps [simp]:
  "apply_statuses merge [] x = x"
  "apply_statuses merge (r # rs) x = apply_statuses merge rs (apply_status merge r x)"
  by (simp_all add: apply_statuses_def)

text \<open>The effect of a merge patch of string data on a ConfigMap.\<close>

fun apply_cm :: "req list \<Rightarrow> config_map \<Rightarrow> config_map" where
  "apply_cm [] cm = cm"
| "apply_cm (Patch r sc n pp (Merge p) # rs) cm =
     apply_cm rs (case jget p ''data'' of
        Some (JObject fs) \<Rightarrow>
          cm\<lparr>cm_data := Some (fold (\<lambda>(k, v) d. case v of JString s \<Rightarrow> AList.update k s d | _ \<Rightarrow> d)
             fs (unwrap_or (cm_data cm) []))\<rparr>
      | _ \<Rightarrow> cm)"
| "apply_cm (r # rs) cm = apply_cm rs cm"

text \<open>
  The contract of a level-triggered controller: once the requests of one pass have been
  applied to the object, no later pass makes a request.  The index of a pass stands for what
  may differ between passes, such as the time, the answers of the server or the certificate.
\<close>

locale settling_controller =
  fixes requests :: "'i \<Rightarrow> 'o \<Rightarrow> req list"
    and apply_reqs :: "req list \<Rightarrow> 'o \<Rightarrow> 'o"
    and usable :: "'i \<Rightarrow> bool"
    and good :: "'o \<Rightarrow> bool"
  assumes apply_nil: "apply_reqs [] x = x"
    and settled: "usable i \<Longrightarrow> good x \<Longrightarrow> requests j (apply_reqs (requests i x) x) = []"
begin

abbreviation pass :: "'i \<Rightarrow> 'o \<Rightarrow> 'o" where
  "pass i x \<equiv> apply_reqs (requests i x) x"

lemma pass_idem: "usable i \<Longrightarrow> good x \<Longrightarrow> pass j (pass i x) = pass i x"
  by (simp add: settled apply_nil)

lemma passes_stable: "usable i \<Longrightarrow> good x \<Longrightarrow> fold pass js (pass i x) = pass i x"
  by (induction js) (simp_all add: settled apply_nil)

lemma quiet_after_first: "usable i \<Longrightarrow> good x \<Longrightarrow> requests k (fold pass js (pass i x)) = []"
  by (simp add: passes_stable settled)

end

end
