(* ===== verification/Util.thy ===== *)
theory Util
  imports Kube
begin

text \<open>
  \<^verbatim>\<open>simulator/src/util.rs\<close> and the types of \<^verbatim>\<open>main.rs\<close> that every component uses: the API
  resource descriptors, certificate signing over the certificate libraries, and the look-up
  of the node address.
\<close>

section \<open>Definitions\<close>

subsection \<open>API resources\<close>

definition route_ar :: api_resource where
  "route_ar = \<lparr>ar_group = ''route.openshift.io'', ar_version = ''v1'',
     ar_api_version = ''route.openshift.io/v1'', ar_kind = ''Route'', ar_plural = ''routes''\<rparr>"

definition project_ar :: api_resource where
  "project_ar = \<lparr>ar_group = ''project.openshift.io'', ar_version = ''v1'',
     ar_api_version = ''project.openshift.io/v1'', ar_kind = ''Project'',
     ar_plural = ''projects''\<rparr>"

definition imagestream_ar :: api_resource where
  "imagestream_ar = \<lparr>ar_group = ''image.openshift.io'', ar_version = ''v1'',
     ar_api_version = ''image.openshift.io/v1'', ar_kind = ''ImageStream'',
     ar_plural = ''imagestreams''\<rparr>"

definition oauth_client_ar :: api_resource where
  "oauth_client_ar = \<lparr>ar_group = ''oauth.openshift.io'', ar_version = ''v1'',
     ar_api_version = ''oauth.openshift.io/v1'', ar_kind = ''OAuthClient'',
     ar_plural = ''oauthclients''\<rparr>"

definition user_ar :: api_resource where
  "user_ar = \<lparr>ar_group = ''user.openshift.io'', ar_version = ''v1'',
     ar_api_version = ''user.openshift.io/v1'', ar_kind = ''User'', ar_plural = ''users''\<rparr>"

definition identity_ar :: api_resource where
  "identity_ar = \<lparr>ar_group = ''user.openshift.io'', ar_version = ''v1'',
     ar_api_version = ''user.openshift.io/v1'', ar_kind = ''Identity'',
     ar_plural = ''identities''\<rparr>"

definition gateway_class_ar :: api_resource where
  "gateway_class_ar = \<lparr>ar_group = ''gateway.networking.k8s.io'', ar_version = ''v1'',
     ar_api_version = ''gateway.networking.k8s.io/v1'', ar_kind = ''GatewayClass'',
     ar_plural = ''gatewayclasses''\<rparr>"

definition gateway_ar :: api_resource where
  "gateway_ar = \<lparr>ar_group = ''gateway.networking.k8s.io'', ar_version = ''v1'',
     ar_api_version = ''gateway.networking.k8s.io/v1'', ar_kind = ''Gateway'',
     ar_plural = ''gateways''\<rparr>"

definition httproute_ar :: api_resource where
  "httproute_ar = \<lparr>ar_group = ''gateway.networking.k8s.io'', ar_version = ''v1'',
     ar_api_version = ''gateway.networking.k8s.io/v1'', ar_kind = ''HTTPRoute'',
     ar_plural = ''httproutes''\<rparr>"

definition destination_rule_ar :: api_resource where
  "destination_rule_ar = \<lparr>ar_group = ''networking.istio.io'', ar_version = ''v1'',
     ar_api_version = ''networking.istio.io/v1'', ar_kind = ''DestinationRule'',
     ar_plural = ''destinationrules''\<rparr>"

definition jobset_ar :: api_resource where
  "jobset_ar = \<lparr>ar_group = ''jobset.x-k8s.io'', ar_version = ''v1alpha2'',
     ar_api_version = ''jobset.x-k8s.io/v1alpha2'', ar_kind = ''JobSet'',
     ar_plural = ''jobsets''\<rparr>"

subsection \<open>Certificates\<close>

record ca_state =
  ca_cert_pem :: string
  ca_key_pem :: string

record cert_params =
  cp_sans :: "string list"
  cp_is_ca :: bool
  cp_common_name :: string

text \<open>
  The certificate libraries (\<^verbatim>\<open>rcgen\<close>, \<^verbatim>\<open>rustls_pemfile\<close>, \<^verbatim>\<open>rustls\<close>).  A key pair is identified
  with its PEM text, a server configuration with a name; \<^const>\<open>None\<close> is a returned error.
\<close>

record cert_lib =
  kp_from_pem :: "string \<Rightarrow> string option"
  params_new :: "string list \<Rightarrow> cert_params option"
  self_signed :: "cert_params \<Rightarrow> string \<Rightarrow> string option"
  signed_by :: "cert_params \<Rightarrow> string \<Rightarrow> cert_params \<Rightarrow> string \<Rightarrow> string option"
  pem_certs :: "string \<Rightarrow> string list option"
  pem_private_key :: "string \<Rightarrow> string option option"
  with_single_cert :: "string list \<Rightarrow> string \<Rightarrow> string option"

text \<open>
  \<^verbatim>\<open>CaState::generate\<close>; \<open>key\<close> is the outcome of \<^verbatim>\<open>KeyPair::generate\<close>, and \<^const>\<open>None\<close> the panic
  of an \<^verbatim>\<open>unwrap\<close>.
\<close>

definition ca_generate :: "cert_lib \<Rightarrow> string option \<Rightarrow> ca_state option" where
  "ca_generate lib key =
     Option.bind (params_new lib []) (\<lambda>p.
     let params = p\<lparr>cp_is_ca := True, cp_common_name := ''ocp-sim-service-ca''\<rparr>
     in Option.bind key (\<lambda>kp.
        Option.bind (self_signed lib params kp) (\<lambda>cert.
        Some \<lparr>ca_cert_pem = cert, ca_key_pem = kp\<rparr>)))"

definition sign_cert ::
    "cert_lib \<Rightarrow> string option \<Rightarrow> ca_state \<Rightarrow> string list \<Rightarrow> (string \<times> string) option" where
  "sign_cert lib key ca sans =
     Option.bind (kp_from_pem lib (ca_key_pem ca)) (\<lambda>ca_key.
     Option.bind (params_new lib []) (\<lambda>p0.
     let ca_p = p0\<lparr>cp_is_ca := True, cp_common_name := ''ocp-sim-service-ca''\<rparr>;
         cn = unwrap_or (first sans) ''ocp-sim''
     in Option.bind (params_new lib sans) (\<lambda>p1.
        let params = p1\<lparr>cp_common_name := cn\<rparr>
        in Option.bind key (\<lambda>kp.
           Option.bind (signed_by lib params kp ca_p ca_key) (\<lambda>cert.
           Some (cert, kp))))))"

definition sign_tls_config ::
    "cert_lib \<Rightarrow> string option \<Rightarrow> ca_state \<Rightarrow> string list \<Rightarrow> string option" where
  "sign_tls_config lib key ca sans =
     Option.bind (sign_cert lib key ca sans) (\<lambda>(cert_pem, key_pem).
     Option.bind (pem_certs lib cert_pem) (\<lambda>certs.
     Option.bind (pem_private_key lib key_pem) (\<lambda>found.
     Option.bind found (\<lambda>k. with_single_cert lib certs k))))"

subsection \<open>Node address\<close>

fun internal_ip :: "node_address list \<Rightarrow> string option" where
  "internal_ip [] = None"
| "internal_ip (a # as) = (if na_type a = ''InternalIP'' then Some (na_address a) else internal_ip as)"

fun scan_nodes :: "node list \<Rightarrow> string option" where
  "scan_nodes [] = None"
| "scan_nodes (n # ns) =
     (case Option.bind (Option.bind (node_status n) id) internal_ip of
        Some ip \<Rightarrow> Some ip
      | None \<Rightarrow> scan_nodes ns)"

definition get_node_ip :: "api_server \<Rightarrow> string kio" where
  "get_node_ip env =
     kbind (api_list env as_node ResNode Cluster None) (\<lambda>nodes.
       case scan_nodes nodes of
         Some ip \<Rightarrow> kreturn ip
       | None \<Rightarrow> kfail (OtherError ''no node with InternalIP found''))"

section \<open>Lemmas\<close>

lemmas ar_defs = route_ar_def project_ar_def imagestream_ar_def oauth_client_ar_def user_ar_def
  identity_ar_def gateway_class_ar_def gateway_ar_def httproute_ar_def destination_rule_ar_def
  jobset_ar_def

definition all_ars :: "api_resource list" where
  "all_ars = [route_ar, project_ar, imagestream_ar, oauth_client_ar, user_ar, identity_ar,
     gateway_class_ar, gateway_ar, httproute_ar, destination_rule_ar, jobset_ar]"

lemma all_ars_consistent:
  "list_all (\<lambda>ar. ar_api_version ar = ar_group ar @ ''/'' @ ar_version ar) all_ars"
  by (simp add: all_ars_def ar_defs)

lemma all_ars_distinct: "distinct (map (\<lambda>ar. (ar_group ar, ar_plural ar)) all_ars)"
  by (simp add: all_ars_def ar_defs)

text \<open>An address of a node that \<^const>\<open>scan_nodes\<close> may return.\<close>

definition node_ips :: "node \<Rightarrow> string list" where
  "node_ips n = (case Option.bind (node_status n) id of
     None \<Rightarrow> []
   | Some as \<Rightarrow> map na_address (filter (\<lambda>a. na_type a = ''InternalIP'') as))"

lemma internal_ip_first:
  "internal_ip as = first (map na_address (filter (\<lambda>a. na_type a = ''InternalIP'') as))"
  by (induction as) auto

lemma scan_nodes_first: "scan_nodes ns = first (concat (map node_ips ns))"
proof (induction ns)
  case (Cons n ns)
  have "Option.bind (Option.bind (node_status n) id) internal_ip = first (node_ips n)"
    by (cases "Option.bind (node_status n) id") (auto simp: node_ips_def internal_ip_first)
  with Cons show ?case by (simp add: first_append split: option.splits)
qed simp

lemma get_node_ip_reads_only: "snd (get_node_ip env l) = l @ [ListAll ResNode Cluster None]"
  by (auto simp: get_node_ip_def kube_simps split: sum.splits option.splits)

end
