(* ===== verification/Http.thy ===== *)
theory Http
  imports Json
begin

text \<open>
  HTTP messages, and the libraries around them.  A header map is the list of its fields in
  order, with the lower-case names that \<^verbatim>\<open>hyper\<close> keeps; \<^verbatim>\<open>get\<close> is the first value of a name.
  URL handling, form decoding, base64, SHA-256, JSON text and JWT signatures belong to
  libraries outside the repository: they are the fields of \<open>weblib\<close>, an argument of every
  definition that uses one.  A URL is identified with its serialisation.
\<close>

section \<open>Definitions\<close>

type_synonym headers = "(string \<times> bytes) list"

record request =
  rq_method :: string
  rq_path :: string
  rq_query :: "string option"
  rq_headers :: headers
  rq_body :: bytes

record response =
  rs_status :: nat
  rs_headers :: headers
  rs_body :: bytes

text \<open>
  Requests of this program to other HTTP servers.  The server is a function of the requests
  made so far and the new one: \<^const>\<open>None\<close> is a request that could not be sent, and a body that
  is \<^const>\<open>None\<close> is one that could not be read to its end.
\<close>

datatype ext_body = NoBody | RawBody bytes | FormBody "(string \<times> string) list"

record ext_req =
  xq_post :: bool
  xq_url :: string
  xq_headers :: headers
  xq_body :: ext_body
  xq_follow_redirects :: bool

record ext_resp =
  xs_status :: nat
  xs_headers :: headers
  xs_body :: "bytes option"

type_synonym ext_server = "ext_req list \<Rightarrow> ext_req \<Rightarrow> ext_resp option"

record weblib =
  form_parse :: "bytes \<Rightarrow> (string \<times> string) list"
  header_to_str :: "bytes \<Rightarrow> string option"
  b64_encode :: "bytes \<Rightarrow> string"
  b64_decode :: "string \<Rightarrow> bytes option"
  b64url_encode :: "bytes \<Rightarrow> string"
  b64url_decode :: "string \<Rightarrow> bytes option"
  sha256 :: "bytes \<Rightarrow> bytes"
  json_parse :: "bytes \<Rightarrow> json option"
  json_print :: "json \<Rightarrow> string"
  url_parse :: "string \<Rightarrow> string option"
  url_append_pair :: "string \<Rightarrow> string \<Rightarrow> string \<Rightarrow> string"
  url_path :: "string \<Rightarrow> string"
  url_query :: "string \<Rightarrow> string option"
  url_set_path :: "string \<Rightarrow> string \<Rightarrow> string"
  url_set_query :: "string \<Rightarrow> string option \<Rightarrow> string"
  url_scheme :: "string \<Rightarrow> string"
  url_host_str :: "string \<Rightarrow> string option"
  url_port :: "string \<Rightarrow> u16 option"
  jwt_encode :: "string \<Rightarrow> json \<Rightarrow> string \<Rightarrow> string option"
    \<comment> \<open>key identifier, claims, signing key\<close>
  jwt_verify :: "string \<Rightarrow> string \<Rightarrow> json option"
    \<comment> \<open>token, decoding key: the claims of a valid RS256 token\<close>
  rsa_key :: "string \<Rightarrow> string \<Rightarrow> string option"
    \<comment> \<open>a decoding key from modulus and exponent\<close>
  header_parse :: "string \<Rightarrow> string \<Rightarrow> (string \<times> bytes) option"
    \<comment> \<open>a header field of a response under construction\<close>

text \<open>
  What becomes of a request: an answer, or the connection ends because the body could not be
  read (\<open>BodyError\<close>) or because the handler panicked.
\<close>

datatype outcome = Answer response | BodyError | Panic

abbreviation OK :: nat where "OK \<equiv> 200"
abbreviation SWITCHING_PROTOCOLS :: nat where "SWITCHING_PROTOCOLS \<equiv> 101"
abbreviation FOUND :: nat where "FOUND \<equiv> 302"
abbreviation BAD_REQUEST :: nat where "BAD_REQUEST \<equiv> 400"
abbreviation UNAUTHORIZED :: nat where "UNAUTHORIZED \<equiv> 401"
abbreviation NOT_FOUND :: nat where "NOT_FOUND \<equiv> 404"
abbreviation INTERNAL_SERVER_ERROR :: nat where "INTERNAL_SERVER_ERROR \<equiv> 500"
abbreviation BAD_GATEWAY :: nat where "BAD_GATEWAY \<equiv> 502"
abbreviation SERVICE_UNAVAILABLE :: nat where "SERVICE_UNAVAILABLE \<equiv> 503"

abbreviation nl :: string where "nl \<equiv> [CHR 0x0A]"
abbreviation crlf :: string where "crlf \<equiv> [CHR 0x0D, CHR 0x0A]"

text \<open>\<^verbatim>\<open>client.get(url)\<close>, and a response body read as JSON.\<close>

definition ext_get :: "string \<Rightarrow> ext_req" where
  "ext_get url = \<lparr>xq_post = False, xq_url = url, xq_headers = [], xq_body = NoBody,
     xq_follow_redirects = True\<rparr>"

definition ext_json :: "weblib \<Rightarrow> ext_resp \<Rightarrow> json option" where
  "ext_json web r = Option.bind (xs_body r) (json_parse web)"

text \<open>\<^verbatim>\<open>headers().get(k).and_then(|h| h.to_str().ok())\<close>.\<close>

definition header_str :: "weblib \<Rightarrow> headers \<Rightarrow> string \<Rightarrow> string option" where
  "header_str web hs k = Option.bind (map_of hs k) (header_to_str web)"

definition has_header :: "headers \<Rightarrow> string \<Rightarrow> bool" where
  "has_header hs k \<longleftrightarrow> map_of hs k \<noteq> None"

text \<open>
  A simple library, to evaluate the definitions on concrete inputs: forms without escapes,
  encodings that are the identity.
\<close>

definition plain_web :: weblib where
  "plain_web =
     \<lparr>form_parse = (\<lambda>b. filter_map (split_once (CHR ''='')) (split_char (CHR ''&'') b)),
      header_to_str = Some, b64_encode = (\<lambda>b. b), b64_decode = Some,
      b64url_encode = (\<lambda>b. b), b64url_decode = Some, sha256 = (\<lambda>b. b),
      json_parse = (\<lambda>b. Some (JObject [(''sub'', JString b)])), json_print = (\<lambda>j. ''{}''),
      url_parse = Some, url_append_pair = (\<lambda>u k v. u @ ''&'' @ k @ ''='' @ v),
      url_path = (\<lambda>u. u), url_query = (\<lambda>u. None), url_set_path = (\<lambda>u p. u @ p),
      url_set_query = (\<lambda>u q. u), url_scheme = (\<lambda>u. ''https''), url_host_str = Some,
      url_port = (\<lambda>u. None), jwt_encode = (\<lambda>kid claims key. Some ''eyJ''),
      jwt_verify = (\<lambda>t k. if t = k then Some (JObject []) else None), rsa_key = (\<lambda>n e. Some n),
      header_parse = (\<lambda>k v. Some (k, v))\<rparr>"

end
