(* ===== verification/OAuth_Types.thy ===== *)
theory OAuth_Types
  imports Util Http
begin

unbundle bit_operations_syntax

text \<open>
  \<^verbatim>\<open>simulator/src/oauth/types.rs\<close> with the configuration types of \<^verbatim>\<open>oauth/byoidc.rs\<close> and the
  authentication mode of \<^verbatim>\<open>main.rs\<close>: the user store and its htpasswd format, the RSA key
  published in OIDC mode, and the state of the OAuth server.

  An \<^verbatim>\<open>Instant\<close> and a \<^verbatim>\<open>Duration\<close> are numbers of nanoseconds; \<^verbatim>\<open>elapsed\<close> is the truncating
  difference to the current time, as in the standard library.
\<close>

section \<open>Definitions\<close>

definition OAUTH_PORT :: u16 where "OAUTH_PORT = 9443"
definition DOMAIN :: string where "DOMAIN = ''apps.ocp-sim.test''"
definition OAUTH_HOST :: string where "OAUTH_HOST = ''oauth-openshift''"
definition OAUTH_NS :: string where "OAUTH_NS = ''openshift-authentication''"

definition from_secs :: "nat \<Rightarrow> nat" where "from_secs n = n * 1000000000"

definition CODE_TTL :: nat where "CODE_TTL = from_secs 300"
definition TOKEN_TTL_SECS :: u64 where "TOKEN_TTL_SECS = 86400"
definition TOKEN_TTL :: nat where "TOKEN_TTL = from_secs (unat TOKEN_TTL_SECS)"

definition elapsed :: "nat \<Rightarrow> nat \<Rightarrow> nat" where "elapsed now created = now - created"

datatype auth_mode = Legacy | Oidc | Byoidc

subsection \<open>User store\<close>

record user_entry =
  ue_username :: string
  ue_password :: string
  ue_email :: "string option"
  ue_groups :: "string list option"

record user_store =
  us_users :: "user_entry list"

text \<open>
  \<open>read_file\<close> is the file system and \<open>parse_users\<close> the YAML deserialiser.
\<close>

definition store_load ::
    "(string \<Rightarrow> string option) \<Rightarrow> (string \<Rightarrow> user_entry list option) \<Rightarrow> string option \<Rightarrow> user_store" where
  "store_load read_file parse_users path =
     (let default = \<lparr>us_users = [\<lparr>ue_username = ''admin'', ue_password = ''admin'',
            ue_email = Some ''admin@ocp-sim.test'',
            ue_groups = Some [''system:cluster-admins'', ''system:authenticated'']\<rparr>]\<rparr>
      in case path of
           None \<Rightarrow> default
         | Some p \<Rightarrow>
             (case read_file p of
                None \<Rightarrow> default
              | Some contents \<Rightarrow>
                  (case parse_users contents of
                     None \<Rightarrow> default
                   | Some users \<Rightarrow> \<lparr>us_users = users\<rparr>)))"

definition authenticate :: "user_store \<Rightarrow> string \<Rightarrow> string \<Rightarrow> user_entry option" where
  "authenticate s username password =
     find (\<lambda>u. ue_username u = username \<and> ue_password u = password) (us_users s)"

definition store_get :: "user_store \<Rightarrow> string \<Rightarrow> user_entry option" where
  "store_get s username = find (\<lambda>u. ue_username u = username) (us_users s)"

definition htpasswd_line :: "string \<Rightarrow> user_entry option" where
  "htpasswd_line line =
     map_option (\<lambda>(user, pass). \<lparr>ue_username = trim user, ue_password = trim pass,
        ue_email = None, ue_groups = None\<rparr>) (split_once (CHR '':'') line)"

definition from_htpasswd :: "string \<Rightarrow> user_store" where
  "from_htpasswd data =
     \<lparr>us_users = filter_map htpasswd_line
        (filter (\<lambda>l. trim l \<noteq> [] \<and> \<not> starts_with l ''#'') (str_lines data))\<rparr>"

subsection \<open>RSA public key\<close>

text \<open>Indexing and slicing; \<^const>\<open>None\<close> is the panic on a range that does not exist.\<close>

definition slice_from :: "'a list \<Rightarrow> nat \<Rightarrow> 'a list option" where
  "slice_from xs a = (if a \<le> length xs then Some (drop a xs) else None)"

definition slice :: "'a list \<Rightarrow> nat \<Rightarrow> nat \<Rightarrow> 'a list option" where
  "slice xs a b = (if a \<le> b \<and> b \<le> length xs then Some (take (b - a) (drop a xs)) else None)"

definition der_len_size :: "u8 list \<Rightarrow> nat option" where
  "der_len_size der =
     map_option (\<lambda>b. if b < 0x80 then 1 else 1 + unat (b AND 0x7f)) (first der)"

fun read_der_bytes :: "nat \<Rightarrow> u8 list \<Rightarrow> u64 \<Rightarrow> u64 option" where
  "read_der_bytes 0 der len = Some len"
| "read_der_bytes (Suc n) [] len = None"
| "read_der_bytes (Suc n) (b # bs) len = read_der_bytes n bs (push_bit 8 len OR ucast b)"

definition read_der_len :: "u8 list \<Rightarrow> nat option" where
  "read_der_len der =
     (case der of
        [] \<Rightarrow> None
      | b # bs \<Rightarrow>
          if b < 0x80 then Some (unat b)
          else map_option unat (read_der_bytes (unat (b AND 0x7f)) bs 0))"

definition parse_rsa_integers :: "u8 list \<Rightarrow> (u8 list \<times> u8 list) option" where
  "parse_rsa_integers der =
     (let pos = 0; pos = pos + 1 in
      Option.bind (Option.bind (slice_from der pos) der_len_size) (\<lambda>sz.
      let pos = pos + sz; pos = pos + 1 in
      Option.bind (Option.bind (slice_from der pos) read_der_len) (\<lambda>n_len.
      Option.bind (Option.bind (slice_from der pos) der_len_size) (\<lambda>sz.
      let pos = pos + sz in
      Option.bind (slice der pos (pos + n_len)) (\<lambda>n0.
      let n = (if n0 \<noteq> [] \<and> hd n0 = 0 then tl n0 else n0);
          pos = pos + n_len; pos = pos + 1 in
      Option.bind (Option.bind (slice_from der pos) read_der_len) (\<lambda>e_len.
      Option.bind (Option.bind (slice_from der pos) der_len_size) (\<lambda>sz.
      let pos = pos + sz in
      Option.bind (slice der pos (pos + e_len)) (\<lambda>e.
      Some (n, e)))))))))"

record jwt_keys =
  jk_encoding_key :: string
  jk_kid :: string
  jk_n_b64 :: string
  jk_e_b64 :: string

text \<open>
  \<^verbatim>\<open>JwtKeys::generate\<close>: \<open>key\<close> is the generated key pair (its PEM text and its public key),
  \<open>to_encoding\<close> the conversion of the PEM text, \<open>kid\<close> the random identifier.  \<^const>\<open>None\<close> is the
  panic of an \<^verbatim>\<open>expect\<close> or of the parser.
\<close>

definition jwt_keys_generate ::
    "(u8 list \<Rightarrow> string) \<Rightarrow> (string \<Rightarrow> string option) \<Rightarrow> (string \<times> u8 list) option \<Rightarrow> string \<Rightarrow>
     jwt_keys option" where
  "jwt_keys_generate b64 to_encoding key kid =
     Option.bind key (\<lambda>(private_pem, raw).
     Option.bind (to_encoding private_pem) (\<lambda>encoding_key.
     Option.bind (parse_rsa_integers raw) (\<lambda>(n_bytes, e_bytes).
     Some \<lparr>jk_encoding_key = encoding_key, jk_kid = kid,
       jk_n_b64 = b64 n_bytes, jk_e_b64 = b64 e_bytes\<rparr>)))"

subsection \<open>OAuth state\<close>

record byoidc_config =
  bc_issuer_url :: string
  bc_client_id :: string
  bc_client_secret :: string

record external_discovery =
  ed_authorization_endpoint :: string
  ed_token_endpoint :: string
  ed_userinfo_endpoint :: string
  ed_jwks_uri :: string

record jwks_cache =
  jc_keys :: "(string \<times> string) list"
  jc_discovery :: external_discovery

record auth_code =
  ac_username :: string
  ac_client_id :: string
  ac_created :: nat
  ac_code_challenge :: "string option"
  ac_code_challenge_method :: "string option"

record token_info =
  ti_username :: string
  ti_created :: nat

record oauth_state =
  st_codes :: "string \<rightharpoonup> auth_code"
  st_tokens :: "string \<rightharpoonup> token_info"
  st_user_store :: user_store
  st_auth_mode :: auth_mode
  st_jwt_keys :: "jwt_keys option"
  st_byoidc :: "byoidc_config option"
  st_external_jwks :: "jwks_cache option"

text \<open>
  \<^verbatim>\<open>OAuthState::new\<close>; \<open>gen\<close> is the outcome of \<^verbatim>\<open>JwtKeys::generate\<close> and \<open>fetch\<close> the key cache
  loaded for an issuer.  \<^const>\<open>None\<close> is the panic of the key generation.
\<close>

definition oauth_state_new ::
    "jwt_keys option \<Rightarrow> (string \<Rightarrow> jwks_cache) \<Rightarrow> user_store \<Rightarrow> auth_mode \<Rightarrow> byoidc_config option \<Rightarrow>
     oauth_state option" where
  "oauth_state_new gen fetch users mode byoidc =
     Option.bind (if mode = Oidc then map_option Some gen else Some None) (\<lambda>keys.
     Some \<lparr>st_codes = Map.empty, st_tokens = Map.empty, st_user_store = users,
       st_auth_mode = mode, st_jwt_keys = keys, st_byoidc = byoidc,
       st_external_jwks = map_option (\<lambda>cfg. fetch (bc_issuer_url cfg)) byoidc\<rparr>)"

section \<open>Lemmas\<close>

subsection \<open>User store\<close>

lemma authenticate_Some:
  "authenticate s u p = Some e \<Longrightarrow> e \<in> set (us_users s) \<and> ue_username e = u \<and> ue_password e = p"
  by (auto simp: authenticate_def find_Some_iff)

lemma authenticate_None_iff:
  "authenticate s u p = None \<longleftrightarrow> (\<forall>e \<in> set (us_users s). \<not> (ue_username e = u \<and> ue_password e = p))"
  by (auto simp: authenticate_def find_None_iff)

definition plain_user :: "string \<Rightarrow> string \<Rightarrow> user_entry" where
  "plain_user u p = \<lparr>ue_username = u, ue_password = p, ue_email = None, ue_groups = None\<rparr>"

definition htpasswd_text :: "(string \<times> string) list \<Rightarrow> string" where
  "htpasswd_text ups = concat (map (\<lambda>(u, p). u @ '':'' @ p @ nl) ups)"

definition htpasswd_safe :: "string \<times> string \<Rightarrow> bool" where
  "htpasswd_safe up \<longleftrightarrow> trim (fst up) = fst up \<and> trim (snd up) = snd up \<and>
     CHR '':'' \<notin> set (fst up) \<and> CHR 0x0A \<notin> set (fst up @ snd up) \<and>
     CHR 0x0D \<notin> set (snd up) \<and> (fst up = [] \<or> hd (fst up) \<noteq> CHR ''#'')"

lemma htpasswd_round_trip:
  "list_all htpasswd_safe ups \<Longrightarrow>
   from_htpasswd (htpasswd_text ups) = \<lparr>us_users = map (\<lambda>(u, p). plain_user u p) ups\<rparr>"
proof (induction ups)
  case Nil
  show ?case by (simp add: htpasswd_text_def from_htpasswd_def)
next
  case (Cons up ups)
  obtain u p where up: "up = (u, p)" by fastforce
  let ?line = "u @ CHR '':'' # p"
  from Cons.prems up have safe: "htpasswd_safe (u, p)" and "list_all htpasswd_safe ups" by auto
  then have IH: "filter_map htpasswd_line (filter (\<lambda>l. trim l \<noteq> [] \<and> \<not> starts_with l ''#'')
      (str_lines (htpasswd_text ups))) = map (\<lambda>(u, p). plain_user u p) ups"
    using Cons.IH by (simp add: from_htpasswd_def)
  have "last ?line \<noteq> CHR 0x0D"
    using safe by (simp add: htpasswd_safe_def) (metis last_in_set)
  then have lines: "str_lines (htpasswd_text ((u, p) # ups)) = ?line # str_lines (htpasswd_text ups)"
    using safe str_lines_append [of ?line "htpasswd_text ups"]
    by (simp add: up htpasswd_text_def htpasswd_safe_def)
  have "trim ?line \<noteq> []"
    using trim_keeps [of "CHR '':''" ?line] colon_not_ws by auto
  moreover have "\<not> starts_with ?line ''#''"
    using safe by (cases u) (auto simp: starts_with_def htpasswd_safe_def)
  moreover have "htpasswd_line ?line = Some (plain_user u p)"
    using safe by (simp add: htpasswd_line_def plain_user_def htpasswd_safe_def)
  ultimately show ?case
    using IH by (simp add: from_htpasswd_def lines up)
qed

subsection \<open>DER lengths and keys\<close>

lemma push_or_unat:
  assumes "unat (len :: u64) < 2 ^ 56"
  shows "unat (push_bit 8 len OR ucast (b :: u8)) = unat len * 256 + unat b"
proof -
  have "push_bit 8 len OR ucast b = push_bit 8 len + ucast b"
    by (rule disjunctive_add_eq_or [symmetric]) (rule bit_word_eqI, auto simp: bit_simps dest: bit_imp_le_length)
  also have "unat \<dots> = unat len * 256 + unat b"
    using assms unsigned_less [of b, where 'a = nat]
    by (simp add: unat_word_ariths unsigned_ucast_eq unsigned_push_bit_eq take_bit_nat_def
        push_bit_nat_def)
  finally show ?thesis .
qed

lemma and7f: "k < 128 \<Longrightarrow> unat ((of_nat (128 + k) :: u8) AND 0x7f) = k"
proof -
  assume "k < 128"
  have "(0x7f :: u8) = mask 7" by (simp add: mask_eq_exp_minus_1)
  then have "(of_nat (128 + k) :: u8) AND 0x7f = take_bit 7 (of_nat (128 + k))"
    by (simp add: take_bit_eq_mask)
  moreover have "unat (of_nat (128 + k) :: u8) = 128 + k"
    using \<open>k < 128\<close> by (simp add: unat_of_nat del: of_nat_add)
  ultimately show ?thesis using \<open>k < 128\<close>
    by (simp add: unsigned_take_bit_eq take_bit_nat_def del: of_nat_add)
qed


fun be_bytes :: "nat \<Rightarrow> u8 list" where
  "be_bytes n = (if n < 256 then [of_nat n] else be_bytes (n div 256) @ [of_nat (n mod 256)])"

declare be_bytes.simps [simp del]

definition der_length :: "nat \<Rightarrow> u8 list" where
  "der_length n = (if n < 128 then [of_nat n] else of_nat (128 + length (be_bytes n)) # be_bytes n)"

definition der_integer :: "u8 list \<Rightarrow> u8 list" where
  "der_integer v = 0x02 # der_length (length v) @ v"

definition der_rsa_key :: "u8 list \<Rightarrow> u8 list \<Rightarrow> u8 list" where
  "der_rsa_key n e =
     0x30 # der_length (length (der_integer n @ der_integer e)) @ der_integer n @ der_integer e"

definition be_value :: "nat \<Rightarrow> u8 list \<Rightarrow> nat" where
  "be_value v bs = foldl (\<lambda>v b. v * 256 + unat b) v bs"

lemma be_value_ge: "v \<le> be_value v bs"
proof (induction bs arbitrary: v)
  case (Cons b bs)
  have "v \<le> v * 256 + unat b" by simp
  also have "\<dots> \<le> be_value (v * 256 + unat b) bs" by (rule Cons.IH)
  finally show ?case by (simp add: be_value_def)
qed (simp add: be_value_def)

lemma be_value_be_bytes: "be_value 0 (be_bytes n) = n"
proof (induction n rule: be_bytes.induct)
  case (1 n)
  show ?case
  proof (cases "n < 256")
    case True
    then show ?thesis
      by (simp add: be_bytes.simps [of n] be_value_def unat_of_nat)
  next
    case False
    with "1.IH" show ?thesis
      by (simp add: be_bytes.simps [of n] be_value_def unat_of_nat)
  qed
qed

lemma length_be_bytes: "n < 256 ^ k \<Longrightarrow> 0 < k \<Longrightarrow> length (be_bytes n) \<le> k"
proof (induction n arbitrary: k rule: be_bytes.induct)
  case (1 n)
  show ?case
  proof (cases "n < 256")
    case True
    with "1.prems" show ?thesis by (simp add: be_bytes.simps [of n])
  next
    case False
    with "1.prems" obtain k' where k: "k = Suc k'" "0 < k'"
      by (cases k; cases "k - 1") auto
    with "1.prems" have "n div 256 < 256 ^ k'" by (simp add: less_mult_imp_div_less)
    with "1.IH" False k have "length (be_bytes (n div 256)) \<le> k'" by blast
    with False k show ?thesis by (simp add: be_bytes.simps [of n])
  qed
qed

lemma read_der_bytes_value:
  "be_value (unat len) bs < 2 ^ 64 \<Longrightarrow>
   map_option unat (read_der_bytes (length bs) (bs @ r) len) = Some (be_value (unat len) bs)"
proof (induction bs arbitrary: len)
  case (Cons b bs)
  have step: "be_value (unat len) (b # bs) = be_value (unat len * 256 + unat b) bs"
    by (simp add: be_value_def)
  have "unat len * 256 + unat b < 2 ^ 64"
    using Cons.prems be_value_ge [of "unat len * 256 + unat b" bs] step by linarith
  then have "unat len < 2 ^ 56" by simp
  then have u: "unat (push_bit 8 len OR ucast b) = unat len * 256 + unat b"
    by (rule push_or_unat)
  show ?case
    using Cons.IH [of "push_bit 8 len OR ucast b"] Cons.prems step u by simp
qed (simp add: be_value_def)

lemma der_length_read:
  assumes "n < 2 ^ 64"
  shows "read_der_len (der_length n @ r) = Some n"
    and "der_len_size (der_length n @ r) = Some (length (der_length n))"
proof -
  let ?k = "length (be_bytes n)"
  have k: "?k \<le> 8" using length_be_bytes [of n 8] assms by simp
  have u: "unat (of_nat (128 + ?k) :: u8) = 128 + ?k"
    using k by (simp add: unat_of_nat del: of_nat_add)
  have ge: "\<not> (of_nat (128 + ?k) :: u8) < 0x80"
    using u by (simp add: word_less_nat_alt)
  have sz: "unat ((of_nat (128 + ?k) :: u8) AND 0x7f) = ?k"
    using k by (intro and7f) simp
  have lt: "(of_nat n :: u8) < 0x80 \<and> unat (of_nat n :: u8) = n" if "n < 128"
    using that by (simp add: word_less_nat_alt unat_of_nat)
  show "read_der_len (der_length n @ r) = Some n"
    using lt ge sz read_der_bytes_value [of 0 "be_bytes n" r] assms
    by (auto simp: der_length_def read_der_len_def be_value_be_bytes simp del: of_nat_add)
  show "der_len_size (der_length n @ r) = Some (length (der_length n))"
    using lt ge sz by (auto simp: der_length_def der_len_size_def simp del: of_nat_add)
qed

lemma slice_from_append: "slice_from (a @ b) (length a) = Some b"
  by (simp add: slice_from_def)

lemma slice_append: "slice (a @ b @ c) (length a) (length a + length b) = Some b"
  by (simp add: slice_def)

lemma parse_rsa_integers_der:
  assumes "length n < 2 ^ 64" and "length e < 2 ^ 64"
    and "length (der_integer n @ der_integer e) < 2 ^ 64"
  shows "parse_rsa_integers (der_rsa_key n e) =
    Some (if n \<noteq> [] \<and> hd n = 0 then tl n else n, e)"
proof -
  let ?body = "der_integer n @ der_integer e"
  let ?L = "der_length (length ?body)" and ?Ln = "der_length (length n)"
  let ?Le = "der_length (length e)"
  let ?der = "der_rsa_key n e"
  let ?p1 = "[0x30]" and ?p2 = "0x30 # ?L @ [0x02]"
  let ?p3 = "0x30 # ?L @ 0x02 # ?Ln" and ?p4 = "0x30 # ?L @ 0x02 # ?Ln @ n @ [0x02]"
  let ?p5 = "0x30 # ?L @ 0x02 # ?Ln @ n @ 0x02 # ?Le"
  have d: "?der = ?p1 @ ?L @ ?body" "?der = ?p2 @ ?Ln @ n @ der_integer e"
    "?der = ?p3 @ n @ der_integer e" "?der = ?p4 @ ?Le @ e" "?der = ?p5 @ e @ []"
    by (simp_all add: der_rsa_key_def der_integer_def)
  have s1: "slice_from ?der 1 = Some (?L @ ?body)"
    using slice_from_append [of ?p1] d(1) by simp
  have s2: "slice_from ?der (Suc (Suc (length ?L))) = Some (?Ln @ n @ der_integer e)"
    using slice_from_append [of ?p2] d(2) by simp
  have s3: "slice ?der (Suc (Suc (length ?L + length ?Ln)))
      (Suc (Suc (length ?L + length ?Ln + length n))) = Some n"
    using slice_append [of ?p3 n] d(3) by (simp add: ac_simps)
  have s4: "slice_from ?der (Suc (Suc (Suc (length ?L + length ?Ln + length n)))) = Some (?Le @ e)"
    using slice_from_append [of ?p4] d(4) by (simp add: ac_simps)
  have s5: "slice ?der (Suc (Suc (Suc (length ?L + length ?Ln + length n + length ?Le))))
      (Suc (Suc (Suc (length ?L + length ?Ln + length n + length ?Le + length e)))) = Some e"
    using slice_append [of ?p5 e "[]"] d(5) by (simp add: ac_simps)
  show ?thesis
    using assms s1 s2 s3 s4 s5
    by (simp add: parse_rsa_integers_def der_length_read add.assoc)
qed

end
