(* ===== verification/OAuth_K8s.thy ===== *)
theory OAuth_K8s
  imports OAuth_Helpers
begin

text \<open>
  \<^verbatim>\<open>simulator/src/oauth/k8s.rs\<close>: the OAuth client registry and the User and Identity objects
  kept in the API server.
\<close>

section \<open>Definitions\<close>

text \<open>The secret and the redirect URIs of a client; every failure of the look-up is \<^const>\<open>None\<close>.\<close>

definition client_of_object :: "dynobj \<Rightarrow> string \<times> string list" where
  "client_of_object c =
     (unwrap_or (get_str (do_data c) ''secret'') [],
      unwrap_or (map_option (filter_map as_str)
        (Option.bind (jget (do_data c) ''redirectURIs'') as_array)) [])"

definition validate_client ::
    "api_server \<Rightarrow> string \<Rightarrow> req list \<Rightarrow> (string \<times> string list) option \<times> req list" where
  "validate_client env client_id l =
     (case api_get env as_dyn (ResDyn oauth_client_ar) Cluster client_id l of
        (Inl e, l') \<Rightarrow> (None, l')
      | (Inr c, l') \<Rightarrow> (Some (client_of_object c), l'))"

definition user_object :: "string \<Rightarrow> json" where
  "user_object username =
     JObject [(''apiVersion'', JString ''user.openshift.io/v1''), (''kind'', JString ''User''),
       (''metadata'', JObject [(''name'', JString username)]),
       (''fullName'', JString username),
       (''identities'', JStrings [''ocp-sim.'' @ username])]"

definition identity_object :: "string \<Rightarrow> string \<Rightarrow> json" where
  "identity_object username uid =
     JObject [(''apiVersion'', JString ''user.openshift.io/v1''), (''kind'', JString ''Identity''),
       (''metadata'', JObject [(''name'', JString (''ocp-sim.'' @ username))]),
       (''providerName'', JString ''ocp-sim''),
       (''providerUserName'', JString username),
       (''user'', JObject [(''name'', JString username), (''uid'', JString uid)])]"

definition ensure_user_and_identity :: "api_server \<Rightarrow> string \<Rightarrow> req list \<Rightarrow> req list" where
  "ensure_user_and_identity env username l =
     (let identity_name = ''ocp-sim.'' @ username
      in case api_patch_obj env as_dyn (ResDyn user_ar) Cluster username (Some ''ocp-sim-oauth'')
                (ApplyJson (user_object username)) l of
           (Inl e, l') \<Rightarrow> l'
         | (Inr u, l') \<Rightarrow>
             (let uid = unwrap_or (om_uid (do_meta u)) ''unknown''
              in snd (api_patch env (ResDyn identity_ar) Cluster identity_name
                   (Some ''ocp-sim-oauth'') (ApplyJson (identity_object username uid)) l')))"

section \<open>Lemmas\<close>

lemma validate_client_log:
  "snd (validate_client env cid l) = l @ [Get (ResDyn oauth_client_ar) Cluster cid]"
  by (auto simp: validate_client_def kube_simps split: sum.splits)

text \<open>A user and then the identity that refers to it; the identity only when the user is there.\<close>

lemma ensure_user_and_identity_log:
  "\<exists>rs. ensure_user_and_identity env u l =
      l @ Patch (ResDyn user_ar) Cluster u (Some ''ocp-sim-oauth'') (ApplyJson (user_object u)) # rs \<and>
    (rs = [] \<or> (\<exists>uid. rs = [Patch (ResDyn identity_ar) Cluster (''ocp-sim.'' @ u)
        (Some ''ocp-sim-oauth'') (ApplyJson (identity_object u uid))]))"
  by (auto simp: ensure_user_and_identity_def kube_simps Let_def split: sum.splits)

end
