(* ===== verification/OAuth_Handlers.thy ===== *)
theory OAuth_Handlers
  imports OAuth_K8s
begin

text \<open>
  \<^verbatim>\<open>simulator/src/oauth/handlers.rs\<close>: the authorization endpoint, the token endpoint, the key
  set and the user information endpoint of the built-in OAuth server.

  A handler runs in a world: the shared state of the server, the random generator, the log of
  API requests and the log of requests to an external provider.  The times at which it reads
  the clocks are arguments.  \<^verbatim>\<open>handle_token\<close> is the composition of the three parts between which
  other requests may run: taking the code out of the store and checking it, looking up the
  client when there is no code challenge, and storing the token.
\<close>

section \<open>Definitions\<close>

record world =
  w_state :: oauth_state
  w_rng :: "char stream"
  w_log :: "req list"
  w_ext :: "ext_req list"

definition issue_auth_code ::
    "weblib \<Rightarrow> nat \<Rightarrow> string \<Rightarrow> string \<Rightarrow> string \<Rightarrow> string \<Rightarrow> string option \<Rightarrow> string option \<Rightarrow>
     world \<Rightarrow> response \<times> world" where
  "issue_auth_code web now username client_id redirect_uri req_state code_challenge
       code_challenge_method w =
     (let (code, rng') = generate_random_string 32 (w_rng w);
          st = w_state w;
          st' = st\<lparr>st_codes := (st_codes st)(code \<mapsto>
            \<lparr>ac_username = username, ac_client_id = client_id, ac_created = now,
             ac_code_challenge = code_challenge,
             ac_code_challenge_method = code_challenge_method\<rparr>)\<rparr>;
          redirect = (case url_parse web redirect_uri of
              Some u \<Rightarrow> u
            | None \<Rightarrow> unwrap_or (url_parse web ''http://localhost/error'') ''http://localhost/error'');
          redirect = url_append_pair web redirect ''code'' code;
          redirect = (if req_state \<noteq> [] then url_append_pair web redirect ''state'' req_state
                      else redirect)
      in (\<lparr>rs_status = FOUND, rs_headers = [(''location'', redirect)], rs_body = []\<rparr>,
          w\<lparr>w_state := st', w_rng := rng'\<rparr>))"

text \<open>The user and password of the part of a header after \<^verbatim>\<open>Basic\<close>.\<close>

definition basic_credentials :: "weblib \<Rightarrow> string \<Rightarrow> (string \<times> string) option" where
  "basic_credentials web encoded =
     Option.bind (b64_decode web (trim encoded)) (\<lambda>decoded.
     Option.bind (from_utf8 decoded) (\<lambda>cred_str. split_once (CHR '':'') cred_str))"

definition unauthorized :: "string \<Rightarrow> response" where
  \<open>unauthorized body =
     \<lparr>rs_status = UNAUTHORIZED, rs_headers = [(''www-authenticate'', ''Basic realm="openshift"'')],
      rs_body = body\<rparr>\<close>

definition handle_authorize_get ::
    "weblib \<Rightarrow> api_server \<Rightarrow> nat \<Rightarrow> request \<Rightarrow> world \<Rightarrow> response \<times> world" where
  "handle_authorize_get web env now req w =
     (let params = parse_query web (rq_query req)
      in case params ''client_id'' of
           None \<Rightarrow> (text_response BAD_REQUEST (''missing client_id'' @ nl), w)
         | Some client_id \<Rightarrow>
      (case params ''redirect_uri'' of
           None \<Rightarrow> (text_response BAD_REQUEST (''missing redirect_uri'' @ nl), w)
         | Some redirect_uri \<Rightarrow>
      (let req_state = unwrap_or (params ''state'') [];
           response_type = unwrap_or (params ''response_type'') [];
           code_challenge = params ''code_challenge'';
           code_challenge_method = params ''code_challenge_method'';
           (found, l') = validate_client env client_id (w_log w);
           w = w\<lparr>w_log := l'\<rparr>
       in case found of
           None \<Rightarrow> (text_response BAD_REQUEST (''unknown client_id'' @ nl), w)
         | Some (_, redirect_uris) \<Rightarrow>
      (if \<not> list_ex (\<lambda>u. starts_with redirect_uri u) redirect_uris
       then (text_response BAD_REQUEST (''redirect_uri mismatch'' @ nl), w)
       else case Option.bind (header_str web (rq_headers req) ''authorization'')
                   (strip_prefix ''Basic '') of
           Some encoded \<Rightarrow>
             (case basic_credentials web encoded of
                Some (user, pass) \<Rightarrow>
                  (if authenticate (st_user_store (w_state w)) user pass \<noteq> None
                   then issue_auth_code web now user client_id redirect_uri req_state
                          code_challenge code_challenge_method
                          (w\<lparr>w_log := ensure_user_and_identity env user (w_log w)\<rparr>)
                   else (unauthorized (''invalid credentials'' @ nl), w))
              | None \<Rightarrow> (unauthorized (''invalid credentials'' @ nl), w))
         | None \<Rightarrow>
             if has_header (rq_headers req) ''x-csrf-token''
             then (unauthorized (''challenge'' @ nl), w)
             else (html_response OK (login_form_html client_id redirect_uri req_state response_type
                     (params ''error'' \<noteq> None)), w)))))"

definition handle_authorize_post ::
    "weblib \<Rightarrow> api_server \<Rightarrow> nat \<Rightarrow> bytes \<Rightarrow> world \<Rightarrow> response \<times> world" where
  "handle_authorize_post web env now body w =
     (let params = parse_form_body web body
      in case params ''client_id'' of
           None \<Rightarrow> (text_response BAD_REQUEST (''missing client_id'' @ nl), w)
         | Some client_id \<Rightarrow>
      (case params ''redirect_uri'' of
           None \<Rightarrow> (text_response BAD_REQUEST (''missing redirect_uri'' @ nl), w)
         | Some redirect_uri \<Rightarrow>
      (let req_state = unwrap_or (params ''state'') [];
           response_type = unwrap_or (params ''response_type'') [];
           username = unwrap_or (params ''username'') [];
           password = unwrap_or (params ''password'') []
       in if username = [] \<or> authenticate (st_user_store (w_state w)) username password = None
          then (html_response OK
                  (login_form_html client_id redirect_uri req_state response_type True), w)
          else
      (let (found, l') = validate_client env client_id (w_log w);
           w = w\<lparr>w_log := l'\<rparr>
       in case found of
           None \<Rightarrow> (text_response BAD_REQUEST (''unknown client_id'' @ nl), w)
         | Some (_, redirect_uris) \<Rightarrow>
             if \<not> list_ex (\<lambda>u. starts_with redirect_uri u) redirect_uris
             then (text_response BAD_REQUEST (''redirect_uri mismatch'' @ nl), w)
             else issue_auth_code web now username client_id redirect_uri req_state
                    (params ''code_challenge'') (params ''code_challenge_method'')
                    (w\<lparr>w_log := ensure_user_and_identity env username (w_log w)\<rparr>)))))"

subsection \<open>Token endpoint\<close>

definition verify_pkce :: "weblib \<Rightarrow> string \<Rightarrow> string \<Rightarrow> string \<Rightarrow> bool" where
  "verify_pkce web verifier challenge method =
     (if method = ''S256'' then b64url_encode web (sha256 web verifier) = challenge
      else if method = ''plain'' then verifier = challenge
      else False)"

definition extract_client_id_from_basic :: "weblib \<Rightarrow> string option \<Rightarrow> string option" where
  "extract_client_id_from_basic web authorization =
     Option.bind authorization (\<lambda>auth.
     Option.bind (strip_prefix ''Basic '' auth) (\<lambda>encoded.
     map_option fst (basic_credentials web encoded)))"

text \<open>What a token request carries on after its code has been taken and checked.\<close>

record pending =
  pd_code :: string
  pd_auth_code :: auth_code
  pd_client_id :: string
  pd_client_secret :: string

definition token_begin ::
    "weblib \<Rightarrow> nat \<Rightarrow> bytes \<Rightarrow> string option \<Rightarrow> oauth_state \<Rightarrow> (response + pending) \<times> oauth_state" where
  \<open>token_begin web now body authorization st =
     (let params = parse_form_body web body
      in if unwrap_or (params ''grant_type'') [] \<noteq> ''authorization_code''
         then (Inl (json_response BAD_REQUEST ''{"error":"unsupported_grant_type"}''), st)
         else
      (case params ''code'' of
         None \<Rightarrow> (Inl (json_response BAD_REQUEST ''{"error":"invalid_request","error_description":"missing code"}''), st)
       | Some code \<Rightarrow>
      (case (case params ''client_id'' of
               Some i \<Rightarrow> Some i
             | None \<Rightarrow> extract_client_id_from_basic web authorization) of
         None \<Rightarrow> (Inl (json_response BAD_REQUEST ''{"error":"invalid_request","error_description":"missing client_id"}''), st)
       | Some client_id \<Rightarrow>
      (let client_secret = unwrap_or (params ''client_secret'') [];
           code_verifier = params ''code_verifier''
       in case st_codes st code of
         None \<Rightarrow> (Inl (json_response BAD_REQUEST ''{"error":"invalid_grant"}''), st)
       | Some ac \<Rightarrow>
      (let st = st\<lparr>st_codes := (st_codes st)(code := None)\<rparr>
       in if elapsed now (ac_created ac) > CODE_TTL
          then (Inl (json_response BAD_REQUEST ''{"error":"invalid_grant","error_description":"code expired"}''), st)
          else if ac_client_id ac \<noteq> client_id
          then (Inl (json_response BAD_REQUEST ''{"error":"invalid_grant","error_description":"client_id mismatch"}''), st)
          else
      (let continue = \<lparr>pd_code = code, pd_auth_code = ac, pd_client_id = client_id,
             pd_client_secret = client_secret\<rparr>
       in case ac_code_challenge ac of
         Some challenge \<Rightarrow>
           (case code_verifier of
              Some verifier \<Rightarrow>
                if \<not> verify_pkce web verifier challenge
                      (unwrap_or (ac_code_challenge_method ac) ''S256'')
                then (Inl (json_response BAD_REQUEST ''{"error":"invalid_grant","error_description":"code_verifier mismatch"}''), st)
                else (Inr continue, st)
            | None \<Rightarrow> (Inl (json_response BAD_REQUEST ''{"error":"invalid_request","error_description":"missing code_verifier"}''), st))
       | None \<Rightarrow> (Inr continue, st)))))))\<close>

text \<open>The check of the client secret, made only for a code without a challenge.\<close>

definition token_check_secret :: "(string \<times> string list) option \<Rightarrow> pending \<Rightarrow> response option" where
  \<open>token_check_secret found pd =
     (case found of
        None \<Rightarrow> Some (json_response BAD_REQUEST ''{"error":"invalid_client"}'')
      | Some (expected_secret, _) \<Rightarrow>
          if expected_secret \<noteq> [] \<and> pd_client_secret pd \<noteq> expected_secret
          then Some (json_response UNAUTHORIZED ''{"error":"invalid_client","error_description":"bad client_secret"}'')
          else None)\<close>

definition user_details :: "user_store \<Rightarrow> string \<Rightarrow> string \<times> string list" where
  "user_details store username =
     (case store_get store username of
        Some entry \<Rightarrow> (unwrap_or (ue_email entry) (username @ ''@ocp-sim.test''),
                       unwrap_or (ue_groups entry) [''system:authenticated''])
      | None \<Rightarrow> (username @ ''@ocp-sim.test'', [''system:authenticated'']))"

definition token_claims :: "oauth_state \<Rightarrow> u64 \<Rightarrow> string \<Rightarrow> string \<Rightarrow> json" where
  "token_claims st unix_now username client_id =
     (let (email, groups) = user_details (st_user_store st) username
      in JObject [(''iss'', JString (''https://'' @ OAUTH_HOST @ ''.'' @ DOMAIN)),
           (''sub'', JString username), (''aud'', JString client_id),
           (''preferred_username'', JString username), (''email'', JString email),
           (''groups'', JStrings groups), (''iat'', JNumber (PosInt unix_now)),
           (''exp'', JNumber (PosInt (unix_now + TOKEN_TTL_SECS)))])"

definition token_finish ::
    "weblib \<Rightarrow> u64 \<Rightarrow> nat \<Rightarrow> pending \<Rightarrow> oauth_state \<Rightarrow> char stream \<Rightarrow>
     response \<times> oauth_state \<times> char stream" where
  \<open>token_finish web unix_now now pd st rng =
     (let username = ac_username (pd_auth_code pd);
          (token, rng') =
            (case st_jwt_keys st of
               Some keys \<Rightarrow>
                 (jwt_encode web (jk_kid keys) (token_claims st unix_now username (pd_client_id pd))
                    (jk_encoding_key keys), rng)
             | None \<Rightarrow>
                 (let (r, rng') = generate_random_string 43 rng in (Some (''sha256~'' @ r), rng')))
      in case token of
           None \<Rightarrow> (json_response INTERNAL_SERVER_ERROR ''{"error":"server_error"}'', st, rng')
         | Some t \<Rightarrow>
             (json_response OK (json_print web (JObject [(''access_token'', JString t),
                (''token_type'', JString ''Bearer''),
                (''expires_in'', JNumber (PosInt TOKEN_TTL_SECS))])),
              st\<lparr>st_tokens := (st_tokens st)(t \<mapsto> \<lparr>ti_username = username, ti_created = now\<rparr>)\<rparr>,
              rng'))\<close>

definition handle_token ::
    "weblib \<Rightarrow> api_server \<Rightarrow> nat \<Rightarrow> u64 \<Rightarrow> nat \<Rightarrow> bytes \<Rightarrow> string option \<Rightarrow> world \<Rightarrow>
     response \<times> world" where
  "handle_token web env now unix_now now' body authorization w =
     (case token_begin web now body authorization (w_state w) of
        (Inl r, st) \<Rightarrow> (r, w\<lparr>w_state := st\<rparr>)
      | (Inr pd, st) \<Rightarrow>
          (let w = w\<lparr>w_state := st\<rparr>;
               (refused, l') =
                 (if ac_code_challenge (pd_auth_code pd) \<noteq> None then (None, w_log w)
                  else (let (found, l') = validate_client env (pd_client_id pd) (w_log w)
                        in (token_check_secret found pd, l')));
               w = w\<lparr>w_log := l'\<rparr>
           in case refused of
                Some r \<Rightarrow> (r, w)
              | None \<Rightarrow>
                  (let (r, st', rng') = token_finish web unix_now now' pd (w_state w) (w_rng w)
                   in (r, w\<lparr>w_state := st', w_rng := rng'\<rparr>))))"

subsection \<open>Keys and user information\<close>

definition decode_jwt_username :: "weblib \<Rightarrow> string \<Rightarrow> string option" where
  "decode_jwt_username web token =
     (let parts = splitn_char 3 (CHR ''.'') token
      in if length parts < 2 then None
         else Option.bind (b64url_decode web (parts ! 1)) (\<lambda>payload.
              Option.bind (json_parse web payload) (\<lambda>claims.
              Option.bind (case jget claims ''preferred_username'' of
                             Some v \<Rightarrow> Some v
                           | None \<Rightarrow> jget claims ''sub'') as_str)))"

definition handle_jwks :: "weblib \<Rightarrow> oauth_state \<Rightarrow> response" where
  "handle_jwks web st =
     (let keys = (case st_jwt_keys st of
            Some k \<Rightarrow> JArray [JObject [(''kty'', JString ''RSA''), (''use'', JString ''sig''),
              (''kid'', JString (jk_kid k)), (''alg'', JString ''RS256''),
              (''n'', JString (jk_n_b64 k)), (''e'', JString (jk_e_b64 k))]]
          | None \<Rightarrow> JArray [])
      in json_response OK (json_print web (JObject [(''keys'', keys)])))"

definition userinfo_doc :: "string \<Rightarrow> string \<Rightarrow> string list \<Rightarrow> json" where
  "userinfo_doc username email groups =
     JObject [(''sub'', JString username), (''name'', JString username),
       (''preferred_username'', JString username), (''email'', JString email),
       (''groups'', JStrings groups)]"

definition userinfo_username :: "weblib \<Rightarrow> oauth_state \<Rightarrow> nat \<Rightarrow> string \<Rightarrow> string option" where
  "userinfo_username web st now token =
     (if starts_with token ''eyJ'' then decode_jwt_username web token
      else (case st_tokens st token of
              Some info \<Rightarrow> if elapsed now (ti_created info) < TOKEN_TTL then Some (ti_username info)
                          else None
            | None \<Rightarrow> None))"

definition handle_userinfo :: "weblib \<Rightarrow> oauth_state \<Rightarrow> nat \<Rightarrow> request \<Rightarrow> response" where
  \<open>handle_userinfo web st now req =
     (case strip_prefix ''Bearer '' (unwrap_or (header_str web (rq_headers req) ''authorization'') []) of
        None \<Rightarrow> json_response UNAUTHORIZED ''{"error":"missing bearer token"}''
      | Some token \<Rightarrow>
          (case userinfo_username web st now token of
             None \<Rightarrow> json_response UNAUTHORIZED ''{"error":"invalid_token"}''
           | Some username \<Rightarrow>
               (let (email, groups) = user_details (st_user_store st) username
                in json_response OK (json_print web (userinfo_doc username email groups)))))\<close>

definition is_cli_auth_request :: "request \<Rightarrow> bool" where
  "is_cli_auth_request req \<longleftrightarrow>
     has_header (rq_headers req) ''authorization'' \<or> has_header (rq_headers req) ''x-csrf-token''"

section \<open>Lemmas\<close>

subsection \<open>Authorization endpoint\<close>

text \<open>The store after a code has been issued; nothing else of the state changes.\<close>

abbreviation fresh_code :: "world \<Rightarrow> string" where
  "fresh_code w \<equiv> fst (generate_random_string 32 (w_rng w))"

lemma issue_auth_code_state:
  "w_state (snd (issue_auth_code web now u c r s cc ccm w)) =
     (w_state w)\<lparr>st_codes := (st_codes (w_state w))(fresh_code w \<mapsto>
       \<lparr>ac_username = u, ac_client_id = c, ac_created = now, ac_code_challenge = cc,
        ac_code_challenge_method = ccm\<rparr>)\<rparr>"
  by (simp add: issue_auth_code_def Let_def split_beta)

lemma issue_auth_code_status [simp]: "rs_status (fst (issue_auth_code web now u c r s cc ccm w)) = FOUND"
  by (simp add: issue_auth_code_def Let_def split_beta)

definition registered_redirect :: "string \<times> string list \<Rightarrow> string \<Rightarrow> bool" where
  "registered_redirect c uri \<longleftrightarrow> (\<exists>u \<in> set (snd c). \<exists>rest. uri = u @ rest)"

lemma list_ex_registered:
  "list_ex (\<lambda>u. starts_with uri u) uris \<longleftrightarrow> registered_redirect (s, uris) uri"
  by (simp add: list_ex_iff registered_redirect_def starts_with_iff)

text \<open>
  The form handler redirects only an authenticated user, to an address of a client found in
  the API server; every other outcome leaves the state of the server as it was.
\<close>

lemma handle_authorize_post_redirect:
  assumes "rs_status (fst (handle_authorize_post web env now body w)) = FOUND"
  obtains cid uri u p c where
    "parse_form_body web body ''client_id'' = Some cid"
    "parse_form_body web body ''redirect_uri'' = Some uri"
    "parse_form_body web body ''username'' = Some u" "u \<noteq> []"
    "authenticate (st_user_store (w_state w)) u p \<noteq> None"
    "p = unwrap_or (parse_form_body web body ''password'') []"
    "fst (validate_client env cid (w_log w)) = Some c" "registered_redirect c uri"
    "handle_authorize_post web env now body w =
       issue_auth_code web now u cid uri (unwrap_or (parse_form_body web body ''state'') [])
         (parse_form_body web body ''code_challenge'')
         (parse_form_body web body ''code_challenge_method'')
         (w\<lparr>w_log := ensure_user_and_identity env u (snd (validate_client env cid (w_log w)))\<rparr>)"
proof -
  let ?p = "parse_form_body web body"
  from assms obtain cid uri where cid: "?p ''client_id'' = Some cid" and uri: "?p ''redirect_uri'' = Some uri"
    by (auto simp: handle_authorize_post_def text_response_def Let_def split: option.splits)
  from assms cid uri obtain u where u: "?p ''username'' = Some u" "u \<noteq> []"
    by (cases "?p ''username''")
       (auto simp: handle_authorize_post_def html_response_def Let_def split: if_splits)
  from assms cid uri u have auth: "authenticate (st_user_store (w_state w)) u
      (unwrap_or (?p ''password'') []) \<noteq> None"
    by (auto simp: handle_authorize_post_def html_response_def Let_def split: if_splits)
  from assms cid uri u auth obtain s uris
    where c: "fst (validate_client env cid (w_log w)) = Some (s, uris)"
    by (cases "fst (validate_client env cid (w_log w))")
       (auto simp: handle_authorize_post_def text_response_def Let_def split_beta)
  from assms cid uri u auth c have reg: "registered_redirect (s, uris) uri"
    by (auto simp: handle_authorize_post_def text_response_def Let_def split_beta list_ex_registered [of _ _ s]
        split: if_splits)
  show thesis
    by (rule that [OF cid uri u auth refl c reg])
       (use cid uri u auth c reg in \<open>auto simp: handle_authorize_post_def Let_def split_beta
          list_ex_registered [of _ _ s]\<close>)
qed

lemma handle_authorize_post_unchanged:
  "rs_status (fst (handle_authorize_post web env now body w)) \<noteq> FOUND \<Longrightarrow>
   w_state (snd (handle_authorize_post web env now body w)) = w_state w"
  by (auto simp: handle_authorize_post_def Let_def split_beta split: option.splits if_splits)

lemma handle_authorize_get_redirect:
  assumes "rs_status (fst (handle_authorize_get web env now req w)) = FOUND"
  obtains cid uri enc u p c where
    "parse_query web (rq_query req) ''client_id'' = Some cid"
    "parse_query web (rq_query req) ''redirect_uri'' = Some uri"
    "header_str web (rq_headers req) ''authorization'' = Some (''Basic '' @ enc)"
    "basic_credentials web enc = Some (u, p)"
    "authenticate (st_user_store (w_state w)) u p \<noteq> None"
    "fst (validate_client env cid (w_log w)) = Some c" "registered_redirect c uri"
    "handle_authorize_get web env now req w =
       issue_auth_code web now u cid uri (unwrap_or (parse_query web (rq_query req) ''state'') [])
         (parse_query web (rq_query req) ''code_challenge'')
         (parse_query web (rq_query req) ''code_challenge_method'')
         (w\<lparr>w_log := ensure_user_and_identity env u (snd (validate_client env cid (w_log w)))\<rparr>)"
proof -
  let ?p = "parse_query web (rq_query req)"
  let ?h = "header_str web (rq_headers req) ''authorization''"
  from assms obtain cid uri where cid: "?p ''client_id'' = Some cid" and uri: "?p ''redirect_uri'' = Some uri"
    by (auto simp: handle_authorize_get_def text_response_def Let_def split: option.splits)
  from assms cid uri obtain s uris
    where c: "fst (validate_client env cid (w_log w)) = Some (s, uris)"
    by (cases "fst (validate_client env cid (w_log w))")
       (auto simp: handle_authorize_get_def text_response_def Let_def split_beta)
  from assms cid uri c have reg: "registered_redirect (s, uris) uri"
    by (auto simp: handle_authorize_get_def text_response_def Let_def split_beta list_ex_registered [of _ _ s]
        split: if_splits)
  from assms cid uri c reg obtain enc where h: "?h = Some (''Basic '' @ enc)"
    by (cases "Option.bind ?h (strip_prefix ''Basic '')")
       (auto simp: handle_authorize_get_def unauthorized_def html_response_def Let_def split_beta
          list_ex_registered [of _ _ s] bind_eq_Some_conv split: if_splits)
  from assms cid uri c reg h obtain u p where up: "basic_credentials web enc = Some (u, p)"
    by (cases "basic_credentials web enc")
       (auto simp: handle_authorize_get_def unauthorized_def Let_def split_beta
          list_ex_registered [of _ _ s] simp del: append.simps)
  from assms cid uri c reg h up have auth: "authenticate (st_user_store (w_state w)) u p \<noteq> None"
    by (auto simp: handle_authorize_get_def unauthorized_def Let_def split_beta
          list_ex_registered [of _ _ s] simp del: append.simps split: if_splits)
  show thesis
    by (rule that [OF cid uri h up auth c reg])
       (use cid uri h up auth c reg in \<open>auto simp: handle_authorize_get_def Let_def split_beta
          list_ex_registered [of _ _ s] simp del: append.simps\<close>)
qed

lemma handle_authorize_get_unchanged:
  "rs_status (fst (handle_authorize_get web env now req w)) \<noteq> FOUND \<Longrightarrow>
   w_state (snd (handle_authorize_get web env now req w)) = w_state w"
  by (auto simp: handle_authorize_get_def Let_def split_beta split: option.splits if_splits)

text \<open>
  The abstract authorization endpoint: from the parameters and the credentials of a request,
  the user and client a code is granted to.
\<close>

definition code_grant ::
    "api_server \<Rightarrow> world \<Rightarrow> (string \<rightharpoonup> string) \<Rightarrow> (string \<times> string) option \<Rightarrow> (string \<times> string) option" where
  "code_grant env w params credentials =
     (case (params ''client_id'', params ''redirect_uri'', credentials) of
        (Some cid, Some uri, Some (u, p)) \<Rightarrow>
          if authenticate (st_user_store (w_state w)) u p \<noteq> None \<and>
             (\<exists>c. fst (validate_client env cid (w_log w)) = Some c \<and> registered_redirect c uri)
          then Some (u, cid) else None
      | _ \<Rightarrow> None)"

definition granted_state ::
    "nat \<Rightarrow> world \<Rightarrow> (string \<rightharpoonup> string) \<Rightarrow> (string \<times> string) option \<Rightarrow> oauth_state" where
  "granted_state now w params grant =
     (case grant of
        None \<Rightarrow> w_state w
      | Some (u, cid) \<Rightarrow> (w_state w)\<lparr>st_codes := (st_codes (w_state w))(fresh_code w \<mapsto>
          \<lparr>ac_username = u, ac_client_id = cid, ac_created = now,
           ac_code_challenge = params ''code_challenge'',
           ac_code_challenge_method = params ''code_challenge_method''\<rparr>)\<rparr>)"

definition form_credentials :: "(string \<rightharpoonup> string) \<Rightarrow> (string \<times> string) option" where
  "form_credentials params =
     (case params ''username'' of
        Some u \<Rightarrow> if u = [] then None else Some (u, unwrap_or (params ''password'') [])
      | None \<Rightarrow> None)"

definition header_credentials :: "weblib \<Rightarrow> headers \<Rightarrow> (string \<times> string) option" where
  "header_credentials web hs =
     Option.bind (header_str web hs ''authorization'') (\<lambda>auth.
     Option.bind (strip_prefix ''Basic '' auth) (basic_credentials web))"

lemma code_grant_SomeI:
  "params ''client_id'' = Some cid \<Longrightarrow> params ''redirect_uri'' = Some uri \<Longrightarrow>
   authenticate (st_user_store (w_state w)) u p \<noteq> None \<Longrightarrow>
   fst (validate_client env cid (w_log w)) = Some c \<Longrightarrow> registered_redirect c uri \<Longrightarrow>
   code_grant env w params (Some (u, p)) = Some (u, cid)"
  by (auto simp: code_grant_def)

lemma authorize_post_grant:
  defines "grant \<equiv> \<lambda>web env body w. code_grant env w (parse_form_body web body)
    (form_credentials (parse_form_body web body))"
  shows "rs_status (fst (handle_authorize_post web env now body w)) = FOUND \<longleftrightarrow> grant web env body w \<noteq> None"
    and "w_state (snd (handle_authorize_post web env now body w)) =
      granted_state now w (parse_form_body web body) (grant web env body w)"
proof -
  show iff: "rs_status (fst (handle_authorize_post web env now body w)) = FOUND \<longleftrightarrow> grant web env body w \<noteq> None"
  proof
    assume "rs_status (fst (handle_authorize_post web env now body w)) = FOUND"
    then show "grant web env body w \<noteq> None"
      by (elim handle_authorize_post_redirect) (simp add: grant_def code_grant_SomeI form_credentials_def)
  next
    assume "grant web env body w \<noteq> None"
    then show "rs_status (fst (handle_authorize_post web env now body w)) = FOUND"
      by (auto simp: grant_def code_grant_def form_credentials_def handle_authorize_post_def Let_def
          split_beta list_ex_iff starts_with_iff registered_redirect_def split: option.splits if_splits)
  qed
  show "w_state (snd (handle_authorize_post web env now body w)) =
      granted_state now w (parse_form_body web body) (grant web env body w)"
  proof (cases "rs_status (fst (handle_authorize_post web env now body w)) = FOUND")
    case True
    then show ?thesis
      by (elim handle_authorize_post_redirect)
         (simp add: grant_def code_grant_SomeI form_credentials_def granted_state_def issue_auth_code_state)
  next
    case False
    with iff have "grant web env body w = None" by blast
    with False show ?thesis by (simp add: handle_authorize_post_unchanged granted_state_def)
  qed
qed

lemma authorize_get_grant:
  defines "grant \<equiv> \<lambda>web env req w. code_grant env w (parse_query web (rq_query req))
    (header_credentials web (rq_headers req))"
  shows "rs_status (fst (handle_authorize_get web env now req w)) = FOUND \<longleftrightarrow> grant web env req w \<noteq> None"
    and "w_state (snd (handle_authorize_get web env now req w)) =
      granted_state now w (parse_query web (rq_query req)) (grant web env req w)"
proof -
  have "grant web env req w = Some (u, cid)" if
    "parse_query web (rq_query req) ''client_id'' = Some cid"
    "parse_query web (rq_query req) ''redirect_uri'' = Some uri"
    "header_str web (rq_headers req) ''authorization'' = Some (''Basic '' @ enc)"
    "basic_credentials web enc = Some (u, p)"
    "authenticate (st_user_store (w_state w)) u p \<noteq> None"
    "fst (validate_client env cid (w_log w)) = Some c" "registered_redirect c uri" for cid uri enc u p c
    using that by (simp add: grant_def code_grant_SomeI header_credentials_def del: append.simps)
  note some = this
  show iff: "rs_status (fst (handle_authorize_get web env now req w)) = FOUND \<longleftrightarrow> grant web env req w \<noteq> None"
  proof
    assume "rs_status (fst (handle_authorize_get web env now req w)) = FOUND"
    then show "grant web env req w \<noteq> None"
      by (elim handle_authorize_get_redirect) (simp add: some)
  next
    assume "grant web env req w \<noteq> None"
    then show "rs_status (fst (handle_authorize_get web env now req w)) = FOUND"
      by (auto simp: grant_def code_grant_def header_credentials_def handle_authorize_get_def Let_def
          split_beta list_ex_iff starts_with_iff registered_redirect_def bind_eq_Some_conv simp del: append.simps
          split: option.splits if_splits)
  qed
  show "w_state (snd (handle_authorize_get web env now req w)) =
      granted_state now w (parse_query web (rq_query req)) (grant web env req w)"
  proof (cases "rs_status (fst (handle_authorize_get web env now req w)) = FOUND")
    case True
    then show ?thesis
      by (elim handle_authorize_get_redirect) (simp add: some granted_state_def issue_auth_code_state)
  next
    case False
    with iff have "grant web env req w = None" by blast
    with False show ?thesis by (simp add: handle_authorize_get_unchanged granted_state_def)
  qed
qed

subsection \<open>Token endpoint\<close>

text \<open>The checks that a request has passed when its code has been taken.\<close>

definition pkce_ok :: "weblib \<Rightarrow> string option \<Rightarrow> auth_code \<Rightarrow> bool" where
  "pkce_ok web verifier ac \<longleftrightarrow>
     (\<forall>challenge. ac_code_challenge ac = Some challenge \<longrightarrow>
        (\<exists>v. verifier = Some v \<and>
          verify_pkce web v challenge (unwrap_or (ac_code_challenge_method ac) ''S256'')))"

lemma token_begin_Inr:
  assumes "token_begin web now body authz st = (Inr pd, st')"
  shows "st_codes st (pd_code pd) = Some (pd_auth_code pd)"
    and "st' = st\<lparr>st_codes := (st_codes st)(pd_code pd := None)\<rparr>"
    and "elapsed now (ac_created (pd_auth_code pd)) \<le> CODE_TTL"
    and "ac_client_id (pd_auth_code pd) = pd_client_id pd"
    and "pkce_ok web (parse_form_body web body ''code_verifier'') (pd_auth_code pd)"
    and "parse_form_body web body ''code'' = Some (pd_code pd)"
    and "pd_client_secret pd = unwrap_or (parse_form_body web body ''client_secret'') []"
  using assms unfolding token_begin_def Let_def pkce_ok_def
  by (auto split: if_splits option.splits)

lemma token_begin_status:
  "token_begin web now body authz st = (Inl r, st') \<Longrightarrow> rs_status r = BAD_REQUEST"
  by (auto simp: token_begin_def Let_def json_response_def split: if_splits option.splits)

text \<open>Whatever the verdict, the state loses at most the code of the request.\<close>

lemma token_begin_state:
  "snd (token_begin web now body authz st) = st \<or>
   (\<exists>c. parse_form_body web body ''code'' = Some c \<and>
      snd (token_begin web now body authz st) = st\<lparr>st_codes := (st_codes st)(c := None)\<rparr>)"
  by (auto simp: token_begin_def Let_def split: option.splits)

lemma token_finish_state:
  assumes "token_finish web unix now pd st rng = (r, st', rng')"
  shows "st' = st \<and> rs_status r = INTERNAL_SERVER_ERROR \<or>
    (\<exists>t. st' = st\<lparr>st_tokens := (st_tokens st)(t \<mapsto>
        \<lparr>ti_username = ac_username (pd_auth_code pd), ti_created = now\<rparr>)\<rparr> \<and> rs_status r = OK)"
  using assms by (auto simp: token_finish_def Let_def json_response_def split_beta split: option.splits)

text \<open>Exactly the requests whose code is taken and goes on, and exactly those answered with a token.\<close>

definition token_client_id :: "weblib \<Rightarrow> bytes \<Rightarrow> string option \<Rightarrow> string option" where
  "token_client_id web body authz =
     (case parse_form_body web body ''client_id'' of
        Some i \<Rightarrow> Some i
      | None \<Rightarrow> extract_client_id_from_basic web authz)"

definition token_accepts :: "weblib \<Rightarrow> nat \<Rightarrow> bytes \<Rightarrow> string option \<Rightarrow> (string \<rightharpoonup> auth_code) \<Rightarrow> pending \<Rightarrow> bool" where
  "token_accepts web now body authz codes pd \<longleftrightarrow>
     parse_form_body web body ''grant_type'' = Some ''authorization_code'' \<and>
     parse_form_body web body ''code'' = Some (pd_code pd) \<and>
     token_client_id web body authz = Some (pd_client_id pd) \<and>
     pd_client_secret pd = unwrap_or (parse_form_body web body ''client_secret'') [] \<and>
     codes (pd_code pd) = Some (pd_auth_code pd) \<and>
     elapsed now (ac_created (pd_auth_code pd)) \<le> CODE_TTL \<and>
     ac_client_id (pd_auth_code pd) = pd_client_id pd \<and>
     pkce_ok web (parse_form_body web body ''code_verifier'') (pd_auth_code pd)"

lemma token_begin_accepts_iff:
  "fst (token_begin web now body authz st) = Inr pd \<longleftrightarrow>
   token_accepts web now body authz (st_codes st) pd"
proof
  assume "fst (token_begin web now body authz st) = Inr pd"
  then obtain st' where eq: "token_begin web now body authz st = (Inr pd, st')"
    by (metis prod.collapse)
  moreover from eq have "parse_form_body web body ''grant_type'' = Some ''authorization_code''"
    by (cases "parse_form_body web body ''grant_type''") (auto simp: token_begin_def Let_def split: if_splits)
  moreover from eq have "token_client_id web body authz = Some (pd_client_id pd)"
    unfolding token_client_id_def token_begin_def Let_def by (auto split: if_splits option.splits)
  ultimately show "token_accepts web now body authz (st_codes st) pd"
    using token_begin_Inr [OF eq] by (simp add: token_accepts_def)
next
  assume a: "token_accepts web now body authz (st_codes st) pd"
  have "pd = \<lparr>pd_code = pd_code pd, pd_auth_code = pd_auth_code pd, pd_client_id = pd_client_id pd,
      pd_client_secret = pd_client_secret pd\<rparr>" by simp
  then show "fst (token_begin web now body authz st) = Inr pd"
    using a unfolding token_accepts_def token_client_id_def token_begin_def pkce_ok_def Let_def
    by (auto split: option.splits)
qed

definition client_cleared :: "api_server \<Rightarrow> req list \<Rightarrow> pending \<Rightarrow> bool" where
  "client_cleared env l pd \<longleftrightarrow>
     ac_code_challenge (pd_auth_code pd) \<noteq> None \<or>
     (\<exists>secret uris. fst (validate_client env (pd_client_id pd) l) = Some (secret, uris) \<and>
        (secret = [] \<or> pd_client_secret pd = secret))"

lemma token_check_secret_None:
  "token_check_secret found pd = None \<longleftrightarrow>
   (\<exists>secret uris. found = Some (secret, uris) \<and> (secret = [] \<or> pd_client_secret pd = secret))"
  by (auto simp: token_check_secret_def split: option.splits)

lemma client_cleared_iff:
  "client_cleared env l pd \<longleftrightarrow> ac_code_challenge (pd_auth_code pd) \<noteq> None \<or>
     token_check_secret (fst (validate_client env (pd_client_id pd) l)) pd = None"
  by (simp add: client_cleared_def token_check_secret_None)

lemma token_check_secret_status: "token_check_secret found pd = Some r \<Longrightarrow> rs_status r \<noteq> OK"
  by (auto simp: token_check_secret_def json_response_def split: option.splits if_splits)

text \<open>What the server signs for a user, when it is in JWT mode, can be encoded.\<close>

definition jwt_encodes :: "weblib \<Rightarrow> oauth_state \<Rightarrow> u64 \<Rightarrow> pending \<Rightarrow> bool" where
  "jwt_encodes web st unix_now pd \<longleftrightarrow>
     (\<forall>keys. st_jwt_keys st = Some keys \<longrightarrow>
        jwt_encode web (jk_kid keys)
          (token_claims st unix_now (ac_username (pd_auth_code pd)) (pd_client_id pd))
          (jk_encoding_key keys) \<noteq> None)"

lemma token_finish_OK_iff:
  "rs_status (fst (token_finish web unix_now now pd st rng)) = OK \<longleftrightarrow> jwt_encodes web st unix_now pd"
  by (auto simp: token_finish_def jwt_encodes_def json_response_def Let_def split_beta split: option.splits)

lemma jwt_encodes_codes [simp]:
  "jwt_encodes web (st\<lparr>st_codes := cs\<rparr>) unix_now pd = jwt_encodes web st unix_now pd"
  by (simp add: jwt_encodes_def token_claims_def)

lemma handle_token_OK_iff:
  "rs_status (fst (handle_token web env now unix_now now' body authz w)) = OK \<longleftrightarrow>
   (\<exists>pd. token_accepts web now body authz (st_codes (w_state w)) pd \<and>
      client_cleared env (w_log w) pd \<and> jwt_encodes web (w_state w) unix_now pd)"
proof (cases "token_begin web now body authz (w_state w)")
  case (Pair v st)
  note accepts = token_begin_accepts_iff [of web now body authz "w_state w", symmetric]
  show ?thesis
  proof (cases v)
    case (Inl r)
    then show ?thesis
      using Pair token_begin_status [of web now body authz "w_state w" r st]
      by (simp add: handle_token_def accepts)
  next
    case (Inr pd)
    have jwt: "jwt_encodes web st unix_now pd = jwt_encodes web (w_state w) unix_now pd"
      using token_begin_Inr(2) [of web now body authz "w_state w" pd st] Pair Inr by simp
    show ?thesis
    proof (cases "client_cleared env (w_log w) pd")
      case True
      with Pair Inr have "fst (handle_token web env now unix_now now' body authz w) =
          fst (token_finish web unix_now now' pd st (w_rng w))"
        by (auto simp: handle_token_def client_cleared_iff Let_def split_beta)
      then show ?thesis using Pair Inr True by (simp add: token_finish_OK_iff jwt accepts)
    next
      case False
      with Pair Inr obtain r where "fst (handle_token web env now unix_now now' body authz w) = r"
          "token_check_secret (fst (validate_client env (pd_client_id pd) (w_log w))) pd = Some r"
        by (auto simp: handle_token_def client_cleared_iff Let_def split_beta)
      then show ?thesis using Pair Inr False token_check_secret_status by (auto simp: accepts)
    qed
  qed
qed

subsection \<open>Signatures are not checked\<close>

text \<open>
  For a token that looks like a JWT, the user comes from its payload alone: neither the
  signature nor the keys and tokens of the server matter.
\<close>

lemma userinfo_ignores_signature:
  assumes "CHR ''.'' \<notin> set h" and "CHR ''.'' \<notin> set p"
  shows "userinfo_username web st now (''eyJ'' @ h @ ''.'' @ p @ ''.'' @ sig) =
    userinfo_username web st' now' (''eyJ'' @ h @ ''.'' @ p @ ''.'' @ sig')"
proof -
  have head: "CHR ''.'' \<notin> set (''eyJ'' @ h)" using assms(1) by simp
  have "splitn_char 3 (CHR ''.'') ((''eyJ'' @ h) @ CHR ''.'' # p @ CHR ''.'' # s) = [''eyJ'' @ h, p, s]" for s
    using split_once_append [OF head] split_once_append [OF assms(2)] by (simp add: eval_nat_numeral)
  then have "decode_jwt_username web (''eyJ'' @ h @ ''.'' @ p @ ''.'' @ sig) =
      decode_jwt_username web (''eyJ'' @ h @ ''.'' @ p @ ''.'' @ sig')"
    by (simp add: decode_jwt_username_def)
  then show ?thesis by (simp add: userinfo_username_def starts_with_def)
qed

end
