(* ===== verification/Byoidc.thy ===== *)
theory Byoidc
  imports OAuth_Handlers
begin

text \<open>
  \<^verbatim>\<open>simulator/src/oauth/byoidc.rs\<close>: the mode in which an external OpenID Connect provider
  authenticates.  The key set of the provider is loaded at start-up, tokens are validated
  against it, and the endpoints of the provider are reached through this server.
\<close>

section \<open>Definitions\<close>

subsection \<open>Key cache\<close>

definition rewrite_to_internal :: "weblib \<Rightarrow> string \<Rightarrow> string \<Rightarrow> string" where
  "rewrite_to_internal web external_url issuer_url =
     (case url_parse web external_url of
        None \<Rightarrow> external_url
      | Some ext \<Rightarrow>
          (case url_parse web issuer_url of
             None \<Rightarrow> external_url
           | Some iss \<Rightarrow>
               (let internal = url_set_path web iss (url_path web ext)
                in url_set_query web internal (url_query web ext))))"

definition empty_discovery :: external_discovery where
  "empty_discovery = \<lparr>ed_authorization_endpoint = [], ed_token_endpoint = [],
     ed_userinfo_endpoint = [], ed_jwks_uri = []\<rparr>"

definition discovery_of_doc :: "json \<Rightarrow> external_discovery" where
  "discovery_of_doc doc =
     \<lparr>ed_authorization_endpoint = unwrap_or (get_str doc ''authorization_endpoint'') [],
      ed_token_endpoint = unwrap_or (get_str doc ''token_endpoint'') [],
      ed_userinfo_endpoint = unwrap_or (get_str doc ''userinfo_endpoint'') [],
      ed_jwks_uri = unwrap_or (get_str doc ''jwks_uri'') []\<rparr>"

definition load_key :: "weblib \<Rightarrow> json \<Rightarrow> (string \<times> string) list \<Rightarrow> (string \<times> string) list" where
  "load_key web key new_keys =
     (let kty = unwrap_or (get_str key ''kty'') [];
          kid = unwrap_or (get_str key ''kid'') []
      in if kty \<noteq> ''RSA'' then new_keys
         else (case rsa_key web (unwrap_or (get_str key ''n'') []) (unwrap_or (get_str key ''e'') []) of
                 Some dk \<Rightarrow> AList.update kid dk new_keys
               | None \<Rightarrow> new_keys))"

definition load_keys :: "weblib \<Rightarrow> json \<Rightarrow> (string \<times> string) list" where
  "load_keys web jwks =
     (case Option.bind (jget jwks ''keys'') as_array of
        Some keys \<Rightarrow> fold (load_key web) keys []
      | None \<Rightarrow> [])"

definition jwks_refresh ::
    "weblib \<Rightarrow> ext_server \<Rightarrow> string \<Rightarrow> jwks_cache \<times> ext_req list \<Rightarrow> jwks_cache \<times> ext_req list" where
  "jwks_refresh web ext issuer_url s =
     (let (cache, l) = s;
          issuer_trimmed = trim_end_char (CHR ''/'') issuer_url;
          q = ext_get (issuer_trimmed @ ''/.well-known/openid-configuration'')
      in case Option.bind (ext l q) (ext_json web) of
           None \<Rightarrow> (cache, l @ [q])
         | Some doc \<Rightarrow>
             (let disc = discovery_of_doc doc;
                  jwks_uri = ed_jwks_uri disc;
                  cache = cache\<lparr>jc_discovery := disc\<rparr>
              in if jwks_uri = [] then (cache, l @ [q])
                 else
                   (let q2 = ext_get (rewrite_to_internal web jwks_uri issuer_trimmed)
                    in case Option.bind (ext (l @ [q]) q2) (ext_json web) of
                         None \<Rightarrow> (cache, l @ [q, q2])
                       | Some jwks \<Rightarrow> (cache\<lparr>jc_keys := load_keys web jwks\<rparr>, l @ [q, q2]))))"

text \<open>\<^verbatim>\<open>for attempt in 1..=5\<close>, left at the first attempt that loads a key.\<close>

fun jwks_attempts ::
    "nat \<Rightarrow> weblib \<Rightarrow> ext_server \<Rightarrow> string \<Rightarrow> jwks_cache \<times> ext_req list \<Rightarrow> jwks_cache \<times> ext_req list" where
  "jwks_attempts 0 web ext issuer_url s = s"
| "jwks_attempts (Suc n) web ext issuer_url s =
     (let s' = jwks_refresh web ext issuer_url s
      in if jc_keys (fst s') \<noteq> [] then s' else jwks_attempts n web ext issuer_url s')"

definition jwks_cache_new ::
    "weblib \<Rightarrow> ext_server \<Rightarrow> string \<Rightarrow> ext_req list \<Rightarrow> jwks_cache \<times> ext_req list" where
  "jwks_cache_new web ext issuer_url l =
     jwks_attempts 5 web ext issuer_url (\<lparr>jc_keys = [], jc_discovery = empty_discovery\<rparr>, l)"

definition validate_token :: "weblib \<Rightarrow> jwks_cache \<Rightarrow> string \<Rightarrow> json option" where
  "validate_token web cache token =
     (let header_part = hd (split_char (CHR ''.'') token)
      in Option.bind (b64url_decode web header_part) (\<lambda>header_bytes.
         Option.bind (json_parse web header_bytes) (\<lambda>header.
         let kid = unwrap_or (get_str header ''kid'') []
         in Option.bind (map_of (jc_keys cache) kid) (\<lambda>dk. jwt_verify web token dk))))"

subsection \<open>Endpoints\<close>

text \<open>\<^const>\<open>None\<close> is the panic of \<^verbatim>\<open>unwrap\<close> on the redirect URL.\<close>

definition handle_byoidc_authorize :: "weblib \<Rightarrow> oauth_state \<Rightarrow> request \<Rightarrow> response option" where
  "handle_byoidc_authorize web st req =
     (case st_byoidc st of
        None \<Rightarrow> Some (text_response INTERNAL_SERVER_ERROR (''BYOIDC not configured'' @ nl))
      | Some byoidc \<Rightarrow>
     (case st_external_jwks st of
        None \<Rightarrow> Some (text_response INTERNAL_SERVER_ERROR (''BYOIDC JWKS not loaded'' @ nl))
      | Some external_jwks \<Rightarrow>
     (let disc = jc_discovery external_jwks
      in if ed_authorization_endpoint disc = []
         then Some (text_response BAD_GATEWAY (''external authorization_endpoint not discovered'' @ nl))
         else
     (let params = parse_query web (rq_query req);
          redirect_uri = unwrap_or (params ''redirect_uri'') [];
          req_state = unwrap_or (params ''state'') []
      in case url_parse web (ed_authorization_endpoint disc) of
           None \<Rightarrow> Some (text_response BAD_GATEWAY (''invalid external authorization_endpoint'' @ nl))
         | Some ext_url \<Rightarrow>
             (let base = ''https://entra.'' @ DOMAIN
              in Option.bind (url_parse web (base @ url_path web ext_url)) (\<lambda>auth_url.
                 let auth_url = fold (\<lambda>(k, v) u. url_append_pair web u k v)
                       [(''response_type'', ''code''),
                        (''client_id'', bc_client_id byoidc),
                        (''redirect_uri'', redirect_uri),
                        (''scope'', ''openid email profile api://picoshift/.default''),
                        (''state'', req_state)] auth_url
                 in Some \<lparr>rs_status = FOUND, rs_headers = [(''location'', auth_url)], rs_body = []\<rparr>))))))"

definition claims_username :: "json \<Rightarrow> string" where
  "claims_username claims =
     unwrap_or (Option.bind
       (case jget claims ''preferred_username'' of
          Some v \<Rightarrow> Some v
        | None \<Rightarrow> (case jget claims ''email'' of Some v \<Rightarrow> Some v | None \<Rightarrow> jget claims ''sub''))
       as_str) ''unknown''"

text \<open>The user a token response speaks for: from the access token, else from the identity token.\<close>

definition exchanged_user :: "weblib \<Rightarrow> jwks_cache \<Rightarrow> json \<Rightarrow> string option" where
  "exchanged_user web cache token_resp =
     Option.bind (get_str token_resp ''access_token'') (\<lambda>access_token.
       case validate_token web cache access_token of
         Some claims \<Rightarrow> Some (claims_username claims)
       | None \<Rightarrow> Option.bind (get_str token_resp ''id_token'') (\<lambda>id_token.
           map_option claims_username (validate_token web cache id_token)))"

definition handle_byoidc_token ::
    "weblib \<Rightarrow> api_server \<Rightarrow> ext_server \<Rightarrow> bytes \<Rightarrow> world \<Rightarrow> response \<times> world" where
  \<open>handle_byoidc_token web env ext body w =
     (case st_byoidc (w_state w) of
        None \<Rightarrow> (json_response INTERNAL_SERVER_ERROR ''{"error":"byoidc_not_configured"}'', w)
      | Some byoidc \<Rightarrow>
     (case st_external_jwks (w_state w) of
        None \<Rightarrow> (json_response INTERNAL_SERVER_ERROR ''{"error":"byoidc_jwks_not_loaded"}'', w)
      | Some external_jwks \<Rightarrow>
     (let disc = jc_discovery external_jwks
      in if ed_token_endpoint disc = []
         then (json_response BAD_GATEWAY ''{"error":"no_external_token_endpoint"}'', w)
         else
     (let params = parse_form_body web body;
          code = unwrap_or (params ''code'') [];
          redirect_uri = unwrap_or (params ''redirect_uri'') [];
          q = \<lparr>xq_post = True, xq_url = ed_token_endpoint disc, xq_headers = [],
               xq_body = FormBody [(''grant_type'', ''authorization_code''), (''code'', code),
                 (''client_id'', bc_client_id byoidc), (''client_secret'', bc_client_secret byoidc),
                 (''redirect_uri'', redirect_uri)],
               xq_follow_redirects = True\<rparr>;
          answer = ext (w_ext w) q;
          w = w\<lparr>w_ext := w_ext w @ [q]\<rparr>
      in case answer of
           None \<Rightarrow> (json_response BAD_GATEWAY ''{"error":"token_exchange_failed"}'', w)
         | Some resp \<Rightarrow>
     (case ext_json web resp of
        None \<Rightarrow> (json_response BAD_GATEWAY ''{"error":"token_parse_failed"}'', w)
      | Some token_resp \<Rightarrow>
          (json_response OK (json_print web token_resp),
           (case exchanged_user web external_jwks token_resp of
              Some username \<Rightarrow> w\<lparr>w_log := ensure_user_and_identity env username (w_log w)\<rparr>
            | None \<Rightarrow> w)))))))\<close>

definition handle_byoidc_userinfo :: "weblib \<Rightarrow> oauth_state \<Rightarrow> request \<Rightarrow> response" where
  \<open>handle_byoidc_userinfo web st req =
     (case st_external_jwks st of
        None \<Rightarrow> json_response INTERNAL_SERVER_ERROR ''{"error":"byoidc_not_configured"}''
      | Some external_jwks \<Rightarrow>
     (case strip_prefix ''Bearer '' (unwrap_or (header_str web (rq_headers req) ''authorization'') []) of
        None \<Rightarrow> json_response UNAUTHORIZED ''{"error":"missing bearer token"}''
      | Some token \<Rightarrow>
     (case validate_token web external_jwks token of
        Some claims \<Rightarrow>
          (let username = claims_username claims;
               email = unwrap_or (get_str claims ''email'') [];
               groups = unwrap_or (map_option (filter_map as_str)
                 (Option.bind (jget claims ''groups'') as_array)) [''system:authenticated'']
           in json_response OK (json_print web (userinfo_doc username email groups)))
      | None \<Rightarrow> json_response UNAUTHORIZED ''{"error":"invalid_token"}'')))\<close>

definition handle_byoidc_jwks ::
    "weblib \<Rightarrow> ext_server \<Rightarrow> world \<Rightarrow> response \<times> world" where
  \<open>handle_byoidc_jwks web ext w =
     (let none = json_response OK ''{"keys":[]}''
      in case st_external_jwks (w_state w) of
           None \<Rightarrow> (none, w)
         | Some external_jwks \<Rightarrow>
        (case st_byoidc (w_state w) of
           None \<Rightarrow> (none, w)
         | Some byoidc \<Rightarrow>
        (let disc = jc_discovery external_jwks
         in if ed_jwks_uri disc = [] then (none, w)
            else
              (let q = ext_get (ed_jwks_uri disc); w' = w\<lparr>w_ext := w_ext w @ [q]\<rparr>
               in case ext (w_ext w) q of
                    Some resp \<Rightarrow>
                      (case xs_body resp of
                         Some body \<Rightarrow> (json_response OK (from_utf8_lossy body), w')
                       | None \<Rightarrow> (none, w'))
                  | None \<Rightarrow> (none, w')))))\<close>

definition forwarded_headers :: "headers \<Rightarrow> headers" where
  "forwarded_headers hs =
     filter_map (\<lambda>name. map_option (\<lambda>v. (name, v)) (map_of hs name))
       [''location'', ''content-type'', ''www-authenticate'', ''cache-control''] @
     filter (\<lambda>(k, v). k = ''set-cookie'') hs"

definition handle_byoidc_proxy ::
    "weblib \<Rightarrow> ext_server \<Rightarrow> string \<Rightarrow> string \<Rightarrow> string option \<Rightarrow> bytes \<Rightarrow> string option \<Rightarrow>
     string option \<Rightarrow> world \<Rightarrow> response \<times> world" where
  "handle_byoidc_proxy web ext method path query body content_type authorization w =
     (case st_byoidc (w_state w) of
        None \<Rightarrow> (text_response BAD_GATEWAY (''BYOIDC not configured'' @ nl), w)
      | Some byoidc \<Rightarrow>
     (case url_parse web (bc_issuer_url byoidc) of
        None \<Rightarrow> (text_response BAD_GATEWAY (''invalid issuer URL'' @ nl), w)
      | Some issuer \<Rightarrow>
     (let base = url_scheme web issuer @ ''://'' @ unwrap_or (url_host_str web issuer) ''localhost'';
          port = unwrap_or (map_option (\<lambda>p. '':'' @ show_nat (unat p)) (url_port web issuer)) [];
          target_url = base @ port @ path @ (case query of Some q \<Rightarrow> ''?'' @ q | None \<Rightarrow> []);
          auth_headers = (case authorization of Some a \<Rightarrow> [(''authorization'', a)] | None \<Rightarrow> []);
          q = (if method = ''POST''
               then \<lparr>xq_post = True, xq_url = target_url,
                     xq_headers = (case content_type of Some ct \<Rightarrow> [(''content-type'', ct)] | None \<Rightarrow> [])
                       @ auth_headers,
                     xq_body = RawBody body, xq_follow_redirects = False\<rparr>
               else \<lparr>xq_post = False, xq_url = target_url, xq_headers = auth_headers,
                     xq_body = NoBody, xq_follow_redirects = False\<rparr>);
          answer = ext (w_ext w) q;
          w = w\<lparr>w_ext := w_ext w @ [q]\<rparr>
      in case answer of
           None \<Rightarrow> (text_response BAD_GATEWAY (''proxy request failed'' @ nl), w)
         | Some resp \<Rightarrow>
             (\<lparr>rs_status = (if 100 \<le> xs_status resp \<and> xs_status resp \<le> 999 then xs_status resp
                            else BAD_GATEWAY),
               rs_headers = forwarded_headers (xs_headers resp),
               rs_body = unwrap_or (xs_body resp) []\<rparr>, w))))"

section \<open>Lemmas\<close>

text \<open>A cached key came from an RSA entry of the key set; the last entry of an identifier wins.\<close>

definition rsa_entries :: "weblib \<Rightarrow> json list \<Rightarrow> (string \<times> string) list" where
  "rsa_entries web keys =
     filter_map (\<lambda>k. if get_str k ''kty'' = Some ''RSA'' then
        map_option (\<lambda>dk. (unwrap_or (get_str k ''kid'') [], dk))
          (rsa_key web (unwrap_or (get_str k ''n'') []) (unwrap_or (get_str k ''e'') []))
        else None) keys"

lemma map_of_fold_load_key:
  "map_of (fold (load_key web) keys acc) = map_of acc ++ map_of (rev (rsa_entries web keys))"
proof (induction keys arbitrary: acc)
  case Nil
  show ?case by (simp add: rsa_entries_def)
next
  case (Cons k keys)
  have "map_of (load_key web k acc) ++ m = map_of acc ++ (map_of (rev (rsa_entries web [k])) ++ m)" for m
    by (cases "get_str k ''kty''") (auto simp: load_key_def rsa_entries_def Let_def update_conv'
        split: option.splits)
  moreover have "rsa_entries web (k # keys) = rsa_entries web [k] @ rsa_entries web keys"
    by (auto simp: rsa_entries_def split: option.splits)
  ultimately show ?case
    using Cons.IH [of "load_key web k acc"] by simp
qed

text \<open>The cache is asked for at most five times, two requests each.\<close>

lemma jwks_refresh_requests:
  "\<exists>rs. snd (jwks_refresh web ext iss s) = snd s @ rs \<and> length rs \<le> 2"
  by (cases s) (auto simp: jwks_refresh_def Let_def split: option.splits)

lemma jwks_attempts_requests:
  "\<exists>rs. snd (jwks_attempts n web ext iss s) = snd s @ rs \<and> length rs \<le> 2 * n"
proof (induction n arbitrary: s)
  case (Suc n)
  obtain rs where rs: "snd (jwks_refresh web ext iss s) = snd s @ rs" "length rs \<le> 2"
    using jwks_refresh_requests by blast
  obtain rs' where "snd (jwks_attempts n web ext iss (jwks_refresh web ext iss s)) =
      snd (jwks_refresh web ext iss s) @ rs'" "length rs' \<le> 2 * n"
    using Suc.IH by blast
  with rs show ?case by (auto simp: Let_def)
qed simp

lemma validate_token_sound:
  "validate_token web cache token = Some claims \<Longrightarrow>
   \<exists>kid dk. (kid, dk) \<in> set (jc_keys cache) \<and> jwt_verify web token dk = Some claims"
  by (fastforce simp: validate_token_def Let_def bind_eq_Some_conv dest: map_of_SomeD)

text \<open>The description of a user is given for a bearer token that has been validated.\<close>

lemma bearer_header:
  "strip_prefix ''Bearer '' (unwrap_or (header_str web hs name) []) = Some token \<Longrightarrow>
   header_str web hs name = Some (''Bearer '' @ token)"
  by (cases "header_str web hs name") (auto simp: unwrap_or_def)

lemma byoidc_userinfo_OK:
  assumes "rs_status (handle_byoidc_userinfo web st req) = OK"
  obtains cache token claims where "st_external_jwks st = Some cache"
    and "strip_prefix ''Bearer '' (unwrap_or (header_str web (rq_headers req) ''authorization'') []) = Some token"
    and "validate_token web cache token = Some claims"
    and "\<exists>email groups. rs_body (handle_byoidc_userinfo web st req) =
      json_print web (userinfo_doc (claims_username claims) email groups)"
proof -
  let ?auth = "unwrap_or (header_str web (rq_headers req) ''authorization'') []"
  note defs = handle_byoidc_userinfo_def json_response_def
  obtain cache where c: "st_external_jwks st = Some cache"
    using assms by (cases "st_external_jwks st") (simp_all add: defs)
  obtain token where t: "strip_prefix ''Bearer '' ?auth = Some token"
    using assms c by (cases "strip_prefix ''Bearer '' ?auth") (simp_all add: defs)
  obtain claims where v: "validate_token web cache token = Some claims"
    using assms c t by (cases "validate_token web cache token") (simp_all add: defs)
  have "\<exists>email groups. rs_body (handle_byoidc_userinfo web st req) =
      json_print web (userinfo_doc (claims_username claims) email groups)"
    unfolding defs c option.case t v Let_def response.simps by (rule exI, rule exI, rule refl)
  with that c t v show thesis by blast
qed

end
