(* ===== verification/OAuth_Server.thy ===== *)
theory OAuth_Server
  imports Byoidc "HOL-Library.Multiset"
begin

text \<open>
  \<^verbatim>\<open>simulator/src/oauth/mod.rs\<close> and \<^verbatim>\<open>oauth/watcher.rs\<close>: the dispatch of requests, the eviction
  task and the htpasswd watcher; and the server as a transition system in which token requests,
  log-ins, evictions and reloads of the user store interleave.
\<close>

section \<open>Definitions\<close>

subsection \<open>Dispatch\<close>

definition is_provider_path :: "string \<Rightarrow> bool" where
  "is_provider_path path \<longleftrightarrow>
     str_contains path ''/oauth2/'' \<or> str_contains path ''/v2.0/'' \<or>
     starts_with path ''/oidc/'' \<or> starts_with path ''/admin''"

definition handle_request ::
    "weblib \<Rightarrow> api_server \<Rightarrow> ext_server \<Rightarrow> nat \<Rightarrow> u64 \<Rightarrow> nat \<Rightarrow> request \<Rightarrow> bytes option \<Rightarrow> world \<Rightarrow>
     outcome \<times> world" where
  "handle_request web env ext now unix_now now' req collected w =
     (let path = rq_path req; method = rq_method req; st = w_state w;
          is_byoidc = (st_auth_mode st = Byoidc);
          answer = (\<lambda>(r, w). (Answer r, w))
      in if method = ''GET'' \<and> (path = ''/.well-known/oauth-authorization-server'' \<or>
              path = ''/.well-known/openid-configuration'')
         then answer (json_response OK (discovery_json web (st_auth_mode st)), w)
         else if method = ''GET'' \<and> path = ''/oauth/jwks''
         then (if is_byoidc then answer (handle_byoidc_jwks web ext w)
               else answer (handle_jwks web st, w))
         else if method = ''GET'' \<and> path = ''/oauth/authorize''
         then (if is_byoidc \<and> \<not> is_cli_auth_request req
               then (case handle_byoidc_authorize web st req of
                       Some r \<Rightarrow> (Answer r, w)
                     | None \<Rightarrow> (Panic, w))
               else answer (handle_authorize_get web env now req w))
         else if method = ''GET'' \<and> path = ''/oauth/userinfo''
         then (if is_byoidc then answer (handle_byoidc_userinfo web st req, w)
               else answer (handle_userinfo web st now req, w))
         else
           (let query = rq_query req;
                content_type = header_str web (rq_headers req) ''content-type'';
                authorization = header_str web (rq_headers req) ''authorization''
            in case collected of
                 None \<Rightarrow> (BodyError, w)
               | Some body \<Rightarrow>
                   if method = ''POST'' \<and> path = ''/oauth/authorize''
                   then answer (handle_authorize_post web env now body w)
                   else if method = ''POST'' \<and> path = ''/oauth/token''
                   then (if is_byoidc then answer (handle_byoidc_token web env ext body w)
                         else answer (handle_token web env now unix_now now' body authorization w))
                   else if is_byoidc \<and> is_provider_path path
                   then answer (handle_byoidc_proxy web ext method path query body content_type
                          authorization w)
                   else answer (text_response NOT_FOUND (''not found'' @ nl), w)))"

subsection \<open>Eviction\<close>

text \<open>\<^verbatim>\<open>map.retain(|_, v| v.created.elapsed() < ttl)\<close>.\<close>

definition retain :: "nat \<Rightarrow> nat \<Rightarrow> ('v \<Rightarrow> nat) \<Rightarrow> (string \<rightharpoonup> 'v) \<Rightarrow> (string \<rightharpoonup> 'v)" where
  "retain ttl now created m =
     (\<lambda>k. case m k of
            None \<Rightarrow> None
          | Some v \<Rightarrow> if elapsed now (created v) < ttl then Some v else None)"

definition evict_codes :: "nat \<Rightarrow> oauth_state \<Rightarrow> oauth_state" where
  "evict_codes now st = st\<lparr>st_codes := retain (from_secs 300) now ac_created (st_codes st)\<rparr>"

definition evict_tokens :: "nat \<Rightarrow> oauth_state \<Rightarrow> oauth_state" where
  "evict_tokens now st = st\<lparr>st_tokens := retain (from_secs 86400) now ti_created (st_tokens st)\<rparr>"

subsection \<open>Watcher of the htpasswd secret\<close>

definition HTPASSWD_SECRET :: string where "HTPASSWD_SECRET = ''htpass-secret''"
definition HTPASSWD_NS :: string where "HTPASSWD_NS = ''openshift-config''"
definition HTPASSWD_KEY :: string where "HTPASSWD_KEY = ''htpasswd''"

definition htpasswd_data :: "secret \<Rightarrow> string option" where
  "htpasswd_data s =
     (case map_option from_utf8_lossy (Option.bind (sec_data s) (\<lambda>d. map_of d HTPASSWD_KEY)) of
        Some t \<Rightarrow> Some t
      | None \<Rightarrow> Option.bind (sec_string_data s) (\<lambda>d. map_of d HTPASSWD_KEY))"

text \<open>One event of the stream; \<^const>\<open>None\<close> is a watch error.\<close>

definition htpasswd_event :: "secret option \<Rightarrow> user_store \<Rightarrow> user_store" where
  "htpasswd_event event store =
     (case event of
        None \<Rightarrow> store
      | Some s \<Rightarrow>
          if unwrap_or (om_name (sec_meta s)) [] \<noteq> HTPASSWD_SECRET then store
          else (case htpasswd_data s of
                  Some d \<Rightarrow> from_htpasswd d
                | None \<Rightarrow> store))"

definition watch_htpasswd_secret :: "secret option list \<Rightarrow> user_store \<Rightarrow> user_store" where
  "watch_htpasswd_secret events store = fold htpasswd_event events store"

subsection \<open>The server as a transition system\<close>

text \<open>
  Requests run concurrently; a lock is held for one access to a map.  The steps are those
  accesses.  \<open>sv_begun\<close> and \<open>sv_cleared\<close> are the token requests under way: their code is taken;
  the client is still to be checked, or has been.  \<open>sv_authed\<close>, \<open>sv_issued\<close> and \<open>sv_minted\<close>
  record what has happened: the users that have authenticated, the codes given out, and the
  requests answered with a token.
\<close>

record server =
  sv_world :: world
  sv_begun :: "pending multiset"
  sv_cleared :: "pending multiset"
  sv_authed :: "string set"
  sv_issued :: "(string \<times> auth_code) list"
  sv_minted :: "pending list"

abbreviation sv_state :: "server \<Rightarrow> oauth_state" where
  "sv_state sv \<equiv> w_state (sv_world sv)"

definition set_state :: "oauth_state \<Rightarrow> server \<Rightarrow> server" where
  "set_state st sv = sv\<lparr>sv_world := (sv_world sv)\<lparr>w_state := st\<rparr>\<rparr>"

inductive oauth_step :: "weblib \<Rightarrow> server \<Rightarrow> server \<Rightarrow> bool" for web where
  login:
    "authenticate (st_user_store (sv_state sv)) u p \<noteq> None \<Longrightarrow>
     oauth_step web sv (sv\<lparr>sv_authed := insert u (sv_authed sv)\<rparr>)"
| issue:
    "u \<in> sv_authed sv \<Longrightarrow>
     fresh_code (sv_world sv) \<notin> fst ` set (sv_issued sv) \<Longrightarrow>
     issue_auth_code web now u cid uri s cc ccm (sv_world sv) = (r, w') \<Longrightarrow>
     oauth_step web sv (sv\<lparr>sv_world := w',
       sv_issued := sv_issued sv @ [(fresh_code (sv_world sv),
         \<lparr>ac_username = u, ac_client_id = cid, ac_created = now, ac_code_challenge = cc,
          ac_code_challenge_method = ccm\<rparr>)]\<rparr>)"
| reject:
    "token_begin web now body authz (sv_state sv) = (Inl r, st') \<Longrightarrow>
     oauth_step web sv (set_state st' sv)"
| begin_token:
    "token_begin web now body authz (sv_state sv) = (Inr pd, st') \<Longrightarrow>
     oauth_step web sv ((set_state st' sv)\<lparr>sv_begun := add_mset pd (sv_begun sv)\<rparr>)"
| clear_client:
    "pd \<in># sv_begun sv \<Longrightarrow>
     ac_code_challenge (pd_auth_code pd) \<noteq> None \<or> token_check_secret found pd = None \<Longrightarrow>
     oauth_step web sv (sv\<lparr>sv_begun := sv_begun sv - {#pd#},
       sv_cleared := add_mset pd (sv_cleared sv)\<rparr>)"
| drop_client:
    "pd \<in># sv_begun sv \<Longrightarrow>
     oauth_step web sv (sv\<lparr>sv_begun := sv_begun sv - {#pd#}\<rparr>)"
| mint:
    "pd \<in># sv_cleared sv \<Longrightarrow>
     token_finish web unix_now now pd (sv_state sv) (w_rng (sv_world sv)) = (r, st', rng') \<Longrightarrow>
     oauth_step web sv (sv\<lparr>sv_world := (sv_world sv)\<lparr>w_state := st', w_rng := rng'\<rparr>,
       sv_cleared := sv_cleared sv - {#pd#},
       sv_minted := (if rs_status r = OK then pd # sv_minted sv else sv_minted sv)\<rparr>)"
| evict:
    "oauth_step web sv (set_state (evict_tokens now' (evict_codes now (sv_state sv))) sv)"
| reload:
    "oauth_step web sv (set_state ((sv_state sv)\<lparr>st_user_store :=
       htpasswd_event e (st_user_store (sv_state sv))\<rparr>) sv)"
| calls:
    "oauth_step web sv (sv\<lparr>sv_world := (sv_world sv)\<lparr>w_log := l, w_ext := x\<rparr>\<rparr>)"

inductive_cases oauth_stepE: "oauth_step web sv sv'"

definition server_init :: "server \<Rightarrow> bool" where
  "server_init sv \<longleftrightarrow>
     st_codes (sv_state sv) = Map.empty \<and> st_tokens (sv_state sv) = Map.empty \<and>
     sv_begun sv = {#} \<and> sv_cleared sv = {#} \<and> sv_authed sv = {} \<and> sv_issued sv = [] \<and>
     sv_minted sv = []"

text \<open>
  The invariant.  \<open>uses sv c\<close> counts the places a code can be in: the store, a request under
  way, an answered request.
\<close>

definition in_flight :: "server \<Rightarrow> pending multiset" where
  "in_flight sv = sv_begun sv + sv_cleared sv + mset (sv_minted sv)"

definition uses :: "server \<Rightarrow> string \<Rightarrow> nat" where
  "uses sv c = count (image_mset pd_code (in_flight sv)) c +
     (if st_codes (sv_state sv) c = None then 0 else 1)"

definition code_inv :: "server \<Rightarrow> bool" where
  "code_inv sv \<longleftrightarrow>
     (\<forall>c. uses sv c \<le> 1) \<and>
     (\<forall>c ac. st_codes (sv_state sv) c = Some ac \<longrightarrow> (c, ac) \<in> set (sv_issued sv)) \<and>
     (\<forall>pd. pd \<in># in_flight sv \<longrightarrow> (pd_code pd, pd_auth_code pd) \<in> set (sv_issued sv) \<and>
        ac_client_id (pd_auth_code pd) = pd_client_id pd)"

definition user_inv :: "server \<Rightarrow> bool" where
  "user_inv sv \<longleftrightarrow>
     (\<forall>c ac. (c, ac) \<in> set (sv_issued sv) \<longrightarrow> ac_username ac \<in> sv_authed sv) \<and>
     (\<forall>t ti. st_tokens (sv_state sv) t = Some ti \<longrightarrow> ti_username ti \<in> sv_authed sv)"

definition server_inv :: "server \<Rightarrow> bool" where
  "server_inv sv \<longleftrightarrow> code_inv sv \<and> user_inv sv"

section \<open>Lemmas\<close>

subsection \<open>Invariant\<close>

lemmas server_defs = in_flight_def uses_def set_state_def

lemma code_inv_mono:
  assumes "code_inv sv" and "in_flight sv' \<subseteq># in_flight sv"
    and "st_codes (sv_state sv') \<subseteq>\<^sub>m st_codes (sv_state sv)"
    and "set (sv_issued sv) \<subseteq> set (sv_issued sv')"
  shows "code_inv sv'"
proof -
  have stored: "st_codes (sv_state sv) c = Some ac" if "st_codes (sv_state sv') c = Some ac" for c ac
    using assms(3) that by (force simp: map_le_def dom_def)
  have "uses sv' c \<le> uses sv c" for c
  proof -
    have "count (image_mset pd_code (in_flight sv')) c \<le> count (image_mset pd_code (in_flight sv)) c"
      using assms(2) by (intro mset_subset_eq_count image_mset_subseteq_mono)
    with stored show ?thesis by (auto simp: uses_def)
  qed
  then show ?thesis
    using assms(1,4) stored mset_subset_eqD [OF assms(2)]
    unfolding code_inv_def by (meson le_trans subsetD)
qed

lemma code_inv_take:
  assumes "code_inv sv" and "token_begin web now body authz (sv_state sv) = (Inr pd, st')"
  shows "code_inv ((set_state st' sv)\<lparr>sv_begun := add_mset pd (sv_begun sv)\<rparr>)"
    (is "code_inv ?sv'")
proof -
  note taken = token_begin_Inr [OF assms(2)]
  have flight: "in_flight ?sv' = add_mset pd (in_flight sv)"
    by (simp add: server_defs)
  have codes: "st_codes (sv_state ?sv') = (st_codes (sv_state sv))(pd_code pd := None)"
    using taken(2) by (simp add: set_state_def)
  have "uses ?sv' c = uses sv c" for c
    using taken(1,2) by (auto simp: server_defs)
  moreover have "(pd_code pd, pd_auth_code pd) \<in> set (sv_issued sv)"
    using assms(1) taken(1) by (auto simp: code_inv_def)
  ultimately show ?thesis
    using assms(1) taken(4) unfolding code_inv_def flight codes
    by (auto simp: set_state_def)
qed

lemma code_inv_issue:
  assumes "code_inv sv" and "c \<notin> fst ` set (sv_issued sv)"
    and "st_codes (w_state w') = (st_codes (sv_state sv))(c \<mapsto> ac)"
  shows "code_inv (sv\<lparr>sv_world := w', sv_issued := sv_issued sv @ [(c, ac)]\<rparr>)"
    (is "code_inv ?sv'")
proof -
  have flight: "in_flight ?sv' = in_flight sv" by (simp add: in_flight_def)
  have "c \<notin># image_mset pd_code (in_flight sv)"
    using assms(1,2) by (force simp: code_inv_def)
  then have "uses ?sv' c = 1"
    by (simp add: uses_def flight assms(3) count_eq_zero_iff)
  moreover have "uses ?sv' d = uses sv d" if "d \<noteq> c" for d
    using that by (simp add: uses_def flight assms(3))
  ultimately have "uses ?sv' d \<le> 1" for d
    using assms(1) by (cases "d = c") (auto simp: code_inv_def)
  then show ?thesis
    using assms(1,3) unfolding code_inv_def flight by auto
qed

lemma retain_le: "retain ttl now created m \<subseteq>\<^sub>m m"
  by (auto simp: retain_def map_le_def dom_def split: option.splits)

lemma token_begin_codes_le:
  "token_begin web now body authz st = (v, st') \<Longrightarrow> st_codes st' \<subseteq>\<^sub>m st_codes st"
  using token_begin_state [of web now body authz st] by (auto simp: map_le_def split: if_splits)

lemma code_inv_step: "oauth_step web sv sv' \<Longrightarrow> code_inv sv \<Longrightarrow> code_inv sv'"
proof (induction rule: oauth_step.induct)
  case (issue u sv now cid uri s cc ccm r w')
  then show ?case
    using issue_auth_code_state [of web now u cid uri s cc ccm "sv_world sv"]
    by (intro code_inv_issue) auto
next
  case (reject now body authz sv r st')
  then show ?case
    by (elim code_inv_mono) (auto simp: server_defs token_begin_codes_le)
next
  case (begin_token now body authz sv pd st')
  then show ?case by (blast intro: code_inv_take)
next
  case (clear_client pd sv found)
  then show ?case
    by (elim code_inv_mono) (auto simp: in_flight_def)
next
  case (drop_client pd sv)
  then show ?case
    by (elim code_inv_mono) (auto simp: in_flight_def)
next
  case (mint pd sv unix_now now r st' rng')
  then have "st_codes st' = st_codes (sv_state sv)"
    using token_finish_state [OF mint.hyps(2)] by auto
  then show ?case
    using mint by (elim code_inv_mono) (auto simp: in_flight_def)
next
  case (evict sv now' now)
  then show ?case
    by (elim code_inv_mono) (auto simp: server_defs evict_codes_def evict_tokens_def retain_le)
qed (auto elim!: code_inv_mono simp: server_defs)

lemma user_inv_step: "oauth_step web sv sv' \<Longrightarrow> code_inv sv \<Longrightarrow> user_inv sv \<Longrightarrow> user_inv sv'"
proof (induction rule: oauth_step.induct)
  case (issue u sv now cid uri s cc ccm r w')
  then show ?case
    using issue_auth_code_state [of web now u cid uri s cc ccm "sv_world sv"]
    by (auto simp: user_inv_def)
next
  case (reject now body authz sv r st')
  then show ?case
    using token_begin_state [of web now body authz "sv_state sv"]
    by (auto simp: user_inv_def set_state_def)
next
  case (begin_token now body authz sv pd st')
  then show ?case
    using token_begin_Inr(2) [OF begin_token.hyps] by (auto simp: user_inv_def set_state_def)
next
  case (mint pd sv unix_now now r st' rng')
  then have "ac_username (pd_auth_code pd) \<in> sv_authed sv"
    by (auto simp: code_inv_def user_inv_def in_flight_def)
  with mint show ?case
    using token_finish_state [OF mint.hyps(2)] by (auto simp: user_inv_def split: if_splits)
next
  case (evict sv now' now)
  then show ?case
    by (auto simp: user_inv_def set_state_def evict_codes_def evict_tokens_def retain_def
        split: option.splits if_splits)
qed (auto simp: user_inv_def set_state_def)

interpretation oauth: invariant_system server_init "oauth_step web" server_inv for web
proof unfold_locales
  show "server_inv sv" if "server_init sv" for sv
    using that by (auto simp: server_init_def server_inv_def code_inv_def user_inv_def server_defs)
  show "server_inv sv'" if "server_inv sv" and "oauth_step web sv sv'" for sv sv'
    using that code_inv_step user_inv_step by (auto simp: server_inv_def)
qed

lemma code_inv_minted_distinct: "code_inv sv \<Longrightarrow> distinct (map pd_code (sv_minted sv))"
proof -
  assume "code_inv sv"
  then have le: "count (image_mset pd_code (in_flight sv)) c \<le> 1" for c
    by (auto simp: code_inv_def uses_def dest: spec [where x = c])
  have "count (mset (map pd_code (sv_minted sv))) c \<le> 1" for c
    using le [of c] by (simp add: in_flight_def)
  then have "count (mset (map pd_code (sv_minted sv))) c = 1" if "c \<in> set (map pd_code (sv_minted sv))" for c
    using that by (metis count_greater_eq_one_iff le_antisym set_mset_mset)
  then show ?thesis
    unfolding distinct_count_atmost_1 by (simp add: count_eq_zero_iff)
qed

subsection \<open>Handlers are sequences of steps\<close>

text \<open>A token request that runs without interruption.\<close>

lemma handle_token_cases:
  assumes "handle_token web env now unix_now now' body authz w = (r, w')"
  obtains (refused) st where "token_begin web now body authz (w_state w) = (Inl r, st)" "w' = w\<lparr>w_state := st\<rparr>"
  | (dropped) pd st l where "token_begin web now body authz (w_state w) = (Inr pd, st)"
      "rs_status r \<noteq> OK" "w' = w\<lparr>w_state := st, w_log := l\<rparr>"
  | (finished) pd st l st' rng' where "token_begin web now body authz (w_state w) = (Inr pd, st)"
      "ac_code_challenge (pd_auth_code pd) \<noteq> None \<or>
         token_check_secret (fst (validate_client env (pd_client_id pd) (w_log w))) pd = None"
      "token_finish web unix_now now' pd st (w_rng w) = (r, st', rng')"
      "w' = w\<lparr>w_log := l, w_state := st', w_rng := rng'\<rparr>"
proof (cases "token_begin web now body authz (w_state w)")
  case (Pair v st)
  show thesis
  proof (cases v)
    case (Inl r0)
    with assms Pair show thesis by (intro refused) (auto simp: handle_token_def)
  next
    case (Inr pd)
    let ?look = "validate_client env (pd_client_id pd) (w_log w)"
    let ?l = "if ac_code_challenge (pd_auth_code pd) \<noteq> None then w_log w else snd ?look"
    show thesis
    proof (cases "ac_code_challenge (pd_auth_code pd) \<noteq> None \<or> token_check_secret (fst ?look) pd = None")
      case True
      obtain r0 st' rng' where fin: "token_finish web unix_now now' pd st (w_rng w) = (r0, st', rng')"
        by (metis prod_cases3)
      with Pair Inr True have "handle_token web env now unix_now now' body authz w =
          (r0, w\<lparr>w_log := ?l, w_state := st', w_rng := rng'\<rparr>)"
        by (cases "ac_code_challenge (pd_auth_code pd)") (simp_all add: handle_token_def split_beta)
      with assms have "r0 = r" "w' = w\<lparr>w_log := ?l, w_state := st', w_rng := rng'\<rparr>" by simp_all
      with finished [of pd st st' rng' ?l] Pair Inr True fin show thesis by simp
    next
      case False
      then obtain r0 where no: "token_check_secret (fst ?look) pd = Some r0" by auto
      with Pair Inr False have "handle_token web env now unix_now now' body authz w =
          (r0, w\<lparr>w_state := st, w_log := ?l\<rparr>)"
        by (simp add: handle_token_def split_beta)
      with assms have "r0 = r" "w' = w\<lparr>w_state := st, w_log := ?l\<rparr>" by simp_all
      with dropped [of pd st ?l] Pair Inr token_check_secret_status [OF no] show thesis by simp
    qed
  qed
qed

lemma token_taken_steps:
  assumes "token_begin web now body authz (sv_state sv) = (Inr pd, st)"
  shows "(oauth_step web)\<^sup>*\<^sup>* sv (sv\<lparr>sv_world := (sv_world sv)\<lparr>w_state := st, w_log := l\<rparr>,
    sv_begun := add_mset pd (sv_begun sv)\<rparr>)"
proof -
  let ?begun = "(set_state st sv)\<lparr>sv_begun := add_mset pd (sv_begun sv)\<rparr>"
  have "oauth_step web sv ?begun" using assms by (rule oauth_step.begin_token)
  moreover have "oauth_step web ?begun
      (?begun\<lparr>sv_world := (sv_world ?begun)\<lparr>w_log := l, w_ext := w_ext (sv_world sv)\<rparr>\<rparr>)"
    by (rule oauth_step.calls)
  moreover have "?begun\<lparr>sv_world := (sv_world ?begun)\<lparr>w_log := l, w_ext := w_ext (sv_world sv)\<rparr>\<rparr> =
      sv\<lparr>sv_world := (sv_world sv)\<lparr>w_state := st, w_log := l\<rparr>, sv_begun := add_mset pd (sv_begun sv)\<rparr>"
    by (cases sv; cases "sv_world sv") (simp add: set_state_def)
  ultimately show ?thesis by (metis converse_rtranclp_into_rtranclp r_into_rtranclp)
qed

lemma token_dropped_steps:
  assumes "token_begin web now body authz (sv_state sv) = (Inr pd, st)"
  shows "(oauth_step web)\<^sup>*\<^sup>* sv (sv\<lparr>sv_world := (sv_world sv)\<lparr>w_state := st, w_log := l\<rparr>\<rparr>)"
proof -
  let ?taken = "sv\<lparr>sv_world := (sv_world sv)\<lparr>w_state := st, w_log := l\<rparr>, sv_begun := add_mset pd (sv_begun sv)\<rparr>"
  have "oauth_step web ?taken (?taken\<lparr>sv_begun := sv_begun ?taken - {#pd#}\<rparr>)"
    by (rule oauth_step.drop_client) simp
  with token_taken_steps [OF assms, of l] show ?thesis
    by (auto intro: rtranclp.rtrancl_into_rtrancl)
qed

lemma token_finished_steps:
  assumes "token_begin web now body authz (sv_state sv) = (Inr pd, st)"
    and "ac_code_challenge (pd_auth_code pd) \<noteq> None \<or> token_check_secret found pd = None"
    and "token_finish web unix_now now' pd st (w_rng (sv_world sv)) = (r, st', rng')"
  shows "(oauth_step web)\<^sup>*\<^sup>* sv (sv\<lparr>sv_world := (sv_world sv)\<lparr>w_log := l, w_state := st', w_rng := rng'\<rparr>,
    sv_minted := (if rs_status r = OK then pd # sv_minted sv else sv_minted sv)\<rparr>)"
proof -
  let ?taken = "sv\<lparr>sv_world := (sv_world sv)\<lparr>w_state := st, w_log := l\<rparr>, sv_begun := add_mset pd (sv_begun sv)\<rparr>"
  let ?clr = "?taken\<lparr>sv_begun := sv_begun ?taken - {#pd#}, sv_cleared := add_mset pd (sv_cleared ?taken)\<rparr>"
  have "oauth_step web ?taken ?clr"
    by (rule oauth_step.clear_client [OF _ assms(2)]) simp
  moreover have "oauth_step web ?clr (?clr\<lparr>sv_world := (sv_world ?clr)\<lparr>w_state := st', w_rng := rng'\<rparr>,
      sv_cleared := sv_cleared ?clr - {#pd#},
      sv_minted := (if rs_status r = OK then pd # sv_minted ?clr else sv_minted ?clr)\<rparr>)"
    by (rule oauth_step.mint [where unix_now = unix_now and now = now']) (use assms(3) in simp_all)
  ultimately show ?thesis
    using token_taken_steps [OF assms(1), of l] by (auto intro: rtranclp.rtrancl_into_rtrancl)
qed

lemma handle_token_steps:
  assumes "handle_token web env now unix_now now' body authz (sv_world sv) = (r, w')"
  shows "\<exists>sv'. (oauth_step web)\<^sup>*\<^sup>* sv sv' \<and> sv_world sv' = w' \<and>
    sv_begun sv' = sv_begun sv \<and> sv_cleared sv' = sv_cleared sv \<and> sv_issued sv' = sv_issued sv \<and>
    (if rs_status r = OK
     then \<exists>pd. sv_minted sv' = pd # sv_minted sv \<and> parse_form_body web body ''code'' = Some (pd_code pd)
     else sv_minted sv' = sv_minted sv)"
  using assms
proof (cases rule: handle_token_cases)
  case (refused st)
  then have "oauth_step web sv (set_state st sv)" by (auto intro: oauth_step.reject)
  moreover have "rs_status r \<noteq> OK" using refused token_begin_status by fastforce
  ultimately show ?thesis using refused by (intro exI [of _ "set_state st sv"]) (auto simp: set_state_def)
next
  case (dropped pd st l)
  then show ?thesis using token_dropped_steps [OF dropped(1), of l] by (intro exI conjI) (assumption | simp)+
next
  case (finished pd st l st' rng')
  then show ?thesis
    using token_finished_steps [OF finished(1-3), of l] token_begin_Inr(6) [OF finished(1)]
    by (intro exI conjI) (assumption | simp)+
qed

subsection \<open>Expiry\<close>

text \<open>
  The contract between a store of entries with a lifetime and the eviction task: an entry
  that has outlived its lifetime is refused anyway, so its removal cannot be noticed.
\<close>

locale expiring_store =
  fixes created :: "'v \<Rightarrow> nat"
    and ttl :: nat
    and accepted :: "nat \<Rightarrow> 'v \<Rightarrow> bool"
  assumes ttl_pos: "0 < ttl"
    and accepted_young: "accepted now v \<Longrightarrow> elapsed now (created v) \<le> ttl"
begin

lemma retain_Some_iff:
  "retain ttl t created m k = Some v \<longleftrightarrow> m k = Some v \<and> elapsed t (created v) < ttl"
  by (auto simp: retain_def split: option.splits)

lemma evicted_refused:
  "m k = Some v \<Longrightarrow> retain ttl t created m k = None \<Longrightarrow> t < t' \<Longrightarrow> \<not> accepted t' v"
  using accepted_young [of t' v] ttl_pos by (auto simp: retain_def elapsed_def split: if_splits)

lemma evict_unobservable:
  "t < t' \<Longrightarrow> retain ttl t created m k = Some v \<and> accepted t' v \<longleftrightarrow> m k = Some v \<and> accepted t' v"
  using evicted_refused [of m k v t t'] retain_Some_iff [of t m k] by fastforce

end

lemma ttl_secs: "from_secs 300 = CODE_TTL" "from_secs 86400 = TOKEN_TTL"
  by (simp_all add: CODE_TTL_def TOKEN_TTL_def TOKEN_TTL_SECS_def)

interpretation code_store: expiring_store ac_created CODE_TTL
    "\<lambda>now ac. elapsed now (ac_created ac) \<le> CODE_TTL"
  by unfold_locales (simp_all add: CODE_TTL_def from_secs_def)

interpretation token_store: expiring_store ti_created TOKEN_TTL
    "\<lambda>now ti. elapsed now (ti_created ti) < TOKEN_TTL"
  by unfold_locales (simp_all add: TOKEN_TTL_def TOKEN_TTL_SECS_def from_secs_def)

lemma token_accepts_evict:
  "t < now \<Longrightarrow> token_accepts web now body authz (st_codes (evict_codes t st)) pd \<longleftrightarrow>
     token_accepts web now body authz (st_codes st) pd"
  using code_store.evict_unobservable [of t now "st_codes st" "pd_code pd" "pd_auth_code pd"]
  unfolding token_accepts_def by (auto simp: evict_codes_def ttl_secs)

lemma userinfo_username_evict:
  "t < now \<Longrightarrow> userinfo_username web (evict_tokens t st) now token = userinfo_username web st now token"
proof -
  assume "t < now"
  note same = token_store.evict_unobservable [OF this, of "st_tokens st" token]
  have "userinfo_username web st now token = Some u \<longleftrightarrow>
      (if starts_with token ''eyJ'' then decode_jwt_username web token = Some u
       else \<exists>ti. (st_tokens st token = Some ti \<and> elapsed now (ti_created ti) < TOKEN_TTL) \<and>
         u = ti_username ti)" for st u
    by (auto simp: userinfo_username_def split: option.splits)
  moreover have "st_tokens (evict_tokens t st) token = retain TOKEN_TTL t ti_created (st_tokens st) token"
    by (simp add: evict_tokens_def ttl_secs)
  ultimately show ?thesis
    by (intro option_eqI) (simp add: same)
qed

lemma evict_codes_jwt [simp]:
  "jwt_encodes web (evict_codes t st) unix_now pd = jwt_encodes web st unix_now pd"
  by (simp add: evict_codes_def)

lemma evict_tokens_frame [simp]:
  "st_user_store (evict_tokens t st) = st_user_store st" "st_codes (evict_tokens t st) = st_codes st"
  "jwt_encodes web (evict_tokens t st) unix_now pd = jwt_encodes web st unix_now pd"
  by (simp_all add: evict_tokens_def jwt_encodes_def token_claims_def)

lemma evict_codes_frame [simp]:
  "st_user_store (evict_codes t st) = st_user_store st"
  "userinfo_username web (evict_codes t st) now token = userinfo_username web st now token"
  by (simp_all add: evict_codes_def userinfo_username_def)

subsection \<open>External provider\<close>

lemma granted_state_frame: "\<exists>codes. granted_state now w params g = (w_state w)\<lparr>st_codes := codes\<rparr>"
proof (cases g)
  case None
  then show ?thesis by (intro exI [of _ "st_codes (w_state w)"]) (simp add: granted_state_def)
qed (auto simp: granted_state_def)

text \<open>Two worlds that differ only in the calls made to other servers.\<close>

definition calls_only :: "world \<Rightarrow> world \<Rightarrow> bool" where
  "calls_only w w' \<longleftrightarrow> (\<exists>l x. w' = w\<lparr>w_log := l, w_ext := x\<rparr>)"

lemma calls_only_refl [simp]: "calls_only w w"
  unfolding calls_only_def by (rule exI [of _ "w_log w"], rule exI [of _ "w_ext w"]) simp

lemma calls_only_log [simp]: "calls_only w (w\<lparr>w_log := l\<rparr>)"
  unfolding calls_only_def by (rule exI [of _ l], rule exI [of _ "w_ext w"]) simp

lemma calls_only_ext [simp]: "calls_only w (w\<lparr>w_ext := x\<rparr>)"
  unfolding calls_only_def by (rule exI [of _ "w_log w"], rule exI [of _ x]) simp

lemma calls_only_both [simp]:
  "calls_only w (w\<lparr>w_ext := x, w_log := l\<rparr>)" "calls_only w (w\<lparr>w_log := l, w_ext := x\<rparr>)"
  unfolding calls_only_def by (cases w, auto)+

lemma calls_only_state: "calls_only w w' \<Longrightarrow> w_state w' = w_state w"
  by (auto simp: calls_only_def)

lemma byoidc_calls [simp]:
  "calls_only w (snd (handle_byoidc_jwks web ext w))"
  "calls_only w (snd (handle_byoidc_token web env ext body w))"
  "calls_only w (snd (handle_byoidc_proxy web ext m p q body ct a w))"
  by (auto simp: handle_byoidc_jwks_def handle_byoidc_token_def handle_byoidc_proxy_def Let_def
      split: option.splits)

lemmas byoidc_handlers_frame = byoidc_calls [THEN calls_only_state]

lemma same_codes: "\<exists>codes. st = st\<lparr>st_codes := codes\<rparr>"
  by (rule exI [of _ "st_codes st"]) simp

lemma byoidc_state_frame:
  assumes "st_auth_mode (w_state w) = Byoidc"
    and "handle_request web env ext now unix_now now' req collected w = (out, w')"
  shows "\<exists>codes. w_state w' = (w_state w)\<lparr>st_codes := codes\<rparr>"
proof -
  have w': "w' = snd (handle_request web env ext now unix_now now' req collected w)"
    by (simp add: assms(2))
  have get: "\<exists>codes. w_state (snd (handle_authorize_get web env now req w)) = (w_state w)\<lparr>st_codes := codes\<rparr>"
    unfolding authorize_get_grant(2) by (rule granted_state_frame)
  have post: "\<exists>codes. w_state (snd (handle_authorize_post web env now b w)) = (w_state w)\<lparr>st_codes := codes\<rparr>" for b
    unfolding authorize_post_grant(2) by (rule granted_state_frame)
  show ?thesis
    unfolding w' handle_request_def Let_def
    using assms(1) get post same_codes [of "w_state w"]
    by (auto simp: split_beta byoidc_handlers_frame split: option.splits)
qed

end
