(* ===== verification/OAuth_Runs.thy ===== *)
theory OAuth_Runs
  imports OAuth_Server
begin

text \<open>
  Runs of the OAuth server at the level of whole requests.  Every request that \<^verbatim>\<open>handle_request\<close>
  answers, every eviction and every reload of the user store is a sequence of steps of the
  transition system, so what holds of its reachable states holds of every run.
\<close>

section \<open>Definitions\<close>

text \<open>
  What a server is given: requests with the times at which they are handled and their body
  (\<^const>\<open>None\<close> if it cannot be read), ticks of the eviction task, and events of the user store.
\<close>

datatype input =
    Request nat u64 nat request "bytes option"
  | EvictTick nat nat
  | Reload "secret option"

text \<open>\<^verbatim>\<open>interval.tick()\<close> of the eviction task.\<close>

definition evict_tick :: "nat \<Rightarrow> nat \<Rightarrow> oauth_state \<Rightarrow> oauth_state" where
  "evict_tick now now' st = evict_tokens now' (evict_codes now st)"

fun run_input :: "weblib \<Rightarrow> api_server \<Rightarrow> ext_server \<Rightarrow> input \<Rightarrow> world \<Rightarrow> outcome option \<times> world" where
  "run_input web env ext (Request now unix_now now' req collected) w =
     (case handle_request web env ext now unix_now now' req collected w of (out, w') \<Rightarrow> (Some out, w'))"
| "run_input web env ext (EvictTick now now') w = (None, w\<lparr>w_state := evict_tick now now' (w_state w)\<rparr>)"
| "run_input web env ext (Reload e) w =
     (None, w\<lparr>w_state := (w_state w)\<lparr>st_user_store := htpasswd_event e (st_user_store (w_state w))\<rparr>\<rparr>)"

section \<open>Specification\<close>

text \<open>The code that an input makes the server issue, and the one it exchanges for a token.\<close>

fun granted_by :: "weblib \<Rightarrow> api_server \<Rightarrow> world \<Rightarrow> input \<Rightarrow> (string \<times> string) option" where
  "granted_by web env w (Request now unix_now now' req collected) =
     (if rq_path req \<noteq> ''/oauth/authorize'' then None
      else if rq_method req = ''GET''
      then (if st_auth_mode (w_state w) = Byoidc \<and> \<not> is_cli_auth_request req then None
            else code_grant env w (parse_query web (rq_query req)) (header_credentials web (rq_headers req)))
      else if rq_method req = ''POST''
      then Option.bind collected (\<lambda>body.
             code_grant env w (parse_form_body web body) (form_credentials (parse_form_body web body)))
      else None)"
| "granted_by web env w i = None"

definition issued_by :: "weblib \<Rightarrow> api_server \<Rightarrow> world \<Rightarrow> input \<Rightarrow> string list" where
  "issued_by web env w i = (if granted_by web env w i = None then [] else [fresh_code w])"

fun presented_code :: "weblib \<Rightarrow> world \<Rightarrow> input \<Rightarrow> string option" where
  "presented_code web w (Request now unix_now now' req (Some body)) =
     (if rq_method req = ''POST'' \<and> rq_path req = ''/oauth/token'' \<and> st_auth_mode (w_state w) \<noteq> Byoidc
      then parse_form_body web body ''code'' else None)"
| "presented_code web w i = None"

definition answered_ok :: "outcome option \<Rightarrow> bool" where
  "answered_ok out = (case out of Some (Answer r) \<Rightarrow> rs_status r = OK | _ \<Rightarrow> False)"

definition exchanged_by :: "weblib \<Rightarrow> api_server \<Rightarrow> ext_server \<Rightarrow> world \<Rightarrow> input \<Rightarrow> string list" where
  "exchanged_by web env ext w i =
     (case presented_code web w i of
        Some c \<Rightarrow> if answered_ok (fst (run_input web env ext i w)) then [c] else []
      | None \<Rightarrow> [])"

fun run_inputs :: "weblib \<Rightarrow> api_server \<Rightarrow> ext_server \<Rightarrow> input list \<Rightarrow> world \<Rightarrow> world" where
  "run_inputs web env ext [] w = w"
| "run_inputs web env ext (i # is) w = run_inputs web env ext is (snd (run_input web env ext i w))"

fun issued_codes :: "weblib \<Rightarrow> api_server \<Rightarrow> ext_server \<Rightarrow> input list \<Rightarrow> world \<Rightarrow> string list" where
  "issued_codes web env ext [] w = []"
| "issued_codes web env ext (i # is) w =
     issued_by web env w i @ issued_codes web env ext is (snd (run_input web env ext i w))"

fun exchanged_codes :: "weblib \<Rightarrow> api_server \<Rightarrow> ext_server \<Rightarrow> input list \<Rightarrow> world \<Rightarrow> string list" where
  "exchanged_codes web env ext [] w = []"
| "exchanged_codes web env ext (i # is) w =
     exchanged_by web env ext w i @ exchanged_codes web env ext is (snd (run_input web env ext i w))"

text \<open>
  The shape of the state: signing keys exactly in JWT mode, settings of a provider exactly in
  provider mode, and its keys exactly with its settings.
\<close>

definition oauth_wf :: "oauth_state \<Rightarrow> bool" where
  "oauth_wf st \<longleftrightarrow>
     (st_jwt_keys st \<noteq> None \<longleftrightarrow> st_auth_mode st = Oidc) \<and>
     (st_byoidc st \<noteq> None \<longleftrightarrow> st_auth_mode st = Byoidc) \<and>
     (st_external_jwks st \<noteq> None \<longleftrightarrow> st_byoidc st \<noteq> None)"

text \<open>What a server was configured with and never changes.\<close>

definition configuration ::
    "oauth_state \<Rightarrow> auth_mode \<times> jwt_keys option \<times> byoidc_config option \<times> jwks_cache option" where
  "configuration st = (st_auth_mode st, st_jwt_keys st, st_byoidc st, st_external_jwks st)"

text \<open>The authorization endpoint of a provider is a hierarchical URL, if it is a URL at all.\<close>

definition endpoint_hierarchical :: "weblib \<Rightarrow> oauth_state \<Rightarrow> bool" where
  "endpoint_hierarchical web st =
     (case st_external_jwks st of
        None \<Rightarrow> True
      | Some cache \<Rightarrow>
          (case url_parse web (ed_authorization_endpoint (jc_discovery cache)) of
             None \<Rightarrow> True
           | Some u \<Rightarrow> starts_with (url_path web u) ''/''))"

text \<open>The URL library reads an absolute path after the provider's own host.\<close>

definition origin_parses :: "weblib \<Rightarrow> bool" where
  "origin_parses web \<longleftrightarrow> (\<forall>p. starts_with p ''/'' \<longrightarrow> url_parse web ((''https://entra.'' @ DOMAIN) @ p) \<noteq> None)"

section \<open>Lemmas\<close>

text \<open>
  A world is reached from a server with some codes issued and some exchanged, and no request
  left under way.
\<close>

definition reaches :: "weblib \<Rightarrow> server \<Rightarrow> string list \<Rightarrow> string list \<Rightarrow> world \<Rightarrow> server \<Rightarrow> bool" where
  "reaches web sv issued exchanged w' sv' \<longleftrightarrow>
     (oauth_step web)\<^sup>*\<^sup>* sv sv' \<and> sv_world sv' = w' \<and>
     sv_begun sv' = sv_begun sv \<and> sv_cleared sv' = sv_cleared sv \<and>
     map fst (sv_issued sv') = map fst (sv_issued sv) @ issued \<and>
     rev (map pd_code (sv_minted sv')) = rev (map pd_code (sv_minted sv)) @ exchanged"

lemma reaches_trans:
  "reaches web sv is xs (sv_world sv') sv' \<Longrightarrow> reaches web sv' is' xs' w sv'' \<Longrightarrow>
   reaches web sv (is @ is') (xs @ xs') w sv''"
  by (auto simp: reaches_def)

lemma reaches_refl: "reaches web sv [] [] (sv_world sv) sv"
  by (simp add: reaches_def)

lemma reaches_step:
  assumes "oauth_step web sv sv'" and "sv_begun sv' = sv_begun sv" and "sv_cleared sv' = sv_cleared sv"
    and "sv_issued sv' = sv_issued sv" and "sv_minted sv' = sv_minted sv"
  shows "reaches web sv [] [] (sv_world sv') sv'"
  using assms by (simp add: reaches_def r_into_rtranclp)

lemma reaches_calls:
  "reaches web sv [] [] ((sv_world sv)\<lparr>w_log := l, w_ext := x\<rparr>)
     (sv\<lparr>sv_world := (sv_world sv)\<lparr>w_log := l, w_ext := x\<rparr>\<rparr>)"
  using reaches_step [OF oauth_step.calls [of web sv x l]] by simp

lemma reaches_calls_ex:
  assumes "calls_only (sv_world sv) w'"
  shows "\<exists>sv'. reaches web sv [] [] w' sv'"
  using assms reaches_calls unfolding calls_only_def by blast

subsection \<open>Handlers that leave the state alone\<close>

lemma authorize_post_calls:
  "rs_status (fst (handle_authorize_post web env now body w)) \<noteq> FOUND \<Longrightarrow>
   calls_only w (snd (handle_authorize_post web env now body w))"
  by (auto simp: handle_authorize_post_def Let_def split_beta split: option.splits if_splits)

lemma authorize_get_calls:
  "rs_status (fst (handle_authorize_get web env now req w)) \<noteq> FOUND \<Longrightarrow>
   calls_only w (snd (handle_authorize_get web env now req w))"
  by (auto simp: handle_authorize_get_def Let_def split_beta split: option.splits if_splits)

subsection \<open>Authorization\<close>

lemma reaches_issue:
  assumes "authenticate (st_user_store (sv_state sv)) u p \<noteq> None"
    and "fresh_code (sv_world sv) \<notin> fst ` set (sv_issued sv)"
  shows "\<exists>sv'. reaches web sv [fresh_code (sv_world sv)] []
    (snd (issue_auth_code web now u cid uri s cc ccm ((sv_world sv)\<lparr>w_log := l\<rparr>))) sv'"
proof -
  let ?in = "sv\<lparr>sv_authed := insert u (sv_authed sv)\<rparr>"
  let ?called = "?in\<lparr>sv_world := (sv_world sv)\<lparr>w_log := l\<rparr>\<rparr>"
  obtain r w' where code: "issue_auth_code web now u cid uri s cc ccm (sv_world ?called) = (r, w')"
    by fastforce
  let ?ac = "\<lparr>ac_username = u, ac_client_id = cid, ac_created = now, ac_code_challenge = cc,
    ac_code_challenge_method = ccm\<rparr>"
  let ?out = "?called\<lparr>sv_world := w', sv_issued := sv_issued ?called @ [(fresh_code (sv_world ?called), ?ac)]\<rparr>"
  have "oauth_step web sv ?in" using assms(1) by (rule oauth_step.login)
  moreover have "oauth_step web ?in ?called"
    using oauth_step.calls [of web ?in "w_ext (sv_world sv)" l] by simp
  moreover have "oauth_step web ?called ?out"
    by (rule oauth_step.issue [OF _ _ code]) (use assms(2) in simp_all)
  ultimately have "(oauth_step web)\<^sup>*\<^sup>* sv ?out"
    by (iprover intro: converse_rtranclp_into_rtranclp r_into_rtranclp)
  then have "reaches web sv [fresh_code (sv_world sv)] [] w' ?out"
    by (simp add: reaches_def)
  with code show ?thesis by auto
qed

lemma reaches_authorize_post:
  assumes "rs_status (fst (handle_authorize_post web env now body (sv_world sv))) = FOUND"
    and "fresh_code (sv_world sv) \<notin> fst ` set (sv_issued sv)"
  shows "\<exists>sv'. reaches web sv [fresh_code (sv_world sv)] []
    (snd (handle_authorize_post web env now body (sv_world sv))) sv'"
  using assms(1) by (elim handle_authorize_post_redirect) (metis reaches_issue assms(2))

lemma reaches_authorize_get:
  assumes "rs_status (fst (handle_authorize_get web env now req (sv_world sv))) = FOUND"
    and "fresh_code (sv_world sv) \<notin> fst ` set (sv_issued sv)"
  shows "\<exists>sv'. reaches web sv [fresh_code (sv_world sv)] []
    (snd (handle_authorize_get web env now req (sv_world sv))) sv'"
  using assms(1) by (elim handle_authorize_get_redirect) (metis reaches_issue assms(2))

subsection \<open>Requests, evictions, reloads\<close>

text \<open>The three endpoints that change the state; every other request only calls other servers.\<close>

abbreviation authorizes_get :: "world \<Rightarrow> request \<Rightarrow> bool" where
  "authorizes_get w req \<equiv> rq_method req = ''GET'' \<and> rq_path req = ''/oauth/authorize'' \<and>
     \<not> (st_auth_mode (w_state w) = Byoidc \<and> \<not> is_cli_auth_request req)"

abbreviation authorizes_post :: "request \<Rightarrow> bool" where
  "authorizes_post req \<equiv> rq_method req = ''POST'' \<and> rq_path req = ''/oauth/authorize''"

abbreviation exchanges :: "world \<Rightarrow> request \<Rightarrow> bool" where
  "exchanges w req \<equiv> rq_method req = ''POST'' \<and> rq_path req = ''/oauth/token'' \<and> st_auth_mode (w_state w) \<noteq> Byoidc"

lemma handle_request_authorize_get:
  "authorizes_get w req \<Longrightarrow> handle_request web env ext now unix_now now' req collected w =
   (case handle_authorize_get web env now req w of (r, w') \<Rightarrow> (Answer r, w'))"
  by (auto simp: handle_request_def Let_def)

lemma handle_request_authorize_post:
  "authorizes_post req \<Longrightarrow> handle_request web env ext now unix_now now' req (Some body) w =
   (case handle_authorize_post web env now body w of (r, w') \<Rightarrow> (Answer r, w'))"
  by (simp add: handle_request_def)

lemma handle_request_token:
  "exchanges w req \<Longrightarrow> handle_request web env ext now unix_now now' req (Some body) w =
   (case handle_token web env now unix_now now' body (header_str web (rq_headers req) ''authorization'') w of
      (r, w') \<Rightarrow> (Answer r, w'))"
  by (simp add: handle_request_def)

lemma handle_request_calls:
  assumes "\<not> authorizes_get w req"
    and "collected \<noteq> None \<Longrightarrow> \<not> authorizes_post req \<and> \<not> exchanges w req"
  shows "calls_only w (snd (handle_request web env ext now unix_now now' req collected w))"
  using assms unfolding handle_request_def Let_def
  by (auto simp: split_beta split: option.splits)

lemma issued_by_authorize_get:
  "authorizes_get w req \<Longrightarrow> issued_by web env w (Request now unix_now now' req collected) =
   (if rs_status (fst (handle_authorize_get web env now req w)) = FOUND then [fresh_code w] else [])"
  unfolding authorize_get_grant(1) by (auto simp: issued_by_def)

lemma issued_by_authorize_post:
  "authorizes_post req \<Longrightarrow> issued_by web env w (Request now unix_now now' req (Some body)) =
   (if rs_status (fst (handle_authorize_post web env now body w)) = FOUND then [fresh_code w] else [])"
  unfolding authorize_post_grant(1) by (auto simp: issued_by_def)

lemma reaches_token:
  assumes "exchanges (sv_world sv) req"
    and i_def: "i = Request now unix_now now' req (Some body)"
  shows "\<exists>sv'. reaches web sv [] (exchanged_by web env ext (sv_world sv) i)
    (snd (run_input web env ext i (sv_world sv))) sv'"
proof -
  obtain r w' where run: "handle_token web env now unix_now now' body
      (header_str web (rq_headers req) ''authorization'') (sv_world sv) = (r, w')" by fastforce
  then have ri: "run_input web env ext i (sv_world sv) = (Some (Answer r), w')"
    using assms(1) by (simp add: i_def handle_request_token)
  from handle_token_steps [OF run] obtain sv' where sv': "(oauth_step web)\<^sup>*\<^sup>* sv sv'" "sv_world sv' = w'"
    "sv_begun sv' = sv_begun sv" "sv_cleared sv' = sv_cleared sv" "sv_issued sv' = sv_issued sv"
    "if rs_status r = OK
     then \<exists>pd. sv_minted sv' = pd # sv_minted sv \<and> parse_form_body web body ''code'' = Some (pd_code pd)
     else sv_minted sv' = sv_minted sv" by blast
  have "presented_code web (sv_world sv) i = parse_form_body web body ''code''"
    using assms(1) by (simp add: i_def)
  with sv' ri have "reaches web sv [] (exchanged_by web env ext (sv_world sv) i) w' sv'"
    by (auto simp: reaches_def exchanged_by_def answered_ok_def split: if_splits option.splits)
  with ri show ?thesis by auto
qed

lemma reaches_request:
  assumes fresh: "distinct (map fst (sv_issued sv) @ issued_by web env (sv_world sv) i)"
    and i: "i = Request now unix_now now' req collected"
  shows "\<exists>sv'. reaches web sv (issued_by web env (sv_world sv) i) (exchanged_by web env ext (sv_world sv) i)
    (snd (run_input web env ext i (sv_world sv))) sv'"
proof -
  consider (get) "authorizes_get (sv_world sv) req"
    | (post) body where "authorizes_post req" "collected = Some body"
    | (token) body where "exchanges (sv_world sv) req" "collected = Some body"
    | (other) "\<not> authorizes_get (sv_world sv) req"
        "collected \<noteq> None \<Longrightarrow> \<not> authorizes_post req \<and> \<not> exchanges (sv_world sv) req"
    by (cases collected) auto
  then show ?thesis
  proof cases
    case get
    then have "presented_code web (sv_world sv) i = None" by (cases collected) (auto simp: i)
    moreover have "\<exists>sv'. reaches web sv (issued_by web env (sv_world sv) i) []
        (snd (handle_authorize_get web env now req (sv_world sv))) sv'"
      using fresh reaches_authorize_get reaches_calls_ex [OF authorize_get_calls]
      unfolding i issued_by_authorize_get [OF get] by (simp split: if_splits)
    ultimately show ?thesis
      using get by (simp add: i exchanged_by_def handle_request_authorize_get split_beta)
  next
    case post
    have "\<exists>sv'. reaches web sv (issued_by web env (sv_world sv) i) []
        (snd (handle_authorize_post web env now body (sv_world sv))) sv'"
      using fresh reaches_authorize_post reaches_calls_ex [OF authorize_post_calls]
      unfolding i post(2) issued_by_authorize_post [OF post(1)] by (simp split: if_splits)
    with post show ?thesis
      by (simp add: i exchanged_by_def handle_request_authorize_post split_beta)
  next
    case token
    with reaches_token [OF token(1)] show ?thesis by (simp add: i issued_by_def)
  next
    case other
    then have "granted_by web env (sv_world sv) i = None" "presented_code web (sv_world sv) i = None"
      by (cases collected; auto simp: i)+
    with reaches_calls_ex [OF handle_request_calls [OF other]] show ?thesis
      by (simp add: i issued_by_def exchanged_by_def split_beta)
  qed
qed

lemma reaches_input:
  assumes "distinct (map fst (sv_issued sv) @ issued_by web env (sv_world sv) i)"
  shows "\<exists>sv'. reaches web sv (issued_by web env (sv_world sv) i) (exchanged_by web env ext (sv_world sv) i)
    (snd (run_input web env ext i (sv_world sv))) sv'"
proof (cases i)
  case (Request now unix_now now' req collected)
  with reaches_request [OF assms] show ?thesis by blast
next
  case (EvictTick now now')
  with reaches_step [OF oauth_step.evict [of web sv now' now]] show ?thesis
    by (auto simp: issued_by_def exchanged_by_def set_state_def evict_tick_def)
next
  case (Reload e)
  with reaches_step [OF oauth_step.reload [of web sv e]] show ?thesis
    by (auto simp: issued_by_def exchanged_by_def set_state_def)
qed

lemma reaches_inputs:
  "distinct (map fst (sv_issued sv) @ issued_codes web env ext is (sv_world sv)) \<Longrightarrow>
   \<exists>sv'. reaches web sv (issued_codes web env ext is (sv_world sv)) (exchanged_codes web env ext is (sv_world sv))
     (run_inputs web env ext is (sv_world sv)) sv'"
proof (induction "is" arbitrary: sv)
  case Nil
  then show ?case using reaches_refl by auto
next
  case (Cons i "is")
  let ?w' = "snd (run_input web env ext i (sv_world sv))"
  from Cons.prems have "distinct (map fst (sv_issued sv) @ issued_by web env (sv_world sv) i)" by auto
  from reaches_input [OF this, of ext] obtain sv1 where sv1: "reaches web sv (issued_by web env (sv_world sv) i)
      (exchanged_by web env ext (sv_world sv) i) ?w' sv1" by blast
  then have w1: "sv_world sv1 = ?w'"
    and "map fst (sv_issued sv1) = map fst (sv_issued sv) @ issued_by web env (sv_world sv) i"
    by (simp_all add: reaches_def)
  with Cons.prems have "distinct (map fst (sv_issued sv1) @ issued_codes web env ext is (sv_world sv1))" by simp
  from Cons.IH [OF this] obtain sv2 where "reaches web sv1 (issued_codes web env ext is ?w')
      (exchanged_codes web env ext is ?w') (run_inputs web env ext is ?w') sv2"
    unfolding w1 by blast
  from reaches_trans [OF sv1 [folded w1] this] show ?case by (auto simp: w1)
qed

subsection \<open>Configuration\<close>

lemma configuration_update [simp]:
  "configuration (st\<lparr>st_codes := codes\<rparr>) = configuration st"
  "configuration (st\<lparr>st_tokens := tokens\<rparr>) = configuration st"
  "configuration (st\<lparr>st_user_store := users\<rparr>) = configuration st"
  by (simp_all add: configuration_def)

lemma configuration_granted: "configuration (granted_state now w params g) = configuration (w_state w)"
  using granted_state_frame [of now w params g] by auto

lemma configuration_begin:
  "token_begin web now body authz st = (v, st') \<Longrightarrow> configuration st' = configuration st"
  using token_begin_state [of web now body authz st] by auto

lemma configuration_token:
  assumes "handle_token web env now unix_now now' body authz w = (r, w')"
  shows "configuration (w_state w') = configuration (w_state w)"
  using assms
proof (cases rule: handle_token_cases)
  case (finished pd st l st' rng')
  then show ?thesis
    using token_finish_state [OF finished(3)] configuration_begin [OF finished(1)] by auto
qed (auto dest: configuration_begin)

lemma configuration_request:
  "configuration (w_state (snd (handle_request web env ext now unix_now now' req collected w))) = configuration (w_state w)"
proof -
  consider (get) "authorizes_get w req"
    | (post) body where "authorizes_post req" "collected = Some body"
    | (token) body where "exchanges w req" "collected = Some body"
    | (other) "calls_only w (snd (handle_request web env ext now unix_now now' req collected w))"
    using handle_request_calls by (cases collected) blast+
  then show ?thesis
  proof cases
    case get
    then show ?thesis
      unfolding handle_request_authorize_get [OF get]
      by (simp add: split_beta authorize_get_grant(2) configuration_granted)
  next
    case post
    then show ?thesis
      unfolding post(2) handle_request_authorize_post [OF post(1)]
      by (simp add: split_beta authorize_post_grant(2) configuration_granted)
  next
    case token
    then show ?thesis
      unfolding token(2) handle_request_token [OF token(1)]
      by (simp add: split_beta configuration_token [OF prod.collapse [symmetric]])
  next
    case other
    then show ?thesis by (simp add: calls_only_state)
  qed
qed

lemma configuration_input: "configuration (w_state (snd (run_input web env ext i w))) = configuration (w_state w)"
  by (cases i) (simp_all add: split_beta configuration_request evict_tick_def evict_codes_def evict_tokens_def)

lemma configuration_run: "configuration (w_state (run_inputs web env ext is w)) = configuration (w_state w)"
  by (induction "is" arbitrary: w) (simp_all add: configuration_input)

lemma oauth_wf_configuration: "configuration st = configuration st' \<Longrightarrow> oauth_wf st = oauth_wf st'"
  by (auto simp: configuration_def oauth_wf_def)

lemma endpoint_hierarchical_configuration:
  "configuration st = configuration st' \<Longrightarrow> endpoint_hierarchical web st = endpoint_hierarchical web st'"
  by (auto simp: configuration_def endpoint_hierarchical_def)

text \<open>A panic can only come from the redirect to a provider.\<close>

lemma byoidc_authorize_answers:
  assumes "endpoint_hierarchical web st" and "origin_parses web"
  shows "handle_byoidc_authorize web st req \<noteq> None"
proof -
  have "url_parse web ((''https://entra.'' @ DOMAIN) @ url_path web u) \<noteq> None"
    if "st_external_jwks st = Some cache" and "url_parse web (ed_authorization_endpoint (jc_discovery cache)) = Some u"
    for cache u
    using assms that by (simp add: endpoint_hierarchical_def origin_parses_def)
  then show ?thesis
    unfolding handle_byoidc_authorize_def Let_def
    by (auto simp: bind_eq_Some_conv simp del: append.simps append_assoc split: option.split)
qed

lemma handle_request_answers:
  assumes "endpoint_hierarchical web (w_state w)" and "origin_parses web"
  shows "fst (handle_request web env ext now unix_now now' req collected w) \<noteq> Panic"
  using byoidc_authorize_answers [OF assms, of req]
  unfolding handle_request_def Let_def by (auto simp: split_beta split: option.splits)

end
