(* ===== verification/OAuth_Props.thy ===== *)
theory OAuth_Props
  imports OAuth_Runs
begin

text \<open>
  The properties of the OAuth server, each with an example on which its hypotheses hold.
\<close>

section \<open>Examples\<close>

definition example_state :: oauth_state where
  "example_state = \<lparr>st_codes = Map.empty, st_tokens = Map.empty,
     st_user_store = store_load (\<lambda>_. None) (\<lambda>_. None) None, st_auth_mode = Legacy,
     st_jwt_keys = None, st_byoidc = None, st_external_jwks = None\<rparr>"

definition example_world :: world where
  "example_world = \<lparr>w_state = example_state, w_rng = sconst (CHR ''a''), w_log = [], w_ext = []\<rparr>"

definition example_server :: server where
  "example_server = \<lparr>sv_world = example_world, sv_begun = {#}, sv_cleared = {#}, sv_authed = {},
     sv_issued = [], sv_minted = []\<rparr>"

definition example_code :: auth_code where
  "example_code = \<lparr>ac_username = ''admin'', ac_client_id = ''c'', ac_created = 0,
     ac_code_challenge = Some ''v'', ac_code_challenge_method = Some ''plain''\<rparr>"

definition example_pending :: pending where
  "example_pending = \<lparr>pd_code = replicate 32 (CHR ''a''), pd_auth_code = example_code,
     pd_client_id = ''c'', pd_client_secret = []\<rparr>"

definition example_token_body :: bytes where
  "example_token_body = ''grant_type=authorization_code&code=aaaaaaaaaaaaaaaaaaaaaaaaaaaaaaaa&client_id=c&code_verifier=v''"

definition example_login_body :: bytes where
  "example_login_body = ''client_id=c&redirect_uri=http://c/cb&username=admin&password=admin&code_challenge=v&code_challenge_method=plain''"

text \<open>An API server that knows one client.\<close>

definition example_api :: api_server where
  "example_api l r = (case r of
     Get _ _ _ \<Rightarrow> RObj (KDyn \<lparr>do_meta = default_meta,
       do_data = JObject [(''secret'', JString ''s''), (''redirectURIs'', JStrings [''http://c/''])]\<rparr>)
   | _ \<Rightarrow> RErr (Api 500))"

lemma example_token_params:
  "parse_form_body plain_web example_token_body ''grant_type'' = Some ''authorization_code''"
  "parse_form_body plain_web example_token_body ''code'' = Some (replicate 32 (CHR ''a''))"
  "parse_form_body plain_web example_token_body ''client_id'' = Some ''c''"
  "parse_form_body plain_web example_token_body ''code_verifier'' = Some ''v''"
  "parse_form_body plain_web example_token_body ''client_secret'' = None"
  by (simp_all add: parse_form_body_def plain_web_def example_token_body_def collect_map_def eval_nat_numeral)

lemma example_login_params:
  "parse_form_body plain_web example_login_body ''client_id'' = Some ''c''"
  "parse_form_body plain_web example_login_body ''redirect_uri'' = Some ''http://c/cb''"
  "parse_form_body plain_web example_login_body ''username'' = Some ''admin''"
  "parse_form_body plain_web example_login_body ''password'' = Some ''admin''"
  "parse_form_body plain_web example_login_body ''state'' = None"
  "parse_form_body plain_web example_login_body ''code_challenge'' = Some ''v''"
  "parse_form_body plain_web example_login_body ''code_challenge_method'' = Some ''plain''"
  by (simp_all add: parse_form_body_def plain_web_def example_login_body_def collect_map_def)

lemma example_random: "fst (generate_random_string n (sconst x)) = replicate n x"
  by (simp add: generate_random_string_def map_replicate_const)

lemma example_authenticates: "authenticate (st_user_store example_state) ''admin'' ''admin'' \<noteq> None"
  by (simp add: example_state_def store_load_def authenticate_def Let_def)

definition example_issued :: server where
  "example_issued = example_server\<lparr>
     sv_world := snd (issue_auth_code plain_web 0 ''admin'' ''c'' ''http://c/cb'' [] (Some ''v'')
       (Some ''plain'') example_world),
     sv_authed := {''admin''}, sv_issued := [(replicate 32 (CHR ''a''), example_code)]\<rparr>"

lemma example_issued_steps: "(oauth_step plain_web)\<^sup>*\<^sup>* example_server example_issued"
proof -
  let ?sv = "example_server\<lparr>sv_authed := insert ''admin'' (sv_authed example_server)\<rparr>"
  have 1: "oauth_step plain_web example_server ?sv"
    by (rule oauth_step.login [where p = "''admin''"])
       (use example_authenticates in \<open>simp add: example_server_def example_world_def\<close>)
  have "oauth_step plain_web ?sv (?sv\<lparr>
      sv_world := snd (issue_auth_code plain_web 0 ''admin'' ''c'' ''http://c/cb'' [] (Some ''v'')
        (Some ''plain'') (sv_world ?sv)),
      sv_issued := sv_issued ?sv @ [(fresh_code (sv_world ?sv), \<lparr>ac_username = ''admin'',
        ac_client_id = ''c'', ac_created = 0, ac_code_challenge = Some ''v'',
        ac_code_challenge_method = Some ''plain''\<rparr>)]\<rparr>)"
    by (rule oauth_step.issue [OF _ _ prod.collapse [symmetric]]) (simp_all add: example_server_def)
  then have "oauth_step plain_web ?sv example_issued"
    by (simp add: example_issued_def example_server_def example_world_def example_random example_code_def)
  with 1 show ?thesis by (meson converse_rtranclp_into_rtranclp r_into_rtranclp)
qed

lemma example_codes: "st_codes (sv_state example_issued) = [replicate 32 (CHR ''a'') \<mapsto> example_code]"
  by (simp add: example_issued_def issue_auth_code_state example_world_def example_random
      example_code_def example_state_def)

lemma example_accepts:
  "token_accepts plain_web 5 example_token_body None (st_codes (sv_state example_issued)) example_pending"
  by (simp add: token_accepts_def example_token_params example_pending_def token_client_id_def
      example_codes example_code_def pkce_ok_def verify_pkce_def elapsed_def CODE_TTL_def from_secs_def)

lemma example_keys: "st_jwt_keys (sv_state example_issued) = None"
  by (simp add: example_issued_def issue_auth_code_state example_world_def example_state_def)

lemma example_token_OK:
  "rs_status (fst (handle_token plain_web env 5 100 7 example_token_body None (sv_world example_issued))) = OK"
  unfolding handle_token_OK_iff
  by (rule exI [of _ example_pending])
     (use example_accepts example_keys in \<open>simp add: client_cleared_def example_pending_def example_code_def jwt_encodes_def\<close>)

lemma example_init: "server_init example_server"
  by (simp add: server_init_def example_server_def example_world_def example_state_def)

lemma example_run:
  "\<exists>sv. (oauth_step plain_web)\<^sup>*\<^sup>* example_server sv \<and> length (sv_minted sv) = 1"
proof -
  obtain r w' where run: "handle_token plain_web example_api 5 100 7 example_token_body None
      (sv_world example_issued) = (r, w')" by fastforce
  then have "rs_status r = OK" using example_token_OK [of example_api] by simp
  with handle_token_steps [OF run] obtain sv where
    "(oauth_step plain_web)\<^sup>*\<^sup>* example_issued sv" "length (sv_minted sv) = Suc (length (sv_minted example_issued))"
    by auto
  moreover have "sv_minted example_issued = []" by (simp add: example_issued_def example_server_def)
  ultimately show ?thesis using example_issued_steps by (auto intro: rtranclp_trans)
qed

text \<open>A log-in and two exchanges of the code it obtains.\<close>

definition example_login :: input where
  "example_login = Request 0 0 0 \<lparr>rq_method = ''POST'', rq_path = ''/oauth/authorize'', rq_query = None,
     rq_headers = [], rq_body = example_login_body\<rparr> (Some example_login_body)"

definition example_exchange :: input where
  "example_exchange = Request 5 100 7 \<lparr>rq_method = ''POST'', rq_path = ''/oauth/token'', rq_query = None,
     rq_headers = [], rq_body = example_token_body\<rparr> (Some example_token_body)"

definition example_inputs :: "input list" where
  "example_inputs = [example_login, example_exchange, example_exchange]"

lemma example_client: "fst (validate_client example_api ''c'' []) = Some (''s'', [''http://c/''])"
  by (simp add: validate_client_def api_get_def perform_def call_def example_api_def client_of_object_def
      get_str_def)

lemma example_grant:
  "code_grant example_api example_world (parse_form_body plain_web example_login_body)
     (form_credentials (parse_form_body plain_web example_login_body)) = Some (''admin'', ''c'')"
  using example_authenticates
  by (simp add: code_grant_def form_credentials_def example_login_params example_world_def example_client
      registered_redirect_def)

lemma example_issued_by: "issued_by plain_web example_api example_world example_login = [replicate 32 (CHR ''a'')]"
  "issued_by plain_web example_api w example_exchange = []"
  by (simp_all add: issued_by_def example_login_def example_exchange_def example_grant)
     (simp add: example_world_def example_random)

lemma example_issued_codes:
  "issued_codes plain_web example_api (\<lambda>l q. None) example_inputs example_world = [replicate 32 (CHR ''a'')]"
  by (simp add: example_inputs_def example_issued_by)

lemma example_exchanges:
  "replicate 32 (CHR ''a'') \<in> set (exchanged_codes plain_web example_api (\<lambda>l q. None) example_inputs example_world)"
proof -
  let ?w = "snd (run_input plain_web example_api (\<lambda>l q. None) example_login example_world)"
  have st: "w_state ?w = granted_state 0 example_world (parse_form_body plain_web example_login_body) (Some (''admin'', ''c''))"
    unfolding example_grant [symmetric] authorize_post_grant(2) [symmetric]
    by (simp add: example_login_def handle_request_authorize_post split_beta)
  then have codes: "st_codes (w_state ?w) = [replicate 32 (CHR ''a'') \<mapsto> example_code]"
    and mode: "st_auth_mode (w_state ?w) = Legacy" and keys: "st_jwt_keys (w_state ?w) = None"
    by (simp_all add: granted_state_def example_login_params example_world_def example_state_def example_random example_code_def)
  have "token_accepts plain_web 5 example_token_body None (st_codes (w_state ?w)) example_pending"
    using example_accepts by (simp add: codes example_codes)
  with keys have "rs_status (fst (handle_token plain_web example_api 5 100 7 example_token_body None ?w)) = OK"
    unfolding handle_token_OK_iff
    by (intro exI [of _ example_pending])
       (simp add: client_cleared_def example_pending_def example_code_def jwt_encodes_def)
  then have "exchanged_by plain_web example_api (\<lambda>l q. None) ?w example_exchange = [replicate 32 (CHR ''a'')]"
    using mode by (simp add: exchanged_by_def example_exchange_def example_token_params answered_ok_def
        handle_request_token split_beta header_str_def)
  then show ?thesis by (simp add: example_inputs_def)
qed

section \<open>Properties\<close>

text \<open>
  C1.  No authorization code is ever exchanged for two tokens: in every run of the server,
  however token requests, log-ins, evictions and reloads interleave, the answered token
  requests carry pairwise different codes, and each code was issued before.
\<close>

theorem code_single_use:
  assumes "server_init sv" and "(oauth_step web)\<^sup>*\<^sup>* sv sv'"
  shows "distinct (map pd_code (sv_minted sv')) \<and>
    set (map pd_code (sv_minted sv')) \<subseteq> fst ` set (sv_issued sv')"
proof -
  have "code_inv sv'" using oauth.reachable_inv [OF assms] by (simp add: server_inv_def)
  then show ?thesis
    by (force simp: code_inv_minted_distinct code_inv_def in_flight_def)
qed

theorem code_single_use_witness:
  "\<exists>sv. (oauth_step plain_web)\<^sup>*\<^sup>* example_server sv \<and> length (sv_minted sv) = 1 \<and>
     distinct (map pd_code (sv_minted sv)) \<and>
     set (map pd_code (sv_minted sv)) \<subseteq> fst ` set (sv_issued sv)"
  using example_run code_single_use [OF example_init] by blast

text \<open>
  C2.  Every token in the store names a user who has logged in with a password of the user
  store, and every answered token request came from the client its code was issued to.
\<close>

theorem tokens_authentic:
  assumes "server_init sv" and "(oauth_step web)\<^sup>*\<^sup>* sv sv'"
  shows "(\<forall>t ti. st_tokens (sv_state sv') t = Some ti \<longrightarrow> ti_username ti \<in> sv_authed sv') \<and>
    (\<forall>pd \<in> set (sv_minted sv'). ac_client_id (pd_auth_code pd) = pd_client_id pd \<and>
       ac_username (pd_auth_code pd) \<in> sv_authed sv')"
proof -
  have "code_inv sv'" "user_inv sv'" using oauth.reachable_inv [OF assms] by (simp_all add: server_inv_def)
  then show ?thesis
    by (auto simp: code_inv_def user_inv_def in_flight_def)
qed

theorem tokens_authentic_witness:
  "\<exists>sv. length (sv_minted sv) = 1 \<and>
     (\<forall>t ti. st_tokens (sv_state sv) t = Some ti \<longrightarrow> ti_username ti \<in> sv_authed sv) \<and>
     (\<forall>pd \<in> set (sv_minted sv). ac_client_id (pd_auth_code pd) = pd_client_id pd \<and>
        ac_username (pd_auth_code pd) \<in> sv_authed sv)"
  using example_run tokens_authentic [OF example_init] by blast

text \<open>
  C3.  The token endpoint answers with a token exactly when the request names the
  authorization-code grant and a stored code that is at most five minutes old and belongs to
  the client that presents it, the code verifier matches the challenge of the code or, for a
  code without a challenge, the client is registered and its secret (if it has one) is given,
  and the token can be signed.
\<close>

theorem handle_token_success:
  "rs_status (fst (handle_token web env now unix_now now' body authz w)) = OK \<longleftrightarrow>
   (\<exists>pd. token_accepts web now body authz (st_codes (w_state w)) pd \<and>
      client_cleared env (w_log w) pd \<and> jwt_encodes web (w_state w) unix_now pd)"
  by (rule handle_token_OK_iff)

text \<open>
  C4.  Whole requests refine the transition system: whatever requests, evictions and reloads a
  server is given, as long as it draws no code twice, they are a sequence of steps that ends in
  the world \<^verbatim>\<open>handle_request\<close> computes, issues the codes granted and answers the token requests
  answered, in order, and leaves no request under way.
\<close>

theorem requests_refine:
  assumes "distinct (map fst (sv_issued sv) @ issued_codes web env ext is (sv_world sv))"
  shows "\<exists>sv'. (oauth_step web)\<^sup>*\<^sup>* sv sv' \<and> sv_world sv' = run_inputs web env ext is (sv_world sv) \<and>
    sv_begun sv' = sv_begun sv \<and> sv_cleared sv' = sv_cleared sv \<and>
    map fst (sv_issued sv') = map fst (sv_issued sv) @ issued_codes web env ext is (sv_world sv) \<and>
    rev (map pd_code (sv_minted sv')) =
      rev (map pd_code (sv_minted sv)) @ exchanged_codes web env ext is (sv_world sv)"
  using reaches_inputs [OF assms] by (simp add: reaches_def)

theorem requests_refine_witness:
  "\<exists>sv'. (oauth_step plain_web)\<^sup>*\<^sup>* example_server sv' \<and>
     sv_world sv' = run_inputs plain_web example_api (\<lambda>l q. None) example_inputs example_world \<and>
     map fst (sv_issued sv') = [replicate 32 (CHR ''a'')]"
  using requests_refine [of example_server plain_web example_api "\<lambda>l q. None" example_inputs]
  by (auto simp: example_server_def example_issued_codes)

text \<open>
  C5.  Replaying a code never works, whatever a client sends: on a server that starts with empty
  stores and draws no code twice, the codes that requests exchange for tokens are pairwise
  different, and the server issued each of them.
\<close>

theorem run_single_use:
  assumes "st_codes (w_state w) = Map.empty" and "st_tokens (w_state w) = Map.empty"
    and "distinct (issued_codes web env ext is w)"
  shows "distinct (exchanged_codes web env ext is w) \<and>
    set (exchanged_codes web env ext is w) \<subseteq> set (issued_codes web env ext is w)"
proof -
  let ?sv = "\<lparr>sv_world = w, sv_begun = {#}, sv_cleared = {#}, sv_authed = {}, sv_issued = [], sv_minted = []\<rparr>"
  obtain sv' where sv': "reaches web ?sv (issued_codes web env ext is w) (exchanged_codes web env ext is w)
      (run_inputs web env ext is w) sv'"
    using reaches_inputs [of ?sv web env ext "is"] assms(3) by auto
  have "server_init ?sv" using assms(1,2) by (simp add: server_init_def)
  with sv' oauth.reachable_inv have inv: "code_inv sv'"
    by (auto simp: reaches_def server_inv_def)
  have minted: "exchanged_codes web env ext is w = rev (map pd_code (sv_minted sv'))"
    and issued: "issued_codes web env ext is w = map fst (sv_issued sv')"
    using sv' by (simp_all add: reaches_def)
  show ?thesis
    unfolding minted issued using code_inv_minted_distinct [OF inv] inv
    by (force simp: code_inv_def in_flight_def)
qed

theorem run_single_use_witness:
  "exchanged_codes plain_web example_api (\<lambda>l q. None) example_inputs example_world = [replicate 32 (CHR ''a'')]"
proof -
  let ?xs = "exchanged_codes plain_web example_api (\<lambda>l q. None) example_inputs example_world"
  have "distinct ?xs \<and> set ?xs \<subseteq> {replicate 32 (CHR ''a'')}"
    using run_single_use [of example_world plain_web example_api "\<lambda>l q. None" example_inputs]
    by (simp add: example_issued_codes) (simp add: example_world_def example_state_def)
  then show ?thesis
    using example_exchanges by (cases ?xs; cases "tl ?xs") auto
qed

text \<open>
  C6.  Both authorization endpoints refine the same specification: the log-in form, with the
  credentials of the form, and the endpoint for command-line clients, with those of the
  \<^verbatim>\<open>Authorization\<close> header.  Each redirects exactly when a code is granted (a user of the store with the
  right password, a client known to the API server, an address that starts with one registered
  for the client), and the state of the server changes by that code and in no other way.
\<close>

theorem authorize_refines:
  fixes env :: api_server and w :: world
  defines "form \<equiv> \<lambda>web body. code_grant env w (parse_form_body web body) (form_credentials (parse_form_body web body))"
    and "basic \<equiv> \<lambda>web req. code_grant env w (parse_query web (rq_query req)) (header_credentials web (rq_headers req))"
  shows "(rs_status (fst (handle_authorize_post web env now body w)) = FOUND) = (form web body \<noteq> None) \<and>
    w_state (snd (handle_authorize_post web env now body w)) = granted_state now w (parse_form_body web body) (form web body) \<and>
    (rs_status (fst (handle_authorize_get web env now req w)) = FOUND) = (basic web req \<noteq> None) \<and>
    w_state (snd (handle_authorize_get web env now req w)) =
      granted_state now w (parse_query web (rq_query req)) (basic web req)"
  unfolding form_def basic_def
  by (intro conjI authorize_post_grant [where now = now] authorize_get_grant [where now = now])

text \<open>
  C7.  The eviction task cannot be noticed: at every later time the token endpoint answers with a
  token after a tick of the task exactly when it would have done so without it, and every answer
  of the user information endpoint is the same.
\<close>

theorem evictions_unobservable:
  assumes "t < now" and "t' < now"
  defines "tick \<equiv> \<lambda>st. evict_tick t t' st"
  shows "(rs_status (fst (handle_token web env now unix_now now' body authz (w\<lparr>w_state := tick (w_state w)\<rparr>))) = OK) =
      (rs_status (fst (handle_token web env now unix_now now' body authz w)) = OK) \<and>
    handle_userinfo web (tick st) now req = handle_userinfo web st now req"
proof
  show "(rs_status (fst (handle_token web env now unix_now now' body authz (w\<lparr>w_state := tick (w_state w)\<rparr>))) = OK) =
      (rs_status (fst (handle_token web env now unix_now now' body authz w)) = OK)"
    by (simp add: tick_def evict_tick_def handle_token_OK_iff token_accepts_evict [OF assms(1)])
  show "handle_userinfo web (tick st) now req = handle_userinfo web st now req"
    by (simp add: tick_def evict_tick_def handle_userinfo_def userinfo_username_evict [OF assms(2)] split: option.split)
qed

theorem evictions_unobservable_witness:
  "rs_status (fst (handle_token plain_web example_api 5 100 7 example_token_body None
      ((sv_world example_issued)\<lparr>w_state := evict_tick 3 4 (sv_state example_issued)\<rparr>))) = OK"
  using evictions_unobservable [of 3 5 4 plain_web example_api 100 7 example_token_body None "sv_world example_issued"]
  by (simp add: example_token_OK)


text \<open>A token that the example library verifies under every key.\<close>

definition byoidc_world :: world where
  "byoidc_world = example_world\<lparr>w_state := example_state\<lparr>st_auth_mode := Byoidc,
     st_external_jwks := Some \<lparr>jc_keys = [([], ''t'')], jc_discovery = empty_discovery\<rparr>\<rparr>\<rparr>"

definition bearer_request :: request where
  "bearer_request = \<lparr>rq_method = ''GET'', rq_path = ''/oauth/userinfo'', rq_query = None,
     rq_headers = [(''authorization'', ''Bearer t'')], rq_body = []\<rparr>"


text \<open>
  C10.  Nothing a client sends changes the markup of the log-in page: the angle brackets and
  quotes of the page, in order, do not depend on the parameters, and a browser that decodes the
  four entities of an escaped value gets the value back.
\<close>

theorem login_page_markup_fixed:
  "filter (\<lambda>c. c \<in> markup_chars) (login_form_html cid uri st rt err) =
     filter (\<lambda>c. c \<in> markup_chars) (login_form_html [] [] [] [] err) \<and>
   html_unescape (html_escape s) = s"
proof -
  have "filter (\<lambda>c. c \<in> markup_chars) (html_escape s) = filter (\<lambda>c. c \<in> markup_chars) (html_escape [])" for s
    by simp
  then show ?thesis
    unfolding login_form_html_def filter_append using html_unescape_escape by metis
qed

text \<open>
  C15.  The published RSA key is the key that was generated: parsing the DER form of a public
  key whose modulus carries the sign byte returns the modulus without that byte and the
  exponent, for every length the format can hold, in the short and in the long form.
\<close>

theorem rsa_key_read_back:
  assumes "length (der_integer n @ der_integer e) < 2 ^ 64"
  shows "parse_rsa_integers (der_rsa_key n e) = Some (if n \<noteq> [] \<and> hd n = 0 then tl n else n, e)"
  using assms by (intro parse_rsa_integers_der) (simp_all add: der_integer_def)

theorem rsa_key_read_back_witness:
  "parse_rsa_integers (der_rsa_key (0 # replicate 130 255) [1, 0, 1]) = Some (replicate 130 255, [1, 0, 1])"
proof -
  have "length (be_bytes 131) \<le> 1" by (rule length_be_bytes) simp_all
  then have "length (der_integer (0 # replicate 130 255) @ der_integer [1, 0, 1]) < 2 ^ 64"
    by (simp add: der_integer_def der_length_def)
  from rsa_key_read_back [OF this] show ?thesis by simp
qed

text \<open>
  The key cache holds the RSA keys of the provider's key set that can be read, under
  their identifiers, the last entry of an identifier winning; a token is accepted only when it
  verifies under one of them.
\<close>

lemma jwks_keys_last_entry:
  "map_of (load_keys web (JObject [(''keys'', JArray keys)])) = map_of (rev (rsa_entries web keys)) \<and>
   (validate_token web cache token = Some claims \<longrightarrow>
     (\<exists>kid dk. (kid, dk) \<in> set (jc_keys cache) \<and> jwt_verify web token dk = Some claims))"
  using validate_token_sound by (simp add: load_keys_def map_of_fold_load_key)

end
