(* ===== verification/Cli.thy ===== *)
theory Cli
  imports Kube Http
begin

text \<open>
  The command-line tool \<^verbatim>\<open>picoshift\<close> (\<^verbatim>\<open>cli/internal\<close>, \<^verbatim>\<open>cli/cmd\<close>): how it runs other programs, which
  images and programs it uses, and how it reads the state of a cluster.  Other programs are a
  parameter; what the tool prints about its own progress is dropped.
\<close>

section \<open>Definitions\<close>

subsection \<open>Strings and paths of the Go library\<close>

text \<open>
  \<^verbatim>\<open>strings.FieldsFunc\<close>, \<^verbatim>\<open>strings.Trim\<close> with a set of ASCII characters, \<^verbatim>\<open>strings.TrimPrefix\<close> and
  \<^verbatim>\<open>strings.HasSuffix\<close>.
\<close>

fun split_where :: "(char \<Rightarrow> bool) \<Rightarrow> string \<Rightarrow> string list" where
  "split_where f [] = [[]]"
| "split_where f (c # cs) =
     (if f c then [] # split_where f cs
      else (case split_where f cs of w # ws \<Rightarrow> (c # w) # ws | [] \<Rightarrow> [[c]]))"

definition fields_func :: "(char \<Rightarrow> bool) \<Rightarrow> string \<Rightarrow> string list" where
  "fields_func f s = filter (\<lambda>w. w \<noteq> []) (split_where f s)"

definition trim_chars :: "string \<Rightarrow> string \<Rightarrow> string" where
  "trim_chars cutset s =
     rev (dropWhile (\<lambda>c. c \<in> set cutset) (rev (dropWhile (\<lambda>c. c \<in> set cutset) s)))"

definition trim_prefix :: "string \<Rightarrow> string \<Rightarrow> string" where
  "trim_prefix s p = unwrap_or (strip_prefix p s) s"

definition has_suffix :: "string \<Rightarrow> string \<Rightarrow> bool" where
  "has_suffix s t = starts_with (rev s) (rev t)"

text \<open>\<^verbatim>\<open>filepath.Clean\<close> and \<^verbatim>\<open>filepath.Join\<close> of two elements; \<open>acc\<close> holds the elements kept, last first.\<close>

fun clean_elements :: "bool \<Rightarrow> string list \<Rightarrow> string list \<Rightarrow> string list" where
  "clean_elements rooted acc [] = rev acc"
| "clean_elements rooted acc (e # es) =
     (if e = [] \<or> e = ''.'' then clean_elements rooted acc es
      else if e = ''..''
      then (case acc of
              [] \<Rightarrow> clean_elements rooted (if rooted then [] else [e]) es
            | a # as \<Rightarrow> clean_elements rooted (if a = ''..'' then e # acc else as) es)
      else clean_elements rooted (e # acc) es)"

fun join_with :: "string \<Rightarrow> string list \<Rightarrow> string" where
  "join_with sep [] = []"
| "join_with sep [x] = x"
| "join_with sep (x # xs) = x @ sep @ join_with sep xs"

definition path_clean :: "string \<Rightarrow> string" where
  "path_clean s =
     (let rooted = starts_with s ''/'';
          t = join_with ''/'' (clean_elements rooted [] (split_char (CHR ''/'') s))
      in if rooted then ''/'' @ t else if t = [] then ''.'' else t)"

definition path_join :: "string \<Rightarrow> string \<Rightarrow> string" where
  "path_join a b =
     (if a = [] then (if b = [] then [] else path_clean b)
      else if b = [] then path_clean a else path_clean (a @ ''/'' @ b))"

subsection \<open>Running programs (\<^verbatim>\<open>internal/exec.go\<close>)\<close>

text \<open>A program with its arguments; what it prints if it succeeds, given what was run before.\<close>

type_synonym command = "string list"

type_synonym shell = "command list \<Rightarrow> command \<Rightarrow> string option"

text \<open>Errors; of a message that is put together, the fixed part.\<close>

datatype cli_error =
    CommandFailed command
  | Message string
  | UserNotFound string
  | Wrapped string cli_error

type_synonym 'a cio = "(command list, cli_error, 'a) logged"

text \<open>A user in the answers of the external provider.\<close>

record provider_user =
  pu_id :: string
  pu_upn :: string
  pu_email :: string

text \<open>
  The flag \<^verbatim>\<open>--dry-run\<close>, the version (\<^verbatim>\<open>dev\<close> in a development build), other programs, the variable
  \<^verbatim>\<open>SUDO\<close> (empty if not set), the directory of the tool itself, the elements of the current
  directory (last first), the directory of the extracted assets, the file system, base-64 and
  JSON (\<^const>\<open>None\<close> for a decoding error), and the time a program takes, in nanoseconds beyond
  the first.
\<close>

record cli =
  cli_dry :: bool
  cli_version :: string
  cli_shell :: shell
  cli_sudo_var :: string
  cli_program_dir :: "string option"
  cli_cwd :: "string list option"
  cli_assets :: "string option"
  cli_exists :: "string \<Rightarrow> bool"
  cli_look_path :: "string \<Rightarrow> string option"
  cli_b64_decode :: "string \<Rightarrow> bytes option"
  cli_json_print :: "json \<Rightarrow> string"
  cli_json_users :: "string \<Rightarrow> provider_user list option"
  cli_took :: "command list \<Rightarrow> command \<Rightarrow> nat"

definition RunOutput :: "cli \<Rightarrow> command \<Rightarrow> string cio" where
  "RunOutput c cmd l =
     (if cli_dry c then (Inr [], l)
      else case cli_shell c l cmd of
             None \<Rightarrow> (Inl (CommandFailed cmd), l @ [cmd])
           | Some out \<Rightarrow> (Inr (trim out), l @ [cmd]))"

definition Run :: "cli \<Rightarrow> command \<Rightarrow> unit cio" where
  "Run c cmd l =
     (if cli_dry c then (Inr (), l)
      else case cli_shell c l cmd of
             None \<Rightarrow> (Inl (CommandFailed cmd), l @ [cmd])
           | Some out \<Rightarrow> (Inr (), l @ [cmd]))"

text \<open>\<^verbatim>\<open>_ = RunQuiet(...)\<close>, and \<^verbatim>\<open>RunQuiet(...) == nil\<close>.  The quiet variants differ only in what is printed.\<close>

definition run_ignored :: "cli \<Rightarrow> command \<Rightarrow> unit cio" where
  "run_ignored c cmd = ktry (Run c cmd) (\<lambda>_. kreturn ())"

definition run_ok :: "cli \<Rightarrow> command \<Rightarrow> bool cio" where
  "run_ok c cmd = ktry (Run c cmd) (\<lambda>r. kreturn (\<not> isl r))"

definition Sudo :: "cli \<Rightarrow> string" where
  "Sudo c =
     (if cli_sudo_var c \<noteq> []
      then (if cli_sudo_var c = ''false'' \<or> cli_sudo_var c = ''0'' then [] else cli_sudo_var c)
      else ''sudo'')"

definition sudo_command :: "cli \<Rightarrow> command \<Rightarrow> command" where
  "sudo_command c cmd = (if Sudo c = [] then cmd else Sudo c # cmd)"

definition RunSudo :: "cli \<Rightarrow> command \<Rightarrow> unit cio" where
  "RunSudo c cmd = Run c (sudo_command c cmd)"

definition RunSudoOutput :: "cli \<Rightarrow> command \<Rightarrow> string cio" where
  "RunSudoOutput c cmd = RunOutput c (sudo_command c cmd)"

definition CheckDep :: "cli \<Rightarrow> string \<Rightarrow> unit cio" where
  "CheckDep c name =
     (if cli_look_path c name \<noteq> None then kreturn () else kfail (Message ''required dependency not found in PATH''))"

text \<open>\<^verbatim>\<open>fmt.Errorf\<close> with \<^verbatim>\<open>%w\<close>: the error of a computation with a message in front.\<close>

definition wrap :: "string \<Rightarrow> 'a cio \<Rightarrow> 'a cio" where
  "wrap msg m = ktry m (\<lambda>r. case r of Inl e \<Rightarrow> kfail (Wrapped msg e) | Inr x \<Rightarrow> kreturn x)"

text \<open>One computation after the other, up to the first error.\<close>

definition kseq :: "unit cio list \<Rightarrow> unit cio" where
  "kseq ms = kfold (\<lambda>m _. m) ms ()"

text \<open>
  A loop that runs a program until its output will do, with a pause after each failure and a
  deadline: whether it succeeded, and the time since it began.
\<close>

definition seconds :: "nat \<Rightarrow> nat" where "seconds n = n * 1000000000"

function poll :: "cli \<Rightarrow> command \<Rightarrow> (string \<Rightarrow> bool) \<Rightarrow> nat \<Rightarrow> nat \<Rightarrow> nat \<Rightarrow> (bool \<times> nat) cio" where
  "poll c cmd ready pause timeout t l =
     (if t < timeout
      then (let r = RunOutput c cmd l; t' = Suc (t + cli_took c l cmd)
            in if (case fst r of Inr out \<Rightarrow> ready out | Inl e \<Rightarrow> False) then (Inr (True, t'), snd r)
               else poll c cmd ready pause timeout (t' + pause) (snd r))
      else (Inr (False, t), l))"
  by auto
termination
  by (relation "measure (\<lambda>(c, cmd, ready, pause, timeout, t, l). timeout - t)") auto

text \<open>Such a loop that fails at the deadline.\<close>

definition wait_until :: "cli \<Rightarrow> command \<Rightarrow> (string \<Rightarrow> bool) \<Rightarrow> nat \<Rightarrow> nat \<Rightarrow> string \<Rightarrow> unit cio" where
  "wait_until c cmd ready pause timeout msg =
     kbind (poll c cmd ready pause timeout 0) (\<lambda>(found, t). if found then kreturn () else kfail (Message msg))"

subsection \<open>Settings (\<^verbatim>\<open>internal/config.go\<close>)\<close>

definition SimNamespace :: string where "SimNamespace = ''ocp-sim''"
definition OperatorNamespace :: string where "OperatorNamespace = ''opendatahub-operator-system''"
definition KindBin :: string where "KindBin = ''deps/kind/bin/kind''"
definition HtpasswdSecret :: string where "HtpasswdSecret = ''htpass-secret''"
definition HtpasswdNamespace :: string where "HtpasswdNamespace = ''openshift-config''"
definition EntraMockNamespace :: string where "EntraMockNamespace = ''entra-mock''"
definition EntraMockAdminPass :: string where "EntraMockAdminPass = ''changeme1234''"
definition EntraMockTenantID :: string where "EntraMockTenantID = ''a1b2c3d4-e5f6-7890-abcd-ef1234567890''"

definition IstioNamespace :: string where "IstioNamespace = ''istio-system''"
definition OLMNamespace :: string where "OLMNamespace = ''olm''"
definition DefaultK8sVersion :: string where "DefaultK8sVersion = ''v1.33.1''"
definition KindForkDir :: string where "KindForkDir = ''deps/kind''"
definition BaseImage :: string where "BaseImage = ''kindest/base:ocp-shim''"
definition NodeImage :: string where "NodeImage = ''localhost/kindest/node:ocp-shim''"
definition SimImage :: string where "SimImage = ''localhost/ocp-sim:latest''"
definition EntraMockImage :: string where "EntraMockImage = ''localhost/entra-mock:latest''"
definition KindConfig :: string where "KindConfig = ''deploy/kind/cluster.yaml''"
definition SimManifest :: string where "SimManifest = ''deploy/simulator.yaml''"
definition UsersFile :: string where "UsersFile = ''deploy/users.yaml''"
definition PullSecretName :: string where "PullSecretName = ''rh-pull-secret''"
definition OLMDefaultVersion :: string where "OLMDefaultVersion = ''v0.42.0''"

definition ByoidcIssuerURL :: string where
  "ByoidcIssuerURL = ''https://entra.apps.ocp-sim.test/'' @ EntraMockTenantID @ ''/v2.0''"

definition RedHatCatalogImage :: string where
  "RedHatCatalogImage = ''registry.redhat.io/redhat/redhat-operator-index:v4.17''"

definition GatewayAPICRDsURL :: string where
  "GatewayAPICRDsURL = ''https://github.com/kubernetes-sigs/gateway-api/releases/download/v1.3.0/standard-install.yaml''"

definition IsDevMode :: "cli \<Rightarrow> bool" where
  "IsDevMode c \<longleftrightarrow> cli_version c = [] \<or> cli_version c = ''dev''"

definition resolved_image :: "cli \<Rightarrow> string \<Rightarrow> string \<Rightarrow> string" where
  "resolved_image c local name =
     (if IsDevMode c then local
      else ''ghcr.io/jctanner/picoshift'' @ ''/'' @ name @ '':'' @ trim_prefix (cli_version c) ''v'')"

definition ResolvedSimImage :: "cli \<Rightarrow> string" where
  "ResolvedSimImage c = resolved_image c SimImage ''ocp-sim''"

definition ResolvedNodeImage :: "cli \<Rightarrow> string" where
  "ResolvedNodeImage c = resolved_image c NodeImage ''kindest-node''"

definition ResolvedEntraMockImage :: "cli \<Rightarrow> string" where
  "ResolvedEntraMockImage c = resolved_image c EntraMockImage ''entra-mock''"

definition ResolvedKindBin :: "cli \<Rightarrow> string \<Rightarrow> string" where
  "ResolvedKindBin c root =
     (if IsDevMode c then path_join root KindBin
      else case Option.bind (cli_program_dir c)
                  (\<lambda>dir. find (cli_exists c) (map (path_join dir) [''kind-linux-amd64'', ''kind''])) of
             Some candidate \<Rightarrow> candidate
           | None \<Rightarrow> (case cli_look_path c ''kind'' of
                         Some path \<Rightarrow> path
                       | None \<Rightarrow> path_join root KindBin))"

text \<open>The walk up to the project's root; the elements of the current directory, last first.\<close>

fun findProjectRoot :: "cli \<Rightarrow> string list \<Rightarrow> string option" where
  "findProjectRoot c elements =
     (let dir = ''/'' @ join_with ''/'' (rev elements)
      in if cli_exists c (path_join dir ''Makefile'') \<and> cli_exists c (path_join dir ''simulator'') then Some dir
         else (case elements of [] \<Rightarrow> None | _ # parent \<Rightarrow> findProjectRoot c parent))"

text \<open>The directory with the manifests: extracted by a release, the project's own in development.\<close>

definition ProjectRoot :: "cli \<Rightarrow> string cio" where
  "ProjectRoot c =
     (if \<not> IsDevMode c
      then (case cli_assets c of
              Some dir \<Rightarrow> kreturn dir
            | None \<Rightarrow> kfail (Message ''failed to extract embedded assets''))
      else (case cli_cwd c of
              None \<Rightarrow> kfail (Message ''getwd'')
            | Some elements \<Rightarrow>
                (case findProjectRoot c elements of
                   Some dir \<Rightarrow> kreturn dir
                 | None \<Rightarrow> kfail (Message ''could not find picoshift project root''))))"

subsection \<open>State of the cluster (\<^verbatim>\<open>internal/cluster.go\<close>)\<close>

definition containerRunning :: "cli \<Rightarrow> string \<Rightarrow> bool cio" where
  "containerRunning c clusterName =
     (let cmd = [''podman'', ''inspect'', ''-f'', ''{{.State.Running}}'', clusterName @ ''-control-plane''];
          up = (\<lambda>r. case r of Inr out \<Rightarrow> trim out = ''true'' | Inl e \<Rightarrow> False)
      in ktry (RunOutput c cmd) (\<lambda>r.
           if up r then kreturn True
           else if Sudo c \<noteq> [] then ktry (RunOutput c (Sudo c # cmd)) (\<lambda>r. kreturn (up r))
           else kreturn False))"

definition KindKnows :: "cli \<Rightarrow> string \<Rightarrow> string \<Rightarrow> bool cio" where
  "KindKnows c root clusterName =
     ktry (RunOutput c (sudo_command c [ResolvedKindBin c root, ''get'', ''clusters''])) (\<lambda>r.
       kreturn (case r of
                  Inl e \<Rightarrow> False
                | Inr out \<Rightarrow> list_ex (\<lambda>line. trim line = clusterName) (split_char (CHR 0x0A) out)))"

definition hasPicoshiftSim :: "cli \<Rightarrow> string \<Rightarrow> bool cio" where
  "hasPicoshiftSim c clusterName =
     run_ok c [''kubectl'', ''--context'', ''kind-'' @ clusterName, ''-n'', SimNamespace, ''get'', ''daemonset'', ''ocp-sim'']"

definition ClusterState :: "cli \<Rightarrow> string \<Rightarrow> (bool \<times> bool) cio" where
  "ClusterState c clusterName =
     kbind (containerRunning c clusterName) (\<lambda>containerUp.
       if containerUp then kbind (hasPicoshiftSim c clusterName) (\<lambda>simDeployed. kreturn (True, simDeployed))
       else kreturn (False, False))"

definition IsRunning :: "cli \<Rightarrow> string \<Rightarrow> string \<Rightarrow> bool cio" where
  "IsRunning c root clusterName =
     kbind (ClusterState c clusterName) (\<lambda>(container, sim). kreturn (container \<and> sim))"

definition clean_arg :: "string \<Rightarrow> string" where
  "clean_arg = trim_chars [CHR 0x22, CHR 0x27, CHR ''['', CHR '']'']"

fun mode_argument :: "string list \<Rightarrow> string option" where
  "mode_argument (p # q # ps) =
     (if clean_arg p = ''--auth-mode'' then Some (clean_arg q) else mode_argument (q # ps))"
| "mode_argument ps = None"

text \<open>The mode in the printed arguments of the simulator.\<close>

definition mode_of_args :: "string \<Rightarrow> string" where
  "mode_of_args out =
     (if \<not> str_contains out ''--auth-mode'' then ''legacy''
      else unwrap_or (mode_argument (fields_func (\<lambda>c. c = CHR '','' \<or> c = CHR '' '') out)) ''legacy'')"

definition args_query :: "string \<Rightarrow> command" where
  "args_query context =
     [''kubectl'', ''--context'', context, ''-n'', SimNamespace, ''get'', ''daemonset'', ''ocp-sim'',
      ''-o'', ''jsonpath={.spec.template.spec.containers[0].args}'']"

definition GetAuthMode :: "cli \<Rightarrow> string \<Rightarrow> string cio" where
  "GetAuthMode c context =
     ktry (RunOutput c (args_query context)) (\<lambda>r.
       kreturn (case r of Inl e \<Rightarrow> ''unknown'' | Inr out \<Rightarrow> mode_of_args out))"

definition NamespaceExists :: "cli \<Rightarrow> string \<Rightarrow> string \<Rightarrow> bool cio" where
  "NamespaceExists c ns context = run_ok c [''kubectl'', ''--context'', context, ''get'', ''namespace'', ns]"

text \<open>The wait of \<^verbatim>\<open>kubectl\<close> has what is left of the time, in whole seconds, and at least ten.\<close>

definition WaitForNode :: "cli \<Rightarrow> nat \<Rightarrow> unit cio" where
  "WaitForNode c timeout =
     kbind (poll c [''kubectl'', ''get'', ''nodes'', ''--request-timeout=5s''] (\<lambda>_. True) (seconds 5) timeout 0) (\<lambda>(up, t).
       Run c [''kubectl'', ''wait'', ''--for=condition=Ready'', ''node'', ''--all'',
         ''--timeout='' @ show_nat (max (seconds 10) (timeout - t) div seconds 1) @ ''s''])"

definition runBash :: "cli \<Rightarrow> string \<Rightarrow> unit cio" where
  "runBash c script = Run c [''bash'', ''-c'', script]"

definition writeFile :: "cli \<Rightarrow> string \<Rightarrow> string \<Rightarrow> unit cio" where
  "writeFile c path content =
     runBash c (''cat > '' @ path @ '' << 'KUBECONFIG_EOF'' @ [CHR 0x27] @ nl @ content @ nl @ ''KUBECONFIG_EOF'')"

definition ExportKubeconfig :: "cli \<Rightarrow> string \<Rightarrow> string \<Rightarrow> unit cio" where
  "ExportKubeconfig c root clusterName =
     kbind (RunOutput c [''sh'', ''-c'', ''echo ~$(id -un)'']) (\<lambda>home.
     kbind (wrap ''failed to get kubeconfig''
       (RunSudoOutput c [ResolvedKindBin c root, ''get'', ''kubeconfig'', ''--name'', clusterName])) (\<lambda>out.
       writeFile c (home @ ''/.kube/config'') out))"

subsection \<open>Commands that only run a program\<close>

definition delete_command :: "cli \<Rightarrow> string \<Rightarrow> unit cio" where
  "delete_command c name =
     kbind (ProjectRoot c) (\<lambda>root.
     kbind (KindKnows c root name) (\<lambda>known.
       if \<not> known then kreturn ()
       else RunSudo c [ResolvedKindBin c root, ''delete'', ''cluster'', ''--name'', name]))"

definition logs_command :: "cli \<Rightarrow> bool \<Rightarrow> unit cio" where
  "logs_command c operator =
     (if operator
      then Run c [''kubectl'', ''-n'', OperatorNamespace, ''logs'', ''-l'', ''control-plane=controller-manager'',
             ''-c'', ''manager'', ''-f'']
      else Run c [''kubectl'', ''-n'', SimNamespace, ''logs'', ''-l'', ''app=ocp-sim'', ''-f''])"

definition init_command :: "cli \<Rightarrow> unit cio" where
  "init_command c = kbind (ProjectRoot c) (\<lambda>root. Run c [''bash'', root @ ''/scripts/init-deps.sh''])"

section \<open>Lemmas\<close>

declare findProjectRoot.simps [simp del]

subsection \<open>Paths\<close>

text \<open>A relative path without empty or special elements is put behind the directory unchanged.\<close>

definition plain_path :: "string \<Rightarrow> bool" where
  "plain_path p \<longleftrightarrow> list_all (\<lambda>e. e \<noteq> [] \<and> e \<noteq> ''.'' \<and> e \<noteq> ''..'') (split_char (CHR ''/'') p)"

lemma clean_elements_plain:
  assumes "list_all (\<lambda>e. e \<noteq> [] \<and> e \<noteq> ''.'' \<and> e \<noteq> ''..'') ps"
  shows "clean_elements r acc (es @ ps) = clean_elements r acc es @ ps"
proof (induction r acc es rule: clean_elements.induct)
  case (1 r acc)
  have "clean_elements r acc ps = rev acc @ ps" for acc
    using assms by (induction ps arbitrary: acc) simp_all
  then show ?case by simp
qed (auto split: list.split)

lemma join_with_append:
  "ys \<noteq> [] \<Longrightarrow> join_with sep (xs @ ys) = (if xs = [] then [] else join_with sep xs @ sep) @ join_with sep ys"
  by (induction sep xs rule: join_with.induct) (auto simp: neq_Nil_conv)

lemma join_with_split: "join_with [d] (split_char d s) = s"
proof (induction s)
  case (Cons c cs)
  obtain w ws where "split_char d cs = w # ws" using split_char_nonempty by (meson neq_Nil_conv)
  with Cons show ?case by (cases ws) auto
qed simp

lemma path_join_plain: "\<exists>pre. \<forall>p. plain_path p \<longrightarrow> path_join root p = pre @ p"
proof -
  let ?es = "\<lambda>r. clean_elements r [] (split_char (CHR ''/'') root)"
  have clean: "path_join root p = (if starts_with root ''/'' then ''/'' else []) @
      (if ?es (starts_with root ''/'') = [] then [] else join_with ''/'' (?es (starts_with root ''/'')) @ ''/'') @ p"
    if "root \<noteq> []" "plain_path p" for p
  proof -
    have "p \<noteq> []" using that(2) by (auto simp: plain_path_def)
    moreover have "starts_with (root @ ''/'' @ p) ''/'' = starts_with root ''/''"
      using that(1) by (cases root) (auto simp: starts_with_iff)
    moreover have "clean_elements r [] (split_char (CHR ''/'') (root @ ''/'' @ p)) =
        ?es r @ split_char (CHR ''/'') p" for r
      using clean_elements_plain [of "split_char (CHR ''/'') p"] that(2) by (simp add: split_char_join plain_path_def)
    ultimately show ?thesis
      using that by (simp add: path_join_def path_clean_def join_with_append join_with_split Let_def)
  qed
  have "path_join [] p = p" if "plain_path p" for p
  proof -
    have "p \<noteq> []" "\<not> starts_with p ''/''"
      using that by (auto simp: plain_path_def starts_with_iff)
    moreover have "clean_elements False [] (split_char (CHR ''/'') p) = split_char (CHR ''/'') p"
      using clean_elements_plain [of "split_char (CHR ''/'') p" False "[]" "[]"] that by (simp add: plain_path_def)
    ultimately show ?thesis by (simp add: path_join_def path_clean_def join_with_split Let_def)
  qed
  with clean show ?thesis by (cases "root = []") (auto intro: exI [of _ "[]"])
qed

subsection \<open>What a computation may run\<close>

text \<open>Every program that a computation runs satisfies \<open>P\<close>; in a dry run there is none.\<close>

definition runs_only :: "(command \<Rightarrow> bool) \<Rightarrow> 'a cio \<Rightarrow> bool" where
  "runs_only P m \<longleftrightarrow> (\<forall>l. \<exists>ds. snd (m l) = l @ ds \<and> list_all P ds)"

named_theorems runs_only_intros

lemma runs_only_none: "runs_only (\<lambda>_. False) m \<Longrightarrow> snd (m l) = l"
  by (auto simp: runs_only_def list_all_iff dest!: spec [of _ l])

lemma runs_only_kreturn [runs_only_intros]: "runs_only P (kreturn x)"
  by (simp add: runs_only_def kreturn_def)

lemma runs_only_kfail [runs_only_intros]: "runs_only P (kfail e)"
  by (simp add: runs_only_def kfail_def)

lemma runs_only_ktry [runs_only_intros]:
  assumes "runs_only P m" and "\<And>r. runs_only P (f r)"
  shows "runs_only P (ktry m f)"
  unfolding runs_only_def
proof
  fix l
  obtain r l' where m: "m l = (r, l')" by fastforce
  with assms(1) obtain ds where "l' = l @ ds" "list_all P ds" unfolding runs_only_def by (metis snd_conv)
  moreover obtain es where "snd (f r l') = l' @ es" "list_all P es" using assms(2) unfolding runs_only_def by blast
  ultimately show "\<exists>ds. snd (ktry m f l) = l @ ds \<and> list_all P ds"
    by (intro exI [of _ "ds @ es"]) (simp add: ktry_def m)
qed

lemma kbind_ktry: "kbind m f = ktry m (\<lambda>r. case r of Inl e \<Rightarrow> kfail e | Inr x \<Rightarrow> f x)"
  by (rule ext) (simp add: kbind_def ktry_def kfail_def split: prod.split sum.split)

lemma runs_only_kbind [runs_only_intros]:
  "runs_only P m \<Longrightarrow> (\<And>x. runs_only P (f x)) \<Longrightarrow> runs_only P (kbind m f)"
  unfolding kbind_ktry by (intro runs_only_ktry) (auto intro: runs_only_kfail split: sum.split)

lemma runs_only_if [runs_only_intros]: "runs_only P m \<Longrightarrow> runs_only P m' \<Longrightarrow> runs_only P (if b then m else m')"
  by simp

lemma runs_only_wrap [runs_only_intros]: "runs_only P m \<Longrightarrow> runs_only P (wrap msg m)"
  unfolding wrap_def by (auto intro!: runs_only_intros split: sum.split)

lemma runs_only_kfold [runs_only_intros]:
  "(\<And>x s. x \<in> set xs \<Longrightarrow> runs_only P (f x s)) \<Longrightarrow> runs_only P (kfold f xs s)"
  by (induction xs arbitrary: s) (auto intro!: runs_only_intros)

lemma runs_only_kseq [runs_only_intros]: "(\<And>m. m \<in> set ms \<Longrightarrow> runs_only P m) \<Longrightarrow> runs_only P (kseq ms)"
  unfolding kseq_def by (rule runs_only_kfold)

lemma runs_only_Run [runs_only_intros]:
  "cli_dry c \<or> P cmd \<Longrightarrow> runs_only P (Run c cmd)" "cli_dry c \<or> P cmd \<Longrightarrow> runs_only P (RunOutput c cmd)"
  by (auto simp: runs_only_def Run_def RunOutput_def split: option.split)

lemma runs_only_run [runs_only_intros]:
  "cli_dry c \<or> P cmd \<Longrightarrow> runs_only P (run_ignored c cmd)" "cli_dry c \<or> P cmd \<Longrightarrow> runs_only P (run_ok c cmd)"
  "cli_dry c \<or> P (sudo_command c cmd) \<Longrightarrow> runs_only P (RunSudo c cmd)"
  "cli_dry c \<or> P (sudo_command c cmd) \<Longrightarrow> runs_only P (RunSudoOutput c cmd)"
  unfolding run_ignored_def run_ok_def RunSudo_def RunSudoOutput_def by (intro runs_only_intros; assumption)+

lemma runs_only_CheckDep [runs_only_intros]: "runs_only P (CheckDep c name)"
  unfolding CheckDep_def by (intro runs_only_intros)

lemma runs_only_ProjectRoot [runs_only_intros]: "runs_only P (ProjectRoot c)"
  unfolding ProjectRoot_def by (auto intro!: runs_only_intros split: option.split)

lemma runs_only_GetAuthMode [runs_only_intros]: "cli_dry c \<or> P (args_query ctx) \<Longrightarrow> runs_only P (GetAuthMode c ctx)"
  unfolding GetAuthMode_def by (intro runs_only_intros; assumption)

subsection \<open>Computations that succeed\<close>

text \<open>Nothing fails in a dry run, or where every program succeeds.\<close>

definition willing :: "cli \<Rightarrow> bool" where
  "willing c \<longleftrightarrow> cli_dry c \<or> (\<forall>l cmd. cli_shell c l cmd \<noteq> None)"

definition succeeds :: "'a cio \<Rightarrow> bool" where
  "succeeds m \<longleftrightarrow> (\<forall>l. \<not> isl (fst (m l)))"

named_theorems succeeds_intros

lemma succeeds_kreturn [succeeds_intros]: "succeeds (kreturn x)"
  by (simp add: succeeds_def kreturn_def)

lemma succeeds_ktry [succeeds_intros]: "(\<And>r. succeeds (f r)) \<Longrightarrow> succeeds (ktry m f)"
  by (simp add: succeeds_def ktry_def split: prod.split)

lemma succeeds_kbind [succeeds_intros]: "succeeds m \<Longrightarrow> (\<And>x. succeeds (f x)) \<Longrightarrow> succeeds (kbind m f)"
  unfolding succeeds_def kbind_def by (auto split: prod.split sum.split) (metis fst_conv isl_def)

lemma succeeds_if [succeeds_intros]: "(b \<Longrightarrow> succeeds m) \<Longrightarrow> (\<not> b \<Longrightarrow> succeeds m') \<Longrightarrow> succeeds (if b then m else m')"
  by simp

lemma succeeds_wrap [succeeds_intros]: "succeeds m \<Longrightarrow> succeeds (wrap msg m)"
  unfolding succeeds_def wrap_def ktry_def by (auto simp: kreturn_def split: prod.split sum.split) (metis fst_conv isl_def)

lemma succeeds_kfold [succeeds_intros]:
  "(\<And>x s. x \<in> set xs \<Longrightarrow> succeeds (f x s)) \<Longrightarrow> succeeds (kfold f xs s)"
  by (induction xs arbitrary: s) (auto intro!: succeeds_intros)

lemma succeeds_kseq [succeeds_intros]: "(\<And>m. m \<in> set ms \<Longrightarrow> succeeds m) \<Longrightarrow> succeeds (kseq ms)"
  unfolding kseq_def by (rule succeeds_kfold)

lemma succeeds_Run [succeeds_intros]: "willing c \<Longrightarrow> succeeds (Run c cmd)" "willing c \<Longrightarrow> succeeds (RunOutput c cmd)"
  by (auto simp: succeeds_def Run_def RunOutput_def willing_def split: option.split)

lemma succeeds_run [succeeds_intros]:
  "succeeds (run_ignored c cmd)" "succeeds (run_ok c cmd)"
  "willing c \<Longrightarrow> succeeds (RunSudo c cmd)" "willing c \<Longrightarrow> succeeds (RunSudoOutput c cmd)"
  unfolding run_ignored_def run_ok_def RunSudo_def RunSudoOutput_def by (intro succeeds_intros; assumption?)+

text \<open>A computation that succeeds, step by step.\<close>

lemma kbind_Inr: "kbind m f l = (Inr y, l') \<longleftrightarrow> (\<exists>x l1. m l = (Inr x, l1) \<and> f x l1 = (Inr y, l'))"
  by (auto simp: kbind_def split: prod.split sum.split)

lemma kfold_append: "kfold f (xs @ ys) s = kbind (kfold f xs s) (kfold f ys)"
  by (induction xs arbitrary: s) (auto simp: kbind_def kreturn_def fun_eq_iff split: prod.split sum.split)

lemma Run_Inr: "\<not> cli_dry c \<Longrightarrow> Run c cmd l = (Inr u, l') \<longleftrightarrow> cli_shell c l cmd \<noteq> None \<and> l' = l @ [cmd]"
  by (auto simp: Run_def split: option.split)

lemma kseq_append: "kseq (xs @ ys) = kbind (kseq xs) (\<lambda>_. kseq ys)"
  by (simp add: kseq_def kfold_append)

lemma kseq_Cons: "kseq (m # ms) = kbind m (\<lambda>_. kseq ms)"
  by (simp add: kseq_def)

subsection \<open>Polling\<close>

declare poll.simps [simp del]

text \<open>
  The loop runs its program at most once per pause until the deadline.  It succeeds if the last
  output will do, and gives up only after the deadline.
\<close>

lemma poll_attempts_bound:
  fixes k pause timeout t t' :: nat
  assumes "t < timeout" and "t + Suc pause \<le> t'" and "k * Suc pause \<le> (timeout - t') + pause"
  shows "Suc k * Suc pause \<le> (timeout - t) + pause"
proof (cases "t' < timeout")
  case False
  with assms(3) have "k * Suc pause < 1 * Suc pause" by simp
  then have "k = 0" unfolding mult_less_cancel2 by simp
  with assms(1) show ?thesis by simp
qed (use assms in simp)

lemma poll_result:
  assumes "\<not> cli_dry c"
  shows "\<exists>k b t'. poll c cmd ready pause timeout t l = (Inr (b, t'), l @ replicate k cmd) \<and>
    k * Suc pause \<le> (timeout - t) + pause \<and>
    (if b then 0 < k \<and> (\<exists>out. cli_shell c (l @ replicate (k - 1) cmd) cmd = Some out \<and> ready (trim out))
     else timeout \<le> t')"
  using assms
proof (induction c cmd ready pause timeout t l rule: poll.induct)
  case (1 c cmd ready pause timeout t l)
  let ?r = "RunOutput c cmd l" and ?t' = "Suc (t + cli_took c l cmd)"
  let ?good = "case fst ?r of Inr out \<Rightarrow> ready out | Inl e \<Rightarrow> False"
  have log: "snd ?r = l @ [cmd]" using 1(2) by (simp add: RunOutput_def split: option.split)
  consider "\<not> t < timeout" | "t < timeout" ?good | "t < timeout" "\<not> ?good" by blast
  then show ?case
  proof cases
    case 1
    then have "poll c cmd ready pause timeout t l = (Inr (False, t), l @ replicate 0 cmd)"
      by (simp add: poll.simps [of c cmd ready pause timeout t l])
    with 1 show ?thesis by (metis mult_0 not_less zero_le)
  next
    case 2
    then have "\<exists>out. cli_shell c l cmd = Some out \<and> ready (trim out)"
      using 1(2) by (auto simp: RunOutput_def split: option.splits)
    moreover have "poll c cmd ready pause timeout t l = (Inr (True, ?t'), l @ [cmd])"
      using 2 log by (simp add: poll.simps [of c cmd ready pause timeout t l] Let_def)
    ultimately show ?thesis using 2(1) by (intro exI [of _ 1] exI [of _ True] exI [of _ ?t']) simp
  next
    case 3
    from 1(1) [OF 3(1) refl refl 3(2) 1(2)] obtain k b t'
      where IH: "poll c cmd ready pause timeout (?t' + pause) (l @ [cmd]) = (Inr (b, t'), l @ [cmd] @ replicate k cmd)"
        "k * Suc pause \<le> (timeout - (?t' + pause)) + pause"
        "if b then 0 < k \<and> (\<exists>out. cli_shell c (l @ [cmd] @ replicate (k - 1) cmd) cmd = Some out \<and> ready (trim out))
         else timeout \<le> t'"
      unfolding log append_assoc by blast
    have "Suc k * Suc pause \<le> (timeout - t) + pause"
      using 3(1) _ IH(2) by (rule poll_attempts_bound) simp
    moreover have "poll c cmd ready pause timeout t l = (Inr (b, t'), l @ replicate (Suc k) cmd)"
      using 3 IH(1) log by (simp add: poll.simps [of c cmd ready pause timeout t l] Let_def)
    moreover have "[cmd] @ replicate (k - 1) cmd = replicate k cmd" if "0 < k"
      using that by (cases k) simp_all
    ultimately show ?thesis
      using IH(3) by (intro exI [of _ "Suc k"] exI [of _ b] exI [of _ t']) (auto split: if_splits)
  qed
qed

text \<open>In a dry run the output is empty.\<close>

lemma poll_dry:
  assumes "cli_dry c"
  shows "\<exists>t'. poll c cmd ready pause timeout t l = (Inr (ready [] \<and> t < timeout, t'), l)"
  using assms
proof (induction c cmd ready pause timeout t l rule: poll.induct)
  case (1 c cmd ready pause timeout t l)
  then show ?case
    by (cases "ready []") (auto simp: poll.simps [of c cmd ready pause timeout t l] RunOutput_def Let_def)
qed

lemma runs_only_poll [runs_only_intros]:
  assumes "cli_dry c \<or> P cmd"
  shows "runs_only P (poll c cmd ready pause timeout t)"
  unfolding runs_only_def
proof
  fix l
  show "\<exists>ds. snd (poll c cmd ready pause timeout t l) = l @ ds \<and> list_all P ds"
  proof (cases "cli_dry c")
    case True
    from poll_dry [OF this] have "snd (poll c cmd ready pause timeout t l) = l" by (metis snd_conv)
    then show ?thesis by (intro exI [of _ "[]"]) simp
  next
    case False
    with poll_result [OF False, of cmd ready pause timeout t l] obtain k
      where "snd (poll c cmd ready pause timeout t l) = l @ replicate k cmd" by (metis snd_conv)
    with assms False show ?thesis by (auto simp: list_all_iff)
  qed
qed

lemma succeeds_poll [succeeds_intros]: "succeeds (poll c cmd ready pause timeout t)"
proof -
  have "\<exists>x. fst (poll c cmd ready pause timeout t l) = Inr x" for l
    using poll_dry [of c cmd ready pause timeout t l] poll_result [of c cmd ready pause timeout t l]
    by (cases "cli_dry c") auto
  then show ?thesis unfolding succeeds_def by (metis sum.disc(2))
qed

text \<open>What such a wait promises: it succeeds only if the last output will do, in a dry run if the empty one does.\<close>

lemma runs_only_wait_until [runs_only_intros]:
  "cli_dry c \<or> P cmd \<Longrightarrow> runs_only P (wait_until c cmd ready pause timeout msg)"
  unfolding wait_until_def by (auto intro!: runs_only_intros split: prod.split)

lemma wait_until_success:
  assumes "\<not> cli_dry c" and "wait_until c cmd ready pause timeout msg l = (Inr u, l')"
  shows "\<exists>k out. l' = (l @ replicate k cmd) @ [cmd] \<and> cli_shell c (l @ replicate k cmd) cmd = Some out \<and>
    ready (trim out) \<and> Suc k * Suc pause \<le> timeout + pause"
proof -
  obtain k b t' where p: "poll c cmd ready pause timeout 0 l = (Inr (b, t'), l @ replicate k cmd)"
    and k: "k * Suc pause \<le> timeout + pause"
    and b: "if b then 0 < k \<and> (\<exists>out. cli_shell c (l @ replicate (k - 1) cmd) cmd = Some out \<and> ready (trim out))
      else timeout \<le> t'"
    using poll_result [OF assms(1), of cmd ready pause timeout 0 l] by auto
  have "b" "l' = l @ replicate k cmd"
    using assms(2) p by (auto simp: wait_until_def kbind_def kreturn_def kfail_def split: if_splits)
  with b k show ?thesis by (cases k) (auto simp: replicate_append_same)
qed

lemma wait_until_dry:
  assumes "cli_dry c"
  shows "isl (fst (wait_until c cmd ready pause timeout msg l)) \<longleftrightarrow> \<not> (ready [] \<and> 0 < timeout)"
proof -
  obtain t' where "poll c cmd ready pause timeout 0 l = (Inr (ready [] \<and> 0 < timeout, t'), l)"
    using poll_dry [OF assms] by blast
  then show ?thesis by (simp add: wait_until_def kbind_def kreturn_def kfail_def)
qed

text \<open>
  Both the wait for a node and the export of the kubeconfig succeed where every program does.
\<close>

lemma succeeds_WaitForNode [succeeds_intros]: "willing c \<Longrightarrow> succeeds (WaitForNode c timeout)"
  unfolding WaitForNode_def by (auto intro!: succeeds_intros split: prod.split)

lemma succeeds_ExportKubeconfig [succeeds_intros]: "willing c \<Longrightarrow> succeeds (ExportKubeconfig c root name)"
  unfolding ExportKubeconfig_def writeFile_def runBash_def by (intro succeeds_intros)

end
