(* ===== verification/Cli_Olm.thy ===== *)
theory Cli_Olm
  imports Cli
begin

text \<open>
  \<^verbatim>\<open>cli/cmd/olm.go\<close>: installing and removing the Operator Lifecycle Manager, its catalogs and
  operators from them.
\<close>

section \<open>Definitions\<close>

subsection \<open>Helpers\<close>

definition olmBaseURL :: "string \<Rightarrow> string" where
  "olmBaseURL version = ''https://github.com/operator-framework/operator-lifecycle-manager/releases/download/'' @ version"

definition isOLMInstalled :: "cli \<Rightarrow> bool cio" where
  "isOLMInstalled c = run_ok c [''kubectl'', ''get'', ''deployment'', ''olm-operator'', ''-n'', OLMNamespace]"

text \<open>A manifest given to \<^verbatim>\<open>kubectl\<close> on its input.\<close>

definition apply_text :: "cli \<Rightarrow> string \<Rightarrow> unit cio" where
  "apply_text c manifest =
     Run c [''bash'', ''-c'', ''cat <<'EOF' | kubectl apply -f -'' @ nl @ manifest @ nl @ ''EOF'']"

definition catalog_source :: "string \<Rightarrow> string \<Rightarrow> string \<Rightarrow> string" where
  "catalog_source name img secretRef =
     join_lines
      [''apiVersion: operators.coreos.com/v1alpha1'',
       ''kind: CatalogSource'',
       ''metadata:'',
       ''  name: '' @ name,
       ''  namespace: '' @ OLMNamespace,
       ''spec:'',
       ''  sourceType: grpc'',
       ''  image: '' @ img,
       ''  displayName: '' @ name @ secretRef]"

definition applyCatalogSource :: "cli \<Rightarrow> string \<Rightarrow> string \<Rightarrow> string \<Rightarrow> unit cio" where
  "applyCatalogSource c name img pullSecretName =
     (let secretRef =
            (if pullSecretName = [] then []
             else join_lines [[],
                  ''  secrets:'',
                  ''    - '' @ pullSecretName])
      in apply_text c (catalog_source name img secretRef))"

definition catalog_query :: "string \<Rightarrow> command" where
  "catalog_query name =
     [''kubectl'', ''get'', ''catalogsource'', name, ''-n'', OLMNamespace,
      ''-o'', ''jsonpath={.status.connectionState.lastObservedState}'']"

definition waitForCatalogSource :: "cli \<Rightarrow> string \<Rightarrow> nat \<Rightarrow> unit cio" where
  "waitForCatalogSource c name timeout =
     wait_until c (catalog_query name) (\<lambda>out. out = ''READY'') (seconds 5) timeout
       (''CatalogSource '' @ name @ '' not ready'')"

definition getDefaultChannel :: "cli \<Rightarrow> string \<Rightarrow> string cio" where
  "getDefaultChannel c operatorName =
     kbind (RunOutput c [''kubectl'', ''get'', ''packagemanifest'', operatorName,
         ''-o'', ''jsonpath={.status.defaultChannel}'']) (\<lambda>out.
       if out = [] then kfail (Message ''no default channel found'') else kreturn out)"

definition getCatalogSource :: "cli \<Rightarrow> string \<Rightarrow> string cio" where
  "getCatalogSource c operatorName =
     kbind (RunOutput c [''kubectl'', ''get'', ''packagemanifest'', operatorName,
         ''-o'', ''jsonpath={.status.catalogSource}'']) (\<lambda>out.
       if out = [] then kreturn ''community-operators'' else kreturn out)"

definition operator_group :: "string \<Rightarrow> string" where
  "operator_group namespace =
     join_lines
      [''apiVersion: operators.coreos.com/v1'',
       ''kind: OperatorGroup'',
       ''metadata:'',
       ''  name: og-'' @ namespace,
       ''  namespace: '' @ namespace]"

definition ensureOperatorGroup :: "cli \<Rightarrow> string \<Rightarrow> unit cio" where
  "ensureOperatorGroup c namespace =
     kbind (run_ignored c [''kubectl'', ''create'', ''namespace'', namespace]) (\<lambda>_.
     ktry (RunOutput c [''kubectl'', ''get'', ''operatorgroup'', ''-n'', namespace,
         ''-o'', ''jsonpath={.items[*].metadata.name}'']) (\<lambda>r.
       if (case r of Inr out \<Rightarrow> trim out \<noteq> [] | Inl e \<Rightarrow> False) then kreturn ()
       else apply_text c (operator_group namespace)))"

definition subscription :: "string \<Rightarrow> string \<Rightarrow> string \<Rightarrow> string \<Rightarrow> string" where
  "subscription operatorName namespace channel catalogSource =
     join_lines
      [''apiVersion: operators.coreos.com/v1alpha1'',
       ''kind: Subscription'',
       ''metadata:'',
       ''  name: '' @ operatorName,
       ''  namespace: '' @ namespace,
       ''spec:'',
       ''  channel: '' @ channel,
       ''  name: '' @ operatorName,
       ''  source: '' @ catalogSource,
       ''  sourceNamespace: '' @ OLMNamespace,
       ''  installPlanApproval: Automatic'']"

definition createSubscription :: "cli \<Rightarrow> string \<Rightarrow> string \<Rightarrow> string \<Rightarrow> string \<Rightarrow> unit cio" where
  "createSubscription c operatorName namespace channel catalogSource =
     apply_text c (subscription operatorName namespace channel catalogSource)"

definition csv_succeeded :: "string \<Rightarrow> string \<Rightarrow> bool" where
  "csv_succeeded operatorName out \<longleftrightarrow>
     list_ex (\<lambda>line. str_contains line operatorName \<and> has_suffix line ''=Succeeded'') (split_char (CHR 0x0A) out)"

definition csv_query :: "string \<Rightarrow> command" where
  "csv_query namespace =
     [''kubectl'', ''get'', ''csv'', ''-n'', namespace,
      ''-o'', ''jsonpath={range .items[*]}{.metadata.name}={.status.phase}'' @ nl @ ''{end}'']"

definition waitForCSV :: "cli \<Rightarrow> string \<Rightarrow> string \<Rightarrow> nat \<Rightarrow> unit cio" where
  "waitForCSV c operatorName namespace timeout =
     wait_until c (csv_query namespace) (csv_succeeded operatorName) (seconds 5) timeout
       (''CSV for '' @ operatorName @ '' did not reach Succeeded'')"

subsection \<open>Commands\<close>

definition install_olm :: "cli \<Rightarrow> string \<Rightarrow> string \<Rightarrow> unit cio" where
  "install_olm c root version =
     kbind (isOLMInstalled c) (\<lambda>installed.
       if installed then kreturn ()
       else kseq
         ([run_ignored c [''kubectl'', ''delete'', ''-f'', path_join root ''deploy/crds/olm/'', ''--ignore-not-found''],
           wrap ''failed to install OLM CRDs''
             (Run c [''kubectl'', ''create'', ''-f'', olmBaseURL version @ ''/crds.yaml'']),
           Run c [''kubectl'', ''wait'', ''--for=condition=Established'', ''crd'', ''--all'', ''--timeout=30s''],
           wrap ''failed to install OLM controllers''
             (Run c [''kubectl'', ''create'', ''-f'', olmBaseURL version @ ''/olm.yaml''])] @
          map (\<lambda>deploy. wrap (deploy @ '' failed to roll out'')
              (Run c [''kubectl'', ''rollout'', ''status'', ''deployment/'' @ deploy, ''-n'', OLMNamespace, ''--timeout=120s'']))
            [''olm-operator'', ''catalog-operator''] @
          [wrap ''failed to deploy CatalogSource''
             (Run c [''kubectl'', ''apply'', ''-f'', path_join root ''deploy/olm/catalogsource.yaml'']),
           waitForCatalogSource c ''community-operators'' (seconds 300)]))"

definition olm_install :: "cli \<Rightarrow> string \<Rightarrow> unit cio" where
  "olm_install c version = kbind (ProjectRoot c) (\<lambda>root. install_olm c root version)"

definition olm_uninstall :: "cli \<Rightarrow> string \<Rightarrow> unit cio" where
  "olm_uninstall c version =
     kbind (ProjectRoot c) (\<lambda>root.
       kseq
         [run_ignored c [''kubectl'', ''delete'', ''-f'', olmBaseURL version @ ''/olm.yaml'', ''--ignore-not-found''],
          run_ignored c [''kubectl'', ''delete'', ''-f'', olmBaseURL version @ ''/crds.yaml'', ''--ignore-not-found''],
          run_ignored c [''kubectl'', ''delete'', ''namespace'', OLMNamespace, ''--ignore-not-found''],
          wrap ''failed to restore stub CRDs''
            (Run c [''kubectl'', ''apply'', ''-f'', path_join root ''deploy/crds/olm/''])])"

text \<open>A command that needs OLM.\<close>

definition require_olm :: "cli \<Rightarrow> unit cio \<Rightarrow> unit cio" where
  "require_olm c m =
     kbind (isOLMInstalled c) (\<lambda>installed. if \<not> installed then kfail (Message ''OLM is not installed'') else m)"

text \<open>A pull secret in the namespace of OLM, replacing an old one.\<close>

definition olm_pull_secret :: "cli \<Rightarrow> string \<Rightarrow> string \<Rightarrow> string \<Rightarrow> unit cio" where
  "olm_pull_secret c msg secretName pullSecret =
     kseq
       [run_ignored c [''kubectl'', ''-n'', OLMNamespace, ''delete'', ''secret'', secretName, ''--ignore-not-found''],
        wrap msg
          (Run c [''kubectl'', ''-n'', OLMNamespace, ''create'', ''secret'', ''docker-registry'', secretName,
             ''--from-file=.dockerconfigjson='' @ pullSecret])]"

definition olm_catalog_add :: "cli \<Rightarrow> string \<Rightarrow> string \<Rightarrow> string \<Rightarrow> unit cio" where
  "olm_catalog_add c name img pullSecret =
     require_olm c
       (if img = [] then kfail (Message ''--image is required'')
        else let secretName = ''catalog-pull-'' @ name in
          kseq
            ((if pullSecret \<noteq> []
              then [olm_pull_secret c ''failed to create pull secret'' secretName pullSecret, applyCatalogSource c name img secretName]
              else [applyCatalogSource c name img []]) @
             [waitForCatalogSource c name (seconds 300)]))"

definition olm_catalog_list :: "cli \<Rightarrow> unit cio" where
  "olm_catalog_list c =
     require_olm c (Run c [''kubectl'', ''get'', ''catalogsource'', ''-n'', OLMNamespace, ''-o'',
       ''custom-columns=NAME:.metadata.name,IMAGE:.spec.image,STATE:.status.connectionState.lastObservedState''])"

definition olm_catalog_remove :: "cli \<Rightarrow> string \<Rightarrow> unit cio" where
  "olm_catalog_remove c name =
     kseq
       [run_ignored c [''kubectl'', ''-n'', OLMNamespace, ''delete'', ''secret'', ''catalog-pull-'' @ name, ''--ignore-not-found''],
        Run c [''kubectl'', ''-n'', OLMNamespace, ''delete'', ''catalogsource'', name]]"

definition olm_operator_list :: "cli \<Rightarrow> unit cio" where
  "olm_operator_list c =
     require_olm c (Run c [''kubectl'', ''get'', ''packagemanifests'', ''-o'',
       ''custom-columns=NAME:.metadata.name,CATALOG:.status.catalogSource,CHANNEL:.status.defaultChannel'',
       ''--sort-by=.metadata.name''])"

definition olm_operator_install :: "cli \<Rightarrow> string \<Rightarrow> string \<Rightarrow> string \<Rightarrow> unit cio" where
  "olm_operator_install c operatorName channel namespace =
     require_olm c
       (kbind (if channel = [] then wrap ''operator not found in catalog'' (getDefaultChannel c operatorName)
               else kreturn channel) (\<lambda>channel.
        kbind (wrap ''could not determine catalog source'' (getCatalogSource c operatorName)) (\<lambda>catalogSource.
          kseq
            [ensureOperatorGroup c namespace,
             createSubscription c operatorName namespace channel catalogSource,
             waitForCSV c operatorName namespace (seconds 300)])))"

section \<open>Lemmas\<close>

subsection \<open>What is run\<close>

text \<open>\<^verbatim>\<open>kubectl\<close> applies no file but one of the project or one from the network.\<close>

lemma runs_only_olm_helpers [runs_only_intros]:
  assumes "cli_dry c \<or> (\<forall>script. P [''bash'', ''-c'', script])"
  shows "runs_only P (apply_text c t)" "runs_only P (applyCatalogSource c name img secret)"
    "runs_only P (createSubscription c name ns channel source)"
  using assms unfolding apply_text_def applyCatalogSource_def createSubscription_def Let_def
  by (auto intro!: runs_only_intros)

text \<open>Whether a command only asks, or creates and deletes objects of OLM.\<close>

definition olm_command :: "string \<Rightarrow> command \<Rightarrow> bool" where
  "olm_command root cmd \<longleftrightarrow>
     (case cmd of
        kubectl # verb # rest \<Rightarrow>
          kubectl = ''bash'' \<or> kubectl = ''kubectl'' \<and> verb \<in> {''get'', ''create'', ''delete'', ''wait'', ''rollout''} \<or>
          kubectl = ''kubectl'' \<and> verb = ''-n'' \<and> take 1 rest = [OLMNamespace] \<or>
          cmd = [''kubectl'', ''apply'', ''-f'', path_join root ''deploy/olm/catalogsource.yaml'']
      | _ \<Rightarrow> False)"

lemma runs_only_olm [runs_only_intros]:
  assumes "cli_dry c \<or> (\<forall>cmd. olm_command root cmd \<longrightarrow> P cmd)"
  shows "runs_only P (isOLMInstalled c)" "runs_only P (waitForCatalogSource c name timeout)"
    "runs_only P (ensureOperatorGroup c ns)" "runs_only P (waitForCSV c operator ns timeout)"
    "runs_only P (olm_pull_secret c msg secret path)" "runs_only P (install_olm c root version)"
proof -
  have P: "cli_dry c \<or> P cmd" if "olm_command root cmd" for cmd using assms that by blast
  note defs = olm_command_def OLMNamespace_def catalog_query_def csv_query_def
  show installed: "runs_only P (isOLMInstalled c)"
    unfolding isOLMInstalled_def by (intro runs_only_intros P) (simp add: defs)
  show catalog: "runs_only P (waitForCatalogSource c name timeout)" for name timeout
    unfolding waitForCatalogSource_def by (auto intro!: runs_only_intros P simp: defs)
  show "runs_only P (ensureOperatorGroup c ns)"
    using assms unfolding ensureOperatorGroup_def by (auto intro!: runs_only_intros P simp: defs)
  show "runs_only P (waitForCSV c operator ns timeout)"
    unfolding waitForCSV_def by (auto intro!: runs_only_intros P simp: defs)
  show "runs_only P (olm_pull_secret c msg secret path)"
    unfolding olm_pull_secret_def by (auto intro!: runs_only_intros P simp: defs)
  show "runs_only P (install_olm c root version)"
    unfolding install_olm_def by (auto intro!: runs_only_intros P installed catalog simp: defs)
qed

subsection \<open>Dry runs\<close>

text \<open>
  OLM counts as installed in a dry run, so that nothing is left to do for its installation.  But
  a catalog is never ready, so that everything that waits for one fails, after five minutes.
\<close>

definition fails :: "'a cio \<Rightarrow> bool" where
  "fails m \<longleftrightarrow> (\<forall>l. isl (fst (m l)))"

lemma fails_kseq:
  assumes "m \<in> set ms" and "fails m"
  shows "fails (kseq ms)"
  using assms(1)
proof (induction ms)
  case (Cons m' ms)
  show ?case
  proof (cases "m' = m")
    case True
    then show ?thesis using assms(2) unfolding kseq_def fails_def
      by (simp add: kbind_def split: prod.split sum.split) (metis fst_conv sum.disc(2))
  next
    case False
    with Cons show ?thesis unfolding kseq_def fails_def
      by (simp add: kbind_def split: prod.split sum.split)
  qed
qed simp

lemma olm_installed_dry: "cli_dry c \<Longrightarrow> isOLMInstalled c l = (Inr True, l)"
  by (simp add: isOLMInstalled_def run_ok_def ktry_def Run_def kreturn_def)

lemma install_olm_dry [succeeds_intros]: "cli_dry c \<Longrightarrow> succeeds (install_olm c root version)"
  by (simp add: succeeds_def install_olm_def kbind_def olm_installed_dry kreturn_def)

lemma fails_waitForCatalogSource: "cli_dry c \<Longrightarrow> fails (waitForCatalogSource c name timeout)"
  by (simp add: fails_def waitForCatalogSource_def wait_until_dry)

lemma olm_catalog_add_dry:
  assumes "cli_dry c"
  shows "fails (olm_catalog_add c name img secret)"
proof (cases "img = []")
  case False
  have "fails (kseq (ms @ [waitForCatalogSource c name (seconds 300)]))" for ms
    by (rule fails_kseq [where m = "waitForCatalogSource c name (seconds 300)"])
      (simp_all add: fails_waitForCatalogSource assms)
  with False assms show ?thesis
    by (simp add: olm_catalog_add_def require_olm_def fails_def kbind_def olm_installed_dry Let_def)
qed (use assms in \<open>simp add: olm_catalog_add_def require_olm_def fails_def kbind_def olm_installed_dry kfail_def\<close>)

subsection \<open>Commands that need OLM\<close>

text \<open>Without OLM they ask for its deployment and stop there.\<close>

lemma olm_commands_without_olm:
  assumes "\<not> cli_dry c" and "\<And>l. cli_shell c l [''kubectl'', ''get'', ''deployment'', ''olm-operator'', ''-n'', OLMNamespace] = None"
    and "m \<in> {olm_catalog_add c name img secret, olm_catalog_list c, olm_operator_list c, olm_operator_install c operator channel ns}"
  shows "m l = (Inl (Message ''OLM is not installed''), l @ [[''kubectl'', ''get'', ''deployment'', ''olm-operator'', ''-n'', OLMNamespace]])"
proof -
  have "isOLMInstalled c l = (Inr False, l @ [[''kubectl'', ''get'', ''deployment'', ''olm-operator'', ''-n'', OLMNamespace]])"
    using assms(1,2) by (simp add: isOLMInstalled_def run_ok_def ktry_def Run_def kreturn_def)
  then have "require_olm c m' l = (Inl (Message ''OLM is not installed''), l @ [[''kubectl'', ''get'', ''deployment'', ''olm-operator'', ''-n'', OLMNamespace]])" for m'
    by (simp add: require_olm_def kbind_def kfail_def)
  with assms(3) show ?thesis
    by (auto simp: olm_catalog_add_def olm_catalog_list_def olm_operator_list_def olm_operator_install_def)
qed

subsection \<open>Waiting for an operator\<close>

text \<open>
  The wait for an operator ends well only if a line that names it ends with success.  The name may
  be part of another one's: the wait is then over although the operator itself is not there.
\<close>

lemma waitForCSV_result:
  assumes "\<not> cli_dry c" and "waitForCSV c operator ns timeout l = (Inr (), l')"
  shows "\<exists>l1 cmd out line. l' = l1 @ [cmd] \<and> cli_shell c l1 cmd = Some out \<and>
    line \<in> set (split_char (CHR 0x0A) (trim out)) \<and> str_contains line operator \<and> has_suffix line ''=Succeeded''"
  using wait_until_success [OF assms(1) assms(2) [unfolded waitForCSV_def]]
  unfolding csv_succeeded_def list_ex_iff by blast

lemma csv_of_another_operator: "csv_succeeded ''prometheus'' ''prometheus-exporter-operator.v0.8.1=Succeeded''"
  by code_simp

text \<open>
  An installation that succeeds has subscribed to the operator, in the channel that was given or
  else in the default one, and has then seen it succeed.
\<close>

lemma RunOutput_Inr:
  "\<not> cli_dry c \<Longrightarrow> RunOutput c cmd l = (Inr out, l') \<longleftrightarrow> (\<exists>o'. cli_shell c l cmd = Some o' \<and> out = trim o') \<and> l' = l @ [cmd]"
  by (auto simp: RunOutput_def split: option.split)

lemma wrap_Inr: "wrap msg m l = (Inr x, l') \<longleftrightarrow> m l = (Inr x, l')"
  by (auto simp: wrap_def ktry_def kfail_def kreturn_def split: prod.split sum.split)

lemma operator_install_subscribes:
  assumes "\<not> cli_dry c" and "olm_operator_install c operator channel ns l = (Inr (), l')"
  shows "\<exists>ch source l1 l2.
    (if channel = [] then ch \<noteq> [] \<and> (\<exists>l0 out. cli_shell c l0 [''kubectl'', ''get'', ''packagemanifest'', operator,
         ''-o'', ''jsonpath={.status.defaultChannel}''] = Some out \<and> ch = trim out)
     else ch = channel) \<and>
    createSubscription c operator ns ch source l1 = (Inr (), l2) \<and> waitForCSV c operator ns (seconds 300) l2 = (Inr (), l')"
proof -
  from assms(2) obtain ch source l0 l0' l1 l2 where
    ch: "(if channel = [] then wrap ''operator not found in catalog'' (getDefaultChannel c operator)
      else kreturn channel) l0 = (Inr ch, l0')"
    and "createSubscription c operator ns ch source l1 = (Inr (), l2)"
    and "waitForCSV c operator ns (seconds 300) l2 = (Inr (), l')"
    unfolding olm_operator_install_def require_olm_def
    by (auto simp: kbind_Inr kseq_def kreturn_def kfail_def split: if_splits)
  moreover have "if channel = [] then ch \<noteq> [] \<and> (\<exists>l0 out. cli_shell c l0 [''kubectl'', ''get'', ''packagemanifest'', operator,
      ''-o'', ''jsonpath={.status.defaultChannel}''] = Some out \<and> ch = trim out) else ch = channel"
    using ch assms(1)
    by (auto simp: wrap_Inr getDefaultChannel_def kbind_Inr RunOutput_Inr kreturn_def kfail_def split: if_splits)
  ultimately show ?thesis by blast
qed

end
