(* ===== verification/Cli_User.thy ===== *)
theory Cli_User
  imports Cli OAuth_Server
begin

text \<open>
  \<^verbatim>\<open>cli/cmd/user.go\<close>: adding, deleting and listing the users of a cluster.  Without an external
  provider they are lines of a Secret that the simulator watches; with one they are managed by the
  administration API of the provider, \<^verbatim>\<open>entra-mock\<close>.
\<close>

section \<open>Definitions\<close>

subsection \<open>The htpasswd Secret\<close>

definition htpasswd_query :: "string \<Rightarrow> command" where
  "htpasswd_query ctx =
     [''kubectl'', ''--context'', ctx, ''-n'', HtpasswdNamespace, ''get'', ''secret'', HtpasswdSecret,
      ''-o'', ''jsonpath={.data.htpasswd}'']"

definition readHtpasswd :: "cli \<Rightarrow> string \<Rightarrow> string cio" where
  "readHtpasswd c ctx =
     ktry (RunOutput c (htpasswd_query ctx)) (\<lambda>r.
       case r of
         Inl e \<Rightarrow> kreturn []
       | Inr out \<Rightarrow>
           (case cli_b64_decode c (trim out) of
              None \<Rightarrow> kfail (Message ''failed to decode htpasswd'')
            | Some decoded \<Rightarrow> kreturn decoded))"

text \<open>The manifest: the lines of the file, indented, in a literal block.\<close>

definition secret_manifest :: "string list \<Rightarrow> string" where
  "secret_manifest lines =
     ''apiVersion: v1'' @ nl @ ''kind: Secret'' @ nl @ ''metadata:'' @ nl @
     ''  name: '' @ HtpasswdSecret @ nl @ ''  namespace: '' @ HtpasswdNamespace @ nl @
     ''type: Opaque'' @ nl @ ''stringData:'' @ nl @ ''  htpasswd: |'' @ nl @
     concat (map (\<lambda>line. ''    '' @ line @ nl) lines)"

definition apply_script :: "string \<Rightarrow> string \<Rightarrow> string" where
  "apply_script ctx secret =
     ''cat <<'' @ [CHR 0x27] @ ''HTPASSWD_EOF'' @ [CHR 0x27] @ '' | kubectl --context '' @ ctx @ '' apply -f -'' @ nl @
     secret @ ''HTPASSWD_EOF''"

definition applyHtpasswdSecret :: "cli \<Rightarrow> string \<Rightarrow> string \<Rightarrow> unit cio" where
  "applyHtpasswdSecret c ctx htpasswd =
     Run c [''bash'', ''-c'', apply_script ctx (secret_manifest
       (split_char (CHR 0x0A) (trim_end_char (CHR 0x0A) htpasswd)))]"

text \<open>Whether a line is that of a user.\<close>

definition line_of :: "string \<Rightarrow> string \<Rightarrow> bool" where
  "line_of username line =
     (let parts = splitn_char 2 (CHR '':'') line in length parts = 2 \<and> parts ! 0 = username)"

text \<open>The lines after a user has been set, and after one has been removed.\<close>

definition added_lines :: "string \<Rightarrow> string \<Rightarrow> string \<Rightarrow> string list" where
  "added_lines username password current =
     (let lines = filter (\<lambda>line. line \<noteq> []) (split_char (CHR 0x0A) (trim current));
          new = username @ '':'' @ password;
          found = list_ex (line_of username) lines
      in map (\<lambda>line. if line_of username line then new else line) lines @ (if found then [] else [new]))"

definition htpasswdAddUser :: "cli \<Rightarrow> string \<Rightarrow> string \<Rightarrow> string \<Rightarrow> unit cio" where
  "htpasswdAddUser c ctx username password =
     kbind (run_ignored c [''kubectl'', ''--context'', ctx, ''create'', ''namespace'', HtpasswdNamespace]) (\<lambda>_.
     kbind (readHtpasswd c ctx) (\<lambda>current.
     wrap ''failed to update htpasswd secret''
       (applyHtpasswdSecret c ctx (join_lines (added_lines username password current) @ nl))))"

definition htpasswdDeleteUser :: "cli \<Rightarrow> string \<Rightarrow> string \<Rightarrow> unit cio" where
  "htpasswdDeleteUser c ctx username =
     kbind (readHtpasswd c ctx) (\<lambda>current.
       if current = [] then kfail (Message ''htpasswd secret not found'')
       else
         (let lines = split_char (CHR 0x0A) (trim current)
          in if \<not> list_ex (line_of username) lines
             then kfail (UserNotFound username)
             else applyHtpasswdSecret c ctx
               (join_lines (filter (\<lambda>line. line \<noteq> [] \<and> \<not> line_of username line) lines) @ nl)))"

definition isAdmin :: "cli \<Rightarrow> string \<Rightarrow> string \<Rightarrow> bool cio" where
  "isAdmin c ctx username =
     kbind (run_ok c [''kubectl'', ''--context'', ctx, ''get'', ''clusterrolebinding'', ''picoshift-admin-'' @ username]) (\<lambda>bound.
       if username = ''admin'' \<and> \<not> bound
       then run_ok c [''kubectl'', ''--context'', ctx, ''get'', ''clusterrolebinding'', ''ocp-sim-admin'']
       else kreturn bound)"

text \<open>The rows that are printed.\<close>

definition htpasswdListUsers :: "cli \<Rightarrow> string \<Rightarrow> (string \<times> bool) list cio" where
  "htpasswdListUsers c ctx =
     kbind (readHtpasswd c ctx) (\<lambda>current.
       if current = [] then kreturn []
       else kfold (\<lambda>line rows.
              let parts = splitn_char 2 (CHR '':'') line
              in if length parts \<noteq> 2 \<or> parts ! 0 = [] then kreturn rows
                 else kbind (isAdmin c ctx (parts ! 0)) (\<lambda>admin. kreturn (rows @ [(parts ! 0, admin)])))
            (split_char (CHR 0x0A) (trim current)) [])"

subsection \<open>The external provider\<close>

definition entraMockExec :: "cli \<Rightarrow> string \<Rightarrow> string list \<Rightarrow> string cio" where
  "entraMockExec c ctx curlArgs =
     RunOutput c ([''kubectl'', ''--context'', ctx, ''-n'', EntraMockNamespace, ''exec'', ''deploy/entra-mock'', ''--'',
       ''curl'', ''-s'', ''-u'', '':'' @ EntraMockAdminPass] @ curlArgs)"

definition users_url :: string where "users_url = ''http://localhost:8080/admin/api/users''"

definition provider_payload :: "string \<Rightarrow> string \<Rightarrow> string \<Rightarrow> json" where
  "provider_payload username password email =
     JObject [(''display_name'', JString username), (''email'', JString email),
       (''groups'', JArray [JObject [(''id'', JString ''g0000000-0000-0000-0000-authenticated0''),
          (''name'', JString ''system:authenticated'')]]),
       (''password'', JString password), (''tenant_id'', JString EntraMockTenantID), (''upn'', JString username)]"

definition entraMockAddUser :: "cli \<Rightarrow> string \<Rightarrow> string \<Rightarrow> string \<Rightarrow> string \<Rightarrow> unit cio" where
  "entraMockAddUser c ctx username password email =
     (let email = (if email = [] then username @ ''@ocp-sim.test'' else email);
          data = cli_json_print c (provider_payload username password email)
      in kbind (wrap ''failed to add user to entra-mock'' (entraMockExec c ctx
           [''-X'', ''POST'', users_url, ''-H'', ''Content-Type: application/json'', ''-d'', data])) (\<lambda>out.
         if str_contains out ''error'' then kfail (Message (''entra-mock error: '' @ out)) else kreturn ()))"

definition provider_users :: "cli \<Rightarrow> string \<Rightarrow> provider_user list cio" where
  "provider_users c ctx =
     kbind (wrap ''failed to list entra-mock users'' (entraMockExec c ctx [users_url])) (\<lambda>out.
       case cli_json_users c out of
         None \<Rightarrow> kfail (Message ''failed to parse entra-mock users'')
       | Some users \<Rightarrow> kreturn users)"

definition entraMockDeleteUser :: "cli \<Rightarrow> string \<Rightarrow> string \<Rightarrow> unit cio" where
  "entraMockDeleteUser c ctx username =
     kbind (provider_users c ctx) (\<lambda>users.
       let userID = (case find (\<lambda>u. pu_upn u = username) users of Some u \<Rightarrow> pu_id u | None \<Rightarrow> [])
       in if userID = [] then kfail (UserNotFound username)
          else kbind (wrap ''failed to delete user from entra-mock''
                 (entraMockExec c ctx [''-X'', ''DELETE'', users_url @ ''/'' @ userID])) (\<lambda>_. kreturn ()))"

definition entraMockListUsers :: "cli \<Rightarrow> string \<Rightarrow> (string \<times> string \<times> bool) list cio" where
  "entraMockListUsers c ctx =
     kbind (provider_users c ctx) (\<lambda>users.
       kfold (\<lambda>u rows. kbind (isAdmin c ctx (pu_upn u)) (\<lambda>admin.
           kreturn (rows @ [(pu_upn u, pu_email u, admin)]))) users [])"

subsection \<open>Commands\<close>

definition kube_context :: "string \<Rightarrow> string" where
  "kube_context clusterName = ''kind-'' @ clusterName"

definition user_add :: "cli \<Rightarrow> string \<Rightarrow> string \<Rightarrow> string \<Rightarrow> string \<Rightarrow> bool \<Rightarrow> unit cio" where
  "user_add c clusterName username password email clusterAdmin =
     (if username = [] \<or> password = []
      then kfail (Message ''--username and --password are required'')
      else
        (let ctx = kube_context clusterName; crbName = ''picoshift-admin-'' @ username
         in kbind (GetAuthMode c ctx) (\<lambda>mode.
            kbind (if mode = ''byoidc'' then entraMockAddUser c ctx username password email
                   else htpasswdAddUser c ctx username password) (\<lambda>_.
            if clusterAdmin
            then kbind (run_ignored c [''kubectl'', ''--context'', ctx, ''delete'', ''clusterrolebinding'', crbName,
                   ''--ignore-not-found'']) (\<lambda>_.
                 wrap ''failed to create ClusterRoleBinding'' (Run c [''kubectl'', ''--context'', ctx, ''create'',
                   ''clusterrolebinding'', crbName, ''--clusterrole=cluster-admin'', ''--user='' @ username]))
            else kreturn ()))))"

definition user_delete :: "cli \<Rightarrow> string \<Rightarrow> string \<Rightarrow> unit cio" where
  "user_delete c clusterName username =
     (if username = [] then kfail (Message ''--username is required'')
      else
        (let ctx = kube_context clusterName;
             remove = (\<lambda>kind name. run_ignored c [''kubectl'', ''--context'', ctx, ''delete'', kind, name, ''--ignore-not-found''])
         in kbind (GetAuthMode c ctx) (\<lambda>mode.
            kbind (if mode = ''byoidc'' then entraMockDeleteUser c ctx username
                   else htpasswdDeleteUser c ctx username) (\<lambda>_.
            kbind (remove ''user.user.openshift.io'' username) (\<lambda>_.
            kbind (remove ''identity.user.openshift.io'' (''ocp-sim.'' @ username)) (\<lambda>_.
            remove ''clusterrolebinding'' (''picoshift-admin-'' @ username)))))))"

text \<open>The printed table; the column of e-mail addresses is there only with an external provider.\<close>

definition user_list :: "cli \<Rightarrow> string \<Rightarrow> (string \<times> string option \<times> bool) list cio" where
  "user_list c clusterName =
     (let ctx = kube_context clusterName
      in kbind (GetAuthMode c ctx) (\<lambda>mode.
         if mode = ''byoidc''
         then kbind (entraMockListUsers c ctx) (\<lambda>rows. kreturn (map (\<lambda>(u, e, a). (u, Some e, a)) rows))
         else kbind (htpasswdListUsers c ctx) (\<lambda>rows. kreturn (map (\<lambda>(u, a). (u, None, a)) rows))))"

section \<open>Specification\<close>

text \<open>The users after a user has been set, and after one has been removed.\<close>

definition set_user :: "string \<Rightarrow> string \<Rightarrow> (string \<times> string) list \<Rightarrow> (string \<times> string) list" where
  "set_user u p ups =
     (if u \<in> fst ` set ups then map (\<lambda>(v, q). if v = u then (u, p) else (v, q)) ups else ups @ [(u, p)])"

definition remove_user :: "string \<Rightarrow> (string \<times> string) list \<Rightarrow> (string \<times> string) list" where
  "remove_user u ups = filter (\<lambda>(v, q). v \<noteq> u) ups"

text \<open>
  Lines that a literal block of YAML keeps as they are, and what applying the manifest of a Secret
  with such lines does: the Secret then holds them, each with its line break.
\<close>

definition yaml_plain :: "string \<Rightarrow> bool" where
  "yaml_plain line \<longleftrightarrow> line \<noteq> [] \<and> hd line \<noteq> CHR '' '' \<and> list_all (in_range 32 126) line"

definition manifest_law :: "(string \<Rightarrow> secret option) \<Rightarrow> bool" where
  "manifest_law applied \<longleftrightarrow>
     (\<forall>ctx lines. lines \<noteq> [] \<and> list_all yaml_plain lines \<longrightarrow>
        (\<exists>s d. applied (apply_script ctx (secret_manifest lines)) = Some s \<and>
           om_name (sec_meta s) = Some HtpasswdSecret \<and> sec_data s = Some d \<and>
           map_of d ''htpasswd'' = Some (concat (map (\<lambda>line. line @ nl) lines))))"

text \<open>A user whose line can be written and read back.\<close>

definition printable_user :: "string \<times> string \<Rightarrow> bool" where
  "printable_user up \<longleftrightarrow> htpasswd_safe up \<and> list_all (in_range 32 126) (fst up @ snd up)"

text \<open>What reading the Secret gives, whatever was run before.\<close>

definition secret_holds :: "cli \<Rightarrow> string \<Rightarrow> string \<Rightarrow> bool" where
  "secret_holds c ctx content \<longleftrightarrow>
     (\<forall>l. \<exists>out. cli_shell c l (htpasswd_query ctx) = Some out \<and> cli_b64_decode c (trim (trim out)) = Some content)"

text \<open>The line of a user, and the commands around a change of users.\<close>

definition user_line :: "string \<times> string \<Rightarrow> string" where
  "user_line up = fst up @ '':'' @ snd up"

definition apply_command :: "string \<Rightarrow> (string \<times> string) list \<Rightarrow> command" where
  "apply_command ctx ups = [''bash'', ''-c'', apply_script ctx (secret_manifest (map user_line ups))]"

abbreviation create_namespace :: "string \<Rightarrow> command" where
  "create_namespace ctx \<equiv> [''kubectl'', ''--context'', ctx, ''create'', ''namespace'', HtpasswdNamespace]"

abbreviation cleanup :: "string \<Rightarrow> string \<Rightarrow> command list" where
  "cleanup ctx u \<equiv> map (\<lambda>(kind, name). [''kubectl'', ''--context'', ctx, ''delete'', kind, name, ''--ignore-not-found''])
     [(''user.user.openshift.io'', u), (''identity.user.openshift.io'', ''ocp-sim.'' @ u),
      (''clusterrolebinding'', ''picoshift-admin-'' @ u)]"

section \<open>Lemmas\<close>

subsection \<open>Lines of users\<close>

lemma line_of_user_line: "CHR '':'' \<notin> set (fst up) \<Longrightarrow> line_of u (user_line up) \<longleftrightarrow> fst up = u"
  by (cases up) (simp add: line_of_def user_line_def numeral_2_eq_2)

lemma user_line_nonempty [simp]: "user_line up \<noteq> []"
  by (simp add: user_line_def)

lemma printable_no_line_break: "list_all (in_range 32 126) s \<Longrightarrow> CHR 0x0A \<notin> set s"
  by (induction s) (auto simp: in_range_def)

lemma printable_line:
  assumes "printable_user up"
  shows "list_all (in_range 32 126) (user_line up)" and "hd (user_line up) \<notin> ws_bytes" and "last (user_line up) \<notin> ws_bytes"
    and "CHR 0x0A \<notin> set (user_line up)" and "yaml_plain (user_line up)" and "CHR '':'' \<notin> set (fst up)"
proof -
  have safe: "trim (fst up) = fst up" "trim (snd up) = snd up" "CHR '':'' \<notin> set (fst up)"
    using assms by (simp_all add: printable_user_def htpasswd_safe_def)
  show "CHR '':'' \<notin> set (fst up)" by (rule safe)
  show line: "list_all (in_range 32 126) (user_line up)"
    using assms by (simp add: printable_user_def user_line_def) (simp add: in_range_def)
  then show "CHR 0x0A \<notin> set (user_line up)" by (rule printable_no_line_break)
  have ne: "user_line up \<noteq> []" by (simp add: user_line_def)
  have h: "hd (user_line up) \<noteq> CHR '' ''"
    using trimmed_ends(1) [OF safe(1)] by (cases "fst up") (auto simp: user_line_def)
  have l: "last (user_line up) \<noteq> CHR '' ''"
    using trimmed_ends(2) [OF safe(2)] by (cases "snd up") (auto simp: user_line_def)
  have "hd (user_line up) \<in> set (user_line up)" "last (user_line up) \<in> set (user_line up)"
    using ne by simp_all
  with line h l show "hd (user_line up) \<notin> ws_bytes" "last (user_line up) \<notin> ws_bytes"
    using printable_not_ws by (auto simp: list_all_iff)
  show "yaml_plain (user_line up)" using line h ne by (simp add: yaml_plain_def)
qed

lemma htpasswd_text_lines: "htpasswd_text ups = concat (map (\<lambda>line. line @ nl) (map user_line ups))"
  by (simp add: htpasswd_text_def comp_def user_line_def case_prod_unfold)

lemma printable_lines:
  assumes "list_all printable_user ups"
  shows "list_all (\<lambda>l. CHR 0x0A \<notin> set l) (map user_line ups)" and "list_all yaml_plain (map user_line ups)"
    and "[] \<notin> set (map user_line ups)"
proof -
  have "CHR 0x0A \<notin> set (user_line up)" "yaml_plain (user_line up)" if "up \<in> set ups" for up
    using that assms printable_line(4,5) [of up] by (simp_all add: list_all_iff)
  then show "list_all (\<lambda>l. CHR 0x0A \<notin> set l) (map user_line ups)" "list_all yaml_plain (map user_line ups)"
    by (simp_all add: list_all_iff)
  show "[] \<notin> set (map user_line ups)" by (auto simp: user_line_def)
qed

lemma trim_htpasswd_text:
  assumes "list_all printable_user ups" and "ups \<noteq> []"
  shows "trim (htpasswd_text ups) = join_lines (map user_line ups)"
proof -
  have "printable_user (hd ups)" "printable_user (last ups)" using assms by (auto simp: list_all_iff)
  then have "trim (join_lines (map user_line ups) @ nl) = join_lines (map user_line ups)"
    using assms(2) printable_lines(3) [OF assms(1)] printable_line(2,3)
    by (intro trim_lines) (auto simp: hd_map last_map)
  then show ?thesis
    unfolding htpasswd_text_lines using assms(2) join_lines_concat [of "map user_line ups"] by (simp del: map_map)
qed

lemma split_htpasswd_text:
  assumes "list_all printable_user ups" and "ups \<noteq> []"
  shows "split_char (CHR 0x0A) (trim (htpasswd_text ups)) = map user_line ups"
  using assms printable_lines(1) [OF assms(1)] by (simp add: trim_htpasswd_text split_join_lines)

lemma current_lines:
  assumes "list_all printable_user ups"
  shows "filter (\<lambda>line. line \<noteq> []) (split_char (CHR 0x0A) (trim (htpasswd_text ups))) = map user_line ups"
proof (cases "ups = []")
  case True
  then show ?thesis by (simp add: htpasswd_text_def trim_def trim_end_def trim_start_def trim_start_with.simps ws_encodings_def)
next
  case False
  then show ?thesis using split_htpasswd_text [OF assms False] by (simp add: filter_map comp_def)
qed

lemma set_user_lines:
  assumes "list_all printable_user ups"
  shows "added_lines u p (htpasswd_text ups) = map user_line (set_user u p ups)"
proof -
  have line: "line_of u (user_line up) \<longleftrightarrow> fst up = u" if "up \<in> set ups" for up
    using that assms printable_line(6) [of up] by (simp add: list_all_iff line_of_user_line)
  have new: "u @ '':'' @ p = user_line (u, p)" by (simp add: user_line_def)
  show ?thesis
    unfolding added_lines_def Let_def current_lines [OF assms] new
    using line by (auto simp: set_user_def list_ex_iff split_beta image_iff)
qed

lemma remove_user_lines:
  assumes "list_all printable_user ups"
  shows "filter (\<lambda>line. line \<noteq> [] \<and> \<not> line_of u line) (map user_line ups) = map user_line (remove_user u ups)"
    and "list_ex (line_of u) (map user_line ups) \<longleftrightarrow> u \<in> fst ` set ups"
proof -
  have line: "line_of u (user_line up) \<longleftrightarrow> fst up = u" if "up \<in> set ups" for up
    using that assms printable_line(6) [of up] by (simp add: list_all_iff line_of_user_line)
  then have "filter (\<lambda>up. \<not> line_of u (user_line up)) ups = remove_user u ups"
    unfolding remove_user_def by (intro filter_cong) auto
  then show "filter (\<lambda>line. line \<noteq> [] \<and> \<not> line_of u line) (map user_line ups) = map user_line (remove_user u ups)"
    by (simp add: filter_map comp_def)
  show "list_ex (line_of u) (map user_line ups) \<longleftrightarrow> u \<in> fst ` set ups"
    using line by (auto simp: list_ex_iff image_iff)
qed

lemma set_user_mem: "(v, q) \<in> set (set_user u p ups) \<longleftrightarrow> (if v = u then q = p else (v, q) \<in> set ups)"
  by (force simp: set_user_def image_iff split: if_splits)

lemma remove_user_mem: "(v, q) \<in> set (remove_user u ups) \<longleftrightarrow> v \<noteq> u \<and> (v, q) \<in> set ups"
  by (auto simp: remove_user_def)

lemma printable_set_user:
  "list_all printable_user ups \<Longrightarrow> printable_user (u, p) \<Longrightarrow> list_all printable_user (set_user u p ups)"
  using set_user_mem [of _ _ u p ups] by (force simp: list_all_iff split: if_splits)

lemma set_user_nonempty: "set_user u p ups \<noteq> []"
  by (auto simp: set_user_def)

subsection \<open>What the simulator makes of it\<close>

lemma ascii_lossy: "list_all is_ascii s \<Longrightarrow> from_utf8_lossy s = s"
  by (simp add: from_utf8_lossy_def utf8_decode_ascii)

lemma htpasswd_text_ascii: "list_all printable_user ups \<Longrightarrow> list_all is_ascii (htpasswd_text ups)"
proof -
  assume "list_all printable_user ups"
  then have "list_all (in_range 32 126) (user_line up)" if "up \<in> set ups" for up
    using that printable_line(1) [of up] by (simp add: list_all_iff)
  then show ?thesis
    by (fastforce simp: htpasswd_text_lines list_all_iff in_range_def is_ascii_def)
qed

lemma applied_users:
  assumes "manifest_law applied" and "list_all printable_user ups" and "ups \<noteq> []"
  obtains s where "applied (apply_script ctx (secret_manifest (map user_line ups))) = Some s"
    and "\<And>store. htpasswd_event (Some s) store = \<lparr>us_users = map (\<lambda>(u, p). plain_user u p) ups\<rparr>"
proof -
  obtain s d where s: "applied (apply_script ctx (secret_manifest (map user_line ups))) = Some s"
    "om_name (sec_meta s) = Some HtpasswdSecret" "sec_data s = Some d"
    "map_of d ''htpasswd'' = Some (htpasswd_text ups)"
    using assms(1) [unfolded manifest_law_def, rule_format, of "map user_line ups" ctx] assms(3)
      printable_lines(2) [OF assms(2)]
    unfolding htpasswd_text_lines by auto
  have "htpasswd_data s = Some (htpasswd_text ups)"
    using s(3,4) ascii_lossy [OF htpasswd_text_ascii [OF assms(2)]] by (simp add: htpasswd_data_def HTPASSWD_KEY_def)
  moreover have "list_all htpasswd_safe ups" using assms(2) by (auto simp: list_all_iff printable_user_def)
  ultimately have "htpasswd_event (Some s) store = \<lparr>us_users = map (\<lambda>(u, p). plain_user u p) ups\<rparr>" for store
    using s(2) by (simp add: htpasswd_event_def HTPASSWD_SECRET_def HtpasswdSecret_def htpasswd_round_trip)
  with s(1) that show thesis by blast
qed

lemma authenticate_plain_users:
  "authenticate \<lparr>us_users = map (\<lambda>(u, p). plain_user u p) ups\<rparr> v q \<noteq> None \<longleftrightarrow> (v, q) \<in> set ups"
  by (force simp: authenticate_None_iff plain_user_def)

subsection \<open>Runs of the commands\<close>

lemma Run_log: "\<not> cli_dry c \<Longrightarrow> snd (Run c cmd l) = l @ [cmd]"
  by (simp add: Run_def split: option.split)

lemma run_ignored_run: "\<not> cli_dry c \<Longrightarrow> run_ignored c cmd l = (Inr (), l @ [cmd])"
  using Run_log [of c cmd l] by (auto simp: run_ignored_def ktry_def kreturn_def split: prod.split)

lemma GetAuthMode_run: "\<not> cli_dry c \<Longrightarrow> \<exists>mode. GetAuthMode c ctx l = (Inr mode, l @ [args_query ctx])"
  by (simp add: GetAuthMode_def ktry_def RunOutput_def kreturn_def split: option.split)

lemma readHtpasswd_run:
  "\<not> cli_dry c \<Longrightarrow> secret_holds c ctx content \<Longrightarrow> readHtpasswd c ctx l = (Inr content, l @ [htpasswd_query ctx])"
  unfolding secret_holds_def
  by (drule spec [of _ l]) (auto simp: readHtpasswd_def ktry_def RunOutput_def kreturn_def)

lemma applyHtpasswdSecret_run:
  assumes "list_all printable_user ups" and "ups \<noteq> []"
  shows "applyHtpasswdSecret c ctx (join_lines (map user_line ups) @ nl) = Run c (apply_command ctx ups)"
proof -
  have "last (join_lines (map user_line ups)) = last (user_line (last ups))"
    using join_lines_ends [of "map user_line ups"] printable_lines(3) [OF assms(1)] assms(2) by (simp add: last_map)
  moreover have "last (user_line (last ups)) \<noteq> CHR 0x0A"
    using assms printable_line(4) [of "last ups"] by (metis last_in_set list_all_iff user_line_nonempty)
  ultimately have "trim_end_char (CHR 0x0A) (join_lines (map user_line ups) @ nl) = join_lines (map user_line ups)"
    by (intro trim_end_char_snoc) simp
  then show ?thesis
    unfolding applyHtpasswdSecret_def apply_command_def
    using assms(2) split_join_lines [of "map user_line ups"] printable_lines(1) [OF assms(1)] by simp
qed

lemma htpasswdAddUser_run:
  assumes "\<not> cli_dry c" and "readHtpasswd c ctx (l @ [create_namespace ctx]) = (Inr (htpasswd_text ups), l')"
    and "list_all printable_user ups" and "printable_user (u, p)"
    and "\<And>l script. cli_shell c l [''bash'', ''-c'', script] \<noteq> None"
  shows "htpasswdAddUser c ctx u p l = (Inr (), l' @ [apply_command ctx (set_user u p ups)])"
proof -
  let ?new = "set_user u p ups"
  have "Run c (apply_command ctx ?new) l' = (Inr (), l' @ [apply_command ctx ?new])"
    using assms(1,5) by (auto simp: Run_def apply_command_def split: option.split)
  then show ?thesis
    unfolding htpasswdAddUser_def
    using assms(1,2) applyHtpasswdSecret_run [OF printable_set_user [OF assms(3,4)] set_user_nonempty]
    by (simp add: kbind_def ktry_def kreturn_def wrap_def run_ignored_run set_user_lines [OF assms(3)])
qed

lemma htpasswdDeleteUser_run:
  assumes "\<not> cli_dry c" and "secret_holds c ctx (htpasswd_text ups)"
    and "list_all printable_user ups" and "u \<in> fst ` set ups" and "remove_user u ups \<noteq> []"
    and "\<And>l script. cli_shell c l [''bash'', ''-c'', script] \<noteq> None"
  shows "htpasswdDeleteUser c ctx u l = (Inr (), l @ [htpasswd_query ctx, apply_command ctx (remove_user u ups)])"
proof -
  let ?new = "remove_user u ups"
  have run: "Run c (apply_command ctx ?new) (l @ [htpasswd_query ctx]) =
      (Inr (), (l @ [htpasswd_query ctx]) @ [apply_command ctx ?new])"
    using assms(1,6) by (auto simp: Run_def apply_command_def split: option.split)
  have ne: "ups \<noteq> []" using assms(4) by auto
  then have "htpasswd_text ups \<noteq> []" by (cases ups) (auto simp: htpasswd_text_def)
  moreover have "list_all printable_user ?new" using assms(3) by (auto simp: remove_user_def list_all_iff)
  ultimately show ?thesis
    unfolding htpasswdDeleteUser_def Let_def
    using run applyHtpasswdSecret_run [OF _ assms(5)]
    by (simp add: kbind_def readHtpasswd_run [OF assms(1,2)] split_htpasswd_text [OF assms(3) ne]
        remove_user_lines [OF assms(3)] assms(4))
qed

text \<open>
  A failure to read the Secret is taken for a Secret that does not exist: the new user then replaces
  all others.
\<close>

lemma user_add_after_failed_read:
  assumes "\<not> cli_dry c" and "\<And>l. cli_shell c l (htpasswd_query ctx) = None" and "printable_user (u, p)"
    and "\<And>l script. cli_shell c l [''bash'', ''-c'', script] \<noteq> None"
  shows "htpasswdAddUser c ctx u p l = (Inr (), l @ [create_namespace ctx, htpasswd_query ctx, apply_command ctx [(u, p)]])"
proof -
  have "readHtpasswd c ctx l = (Inr (htpasswd_text []), l @ [htpasswd_query ctx])" for l
    using assms(1,2) by (simp add: readHtpasswd_def ktry_def RunOutput_def kreturn_def htpasswd_text_def)
  from htpasswdAddUser_run [OF assms(1) this _ assms(3,4)] show ?thesis by (simp add: set_user_def)
qed

subsection \<open>Dry runs\<close>

lemma dry_helpers [runs_only_intros]:
  assumes "cli_dry c"
  shows "runs_only (\<lambda>_. False) (readHtpasswd c ctx)" "runs_only (\<lambda>_. False) (applyHtpasswdSecret c ctx t)" "runs_only (\<lambda>_. False) (isAdmin c ctx u)"
    "runs_only (\<lambda>_. False) (entraMockExec c ctx as)" "runs_only (\<lambda>_. False) (provider_users c ctx)"
  unfolding readHtpasswd_def applyHtpasswdSecret_def isAdmin_def entraMockExec_def provider_users_def
  by (auto intro!: runs_only_intros assms split: sum.split option.split)

lemma dry_user_commands:
  assumes "cli_dry c"
  shows "runs_only (\<lambda>_. False) (user_add c n u p e a)" "runs_only (\<lambda>_. False) (user_delete c n u)" "runs_only (\<lambda>_. False) (user_list c n)"
  unfolding user_add_def user_delete_def user_list_def htpasswdAddUser_def htpasswdDeleteUser_def
    htpasswdListUsers_def entraMockAddUser_def entraMockDeleteUser_def entraMockListUsers_def Let_def
  by (auto intro!: runs_only_intros assms)

section \<open>Examples\<close>

text \<open>Applying a manifest: the indented lines at the end of the script are the content of the Secret.\<close>

definition example_apply :: "string \<Rightarrow> secret option" where
  "example_apply script =
     (let lines = split_char (CHR 0x0A) (take (length script - 12) script);
          block = rev (takeWhile (\<lambda>l. starts_with l ''    '') (tl (rev lines)))
      in Some \<lparr>sec_meta = default_meta\<lparr>om_name := Some HtpasswdSecret\<rparr>, sec_type = None,
           sec_data = Some [(''htpasswd'', concat (map (\<lambda>l. drop 4 l @ nl) block))], sec_string_data = None\<rparr>)"

lemma split_char_block:
  "list_all (\<lambda>l. CHR 0x0A \<notin> set l) ls \<Longrightarrow>
   split_char (CHR 0x0A) (concat (map (\<lambda>l. ''    '' @ l @ nl) ls)) = map (\<lambda>l. ''    '' @ l) ls @ [[]]"
proof (induction ls)
  case (Cons l ls)
  then show ?case using split_char_append [of "CHR 0x0A" "''    '' @ l"] by simp
qed simp

lemma manifest_law_example: "manifest_law example_apply"
  unfolding manifest_law_def
proof (intro allI impI)
  fix ctx and ls :: "string list"
  assume ls: "ls \<noteq> [] \<and> list_all yaml_plain ls"
  then have lines: "list_all (\<lambda>l. CHR 0x0A \<notin> set l) ls"
    using printable_no_line_break by (auto simp: yaml_plain_def list_all_iff)
  let ?block = "concat (map (\<lambda>l. ''    '' @ l @ nl) ls)"
  obtain pre where script: "apply_script ctx (secret_manifest ls) =
      ((pre @ CHR 0x0A # ''  htpasswd: |'') @ CHR 0x0A # ?block) @ ''HTPASSWD_EOF''"
    by (simp add: apply_script_def secret_manifest_def)
  have "split_char (CHR 0x0A) ((pre @ CHR 0x0A # ''  htpasswd: |'') @ CHR 0x0A # ?block) =
      split_char (CHR 0x0A) pre @ [''  htpasswd: |''] @ map (\<lambda>l. ''    '' @ l) ls @ [[]]"
    unfolding split_char_join split_char_block [OF lines] by simp
  then have "takeWhile (\<lambda>l. starts_with l ''    '') (tl (rev (split_char (CHR 0x0A)
      ((pre @ CHR 0x0A # ''  htpasswd: |'') @ CHR 0x0A # ?block)))) = rev (map (\<lambda>l. ''    '' @ l) ls)"
    by (simp add: takeWhile_append starts_with_def)
  moreover have "take (length (x @ ''HTPASSWD_EOF'') - 12) (x @ ''HTPASSWD_EOF'') = x" for x :: string by simp
  ultimately have "\<exists>s. example_apply (apply_script ctx (secret_manifest ls)) = Some s \<and>
      om_name (sec_meta s) = Some HtpasswdSecret \<and>
      sec_data s = Some [(''htpasswd'', concat (map (\<lambda>line. line @ nl) ls))]"
    unfolding script example_apply_def Let_def by (simp only: rev_rev_ident) (simp add: comp_def)
  then show "\<exists>s d. example_apply (apply_script ctx (secret_manifest ls)) = Some s \<and>
      om_name (sec_meta s) = Some HtpasswdSecret \<and> sec_data s = Some d \<and>
      map_of d ''htpasswd'' = Some (concat (map (\<lambda>line. line @ nl) ls))" by fastforce
qed

text \<open>A cluster with two users.\<close>

definition example_users :: "(string \<times> string) list" where
  "example_users = [(''admin'', ''admin''), (''eve'', ''pw'')]"

definition example_cli :: cli where
  "example_cli = \<lparr>cli_dry = False, cli_version = ''dev'',
     cli_shell = (\<lambda>l cmd. if cmd = htpasswd_query (kube_context ''ocp-sim'') then Some (htpasswd_text example_users) else Some []),
     cli_sudo_var = [], cli_program_dir = None, cli_cwd = None, cli_assets = None,
     cli_exists = (\<lambda>p. False), cli_look_path = (\<lambda>n. None), cli_b64_decode = (\<lambda>s. Some (s @ nl)),
     cli_json_print = (\<lambda>j. []), cli_json_users = (\<lambda>s. None),
     cli_took = (\<lambda>l cmd. 0)\<rparr>"

lemma example_cli_holds: "secret_holds example_cli (kube_context ''ocp-sim'') (htpasswd_text example_users)"
proof -
  have "trim (trim (htpasswd_text example_users)) @ nl = htpasswd_text example_users" by code_simp
  then show ?thesis by (simp add: secret_holds_def example_cli_def)
qed

lemma example_cli_mode: "fst (GetAuthMode example_cli (kube_context ''ocp-sim'') []) \<noteq> Inr ''byoidc''"
  by code_simp

lemma example_cli_runs: "\<not> cli_dry example_cli" "cli_shell example_cli l [''bash'', ''-c'', script] \<noteq> None"
  by (simp_all add: example_cli_def)

lemma example_users_printable: "list_all printable_user example_users" "printable_user (''bob'', ''secret'')"
  by code_simp+

section \<open>Properties\<close>

text \<open>
  C11.  A user added with the command-line tool can log in: the tool rewrites the Secret so that the
  simulator, once its watcher has seen it, accepts the new password for this user and no other
  one, and still exactly the former passwords of all other users.
\<close>

theorem user_add_takes_effect:
  fixes name :: string
  defines "ctx \<equiv> kube_context name"
  assumes "\<not> cli_dry c" and "fst (GetAuthMode c ctx l) \<noteq> Inr ''byoidc''"
    and "secret_holds c ctx (htpasswd_text ups)" and "list_all printable_user ups"
    and "printable_user (u, p)" and "u \<noteq> []" and "p \<noteq> []"
    and "\<And>l script. cli_shell c l [''bash'', ''-c'', script] \<noteq> None" and "manifest_law applied"
  shows "\<exists>script s. user_add c name u p email False l =
      (Inr (), l @ [args_query ctx, create_namespace ctx, htpasswd_query ctx, [''bash'', ''-c'', script]]) \<and>
    applied script = Some s \<and>
    (\<forall>store v q. (authenticate (htpasswd_event (Some s) store) v q \<noteq> None) =
       (if v = u then q = p else (v, q) \<in> set ups))"
proof -
  let ?new = "set_user u p ups"
  obtain mode where mode: "GetAuthMode c ctx l = (Inr mode, l @ [args_query ctx])"
    using GetAuthMode_run [OF assms(2)] by blast
  then have "mode \<noteq> ''byoidc''" using assms(3) by auto
  moreover have "htpasswdAddUser c ctx u p (l @ [args_query ctx]) =
      (Inr (), l @ [args_query ctx, create_namespace ctx, htpasswd_query ctx, apply_command ctx ?new])"
    using htpasswdAddUser_run [OF assms(2) readHtpasswd_run [OF assms(2,4)] assms(5,6,9)] by simp
  ultimately have "user_add c name u p email False l =
      (Inr (), l @ [args_query ctx, create_namespace ctx, htpasswd_query ctx, apply_command ctx ?new])"
    using assms(7,8) mode by (simp add: user_add_def Let_def kbind_def kreturn_def ctx_def [symmetric])
  moreover obtain s where "applied (apply_script ctx (secret_manifest (map user_line ?new))) = Some s"
    and ev: "\<And>store. htpasswd_event (Some s) store = \<lparr>us_users = map (\<lambda>(u, p). plain_user u p) ?new\<rparr>"
    using applied_users [OF assms(10) printable_set_user [OF assms(5,6)] set_user_nonempty] by blast
  moreover have "(authenticate (htpasswd_event (Some s) store) v q \<noteq> None) = (if v = u then q = p else (v, q) \<in> set ups)" for store v q
    unfolding ev authenticate_plain_users set_user_mem ..
  ultimately show ?thesis
    unfolding apply_command_def by blast
qed

theorem user_add_takes_effect_witness:
  "\<exists>s. \<forall>store. authenticate (htpasswd_event (Some s) store) ''bob'' ''secret'' \<noteq> None \<and>
     authenticate (htpasswd_event (Some s) store) ''eve'' ''pw'' \<noteq> None \<and>
     fst (user_add example_cli ''ocp-sim'' ''bob'' ''secret'' [] False []) = Inr ()"
proof -
  obtain script s where "user_add example_cli ''ocp-sim'' ''bob'' ''secret'' [] False [] =
      (Inr (), [] @ [args_query (kube_context ''ocp-sim''), create_namespace (kube_context ''ocp-sim''),
         htpasswd_query (kube_context ''ocp-sim''), [''bash'', ''-c'', script]])"
    and auth: "\<And>store v q. (authenticate (htpasswd_event (Some s) store) v q \<noteq> None) =
      (if v = ''bob'' then q = ''secret'' else (v, q) \<in> set example_users)"
    using user_add_takes_effect [OF example_cli_runs(1) example_cli_mode example_cli_holds example_users_printable
        _ _ example_cli_runs(2) manifest_law_example, of "[]"] by auto
  moreover have "authenticate (htpasswd_event (Some s) store) ''bob'' ''secret'' \<noteq> None"
    "authenticate (htpasswd_event (Some s) store) ''eve'' ''pw'' \<noteq> None" for store
    unfolding auth by (simp_all add: example_users_def)
  ultimately show ?thesis by (intro exI [of _ s]) simp
qed

text \<open>
  C12.  A user deleted with the command-line tool can no longer log in, and everyone else still can:
  as long as another user is left, the simulator then accepts exactly the former passwords of the
  others.  The user's objects in the cluster are removed after the Secret was changed.
\<close>

theorem user_delete_takes_effect:
  fixes name :: string
  defines "ctx \<equiv> kube_context name"
  assumes "\<not> cli_dry c" and "fst (GetAuthMode c ctx l) \<noteq> Inr ''byoidc''"
    and "secret_holds c ctx (htpasswd_text ups)" and "list_all printable_user ups"
    and "u \<in> fst ` set ups" and "u \<noteq> []" and "v \<in> fst ` set ups" and "v \<noteq> u"
    and "\<And>l script. cli_shell c l [''bash'', ''-c'', script] \<noteq> None" and "manifest_law applied"
  shows "\<exists>script s. user_delete c name u l =
      (Inr (), l @ [args_query ctx, htpasswd_query ctx, [''bash'', ''-c'', script]] @ cleanup ctx u) \<and>
    applied script = Some s \<and>
    (\<forall>store v q. (authenticate (htpasswd_event (Some s) store) v q \<noteq> None) = (v \<noteq> u \<and> (v, q) \<in> set ups))"
proof -
  let ?new = "remove_user u ups"
  have ne: "?new \<noteq> []" using assms(8,9) by (force simp: remove_user_def filter_empty_conv)
  have new: "list_all printable_user ?new" using assms(5) by (auto simp: remove_user_def list_all_iff)
  obtain mode where mode: "GetAuthMode c ctx l = (Inr mode, l @ [args_query ctx])"
    using GetAuthMode_run [OF assms(2)] by blast
  then have "mode \<noteq> ''byoidc''" using assms(3) by auto
  then have "user_delete c name u l =
      (Inr (), l @ [args_query ctx, htpasswd_query ctx, apply_command ctx ?new] @ cleanup ctx u)"
    using assms(7) mode htpasswdDeleteUser_run [OF assms(2,4,5,6) ne assms(10), of "l @ [args_query ctx]"]
    by (simp add: user_delete_def Let_def kbind_def ctx_def [symmetric] run_ignored_run [OF assms(2)])
  moreover obtain s where "applied (apply_script ctx (secret_manifest (map user_line ?new))) = Some s"
    and ev: "\<And>store. htpasswd_event (Some s) store = \<lparr>us_users = map (\<lambda>(u, p). plain_user u p) ?new\<rparr>"
    using applied_users [OF assms(11) new ne] by blast
  moreover have "(authenticate (htpasswd_event (Some s) store) v q \<noteq> None) = (v \<noteq> u \<and> (v, q) \<in> set ups)" for store v q
    unfolding ev authenticate_plain_users remove_user_mem ..
  ultimately show ?thesis
    unfolding apply_command_def by blast
qed

theorem user_delete_takes_effect_witness:
  "\<exists>s. \<forall>store. authenticate (htpasswd_event (Some s) store) ''eve'' ''pw'' = None \<and>
     authenticate (htpasswd_event (Some s) store) ''admin'' ''admin'' \<noteq> None \<and>
     fst (user_delete example_cli ''ocp-sim'' ''eve'' []) = Inr ()"
proof -
  have "''eve'' \<in> fst ` set example_users" "''admin'' \<in> fst ` set example_users" by (simp_all add: example_users_def)
  then obtain script s where run: "user_delete example_cli ''ocp-sim'' ''eve'' [] =
      (Inr (), [] @ [args_query (kube_context ''ocp-sim''), htpasswd_query (kube_context ''ocp-sim''),
         [''bash'', ''-c'', script]] @ cleanup (kube_context ''ocp-sim'') ''eve'')"
    and auth: "\<And>store v q. (authenticate (htpasswd_event (Some s) store) v q \<noteq> None) =
      (v \<noteq> ''eve'' \<and> (v, q) \<in> set example_users)"
    using user_delete_takes_effect [OF example_cli_runs(1) example_cli_mode example_cli_holds example_users_printable(1)
        _ _ _ _ example_cli_runs(2) manifest_law_example, of "''eve''" "''admin''"] by auto
  have "\<not> authenticate (htpasswd_event (Some s) store) ''eve'' ''pw'' \<noteq> None"
    "authenticate (htpasswd_event (Some s) store) ''admin'' ''admin'' \<noteq> None" for store
    unfolding auth by (simp_all add: example_users_def)
  with run show ?thesis by (intro exI [of _ s]) simp
qed

text \<open>A dry run of the commands for users executes nothing.\<close>

lemma user_commands_dry_run:
  assumes "cli_dry c"
  shows "snd (user_add c n u p e a l) = l \<and> snd (user_delete c n u l) = l \<and> snd (user_list c n l) = l"
  by (intro conjI; rule runs_only_none; rule dry_user_commands [OF assms])

end
