(* ===== verification/Cli_Create.thy ===== *)
theory Cli_Create
  imports Cli_Olm Cli_User
begin

text \<open>
  \<^verbatim>\<open>cli/cmd/create.go\<close>, \<^verbatim>\<open>build.go\<close> and \<^verbatim>\<open>status.go\<close>: building the images, creating a cluster with the
  simulator on it, and reporting what is installed.
\<close>

section \<open>Definitions\<close>

subsection \<open>Building images (\<^verbatim>\<open>build.go\<close>)\<close>

definition build_kind_cli :: "cli \<Rightarrow> string \<Rightarrow> unit cio" where
  "build_kind_cli c root = Run c [''make'', ''-C'', path_join root KindForkDir, ''build'']"

definition build_base_image :: "cli \<Rightarrow> string \<Rightarrow> unit cio" where
  "build_base_image c root =
     (let kindFork = path_join root KindForkDir;
          shimDir = path_join kindFork ''cmd/ocp-shim'';
          baseDir = path_join kindFork ''images/base/ocp-shim''
      in kseq
        (map (\<lambda>f. Run c [''cp'', path_join shimDir f, baseDir @ ''/'']) [''main.go'', ''go.mod'', ''go.sum''] @
         [RunSudo c [''podman'', ''build'', ''--build-arg'', ''GO_VERSION=1.26.2'', ''-t'', BaseImage,
            path_join kindFork ''images/base/'']]))"

definition build_node_image :: "cli \<Rightarrow> string \<Rightarrow> unit cio" where
  "build_node_image c root =
     RunSudo c [path_join root KindBin, ''build'', ''node-image'', DefaultK8sVersion, ''--type'', ''release'',
       ''--base-image'', BaseImage, ''--image'', NodeImage]"

definition buildKind :: "cli \<Rightarrow> string \<Rightarrow> unit cio" where
  "buildKind c root = kseq [build_kind_cli c root, build_base_image c root, build_node_image c root]"

definition buildSim :: "cli \<Rightarrow> string \<Rightarrow> unit cio" where
  "buildSim c root = RunSudo c [''podman'', ''build'', ''-t'', SimImage, path_join root ''simulator'']"

definition entra_mock_script :: "cli \<Rightarrow> string \<Rightarrow> string" where
  \<open>entra_mock_script c root =
     join_lines
      [Sudo c @ '' podman build -t '' @ EntraMockImage @ '' -f - '' @ path_join root ''deps/entra-id-emulator'' @
       '' <<'DOCKERFILE'' @ [CHR 0x27],
       ''FROM python:3.11-slim'',
       ''RUN apt-get update && apt-get install -y --no-install-recommends curl && rm -rf /var/lib/apt/lists/*'',
       ''WORKDIR /app'',
       ''COPY requirements.txt .'',
       ''RUN pip install --no-cache-dir -r requirements.txt'',
       ''COPY . .'',
       ''RUN mkdir -p /app/data'',
       ''EXPOSE 8080'',
       ''CMD ["python", "run.py"]'',
       ''DOCKERFILE'']\<close>

definition buildEntraMock :: "cli \<Rightarrow> string \<Rightarrow> unit cio" where
  "buildEntraMock c root = Run c [''bash'', ''-c'', entra_mock_script c root]"

definition buildAll :: "cli \<Rightarrow> string \<Rightarrow> unit cio" where
  "buildAll c root = kseq [buildKind c root, buildSim c root, buildEntraMock c root]"

definition build_command :: "cli \<Rightarrow> bool \<Rightarrow> bool \<Rightarrow> bool \<Rightarrow> unit cio" where
  "build_command c kindOnly simOnly entraOnly =
     (if \<not> IsDevMode c then kreturn ()
      else kbind (ProjectRoot c) (\<lambda>root.
        if simOnly then buildSim c root
        else if kindOnly then buildKind c root
        else if entraOnly then buildEntraMock c root
        else buildAll c root))"

subsection \<open>The stages of a creation\<close>

definition checkDeps :: "cli \<Rightarrow> string \<Rightarrow> unit cio" where
  "checkDeps c root =
     (if \<not> cli_exists c (ResolvedKindBin c root) \<and> \<not> IsDevMode c then kfail (Message ''kind binary not found'')
      else kseq (map (CheckDep c) [''kubectl'', ''podman'']))"

text \<open>Up to three attempts.\<close>

fun create_attempts :: "cli \<Rightarrow> command \<Rightarrow> nat \<Rightarrow> unit cio" where
  "create_attempts c createArgs 0 = kreturn ()"
| "create_attempts c createArgs (Suc left) =
     ktry (RunSudo c createArgs) (\<lambda>r.
       case r of
         Inr _ \<Rightarrow> kreturn ()
       | Inl e \<Rightarrow> if left = 0 then kfail (Wrapped ''kind create failed'' e) else create_attempts c createArgs left)"

definition create_cluster :: "cli \<Rightarrow> string \<Rightarrow> string \<Rightarrow> unit cio" where
  "create_cluster c root name =
     kbind (KindKnows c root name) (\<lambda>known.
       if known then kreturn ()
       else create_attempts c [ResolvedKindBin c root, ''create'', ''cluster'', ''--config'', path_join root KindConfig,
              ''--image'', ResolvedNodeImage c, ''--name'', name] 3)"

definition deployCRDs :: "cli \<Rightarrow> string \<Rightarrow> unit cio" where
  "deployCRDs c root =
     (let crdsDir = path_join root ''deploy/crds''
      in kseq
        (map (\<lambda>d. let apply = Run c [''kubectl'', ''apply'', ''-f'', path_join crdsDir d] in
             if d = ''olm'' then kbind (isOLMInstalled c) (\<lambda>installed. if installed then kreturn () else apply)
             else apply)
           [''openshift'', ''olm'', ''gateway'', ''monitoring'', ''istio'', ''authorino'', ''kuadrant''] @
         [Run c [''kubectl'', ''apply'', ''--server-side'', ''-f'', path_join crdsDir ''jobset''],
          Run c [''kubectl'', ''wait'', ''--for=condition=Established'', ''crd'', ''--all'', ''--timeout=30s'']]))"

definition seed_files :: "string \<Rightarrow> string list" where
  "seed_files authMode =
     [''namespaces.yaml'', ''cluster-config.yaml'', ''authentication.yaml''] @
     (if authMode \<noteq> ''byoidc'' then [''htpasswd.yaml''] else []) @
     (if authMode \<noteq> ''legacy'' then [''authentication-oidc.yaml''] else []) @
     [''ingress.yaml'', ''infrastructure.yaml'', ''sccs.yaml'', ''jobset-operator.yaml'', ''rbac-compat.yaml'']"

definition deploySeed :: "cli \<Rightarrow> string \<Rightarrow> string \<Rightarrow> unit cio" where
  \<open>deploySeed c root authMode =
     kseq
       (map (\<lambda>f. Run c [''kubectl'', ''apply'', ''-f'', path_join (path_join root ''deploy/seed'') f]) (seed_files authMode) @
        [run_ignored c [''kubectl'', ''patch'', ''endpoints'', ''kubernetes'', ''-n'', ''default'', ''--type=json'',
           ''-p=[{"op":"replace","path":"/subsets/0/ports/0/port","value":6443}]'']])\<close>

definition cluster_version :: string where
  \<open>cluster_version =
     ''{"apiVersion":"config.openshift.io/v1","kind":"ClusterVersion","metadata":{"name":"version"},'' @
     ''"spec":{"clusterID":"ocp-sim-00000000-0000-0000-0000-000000000000","channel":"stable-4.20"}}''\<close>

text \<open>The object with its status, each quote escaped for the shell; the version is put in by the script.\<close>

definition escape_quotes :: "string \<Rightarrow> string" where
  "escape_quotes s = concat (map (\<lambda>c. if c = CHR 0x22 then [CHR 0x5C, c] else [c]) s)"

definition cluster_version_status :: string where
  \<open>cluster_version_status =
     ''{"apiVersion":"config.openshift.io/v1","kind":"ClusterVersion","metadata":{"name":"version",'' @
     ''"resourceVersion":"${RV}"},"spec":{"clusterID":"ocp-sim-00000000-0000-0000-0000-000000000000",'' @
     ''"channel":"stable-4.20"},"status":{"desired":{"version":"4.20.0"},"history":[{"state":"Completed",'' @
     ''"version":"4.20.0","startedTime":"2024-01-01T00:00:00Z","completionTime":"2024-01-01T01:00:00Z",'' @
     ''"verified":true}],"conditions":[{"type":"Available","status":"True",'' @
     ''"lastTransitionTime":"2024-01-01T01:00:00Z","reason":"ClusterVersionAvailable","message":"Simulated '' @
     ''OCP cluster"},{"type":"Progressing","status":"False","lastTransitionTime":"2024-01-01T01:00:00Z",'' @
     ''"reason":"ClusterVersionNotProgressing"},{"type":"Failing","status":"False",'' @
     ''"lastTransitionTime":"2024-01-01T01:00:00Z","reason":"ClusterVersionNotFailing"}]}}''\<close>

definition cluster_version_script :: string where
  \<open>cluster_version_script =
     join_lines
      [[],
       ''kubectl proxy --port=8199 &'',
       ''PROXY_PID=$!'',
       ''sleep 1'',
       ''RV=$(curl -s http://localhost:8199/apis/config.openshift.io/v1/clusterversions/version | python3 -c '' @
       ''"import sys,json; print(json.load(sys.stdin)['metadata']['resourceVersion'])")'',
       ''curl -s -X PUT http://localhost:8199/apis/config.openshift.io/v1/clusterversions/version/status '' @
       [CHR 0x5C],
       ''  -H "Content-Type: application/json" '' @ [CHR 0x5C],
       ''  -d "'' @ escape_quotes cluster_version_status @ ''" > /dev/null'',
       ''kill $PROXY_PID 2>/dev/null; wait $PROXY_PID 2>/dev/null || true'',
       []]\<close>

definition deployClusterVersion :: "cli \<Rightarrow> unit cio" where
  "deployClusterVersion c =
     kseq
       [Run c [''bash'', ''-c'', ''echo '' @ [CHR 0x27] @ cluster_version @ [CHR 0x27] @ '' | kubectl apply -f -''],
        Run c [''bash'', ''-c'', cluster_version_script]]"

text \<open>The image of a release is pulled and tagged; then an image is loaded into the node.\<close>

definition pull_image :: "cli \<Rightarrow> string \<Rightarrow> string \<Rightarrow> string \<Rightarrow> unit cio" where
  "pull_image c what image' local =
     (if \<not> IsDevMode c
      then kseq
        [wrap (''failed to pull '' @ what @ '' image'') (RunSudo c [''podman'', ''pull'', image']),
         wrap (''failed to tag '' @ what @ '' image'') (RunSudo c [''podman'', ''tag'', image', local])]
      else kreturn ())"

definition load_image :: "cli \<Rightarrow> string \<Rightarrow> string \<Rightarrow> string \<Rightarrow> unit cio" where
  "load_image c clusterName local archive =
     kseq
       [RunSudo c [''podman'', ''save'', local, ''--format'', ''oci-archive'', ''-o'', archive],
        Run c [''bash'', ''-c'', Sudo c @ '' podman exec -i '' @ clusterName @
          ''-control-plane ctr --namespace=k8s.io images import --no-unpack - < '' @ archive],
        run_ignored c (sudo_command c [''rm'', ''-f'', archive])]"

definition deployEntraMock :: "cli \<Rightarrow> string \<Rightarrow> string \<Rightarrow> unit cio" where
  "deployEntraMock c root clusterName =
     kseq
       [pull_image c ''entra-mock'' (ResolvedEntraMockImage c) EntraMockImage,
        load_image c clusterName EntraMockImage ''/tmp/entra-mock-oci.tar'',
        Run c [''kubectl'', ''apply'', ''-f'', path_join root ''deploy/entra-mock.yaml''],
        Run c [''kubectl'', ''-n'', EntraMockNamespace, ''rollout'', ''status'', ''deployment/entra-mock'', ''--timeout=120s'']]"

text \<open>The arguments of the simulator in the modes \<^verbatim>\<open>oidc\<close> and \<^verbatim>\<open>byoidc\<close>; the patch that sets them.\<close>

definition oidc_args :: string where
  \<open>oidc_args = ''["--proxy","--proxy-port","80","--users-file","/etc/ocp-sim/users.yaml","--auth-mode","oidc"]''\<close>

definition byoidc_args :: string where
  \<open>byoidc_args =
     ''["--proxy","--proxy-port","80","--users-file","/etc/ocp-sim/users.yaml"'' @
     '',"--auth-mode","byoidc"'' @
     '',"--oidc-issuer-url","http://entra-mock.entra-mock.svc.cluster.local:8080/a1b2c3d4-e5f6-7890-abcd-ef'' @
     ''1234567890/v2.0"'' @
     '',"--oidc-client-id","picoshift"'' @
     '',"--oidc-client-secret","picoshift-secret"]''\<close>

definition patch_prefix :: string where
  \<open>patch_prefix = ''-p=[{"op":"replace","path":"/spec/template/spec/containers/0/args","value":''\<close>

definition patch_args :: "string \<Rightarrow> command" where
  "patch_args args =
     [''kubectl'', ''-n'', SimNamespace, ''patch'', ''daemonset'', ''ocp-sim'', ''--type=json'',
      patch_prefix @ args @ ''}]'']"

definition deploySim :: "cli \<Rightarrow> string \<Rightarrow> string \<Rightarrow> string \<Rightarrow> unit cio" where
  "deploySim c root clusterName authMode =
     kseq
       [pull_image c ''simulator'' (ResolvedSimImage c) SimImage,
        load_image c clusterName SimImage ''/tmp/ocp-sim-oci.tar'',
        run_ignored c [''kubectl'', ''create'', ''namespace'', SimNamespace],
        Run c [''bash'', ''-c'', ''kubectl -n '' @ SimNamespace @ '' create configmap ocp-sim-users --from-file='' @
          path_join root UsersFile @ '' --dry-run=client -o yaml | kubectl apply -f -''],
        Run c [''kubectl'', ''apply'', ''-f'', path_join root SimManifest],
        (if authMode = ''oidc'' then Run c (patch_args oidc_args)
         else if authMode = ''byoidc'' then Run c (patch_args byoidc_args)
         else kreturn ()),
        run_ignored c [''kubectl'', ''-n'', SimNamespace, ''delete'', ''pod'', ''--all'', ''--wait=false''],
        Run c [''kubectl'', ''wait'', ''--namespace'', SimNamespace, ''--for=condition=Ready'', ''pod'',
          ''--selector=app=ocp-sim'', ''--timeout=120s'']]"

definition apiserver_manifest :: string where
  "apiserver_manifest = ''/etc/kubernetes/manifests/kube-apiserver.yaml''"

text \<open>A shell script run in the node of the cluster.\<close>

definition node_sh :: "cli \<Rightarrow> string \<Rightarrow> string \<Rightarrow> unit cio" where
  "node_sh c clusterName script =
     RunSudo c [''podman'', ''exec'', clusterName @ ''-control-plane'', ''sh'', ''-c'', script]"

definition oidc_ca_script :: string where
  \<open>oidc_ca_script =
     ''echo | openssl s_client -connect localhost:443 -servername entra.apps.ocp-sim.test 2>/dev/null '' @
     ''| openssl x509 -outform PEM > /etc/kubernetes/pki/oidc-ca.crt''\<close>

definition oidc_flags :: string where
  \<open>oidc_flags =
     ''        - --oidc-issuer-url='' @ ByoidcIssuerURL @ [CHR 0x5C] @ ''n'' @
     ''        - --oidc-client-id=picoshift'' @ [CHR 0x5C] @ ''n'' @
     ''        - --oidc-username-claim=preferred_username'' @ [CHR 0x5C] @ ''n'' @
     ''        - --oidc-groups-claim=groups'' @ [CHR 0x5C] @ ''n'' @
     ''        - --oidc-username-prefix=-'' @ [CHR 0x5C] @ ''n'' @
     ''        - --oidc-groups-prefix='' @ [CHR 0x5C] @ ''n'' @
     ''        - --oidc-ca-file=/etc/kubernetes/pki/oidc-ca.crt''\<close>

definition oidc_patch_script :: string where
  \<open>oidc_patch_script =
     ''grep -q -- "--oidc-issuer-url=https://entra" '' @ apiserver_manifest @ '' && exit 0; '' @
     ''sed -i "/--secure-port=16443/a'' @ [CHR 0x5C] @ oidc_flags @ ''" '' @ apiserver_manifest\<close>

definition patchAPIServerOIDC :: "cli \<Rightarrow> string \<Rightarrow> unit cio" where
  "patchAPIServerOIDC c clusterName =
     kseq
       [wrap ''failed to extract OIDC CA cert'' (node_sh c clusterName oidc_ca_script),
        wrap ''failed to patch kube-apiserver manifest'' (node_sh c clusterName oidc_patch_script),
        kbind (poll c [''kubectl'', ''get'', ''nodes'', ''--request-timeout=10s''] (\<lambda>_. True) (seconds 5) (seconds 90) 0)
          (\<lambda>_. kreturn ()),
        wrap ''kube-apiserver did not recover after OIDC patch''
          (Run c [''kubectl'', ''get'', ''nodes'', ''--request-timeout=60s''])]"

definition storePullSecret :: "cli \<Rightarrow> string \<Rightarrow> unit cio" where
  "storePullSecret c pullSecretPath =
     kseq
       [run_ignored c [''kubectl'', ''-n'', SimNamespace, ''delete'', ''secret'', PullSecretName, ''--ignore-not-found''],
        Run c [''kubectl'', ''-n'', SimNamespace, ''create'', ''secret'', ''docker-registry'', PullSecretName,
          ''--from-file=.dockerconfigjson='' @ pullSecretPath]]"

definition installOLM :: "cli \<Rightarrow> string \<Rightarrow> unit cio" where
  "installOLM c root = install_olm c root OLMDefaultVersion"

definition hosts_script :: string where
  \<open>hosts_script =
     join_lines
      [[],
       ''for registry in $(jq -r '.auths | keys[]' /tmp/pull-secret.json); do'',
       ''  auth=$(jq -r --arg r "$registry" '.auths[$r].auth // empty' /tmp/pull-secret.json)'',
       ''  [ -z "$auth" ] && continue'',
       ''  mkdir -p "/etc/containerd/certs.d/$registry"'',
       ''  cat > "/etc/containerd/certs.d/$registry/hosts.toml" <<HOSTEOF'',
       ''server = "https://$registry"'',
       [],
       ''[host."https://$registry"]'',
       ''  capabilities = ["pull", "resolve"]'',
       ''  [host."https://$registry".header]'',
       ''    Authorization = ["Basic $auth"]'',
       ''HOSTEOF'',
       ''done'',
       []]\<close>

definition config_path_script :: string where
  \<open>config_path_script =
     ''grep -q 'config_path' /etc/containerd/config.toml || '' @
     ''sed -i '/'' @ [CHR 0x5C] @ ''[plugins'' @ [CHR 0x5C] @ ''."io'' @ [CHR 0x5C] @ ''.containerd'' @ [CHR 0x5C] @
     ''.grpc'' @ [CHR 0x5C] @ ''.v1'' @ [CHR 0x5C] @ ''.cri"'' @ [CHR 0x5C] @ ''.registry'' @ [CHR 0x5C] @ '']/a'' @
     [CHR 0x5C] @ ''  config_path = "/etc/containerd/certs.d"' /etc/containerd/config.toml || '' @
     ''printf '' @ [CHR 0x27] @ [CHR 0x5C] @ ''n[plugins."io.containerd.grpc.v1.cri".registry]'' @ [CHR 0x5C] @
     ''n  config_path = "/etc/containerd/certs.d"'' @ [CHR 0x5C] @ ''n' >> /etc/containerd/config.toml''\<close>

definition installNodePullSecret :: "cli \<Rightarrow> string \<Rightarrow> string \<Rightarrow> unit cio" where
  "installNodePullSecret c clusterName pullSecretPath =
     kseq
       [wrap ''failed to copy pull secret to node''
          (RunSudo c [''podman'', ''cp'', pullSecretPath, clusterName @ ''-control-plane'' @ '':/tmp/pull-secret.json'']),
        wrap ''failed to generate containerd hosts config'' (node_sh c clusterName hosts_script),
        wrap ''failed to configure containerd config_path'' (node_sh c clusterName config_path_script),
        wrap ''failed to restart containerd''
          (RunSudo c [''podman'', ''exec'', clusterName @ ''-control-plane'', ''systemctl'', ''restart'', ''containerd'']),
        wait_until c [''kubectl'', ''get'', ''nodes'', ''--request-timeout=5s''] (\<lambda>_. True) (seconds 5) (seconds 60)
          ''node did not recover after containerd restart'']"

definition istio_cr :: string where
  \<open>istio_cr =
     join_lines
      [''apiVersion: sailoperator.io/v1'',
       ''kind: Istio'',
       ''metadata:'',
       ''  name: openshift-gateway'',
       ''spec:'',
       ''  namespace: istio-system'',
       ''  updateStrategy:'',
       ''    type: InPlace'',
       ''  values:'',
       ''    global:'',
       ''      istioNamespace: istio-system'',
       ''      priorityClassName: system-cluster-critical'',
       ''    pilot:'',
       ''      enabled: true'',
       ''      env:'',
       ''        PILOT_ENABLE_GATEWAY_API: "true"'',
       ''        PILOT_ENABLE_ALPHA_GATEWAY_API: "false"'',
       ''        PILOT_ENABLE_GATEWAY_API_STATUS: "true"'',
       ''        PILOT_ENABLE_GATEWAY_API_DEPLOYMENT_CONTROLLER: "true"'',
       ''        PILOT_ENABLE_GATEWAY_API_GATEWAYCLASS_CONTROLLER: "false"'',
       ''        PILOT_GATEWAY_API_DEFAULT_GATEWAYCLASS_NAME: "openshift-default"'',
       ''        PILOT_GATEWAY_API_CONTROLLER_NAME: "openshift.io/gateway-controller/v1"'',
       ''        PILOT_MULTI_NETWORK_DISCOVER_GATEWAY_API: "false"'',
       ''        ENABLE_GATEWAY_API_MANUAL_DEPLOYMENT: "false"'',
       ''        PILOT_ENABLE_GATEWAY_API_CA_CERT_ONLY: "true"'',
       ''        PILOT_ENABLE_GATEWAY_API_COPY_LABELS_ANNOTATIONS: "false"'']\<close>

definition applyIstioCR :: "cli \<Rightarrow> unit cio" where
  "applyIstioCR c = apply_text c istio_cr"

definition audiences_script :: string where
  \<open>audiences_script =
     ''grep -q -- "--api-audiences=.*istio-ca" '' @ apiserver_manifest @ '' && exit 0; '' @
     ''sed -i '/--service-account-issuer=/a'' @ [CHR 0x5C] @
     ''        - --api-audiences=https://kubernetes.default.svc.cluster.local,istio-ca' '' @ apiserver_manifest\<close>

definition patchAPIServerAudiences :: "cli \<Rightarrow> string \<Rightarrow> unit cio" where
  "patchAPIServerAudiences c clusterName = node_sh c clusterName audiences_script"

definition waitForIstiod :: "cli \<Rightarrow> nat \<Rightarrow> unit cio" where
  "waitForIstiod c timeout =
     wait_until c [''kubectl'', ''get'', ''istio'', ''openshift-gateway'', ''-o'', ''jsonpath={.status.state}'']
       (\<lambda>out. out = ''Healthy'') (seconds 10) timeout ''istiod did not become healthy''"

definition installOSSM3 :: "cli \<Rightarrow> string \<Rightarrow> string \<Rightarrow> unit cio" where
  "installOSSM3 c clusterName pullSecretPath =
     kseq
       ([installNodePullSecret c clusterName pullSecretPath,
         olm_pull_secret c ''failed to create catalog pull secret'' ''catalog-pull-redhat-operators'' pullSecretPath,
         applyCatalogSource c ''redhat-operators'' RedHatCatalogImage ''catalog-pull-redhat-operators'',
         waitForCatalogSource c ''redhat-operators'' (seconds 300),
         wrap ''failed to install Gateway API CRDs'' (Run c [''kubectl'', ''apply'', ''-f'', GatewayAPICRDsURL]),
         run_ignored c [''kubectl'', ''delete'', ''crd'', ''-l'', ''operators.coreos.com/sailoperator.openshift-operators'',
           ''--ignore-not-found'']] @
        map (\<lambda>crd. run_ignored c [''kubectl'', ''delete'', ''crd'', crd, ''--ignore-not-found''])
          [''istios.sailoperator.io'', ''istiocnis.sailoperator.io'', ''istiorevisions.sailoperator.io'',
           ''remoteistios.sailoperator.io'', ''ztunnels.sailoperator.io'', ''wasmplugins.extensions.istio.io'',
           ''telemetries.telemetry.istio.io''] @
        [ensureOperatorGroup c ''openshift-operators'',
         createSubscription c ''servicemeshoperator3'' ''openshift-operators'' ''stable-3.0'' ''redhat-operators'',
         waitForCSV c ''servicemeshoperator3'' ''openshift-operators'' (seconds 300),
         run_ignored c [''kubectl'', ''create'', ''namespace'', IstioNamespace],
         applyIstioCR c,
         patchAPIServerAudiences c clusterName,
         waitForIstiod c (seconds 300)])"

subsection \<open>Creating a cluster\<close>

text \<open>The flags of \<^verbatim>\<open>picoshift create\<close>.\<close>

record create_flags =
  cr_name :: string
  cr_auth_mode :: string
  cr_no_deploy :: bool
  cr_build :: bool
  cr_pull_secret :: string
  cr_with_olm :: bool
  cr_with_ossm3 :: bool

definition totalSteps :: "bool \<Rightarrow> bool \<Rightarrow> bool \<Rightarrow> bool \<Rightarrow> bool \<Rightarrow> bool \<Rightarrow> nat" where
  "totalSteps byoidc pullSecret withOLM withOSSM3 build noDeploy =
     (if noDeploy then if build then if byoidc then 7 else 6 else 2
      else 8 + (if byoidc then 2 else 0) + (if pullSecret then 1 else 0) + (if withOLM then 1 else 0) +
        (if withOSSM3 then 1 else 0) + (if build then if byoidc then 5 else 4 else 0))"

text \<open>
  The stages in their order, each with the condition under which it takes place.  A stage that
  takes place is announced by the next number.
\<close>

definition stages :: "cli \<Rightarrow> string \<Rightarrow> create_flags \<Rightarrow> bool \<Rightarrow> bool \<Rightarrow> (bool \<times> unit cio) list" where
  "stages c root fl build withOLM =
     (let name = cr_name fl; byoidc = cr_auth_mode fl = ''byoidc'' in
      [(build, build_kind_cli c root),
       (build, build_base_image c root),
       (build, build_node_image c root),
       (build, buildSim c root),
       (build \<and> byoidc, buildEntraMock c root),
       (True, create_cluster c root name),
       (True, ExportKubeconfig c root name)] @
      (if cr_no_deploy fl then []
       else
         [(True, WaitForNode c (seconds 120)),
          (True, deployCRDs c root),
          (True, deploySeed c root (cr_auth_mode fl)),
          (True, deployClusterVersion c),
          (byoidc, deployEntraMock c root name),
          (True, deploySim c root name (cr_auth_mode fl)),
          (byoidc, patchAPIServerOIDC c name),
          (True, Run c [''python3'', path_join root ''scripts/setup-admin-rbac.py'']),
          (cr_pull_secret fl \<noteq> [], storePullSecret c (cr_pull_secret fl)),
          (withOLM, installOLM c root),
          (cr_with_ossm3 fl, installOSSM3 c name (cr_pull_secret fl))]))"

definition run_stage :: "bool \<times> unit cio \<Rightarrow> nat \<Rightarrow> nat cio" where
  "run_stage st step = (if fst st then kbind (snd st) (\<lambda>_. kreturn (Suc step)) else kreturn step)"

text \<open>The number of the last stage, and how many were announced.\<close>

definition create_stages :: "cli \<Rightarrow> create_flags \<Rightarrow> string \<Rightarrow> (nat \<times> nat) cio" where
  "create_stages c fl root =
     (let build = (cr_build fl \<and> IsDevMode c);
          withOLM = (cr_with_olm fl \<or> cr_with_ossm3 fl);
          total = totalSteps (cr_auth_mode fl = ''byoidc'') (cr_pull_secret fl \<noteq> []) withOLM
            (cr_with_ossm3 fl) build (cr_no_deploy fl)
      in kbind (kfold run_stage (stages c root fl build withOLM) 0) (\<lambda>step. kreturn (step, total)))"

definition create_command :: "cli \<Rightarrow> create_flags \<Rightarrow> (nat \<times> nat) cio" where
  "create_command c fl =
     kbind (ProjectRoot c) (\<lambda>root.
       if cr_auth_mode fl \<notin> {''legacy'', ''oidc'', ''byoidc''} then kfail (Message ''invalid --auth-mode'')
       else if cr_with_ossm3 fl \<and> cr_pull_secret fl = [] then kfail (Message ''--with-ossm3 requires --pull-secret'')
       else kbind (checkDeps c root) (\<lambda>_. create_stages c fl root))"

subsection \<open>The state of a cluster (\<^verbatim>\<open>status.go\<close>)\<close>

text \<open>What is printed; \<^const>\<open>None\<close> for what is not reached or not available.\<close>

record status_report =
  sr_cluster :: "bool \<times> bool"
  sr_nodes :: "string option"
  sr_pods :: "string option"
  sr_mode :: "string option"
  sr_components :: "(string \<times> bool) list"
  sr_crds :: "string option"

definition output_if_ok :: "cli \<Rightarrow> command \<Rightarrow> string option cio" where
  "output_if_ok c cmd = ktry (RunOutput c cmd) (\<lambda>r. kreturn (case r of Inl e \<Rightarrow> None | Inr out \<Rightarrow> Some out))"

definition status_components :: "(string \<times> string) list" where
  "status_components =
     [(''Gateway stack (Istio)'', IstioNamespace), (''ODH Operator'', OperatorNamespace),
      (''Entra Mock (BYOIDC)'', EntraMockNamespace), (''Kuadrant'', ''kuadrant-system''),
      (''cert-manager'', ''cert-manager'')]"

definition status_command :: "cli \<Rightarrow> string \<Rightarrow> status_report cio" where
  "status_command c name =
     (let ctx = ''kind-'' @ name;
          none = \<lparr>sr_cluster = (False, False), sr_nodes = None, sr_pods = None, sr_mode = None,
                  sr_components = [], sr_crds = None\<rparr>
      in kbind (ClusterState c name) (\<lambda>(container, sim).
           if \<not> container then kreturn none
           else kbind (output_if_ok c [''kubectl'', ''get'', ''nodes'', ''--context'', ctx]) (\<lambda>nodes.
             if nodes = None then kreturn (none\<lparr>sr_cluster := (container, sim)\<rparr>)
             else
               kbind (output_if_ok c [''kubectl'', ''--context'', ctx, ''-n'', SimNamespace, ''get'', ''pods'']) (\<lambda>pods.
               kbind (GetAuthMode c ctx) (\<lambda>mode.
               kbind (kfold (\<lambda>(label, ns) rows.
                   kbind (NamespaceExists c ns ctx) (\<lambda>b. kreturn (rows @ [(label, b)]))) status_components []) (\<lambda>rows.
               kbind (output_if_ok c [''sh'', ''-c'', ''kubectl --context '' @ ctx @
                   '' get crd -o name 2>/dev/null | grep -c 'openshift.io'' @ [CHR 0x5C] @ ''|operators.coreos.com'' @ [CHR 0x27]]) (\<lambda>crds.
                 kreturn \<lparr>sr_cluster = (container, sim), sr_nodes = nodes, sr_pods = pods, sr_mode = Some mode,
                   sr_components = rows, sr_crds = crds\<rparr>)))))))"

section \<open>Lemmas\<close>

subsection \<open>The number of stages\<close>

lemma run_stages_count:
  "kfold run_stage sts n l = (Inr k, l') \<Longrightarrow> k = n + length (filter fst sts)"
  by (induction sts arbitrary: n l) (fastforce simp: kbind_Inr run_stage_def kreturn_def split: if_splits)+

lemma stages_count:
  "length (filter fst (stages c root fl build withOLM)) =
   totalSteps (cr_auth_mode fl = ''byoidc'') (cr_pull_secret fl \<noteq> []) withOLM (cr_with_ossm3 fl) build (cr_no_deploy fl)"
  unfolding stages_def totalSteps_def Let_def
  by (cases build; cases "cr_auth_mode fl = ''byoidc''"; cases "cr_no_deploy fl") simp_all

subsection \<open>What sets the arguments of the simulator\<close>

definition apply_manifest :: "string \<Rightarrow> command" where
  "apply_manifest root = [''kubectl'', ''apply'', ''-f'', path_join root SimManifest]"

definition sets_args :: "string \<Rightarrow> command \<Rightarrow> bool" where
  "sets_args root cmd \<longleftrightarrow> cmd = apply_manifest root \<or> (\<exists>args. cmd = patch_args args)"

lemma plain_paths: "plain_path ''deploy/simulator.yaml''" "plain_path ''deploy/olm/catalogsource.yaml''"
  by (simp_all add: plain_path_def)

lemma other_manifest:
  "path_join root ''deploy/olm/catalogsource.yaml'' \<noteq> path_join root SimManifest"
  "GatewayAPICRDsURL \<noteq> path_join root SimManifest"
proof -
  obtain pre where pre: "path_join root ''deploy/simulator.yaml'' = pre @ ''deploy/simulator.yaml''"
    "path_join root ''deploy/olm/catalogsource.yaml'' = pre @ ''deploy/olm/catalogsource.yaml''"
    using path_join_plain [of root] plain_paths by blast
  then show "path_join root ''deploy/olm/catalogsource.yaml'' \<noteq> path_join root SimManifest"
    by (simp add: SimManifest_def)
  have "rev GatewayAPICRDsURL \<noteq> rev (path_join root SimManifest)"
    unfolding SimManifest_def pre GatewayAPICRDsURL_def rev_append by simp
  then show "GatewayAPICRDsURL \<noteq> path_join root SimManifest" by auto
qed

lemmas sets_args_simps = sets_args_def apply_manifest_def patch_args_def SimNamespace_def

lemma olm_command_keeps: "olm_command root cmd \<Longrightarrow> \<not> sets_args root cmd"
  using other_manifest(1) [of root]
  by (auto simp: olm_command_def sets_args_simps OLMNamespace_def split: list.splits)

lemma keeps_bash: "\<not> sets_args root (''bash'' # rest)"
  by (simp add: sets_args_simps)

lemma keeps_sudo:
  assumes "verb \<notin> {''apply'', ''-n''}"
  shows "\<not> sets_args root (sudo_command c (''podman'' # verb # rest))"
  using assms by (auto simp: sudo_command_def sets_args_simps)

lemma runs_only_late_stages [runs_only_intros]:
  assumes "cli_dry c \<or> (\<forall>cmd. \<not> sets_args root cmd \<longrightarrow> P cmd)"
  shows "runs_only P (patchAPIServerOIDC c name)" "runs_only P (storePullSecret c secret)"
    "runs_only P (installOLM c root)" "runs_only P (installOSSM3 c name secret)"
proof -
  have P: "cli_dry c \<or> P cmd" if "\<not> sets_args root cmd" for cmd using assms that by blast
  have olm: "cli_dry c \<or> (\<forall>cmd. olm_command root cmd \<longrightarrow> P cmd)" using P olm_command_keeps by blast
  have bash: "cli_dry c \<or> (\<forall>script. P [''bash'', ''-c'', script])"
    using P [OF keeps_bash] by (cases "cli_dry c") simp_all
  have node: "runs_only P (node_sh c name script)" for script
    unfolding node_sh_def by (intro runs_only_intros P keeps_sudo) simp
  show "runs_only P (patchAPIServerOIDC c name)"
    unfolding patchAPIServerOIDC_def by (auto intro!: runs_only_intros node P simp: sets_args_simps)
  show "runs_only P (storePullSecret c secret)"
    unfolding storePullSecret_def by (auto intro!: runs_only_intros P simp: sets_args_simps)
  show "runs_only P (installOLM c root)"
    unfolding installOLM_def by (rule runs_only_olm(6) [OF olm])
  have pull: "runs_only P (installNodePullSecret c name secret)"
    unfolding installNodePullSecret_def
    by (auto intro!: runs_only_intros node P keeps_sudo simp: sets_args_simps)
  have istiod: "runs_only P (waitForIstiod c timeout)" for timeout
    unfolding waitForIstiod_def by (auto intro!: runs_only_intros P simp: sets_args_simps)
  show "runs_only P (installOSSM3 c name secret)"
    unfolding installOSSM3_def applyIstioCR_def patchAPIServerAudiences_def
    using other_manifest(2) [of root]
    by (auto intro!: runs_only_intros runs_only_olm [OF olm] runs_only_olm_helpers [OF bash] pull node istiod P
        simp: sets_args_simps)
qed

subsection \<open>The arguments after a sequence of commands\<close>

text \<open>
  What \<^verbatim>\<open>kubectl\<close> does with the arguments of the simulator: the manifest sets them to those in
  \<^verbatim>\<open>deploy/simulator.yaml\<close>, a patch to the given ones, a command that fails leaves them alone.
\<close>

definition manifest_args :: string where
  \<open>manifest_args = ''["--proxy","--proxy-port","80","--users-file","/etc/ocp-sim/users.yaml"]''\<close>

definition args_set :: "string \<Rightarrow> command \<Rightarrow> string option" where
  "args_set root cmd =
     (let p = last cmd; args = take (length p - length patch_prefix - 2) (drop (length patch_prefix) p)
      in if cmd = apply_manifest root then Some manifest_args
         else if cmd = patch_args args then Some args else None)"

definition deployed_step ::
    "(command list \<Rightarrow> command \<Rightarrow> bool) \<Rightarrow> string \<Rightarrow> command \<Rightarrow> command list \<times> string option \<Rightarrow> command list \<times> string option" where
  "deployed_step ok root cmd st =
     (fst st @ [cmd],
      if ok (fst st) cmd then (case args_set root cmd of Some args \<Rightarrow> Some args | None \<Rightarrow> snd st) else snd st)"

definition deployed_args :: "(command list \<Rightarrow> command \<Rightarrow> bool) \<Rightarrow> string \<Rightarrow> command list \<Rightarrow> string option" where
  "deployed_args ok root l = snd (fold (deployed_step ok root) l ([], None))"

lemma deployed_args_snoc:
  "deployed_args ok root (l @ [cmd]) =
     (if ok l cmd then (case args_set root cmd of Some args \<Rightarrow> Some args | None \<Rightarrow> deployed_args ok root l)
      else deployed_args ok root l)"
proof -
  have "fst (fold (deployed_step ok root) l st) = fst st @ l" for st
    by (induction l arbitrary: st) (auto simp: deployed_step_def)
  then show ?thesis by (simp add: deployed_args_def deployed_step_def split: option.split)
qed

lemma args_set_simps [simp]:
  "args_set root (apply_manifest root) = Some manifest_args"
  "args_set root (patch_args args) = Some args"
  "\<not> sets_args root cmd \<Longrightarrow> args_set root cmd = None"
proof -
  show "args_set root (apply_manifest root) = Some manifest_args" by (simp add: args_set_def Let_def)
  have "patch_args args \<noteq> apply_manifest root" by (simp add: patch_args_def apply_manifest_def)
  then show "args_set root (patch_args args) = Some args" by (simp add: args_set_def patch_args_def Let_def)
  show "args_set root cmd = None" if "\<not> sets_args root cmd"
    using that by (auto simp: args_set_def sets_args_def Let_def)
qed

lemma deployed_args_keep:
  "list_all (\<lambda>cmd. \<not> sets_args root cmd) ds \<Longrightarrow> deployed_args ok root (l @ ds) = deployed_args ok root l"
  by (induction ds rule: rev_induct) (simp_all add: deployed_args_snoc flip: append_assoc)

lemma deployed_args_runs_only:
  assumes "runs_only (\<lambda>cmd. \<not> sets_args root cmd) m"
  shows "deployed_args ok root (snd (m l)) = deployed_args ok root l"
  using assms deployed_args_keep unfolding runs_only_def by metis

definition mode_args :: "string \<Rightarrow> string" where
  "mode_args mode = (if mode = ''oidc'' then oidc_args else if mode = ''byoidc'' then byoidc_args else manifest_args)"

lemma deploySim_args:
  assumes "\<not> cli_dry c" and "deploySim c root name mode l = (Inr u, l')"
  shows "deployed_args (\<lambda>l cmd. cli_shell c l cmd \<noteq> None) root l' = Some (mode_args mode)"
proof -
  let ?D = "deployed_args (\<lambda>l cmd. cli_shell c l cmd \<noteq> None) root"
  let ?patch = "if mode = ''oidc'' then Run c (patch_args oidc_args)
    else if mode = ''byoidc'' then Run c (patch_args byoidc_args) else kreturn ()"
  define late where "late =
    [run_ignored c [''kubectl'', ''-n'', SimNamespace, ''delete'', ''pod'', ''--all'', ''--wait=false''],
     Run c [''kubectl'', ''wait'', ''--namespace'', SimNamespace, ''--for=condition=Ready'', ''pod'',
       ''--selector=app=ocp-sim'', ''--timeout=120s'']]"
  have "deploySim c root name mode = kseq (
    [pull_image c ''simulator'' (ResolvedSimImage c) SimImage,
     load_image c name SimImage ''/tmp/ocp-sim-oci.tar'',
     run_ignored c [''kubectl'', ''create'', ''namespace'', SimNamespace],
     Run c [''bash'', ''-c'', ''kubectl -n '' @ SimNamespace @ '' create configmap ocp-sim-users --from-file='' @
       path_join root UsersFile @ '' --dry-run=client -o yaml | kubectl apply -f -'']] @
    [Run c (apply_manifest root), ?patch] @ late)" (is "_ = kseq (?early @ _)")
    unfolding deploySim_def apply_manifest_def late_def append_Cons append_Nil ..
  moreover define early where "early = ?early"
  ultimately have "deploySim c root name mode = kseq (early @ [Run c (apply_manifest root), ?patch] @ late)" by simp
  then obtain l1 l2 where "cli_shell c l1 (apply_manifest root) \<noteq> None"
    and patch: "?patch (l1 @ [apply_manifest root]) = (Inr (), l2)" and late: "kseq late l2 = (Inr u, l')"
    using assms by (auto simp: kseq_append kseq_Cons kbind_Inr Run_Inr kreturn_def)
  then have applied: "?D (l1 @ [apply_manifest root]) = Some manifest_args" by (simp add: deployed_args_snoc)
  have patched: "?D l2 = Some args" if "Run c (patch_args args) l = (Inr (), l2)" for args l
    using that assms(1) by (simp add: Run_Inr deployed_args_snoc)
  have "?D l2 = Some (mode_args mode)"
    using patch applied patched [of oidc_args] patched [of byoidc_args]
    by (simp add: mode_args_def kreturn_def split: if_splits)
  moreover have "runs_only (\<lambda>cmd. \<not> sets_args root cmd) (kseq late)"
    unfolding late_def by (auto intro!: runs_only_intros simp: sets_args_simps)
  ultimately show ?thesis using deployed_args_runs_only [of root "kseq late" _ l2] late by simp
qed

text \<open>The mode in the arguments is read back.\<close>

lemma mode_of_mode_args:
  assumes "mode \<in> {''legacy'', ''oidc'', ''byoidc''}"
  shows "mode_of_args (trim (mode_args mode)) = mode"
proof -
  have "mode_of_args (trim manifest_args) = ''legacy''" by code_simp
  moreover have "mode_of_args (trim oidc_args) = ''oidc''" by code_simp
  moreover have "mode_of_args (trim byoidc_args) = ''byoidc''" by code_simp
  ultimately show ?thesis using assms by (auto simp: mode_args_def)
qed

subsection \<open>Creations that succeed\<close>

lemma succeeds_ktry_ok: "succeeds m \<Longrightarrow> (\<And>x. succeeds (f (Inr x))) \<Longrightarrow> succeeds (ktry m f)"
  unfolding succeeds_def ktry_def by (auto split: prod.split) (metis fst_conv isl_def sum.collapse(2))

lemma succeeds_early_stages [succeeds_intros]:
  assumes "willing c"
  shows "succeeds (build_kind_cli c root)" "succeeds (build_base_image c root)" "succeeds (build_node_image c root)"
    "succeeds (buildSim c root)" "succeeds (buildEntraMock c root)" "succeeds (create_cluster c root name)"
    "succeeds (deployCRDs c root)" "succeeds (deploySeed c root mode)" "succeeds (deployClusterVersion c)"
proof -
  have "succeeds (create_attempts c cmd n)" for cmd n
    using assms by (cases n) (auto intro!: succeeds_ktry_ok succeeds_run succeeds_kreturn)
  then show "succeeds (create_cluster c root name)"
    unfolding create_cluster_def KindKnows_def by (intro succeeds_intros)
  show "succeeds (deployCRDs c root)"
    unfolding deployCRDs_def isOLMInstalled_def Let_def by (auto intro!: succeeds_intros assms)
qed (auto intro!: succeeds_intros assms simp: build_kind_cli_def build_base_image_def build_node_image_def
    buildSim_def buildEntraMock_def deploySeed_def deployClusterVersion_def Let_def)

lemma succeeds_deployments [succeeds_intros]:
  assumes "willing c"
  shows "succeeds (deployEntraMock c root name)" "succeeds (deploySim c root name mode)"
    "succeeds (patchAPIServerOIDC c name)" "succeeds (storePullSecret c secret)"
proof -
  have "succeeds (pull_image c what img local)" "succeeds (load_image c name local archive)" for what img local archive
    unfolding pull_image_def load_image_def by (auto intro!: succeeds_intros assms)
  then show "succeeds (deployEntraMock c root name)" "succeeds (deploySim c root name mode)"
    unfolding deployEntraMock_def deploySim_def by (auto intro!: succeeds_intros assms)
  show "succeeds (patchAPIServerOIDC c name)" "succeeds (storePullSecret c secret)"
    unfolding patchAPIServerOIDC_def storePullSecret_def node_sh_def by (auto intro!: succeeds_intros assms)
qed

lemma succeeds_stages:
  assumes "willing c" and "withOLM \<longrightarrow> cli_dry c" and "\<not> cr_with_ossm3 fl \<or> cr_no_deploy fl"
  shows "succeeds (kfold run_stage (stages c root fl build withOLM) n)"
proof -
  have "succeeds m" if "(b, m) \<in> set (stages c root fl build withOLM)" "b" for b m
    using that assms unfolding stages_def Let_def
    by (auto intro!: succeeds_intros simp: installOLM_def split: if_splits)
  then have "succeeds (run_stage st k)" if "st \<in> set (stages c root fl build withOLM)" for st k
    using that by (cases st) (auto intro!: succeeds_intros simp: run_stage_def)
  then show ?thesis by (intro succeeds_intros)
qed

subsection \<open>Dry runs\<close>

lemma fails_installOSSM3:
  assumes "cli_dry c"
  shows "fails (installOSSM3 c name secret)"
  unfolding installOSSM3_def
  by (rule fails_kseq [where m = "waitForCatalogSource c ''redhat-operators'' (seconds 300)"])
    (simp_all add: fails_waitForCatalogSource assms)

lemma fails_stages:
  assumes "cli_dry c" and "cr_with_ossm3 fl" "\<not> cr_no_deploy fl"
  shows "fails (kfold run_stage (stages c root fl build withOLM) n)"
proof -
  obtain sts where "stages c root fl build withOLM = sts @ [(True, installOSSM3 c (cr_name fl) (cr_pull_secret fl))]"
    using assms(2,3) by (simp add: stages_def Let_def)
  moreover have "installOSSM3 c (cr_name fl) (cr_pull_secret fl) l \<noteq> (Inr (), l')" for l l'
    using fails_installOSSM3 [OF assms(1)] unfolding fails_def by (metis fst_conv sum.disc(2))
  ultimately show ?thesis
    by (simp add: fails_def kfold_append run_stage_def kbind_def split: prod.split sum.split)
qed

lemma dry_early_stages:
  assumes "cli_dry c"
  shows "runs_only P (build_kind_cli c root)" "runs_only P (build_base_image c root)" "runs_only P (build_node_image c root)"
    "runs_only P (buildSim c root)" "runs_only P (buildEntraMock c root)" "runs_only P (create_cluster c root name)"
    "runs_only P (ExportKubeconfig c root name)" "runs_only P (WaitForNode c timeout)"
    "runs_only P (deployCRDs c root)" "runs_only P (deploySeed c root mode)" "runs_only P (deployClusterVersion c)"
    "runs_only P (deployEntraMock c root name)" "runs_only P (deploySim c root name mode)"
proof -
  have "runs_only P (create_attempts c cmd n)" for cmd n
    using assms by (induction n) (auto intro!: runs_only_intros split: sum.split)
  then show "runs_only P (create_cluster c root name)"
    unfolding create_cluster_def KindKnows_def by (auto intro!: runs_only_intros assms)
  show "runs_only P (deployCRDs c root)"
    unfolding deployCRDs_def isOLMInstalled_def Let_def by (auto intro!: runs_only_intros assms)
  show "runs_only P (WaitForNode c timeout)"
    unfolding WaitForNode_def by (auto intro!: runs_only_intros assms)
  have "runs_only P (pull_image c what img local)" "runs_only P (load_image c name local archive)" for what img local archive
    unfolding pull_image_def load_image_def by (auto intro!: runs_only_intros assms)
  then show "runs_only P (deployEntraMock c root name)" "runs_only P (deploySim c root name mode)"
    unfolding deployEntraMock_def deploySim_def by (auto intro!: runs_only_intros assms)
qed (auto intro!: runs_only_intros assms simp: build_kind_cli_def build_base_image_def build_node_image_def
    buildSim_def buildEntraMock_def deploySeed_def deployClusterVersion_def ExportKubeconfig_def writeFile_def runBash_def Let_def)

lemma dry_stages:
  assumes "cli_dry c"
  shows "runs_only P (kfold run_stage (stages c root fl build withOLM) n)"
proof -
  have "runs_only P m" if "(b, m) \<in> set (stages c root fl build withOLM)" for b m
    using that assms unfolding stages_def Let_def
    by (auto intro!: runs_only_intros dry_early_stages split: if_splits)
  then have "runs_only P (run_stage st k)" if "st \<in> set (stages c root fl build withOLM)" for st k
    using that by (cases st) (auto intro!: runs_only_intros simp: run_stage_def)
  then show ?thesis by (intro runs_only_intros)
qed

lemma runs_only_checkDeps [runs_only_intros]: "runs_only P (checkDeps c root)"
  unfolding checkDeps_def by (auto intro!: runs_only_intros)

section \<open>Properties\<close>

lemma ProjectRoot_log: "ProjectRoot c l = (fst (ProjectRoot c l), l)"
  using runs_only_none [OF runs_only_ProjectRoot] by (metis prod.collapse)

lemma checkDeps_log: "checkDeps c root l = (fst (checkDeps c root l), l)"
  using runs_only_none [OF runs_only_checkDeps] by (metis prod.collapse)

text \<open>The stages after the deployment of the simulator.\<close>

definition late_stages :: "cli \<Rightarrow> string \<Rightarrow> create_flags \<Rightarrow> bool \<Rightarrow> (bool \<times> unit cio) list" where
  "late_stages c root fl withOLM =
     [(cr_auth_mode fl = ''byoidc'', patchAPIServerOIDC c (cr_name fl)),
      (True, Run c [''python3'', path_join root ''scripts/setup-admin-rbac.py'']),
      (cr_pull_secret fl \<noteq> [], storePullSecret c (cr_pull_secret fl)),
      (withOLM, installOLM c root),
      (cr_with_ossm3 fl, installOSSM3 c (cr_name fl) (cr_pull_secret fl))]"

lemma stages_split:
  assumes "\<not> cr_no_deploy fl"
  shows "\<exists>early. stages c root fl build withOLM =
    early @ [(True, deploySim c root (cr_name fl) (cr_auth_mode fl))] @ late_stages c root fl withOLM"
  using assms by (simp add: stages_def late_stages_def Let_def)

lemma runs_only_late_run: "runs_only (\<lambda>cmd. \<not> sets_args root cmd) (kfold run_stage (late_stages c root fl withOLM) n)"
proof -
  have "runs_only (\<lambda>cmd. \<not> sets_args root cmd) m" if "(b, m) \<in> set (late_stages c root fl withOLM)" for b m
    using that unfolding late_stages_def
    by (auto intro!: runs_only_late_stages runs_only_Run simp: sets_args_simps)
  then have "runs_only (\<lambda>cmd. \<not> sets_args root cmd) (run_stage st k)" if "st \<in> set (late_stages c root fl withOLM)" for st k
    using that by (cases st) (auto intro!: runs_only_intros simp: run_stage_def)
  then show ?thesis by (intro runs_only_kfold)
qed

text \<open>What is refused before anything is done.\<close>

definition create_refused :: "cli \<Rightarrow> create_flags \<Rightarrow> bool" where
  "create_refused c fl \<longleftrightarrow>
     (case fst (ProjectRoot c []) of
        Inl e \<Rightarrow> True
      | Inr root \<Rightarrow>
          cr_auth_mode fl \<notin> {''legacy'', ''oidc'', ''byoidc''} \<or> cr_with_ossm3 fl \<and> cr_pull_secret fl = [] \<or>
          isl (fst (checkDeps c root [])))"

lemma result_any_log: "fst (ProjectRoot c l) = fst (ProjectRoot c [])" "fst (checkDeps c root l) = fst (checkDeps c root [])"
proof -
  show "fst (ProjectRoot c l) = fst (ProjectRoot c [])"
    by (simp add: ProjectRoot_def kreturn_def kfail_def split: option.split)
  show "fst (checkDeps c root l) = fst (checkDeps c root [])"
    by (simp add: checkDeps_def CheckDep_def kseq_def kbind_def kreturn_def kfail_def)
qed

lemma create_command_eq:
  "create_command c fl l =
     (if create_refused c fl then (fst (create_command c fl []), l)
      else create_stages c fl (projr (fst (ProjectRoot c []))) l) \<and> (create_refused c fl \<longrightarrow> isl (fst (create_command c fl [])))"
proof -
  obtain r where r: "\<And>l. ProjectRoot c l = (r, l)" using ProjectRoot_log result_any_log(1) by metis
  define d where "d root = fst (checkDeps c root [])" for root
  have d: "checkDeps c root l = (d root, l)" for root l
    unfolding d_def using checkDeps_log [of c root l] result_any_log(2) [of c root l] by simp
  show ?thesis
  proof (cases r)
    case (Inl e)
    then show ?thesis using r by (simp add: create_refused_def create_command_def kbind_def)
  next
    case (Inr root)
    then show ?thesis using r d
      by (cases "d root") (auto simp: create_refused_def create_command_def kbind_def kfail_def Let_def)
  qed
qed

text \<open>
  C14.  A dry run of a creation runs nothing.  It succeeds exactly if the flags, the project and the
  programs needed are there, except with the service mesh: a dry run of its installation waits five
  minutes for a catalog that it did not create, and fails.
\<close>

theorem create_dry_run:
  assumes "cli_dry c"
  shows "snd (create_command c fl l) = l \<and>
    (isl (fst (create_command c fl l)) \<longleftrightarrow>
       create_refused c fl \<or> cr_with_ossm3 fl \<and> \<not> cr_no_deploy fl)"
proof (cases "create_refused c fl")
  case True
  then have "create_command c fl l = (fst (create_command c fl []), l)" "isl (fst (create_command c fl []))"
    using create_command_eq [of c fl l] by simp_all
  with True show ?thesis by simp
next
  case False
  then obtain root where root: "fst (ProjectRoot c []) = Inr root"
    by (cases "fst (ProjectRoot c [])") (simp_all add: create_refused_def)
  define sts where "sts = kfold run_stage (stages c root fl (cr_build fl \<and> IsDevMode c) (cr_with_olm fl \<or> cr_with_ossm3 fl)) 0"
  obtain r where sts: "sts l = (r, l)"
    using runs_only_none [OF dry_stages [OF assms]] unfolding sts_def by (metis prod.collapse)
  then have eq: "create_command c fl l = (map_sum id (\<lambda>step. (step, totalSteps (cr_auth_mode fl = ''byoidc'')
      (cr_pull_secret fl \<noteq> []) (cr_with_olm fl \<or> cr_with_ossm3 fl) (cr_with_ossm3 fl) (cr_build fl \<and> IsDevMode c)
      (cr_no_deploy fl))) r, l)"
    using create_command_eq [of c fl l] False root
    by (cases r) (simp_all add: create_stages_def Let_def sts_def [symmetric] kbind_def kreturn_def)
  have "isl r \<longleftrightarrow> cr_with_ossm3 fl \<and> \<not> cr_no_deploy fl"
  proof (cases "cr_with_ossm3 fl \<and> \<not> cr_no_deploy fl")
    case True
    then have "fails sts" unfolding sts_def using fails_stages [OF assms] by blast
    with True sts show ?thesis by (simp add: fails_def) (metis fst_conv)
  next
    case no: False
    then have "succeeds sts"
      unfolding sts_def using assms by (intro succeeds_stages) (auto simp: willing_def)
    with no sts show ?thesis by (simp add: succeeds_def) (metis fst_conv)
  qed
  with eq False show ?thesis by (cases r) simp_all
qed

text \<open>
  C13.  A creation that succeeds has announced as many stages as it said there were, and has left
  the simulator in the mode asked for: the tool reads this mode back from the arguments that
  \<^verbatim>\<open>kubectl\<close> shows after the commands that were run.
\<close>

theorem create_takes_effect:
  assumes "\<not> cli_dry c" and "\<not> cr_no_deploy fl" and "create_command c fl l = (Inr (step, steps), l')"
    and "fst (ProjectRoot c []) = Inr root"
    and "\<forall>args. deployed_args (\<lambda>l cmd. cli_shell c l cmd \<noteq> None) root l' = Some args \<longrightarrow>
      cli_shell c l' (args_query (kube_context (cr_name fl))) = Some args"
  shows "step = steps \<and>
    GetAuthMode c (kube_context (cr_name fl)) l' =
      (Inr (cr_auth_mode fl), l' @ [args_query (kube_context (cr_name fl))])"
proof -
  let ?b = "cr_build fl \<and> IsDevMode c" and ?w = "cr_with_olm fl \<or> cr_with_ossm3 fl"
    and ?D = "deployed_args (\<lambda>l cmd. cli_shell c l cmd \<noteq> None) root"
  have accepted: "\<not> create_refused c fl" using create_command_eq [of c fl l] assms(3) by (metis fst_conv sum.disc(2))
  then have mode: "cr_auth_mode fl \<in> {''legacy'', ''oidc'', ''byoidc''}"
    using assms(4) by (simp add: create_refused_def)
  have "create_stages c fl root l = (Inr (step, steps), l')"
    using create_command_eq [of c fl l] assms(3,4) accepted by simp
  then have run: "kfold run_stage (stages c root fl ?b ?w) 0 l = (Inr step, l')"
    and steps: "steps = totalSteps (cr_auth_mode fl = ''byoidc'') (cr_pull_secret fl \<noteq> []) ?w (cr_with_ossm3 fl) ?b (cr_no_deploy fl)"
    by (auto simp: create_stages_def Let_def kbind_Inr kreturn_def)
  obtain early where split: "stages c root fl ?b ?w = early @ [(True, deploySim c root (cr_name fl) (cr_auth_mode fl))] @
      late_stages c root fl ?w"
    using stages_split [OF assms(2)] by blast
  obtain l1 l2 where "deploySim c root (cr_name fl) (cr_auth_mode fl) l1 = (Inr (), l2)"
    and late: "\<exists>n. kfold run_stage (late_stages c root fl ?w) n l2 = (Inr step, l')"
    using run unfolding split by (auto simp: kfold_append kbind_Inr run_stage_def kreturn_def)
  then have "?D l2 = Some (mode_args (cr_auth_mode fl))" using deploySim_args [OF assms(1)] by blast
  moreover have "?D l' = ?D l2"
    using late deployed_args_runs_only [OF runs_only_late_run] by (metis snd_conv)
  ultimately have "cli_shell c l' (args_query (kube_context (cr_name fl))) = Some (mode_args (cr_auth_mode fl))"
    using assms(5) by simp
  then have "GetAuthMode c (kube_context (cr_name fl)) l' =
      (Inr (cr_auth_mode fl), l' @ [args_query (kube_context (cr_name fl))])"
    using assms(1) mode_of_mode_args [OF mode] by (simp add: GetAuthMode_def ktry_def RunOutput_def kreturn_def)
  moreover have "step = steps" using run_stages_count [OF run] unfolding steps stages_count by simp
  ultimately show ?thesis by simp
qed

text \<open>A release whose programs all succeed; \<^verbatim>\<open>kubectl\<close> shows the arguments that were set.\<close>

definition create_cli :: cli where
  "create_cli = \<lparr>cli_dry = False, cli_version = ''v1.2.0'',
     cli_shell = (\<lambda>l cmd. Some (if cmd = args_query (kube_context ''sim'') then unwrap_or (deployed_args (\<lambda>l cmd. True) ''/assets'' l) [] else [])),
     cli_sudo_var = [], cli_program_dir = None, cli_cwd = None, cli_assets = Some ''/assets'', cli_exists = (\<lambda>p. True),
     cli_look_path = (\<lambda>name. Some (''/usr/bin/'' @ name)), cli_b64_decode = (\<lambda>s. None), cli_json_print = (\<lambda>j. []),
     cli_json_users = (\<lambda>s. None), cli_took = (\<lambda>l cmd. 0)\<rparr>"

definition oidc_flags_set :: create_flags where
  "oidc_flags_set = \<lparr>cr_name = ''sim'', cr_auth_mode = ''oidc'', cr_no_deploy = False, cr_build = False,
     cr_pull_secret = [], cr_with_olm = False, cr_with_ossm3 = False\<rparr>"

lemma create_cli_accepted:
  "fst (ProjectRoot create_cli []) = Inr ''/assets''" "fst (ProjectRoot (create_cli\<lparr>cli_dry := True\<rparr>) []) = Inr ''/assets''"
  "\<not> create_refused create_cli oidc_flags_set"
  "\<not> create_refused (create_cli\<lparr>cli_dry := True\<rparr>) (oidc_flags_set\<lparr>cr_with_ossm3 := True, cr_pull_secret := ''auth.json''\<rparr>)"
  by (simp_all add: create_refused_def ProjectRoot_def checkDeps_def CheckDep_def kseq_def kbind_def IsDevMode_def
      create_cli_def oidc_flags_set_def kreturn_def)

theorem create_dry_run_witness:
  "snd (create_command (create_cli\<lparr>cli_dry := True\<rparr>)
     (oidc_flags_set\<lparr>cr_with_ossm3 := True, cr_pull_secret := ''auth.json''\<rparr>) []) = [] \<and>
   isl (fst (create_command (create_cli\<lparr>cli_dry := True\<rparr>)
     (oidc_flags_set\<lparr>cr_with_ossm3 := True, cr_pull_secret := ''auth.json''\<rparr>) []))"
  using create_dry_run [of "create_cli\<lparr>cli_dry := True\<rparr>" "oidc_flags_set\<lparr>cr_with_ossm3 := True, cr_pull_secret := ''auth.json''\<rparr>" "[]"]
  by (simp add: oidc_flags_set_def)

theorem create_takes_effect_witness:
  "\<exists>l'. fst (create_command create_cli oidc_flags_set []) = Inr (8, 8) \<and>
     snd (create_command create_cli oidc_flags_set []) = l' \<and>
     fst (GetAuthMode create_cli (kube_context ''sim'') l') = Inr ''oidc''"
proof -
  have "succeeds (kfold run_stage (stages create_cli ''/assets'' oidc_flags_set False False) 0)"
    by (rule succeeds_stages) (simp_all add: willing_def create_cli_def oidc_flags_set_def)
  then obtain n l' where "kfold run_stage (stages create_cli ''/assets'' oidc_flags_set False False) 0 [] = (Inr n, l')"
    unfolding succeeds_def by (metis isl_def prod.collapse sum.collapse(2))
  moreover define steps where "steps = totalSteps False False False False False False"
  ultimately have run: "create_command create_cli oidc_flags_set [] = (Inr (n, steps), l')"
    using create_command_eq [of create_cli oidc_flags_set "[]"] create_cli_accepted
    by (simp add: create_stages_def kbind_def kreturn_def oidc_flags_set_def steps_def)
  have ok: "(\<lambda>l cmd. cli_shell create_cli l cmd \<noteq> None) = (\<lambda>l cmd. True)" by (simp add: create_cli_def fun_eq_iff)
  have "n = steps \<and> GetAuthMode create_cli (kube_context ''sim'') l' = (Inr ''oidc'', l' @ [args_query (kube_context ''sim'')])"
    using create_takes_effect [OF _ _ run create_cli_accepted(1)] unfolding ok
    by (simp add: oidc_flags_set_def) (simp add: create_cli_def unwrap_or_def)
  with run show ?thesis by (simp add: steps_def totalSteps_def)
qed

end
