(* ===== verification/Cli_Assets.thy ===== *)
theory Cli_Assets
  imports Cli
begin

text \<open>
  The embedded files of a release (\<^verbatim>\<open>cli/internal/config.go\<close>): they are extracted to a directory of the
  user's cache on the first run, and a marker in that directory says that this has been done.
\<close>

section \<open>Definitions\<close>

text \<open>
  What \<^verbatim>\<open>fs.WalkDir\<close> visits, in its order: directories, files with their content (\<^const>\<open>None\<close> if it cannot
  be read), and entries that cannot be visited.
\<close>

datatype dir_entry =
    Directory string
  | Regular string "bytes option"
  | Unreadable string

text \<open>
  The files on disk, with their content and whether they are executable.  \<open>disk_mkdir\<close> says whether a
  directory can be made; \<open>disk_write\<close> whether a write fails, and the part of the content it then leaves,
  if it gets so far as to touch the file.
\<close>

type_synonym files = "string \<rightharpoonup> bytes \<times> bool"

datatype write_result = Written | NotOpened | CutOff bytes

record disk =
  disk_home :: "string option"
  disk_mkdir :: "string \<Rightarrow> bool"
  disk_write :: "string \<Rightarrow> bytes \<Rightarrow> write_result"

datatype asset_error = NoHome | NoAssets | WalkFailed string | MkdirFailed string | ReadFailed string | WriteFailedAt string

definition path_dir :: "string \<Rightarrow> string" where
  "path_dir p = path_clean (rev (dropWhile (\<lambda>c. c \<noteq> CHR ''/'') (rev p)))"

text \<open>\<^verbatim>\<open>os.WriteFile\<close>: the permissions count only for a file that is not there yet.\<close>

definition file_mode :: "files \<Rightarrow> string \<Rightarrow> bool \<Rightarrow> bool" where
  "file_mode fs path exe = (case fs path of Some (old, x) \<Rightarrow> x | None \<Rightarrow> exe)"

definition write_file :: "disk \<Rightarrow> string \<Rightarrow> bytes \<Rightarrow> bool \<Rightarrow> files \<Rightarrow> asset_error option \<times> files" where
  "write_file d path data exe fs =
     (case disk_write d path data of
        Written \<Rightarrow> (None, fs(path \<mapsto> (data, file_mode fs path exe)))
      | NotOpened \<Rightarrow> (Some (WriteFailedAt path), fs)
      | CutOff part \<Rightarrow> (Some (WriteFailedAt path), fs(path \<mapsto> (part, file_mode fs path exe))))"

definition is_script :: "string \<Rightarrow> bool" where
  "is_script path \<longleftrightarrow> has_suffix path ''.sh'' \<or> has_suffix path ''.py''"

fun extract_entry :: "disk \<Rightarrow> string \<Rightarrow> dir_entry \<Rightarrow> files \<Rightarrow> asset_error option \<times> files" where
  "extract_entry d destDir (Unreadable path) fs = (Some (WalkFailed path), fs)"
| "extract_entry d destDir (Directory path) fs =
     (if path = ''.'' \<or> disk_mkdir d (path_join destDir path) then (None, fs)
      else (Some (MkdirFailed (path_join destDir path)), fs))"
| "extract_entry d destDir (Regular path data) fs =
     (if path = ''.'' then (None, fs)
      else case data of
        None \<Rightarrow> (Some (ReadFailed path), fs)
      | Some b \<Rightarrow>
          (let dest = path_join destDir path
           in if \<not> disk_mkdir d (path_dir dest) then (Some (MkdirFailed (path_dir dest)), fs)
              else write_file d dest b (is_script path) fs))"

fun extract_entries :: "disk \<Rightarrow> string \<Rightarrow> dir_entry list \<Rightarrow> files \<Rightarrow> asset_error option \<times> files" where
  "extract_entries d destDir [] fs = (None, fs)"
| "extract_entries d destDir (e # es) fs =
     (case extract_entry d destDir e fs of
        (None, fs') \<Rightarrow> extract_entries d destDir es fs'
      | (Some err, fs') \<Rightarrow> (Some err, fs'))"

definition extractEmbeddedAssets :: "disk \<Rightarrow> dir_entry list option \<Rightarrow> string \<Rightarrow> files \<Rightarrow> asset_error option \<times> files" where
  "extractEmbeddedAssets d assets destDir fs =
     (case assets of None \<Rightarrow> (Some NoAssets, fs) | Some es \<Rightarrow> extract_entries d destDir es fs)"

definition cache_dir :: "string \<Rightarrow> string \<Rightarrow> string" where
  "cache_dir home version = path_join (path_join (path_join home ''.cache'') ''picoshift'') (trim_prefix version ''v'')"

definition marker :: "string \<Rightarrow> string" where
  "marker cacheDir = path_join cacheDir ''.extracted''"

definition ensureExtractedAssets ::
    "disk \<Rightarrow> string \<Rightarrow> dir_entry list option \<Rightarrow> files \<Rightarrow> (asset_error + string) \<times> files" where
  "ensureExtractedAssets d version assets fs =
     (case disk_home d of
        None \<Rightarrow> (Inl NoHome, fs)
      | Some home \<Rightarrow>
          (let cacheDir = cache_dir home version
           in if fs (marker cacheDir) \<noteq> None then (Inr cacheDir, fs)
              else case extractEmbeddedAssets d assets cacheDir fs of
                (Some err, fs') \<Rightarrow> (Inl err, fs')
              | (None, fs') \<Rightarrow> (Inr cacheDir, snd (write_file d (marker cacheDir) version False fs'))))"

section \<open>Lemmas\<close>

fun entry_path :: "dir_entry \<Rightarrow> string" where
  "entry_path (Directory path) = path"
| "entry_path (Regular path data) = path"
| "entry_path (Unreadable path) = path"

text \<open>The embedded tree: each path once, without special elements, and without the marker.\<close>

definition asset_tree :: "dir_entry list \<Rightarrow> bool" where
  "asset_tree es \<longleftrightarrow> distinct (map entry_path es) \<and>
     list_all (\<lambda>e. entry_path e \<noteq> ''.'' \<longrightarrow> plain_path (entry_path e) \<and> entry_path e \<noteq> ''.extracted'') es"

lemma path_join_inj:
  assumes "plain_path p" "plain_path q"
  shows "path_join root p = path_join root q \<longleftrightarrow> p = q"
proof -
  obtain pre where "path_join root p = pre @ p" "path_join root q = pre @ q"
    using path_join_plain [of root] assms by blast
  then show ?thesis by simp
qed

text \<open>A file that is no target of the entries is left alone.\<close>

lemma extract_entry_frame:
  "\<forall>p data. e = Regular p data \<and> p \<noteq> ''.'' \<longrightarrow> path \<noteq> path_join dest p \<Longrightarrow>
   snd (extract_entry d dest e fs) path = fs path"
  by (cases e) (auto simp: write_file_def Let_def split: option.split write_result.split)

lemma extract_entries_frame:
  "\<forall>p data. Regular p data \<in> set es \<and> p \<noteq> ''.'' \<longrightarrow> path \<noteq> path_join dest p \<Longrightarrow>
   snd (extract_entries d dest es fs) path = fs path"
proof (induction es arbitrary: fs)
  case (Cons e es)
  have "snd (extract_entry d dest e fs) path = fs path"
    using Cons.prems by (intro extract_entry_frame) auto
  moreover have "snd (extract_entries d dest es fs') path = fs' path" for fs' using Cons.prems by (intro Cons.IH) auto
  ultimately show ?case by (auto split: prod.split option.split)
qed simp

lemma marker_not_extracted:
  assumes "asset_tree es"
  shows "snd (extract_entries d dest es fs) (marker dest) = fs (marker dest)"
proof (rule extract_entries_frame, intro allI impI)
  fix p data
  assume "Regular p data \<in> set es \<and> p \<noteq> ''.''"
  with assms have "plain_path p" "p \<noteq> ''.extracted''" by (auto simp: asset_tree_def list_all_iff)
  moreover have "plain_path ''.extracted''" by (simp add: plain_path_def)
  ultimately show "marker dest \<noteq> path_join dest p" unfolding marker_def by (auto simp: path_join_inj)
qed

text \<open>An extraction that succeeds has written every file; the scripts it created are executable.\<close>

lemma asset_paths_differ:
  assumes "asset_tree (e # es)" and "Regular p data \<in> set es" and "p \<noteq> ''.''" and "e = Regular q data'" "q \<noteq> ''.''"
  shows "path_join dest p \<noteq> path_join dest q"
proof -
  have "entry_path (Regular p data) \<in> entry_path ` set es" using assms(2) by (rule imageI)
  then have "p \<noteq> q" using assms(1,4) by (auto simp: asset_tree_def)
  moreover have "plain_path p" "plain_path q" using assms by (auto simp: asset_tree_def list_all_iff)
  ultimately show ?thesis by (simp add: path_join_inj)
qed

lemma extract_entries_complete:
  assumes "extract_entries d dest es fs = (None, fs')" and "asset_tree es"
    and "Regular p data \<in> set es" and "p \<noteq> ''.''"
  shows "\<exists>b. data = Some b \<and> fs' (path_join dest p) = Some (b, file_mode fs (path_join dest p) (is_script p))"
  using assms
proof (induction es arbitrary: fs)
  case (Cons e es)
  obtain fs1 where e: "extract_entry d dest e fs = (None, fs1)" and es: "extract_entries d dest es fs1 = (None, fs')"
    using Cons.prems(1) by (auto split: prod.splits option.splits)
  have tree: "asset_tree es" using Cons.prems(2) by (auto simp: asset_tree_def)
  show ?case
  proof (cases "Regular p data \<in> set es")
    case True
    then have "fs1 (path_join dest p) = fs (path_join dest p)"
      using extract_entry_frame [of e "path_join dest p" dest d fs] asset_paths_differ [OF Cons.prems(2) True Cons.prems(4)] e
      by auto
    with Cons.IH [OF es tree True Cons.prems(4)] show ?thesis by (simp add: file_mode_def)
  next
    case False
    with Cons.prems(3) have reg: "e = Regular p data" by simp
    with e Cons.prems(4) obtain b where b: "data = Some b"
      "fs1 (path_join dest p) = Some (b, file_mode fs (path_join dest p) (is_script p))"
      by (auto simp: write_file_def Let_def split: option.splits if_splits write_result.splits)
    have "path_join dest p \<noteq> path_join dest q" if "Regular q data' \<in> set es" "q \<noteq> ''.''" for q data'
      using asset_paths_differ [OF Cons.prems(2) that reg Cons.prems(4)] by metis
    then have "snd (extract_entries d dest es fs1) (path_join dest p) = fs1 (path_join dest p)"
      by (intro extract_entries_frame) blast
    with es b show ?thesis by simp
  qed
qed simp

text \<open>
  The marker tells the truth: it is there only after a complete extraction.  A run that fails leaves
  no marker, so that the next one starts over; a run that succeeds leaves every file in its place,
  and a run that finds the marker changes nothing.
\<close>

lemma assets_extracted:
  assumes "disk_home d = Some home" and "asset_tree es" and "fs (marker (cache_dir home version)) = None"
    and "ensureExtractedAssets d version (Some es) fs = (r, fs')"
  shows "case r of
      Inl e \<Rightarrow> fs' (marker (cache_dir home version)) = None
    | Inr dir \<Rightarrow> dir = cache_dir home version \<and>
        (\<forall>p data. Regular p data \<in> set es \<and> p \<noteq> ''.'' \<longrightarrow>
           (\<exists>b. data = Some b \<and> fs' (path_join dir p) = Some (b, file_mode fs (path_join dir p) (is_script p))))"
proof -
  let ?dir = "cache_dir home version"
  obtain err fs1 where x: "extract_entries d ?dir es fs = (err, fs1)" by fastforce
  have m: "fs1 (marker ?dir) = None" using marker_not_extracted [OF assms(2), of d ?dir fs] x assms(3) by simp
  show ?thesis
  proof (cases err)
    case (Some e)
    with assms x m show ?thesis by (auto simp: ensureExtractedAssets_def extractEmbeddedAssets_def)
  next
    case None
    then have r: "r = Inr ?dir" "fs' = snd (write_file d (marker ?dir) version False fs1)"
      using assms x by (auto simp: ensureExtractedAssets_def extractEmbeddedAssets_def Let_def)
    have "\<exists>b. data = Some b \<and> fs' (path_join ?dir p) = Some (b, file_mode fs (path_join ?dir p) (is_script p))"
      if reg: "Regular p data \<in> set es" "p \<noteq> ''.''" for p data
    proof -
      have "plain_path p" "p \<noteq> ''.extracted''" "plain_path ''.extracted''"
        using assms(2) reg by (auto simp: asset_tree_def list_all_iff plain_path_def)
      then have "path_join ?dir p \<noteq> marker ?dir" by (simp add: marker_def path_join_inj)
      then have "fs' (path_join ?dir p) = fs1 (path_join ?dir p)"
        by (simp add: r write_file_def split: write_result.split)
      with extract_entries_complete [OF x [unfolded None] assms(2) reg] show ?thesis by simp
    qed
    then show ?thesis by (simp add: r)
  qed
qed

lemma assets_kept:
  assumes "disk_home d = Some home" and "fs (marker (cache_dir home version)) \<noteq> None"
  shows "ensureExtractedAssets d version assets fs = (Inr (cache_dir home version), fs)"
  using assms by (auto simp: ensureExtractedAssets_def Let_def)

end
