(* ===== verification/OAuth_Infra.thy ===== *)
theory OAuth_Infra
  imports OAuth_Types Util
begin

text \<open>
  \<^verbatim>\<open>simulator/src/oauth/infra.rs\<close>: the cluster objects through which the OAuth server is reached,
  written once when the server starts: namespace, headless service, endpoints at the node address,
  Route, name server entry, and the endpoints of the API server.
\<close>

section \<open>Definitions\<close>

definition generate_tls_config :: "cert_lib \<Rightarrow> string option \<Rightarrow> ca_state \<Rightarrow> string option" where
  "generate_tls_config lib key ca =
     sign_tls_config lib key ca [OAUTH_HOST @ ''.'' @ DOMAIN, ''entra.'' @ DOMAIN]"

text \<open>A request whose failure is only logged.\<close>

definition best_effort :: "unit kio \<Rightarrow> unit kio" where
  "best_effort m = ktry m (\<lambda>_. kreturn ())"

definition ensure_namespace :: "api_server \<Rightarrow> unit kio" where
  "ensure_namespace env =
     ktry (api_create env ResNamespace Cluster
         (KNamespace \<lparr>ns_meta = default_meta\<lparr>om_name := Some OAUTH_NS\<rparr>, ns_status = None\<rparr>))
       (\<lambda>r. case r of
              Inr _ \<Rightarrow> kreturn ()
            | Inl e \<Rightarrow> if e = Api 409 then kreturn () else kfail e)"

definition headless_service :: "string \<Rightarrow> service" where
  "headless_service name =
     \<lparr>svc_meta = default_meta\<lparr>om_name := Some name, om_namespace := Some OAUTH_NS\<rparr>,
      svc_spec = Some \<lparr>ss_type = None, ss_cluster_ip = Some ''None'',
        ss_ports = Some [\<lparr>sp_name = Some ''https'', sp_port = ucast OAUTH_PORT,
          sp_target_port = Some (IntVal (ucast OAUTH_PORT)), sp_protocol = Some ''TCP''\<rparr>],
        ss_selector = None\<rparr>,
      svc_status = None\<rparr>"

definition node_endpoints :: "string \<Rightarrow> string \<Rightarrow> endpoints" where
  "node_endpoints name node_ip =
     \<lparr>ep_meta = default_meta\<lparr>om_name := Some name, om_namespace := Some OAUTH_NS\<rparr>,
      ep_subsets = Some [\<lparr>es_addresses = Some [node_ip],
        es_ports = Some [\<lparr>ep_port_name = Some ''https'', ep_port_port = ucast OAUTH_PORT,
          ep_port_protocol = Some ''TCP''\<rparr>]\<rparr>]\<rparr>"

definition oauth_route_name :: "string \<Rightarrow> string" where
  "oauth_route_name host = unwrap_or (first (split_char (CHR ''.'') host)) host"

definition oauth_route :: "string \<Rightarrow> string \<Rightarrow> dynobj" where
  "oauth_route host svc_name =
     \<lparr>do_meta = default_meta\<lparr>om_name := Some (oauth_route_name host), om_namespace := Some OAUTH_NS\<rparr>,
      do_data = JObject [(''spec'', JObject
        [(''host'', JString host),
         (''to'', JObject [(''kind'', JString ''Service''), (''name'', JString svc_name)]),
         (''port'', JObject [(''targetPort'', JString ''https'')]),
         (''tls'', JObject [(''termination'', JString ''passthrough'')])])]\<rparr>"

definition create_oauth_route :: "api_server \<Rightarrow> string \<Rightarrow> string \<Rightarrow> unit kio" where
  "create_oauth_route env host svc_name =
     best_effort (api_patch env (ResDyn route_ar) (InNs OAUTH_NS) (oauth_route_name host) (Some ''ocp-sim'')
       (ApplyObj (KDyn (oauth_route host svc_name))))"

definition publish :: "api_server \<Rightarrow> string \<Rightarrow> string \<Rightarrow> string \<Rightarrow> unit kio" where
  "publish env name host node_ip =
     kbind (best_effort (api_patch env ResService (InNs OAUTH_NS) name (Some ''ocp-sim'')
       (ApplyObj (KService (headless_service name))))) (\<lambda>_.
     kbind (best_effort (api_patch env ResEndpoints (InNs OAUTH_NS) name (Some ''ocp-sim'')
       (ApplyObj (KEndpoints (node_endpoints name node_ip))))) (\<lambda>_.
     create_oauth_route env host name))"

definition delete_leftovers :: "api_server \<Rightarrow> unit kio" where
  "delete_leftovers env =
     kbind (best_effort (api_delete env ResService (InNs OAUTH_NS) OAUTH_HOST)) (\<lambda>_.
     kbind (best_effort (api_delete env ResEndpoints (InNs OAUTH_NS) OAUTH_HOST)) (\<lambda>_.
     best_effort (api_delete env (ResDyn route_ar) (InNs OAUTH_NS) OAUTH_HOST)))"

text \<open>The name server.\<close>

definition corefile_of :: "config_map \<Rightarrow> string" where
  "corefile_of cm = unwrap_or (Option.bind (cm_data cm) (\<lambda>d. map_of d ''Corefile'')) []"

definition hosts_block :: "string \<Rightarrow> auth_mode \<Rightarrow> string" where
  "hosts_block node_ip mode =
     [CHR 0x0A] @ ''apps.ocp-sim.test:53 {'' @ [CHR 0x0A] @ ''    hosts {'' @ [CHR 0x0A] @
     (if mode = Byoidc then ''        '' @ node_ip @ '' entra.apps.ocp-sim.test''
      else ''        '' @ node_ip @ '' oauth-openshift.apps.ocp-sim.test'') @ [CHR 0x0A] @
     ''        fallthrough'' @ [CHR 0x0A] @ ''    }'' @ [CHR 0x0A] @ ''}'' @ [CHR 0x0A]"

definition restart_pods :: "api_server \<Rightarrow> object_meta list \<Rightarrow> unit kio" where
  "restart_pods env pods =
     kfold (\<lambda>pod _. best_effort (api_delete env ResPod (InNs ''kube-system'') (unwrap_or (om_name pod) [])))
       pods ()"

definition coredns_patch :: "string \<Rightarrow> auth_mode \<Rightarrow> config_map \<Rightarrow> json" where
  "coredns_patch node_ip mode cm =
     JObject [(''data'', JObject [(''Corefile'', JString (corefile_of cm @ hosts_block node_ip mode))])]"

definition patch_coredns :: "api_server \<Rightarrow> string \<Rightarrow> auth_mode \<Rightarrow> unit kio" where
  "patch_coredns env node_ip mode =
     kbind (api_get env as_config_map ResConfigMap (InNs ''kube-system'') ''coredns'') (\<lambda>cm.
       if str_contains (corefile_of cm) ''apps.ocp-sim.test'' then kreturn ()
       else kbind (api_patch env ResConfigMap (InNs ''kube-system'') ''coredns'' None
              (Merge (coredns_patch node_ip mode cm))) (\<lambda>_.
            kbind (api_list env as_pod ResPod (InNs ''kube-system'') (Some ''k8s-app=kube-dns'')) (\<lambda>pods.
            restart_pods env pods)))"

definition kubernetes_endpoints :: "string \<Rightarrow> endpoints" where
  "kubernetes_endpoints node_ip =
     \<lparr>ep_meta = default_meta\<lparr>om_name := Some ''kubernetes''\<rparr>,
      ep_subsets = Some [\<lparr>es_addresses = Some [node_ip],
        es_ports = Some [\<lparr>ep_port_name = Some ''https'', ep_port_port = 6443,
          ep_port_protocol = Some ''TCP''\<rparr>]\<rparr>]\<rparr>"

definition patch_kubernetes_endpoints :: "api_server \<Rightarrow> string \<Rightarrow> unit kio" where
  "patch_kubernetes_endpoints env node_ip =
     best_effort (api_patch env ResEndpoints (InNs ''default'') ''kubernetes'' (Some ''ocp-sim'')
       (ApplyObj (KEndpoints (kubernetes_endpoints node_ip))))"

definition setup_infrastructure :: "api_server \<Rightarrow> auth_mode \<Rightarrow> unit kio" where
  "setup_infrastructure env mode =
     kbind (ensure_namespace env) (\<lambda>_.
     kbind (get_node_ip env) (\<lambda>node_ip.
     kbind (if mode = Byoidc
            then kbind (delete_leftovers env) (\<lambda>_. publish env ''entra'' (''entra.'' @ DOMAIN) node_ip)
            else publish env OAUTH_HOST (OAUTH_HOST @ ''.'' @ DOMAIN) node_ip) (\<lambda>_.
     kbind (patch_coredns env node_ip mode) (\<lambda>_.
     patch_kubernetes_endpoints env node_ip))))"

section \<open>Lemmas\<close>

lemma best_effort_run: "best_effort (perform env r dec) l = (Inr (), l @ [r])"
  by (simp add: best_effort_def kube_simps)

lemma hosts_block_names_domain: "str_contains (hosts_block node_ip mode) ''apps.ocp-sim.test''"
proof -
  obtain t where "hosts_block node_ip mode = [CHR 0x0A] @ ''apps.ocp-sim.test'' @ t"
    by (simp add: hosts_block_def)
  then show ?thesis unfolding str_contains_iff by blast
qed

abbreviation coredns_get :: req where
  "coredns_get \<equiv> Get ResConfigMap (InNs ''kube-system'') ''coredns''"

abbreviation coredns_write :: "string \<Rightarrow> auth_mode \<Rightarrow> config_map \<Rightarrow> req" where
  "coredns_write node_ip mode cm \<equiv>
     Patch ResConfigMap (InNs ''kube-system'') ''coredns'' None (Merge (coredns_patch node_ip mode cm))"

lemma corefile_after:
  "corefile_of (apply_cm [coredns_write node_ip mode cm] cm) = corefile_of cm @ hosts_block node_ip mode"
  by (simp add: coredns_patch_def corefile_of_def [of "cm\<lparr>cm_data := _\<rparr>"] update_conv')

lemma patch_coredns_present:
  assumes "env l coredns_get = RObj (KConfigMap cm)"
    and "str_contains (corefile_of cm) ''apps.ocp-sim.test''"
  shows "patch_coredns env node_ip mode l = (Inr (), l @ [coredns_get])"
  using assms by (simp add: patch_coredns_def kube_simps api_defs)

section \<open>Properties\<close>

text \<open>
  C27.  The name server entry is written once: when the Corefile does not mention the domain,
  the block for it is appended and the name server pods are restarted; and once it is there, no
  later start of the server writes it again, whatever its node address and mode are by then.
\<close>

theorem coredns_written_once:
  assumes "env l coredns_get = RObj (KConfigMap cm)"
    and "env (l @ [coredns_get]) (coredns_write node_ip mode cm) = ROk"
    and "env (l @ [coredns_get, coredns_write node_ip mode cm])
           (ListAll ResPod (InNs ''kube-system'') (Some ''k8s-app=kube-dns'')) = RList (map KPod pods)"
    and "\<not> str_contains (corefile_of cm) ''apps.ocp-sim.test''"
  defines "cm' \<equiv> apply_cm [coredns_write node_ip mode cm] cm"
  assumes "env' l' coredns_get = RObj (KConfigMap cm')"
  shows "patch_coredns env node_ip mode l =
      (Inr (), l @ [coredns_get, coredns_write node_ip mode cm,
         ListAll ResPod (InNs ''kube-system'') (Some ''k8s-app=kube-dns'')] @
         map (\<lambda>pod. Delete ResPod (InNs ''kube-system'') (unwrap_or (om_name pod) [])) pods) \<and>
    corefile_of cm' = corefile_of cm @ hosts_block node_ip mode \<and>
    patch_coredns env' node_ip' mode' l' = (Inr (), l' @ [coredns_get])"
proof (intro conjI)
  have restart: "restart_pods env pods l =
      (Inr (), l @ map (\<lambda>pod. Delete ResPod (InNs ''kube-system'') (unwrap_or (om_name pod) [])) pods)" for l
    using kfold_run [of pods "\<lambda>pod _. best_effort (api_delete env ResPod (InNs ''kube-system'') (unwrap_or (om_name pod) []))"
        "\<lambda>_ _. ()" "\<lambda>pod. [Delete ResPod (InNs ''kube-system'') (unwrap_or (om_name pod) [])]" "()" l]
    by (simp add: restart_pods_def api_delete_def best_effort_run)
  show "patch_coredns env node_ip mode l =
      (Inr (), l @ [coredns_get, coredns_write node_ip mode cm,
         ListAll ResPod (InNs ''kube-system'') (Some ''k8s-app=kube-dns'')] @
         map (\<lambda>pod. Delete ResPod (InNs ''kube-system'') (unwrap_or (om_name pod) [])) pods)"
    using assms(1-4) by (simp add: patch_coredns_def kube_simps api_defs restart list_all_iff comp_def)
  show after: "corefile_of cm' = corefile_of cm @ hosts_block node_ip mode"
    unfolding cm'_def by (rule corefile_after)
  have "str_contains (corefile_of cm') ''apps.ocp-sim.test''"
    using hosts_block_names_domain [of node_ip mode] unfolding after str_contains_iff
    by (metis append.assoc)
  then show "patch_coredns env' node_ip' mode' l' = (Inr (), l' @ [coredns_get])"
    by (rule patch_coredns_present [of env' l' cm', OF assms(6)])
qed

definition example_corefile :: config_map where
  "example_corefile = \<lparr>cm_meta = default_meta\<lparr>om_name := Some ''coredns''\<rparr>,
     cm_data = Some [(''Corefile'', ''.:53 { }'')]\<rparr>"

definition dns_server :: "config_map \<Rightarrow> api_server" where
  "dns_server cm = (\<lambda>l q. case q of
     Get r sc n \<Rightarrow> RObj (KConfigMap cm) | ListAll r sc sel \<Rightarrow> RList [KPod default_meta] | _ \<Rightarrow> ROk)"

theorem coredns_written_once_witness:
  "patch_coredns (dns_server (apply_cm [coredns_write ''10.0.0.1'' Legacy example_corefile] example_corefile))
     ''10.0.0.2'' Byoidc [] = (Inr (), [coredns_get])"
proof -
  have "\<not> str_contains (corefile_of example_corefile) ''apps.ocp-sim.test''" by code_simp
  then show ?thesis
    using coredns_written_once [of "dns_server example_corefile" "[]" example_corefile "''10.0.0.1''" Legacy
        "[default_meta]" "dns_server (apply_cm [coredns_write ''10.0.0.1'' Legacy example_corefile] example_corefile)"
        "[]" "''10.0.0.2''" Byoidc]
    by (simp add: dns_server_def del: apply_cm.simps)
qed

end
