(* ===== verification/PodMutate.thy ===== *)
theory PodMutate
  imports Util Http
begin

text \<open>
  \<^verbatim>\<open>simulator/src/pod_mutate.rs\<close>: the admission webhook that gives pods a file system group,
  and the controller that annotates namespaces with the matching range of identifiers.  The
  standard library does not say what its default hash function computes, so it is a parameter.
\<close>

section \<open>Definitions\<close>

definition WEBHOOK_PORT :: u16 where "WEBHOOK_PORT = 8443"

definition UID_RANGE_ANNOTATION :: string where
  "UID_RANGE_ANNOTATION = ''openshift.io/sa.scc.uid-range''"

definition SUPPLEMENTAL_GROUPS_ANNOTATION :: string where
  "SUPPLEMENTAL_GROUPS_ANNOTATION = ''openshift.io/sa.scc.supplemental-groups''"

definition SKIP_NAMESPACES :: "string list" where
  "SKIP_NAMESPACES = [''kube-system'', ''kube-public'', ''kube-node-lease'', ''ocp-sim'',
     ''local-path-storage'']"

definition uid_range_for_namespace :: "(string \<Rightarrow> u64) \<Rightarrow> string \<Rightarrow> u64" where
  "uid_range_for_namespace hash name =
     (let h = hash name; block = h mod 100000 in 1000000000 + block * 10000)"

text \<open>The patch document is printed by the JSON library and encoded in base64.\<close>

definition build_admission_response :: "weblib \<Rightarrow> string \<Rightarrow> json list option \<Rightarrow> json" where
  "build_admission_response web uid patch =
     (let resp = JObject [(''uid'', JString uid), (''allowed'', JBool True)];
          resp = (case patch of
                    Some ops \<Rightarrow>
                      jset (jset resp ''patchType'' (JString ''JSONPatch''))
                        ''patch'' (JString (b64_encode web (json_print web (JArray ops))))
                  | None \<Rightarrow> resp)
      in JObject [(''apiVersion'', JString ''admission.k8s.io/v1''),
           (''kind'', JString ''AdmissionReview''), (''response'', resp)])"

definition runs_as_non_root :: "json \<Rightarrow> bool" where
  "runs_as_non_root x =
     unwrap_or (Option.bind (Option.bind (jget x ''securityContext'') (\<lambda>s. jget s ''runAsNonRoot'')) as_bool) False"

definition compute_patch :: "(string \<Rightarrow> u64) \<Rightarrow> json \<Rightarrow> string \<Rightarrow> json list option" where
  "compute_patch hash pod namespace =
     Option.bind (jget pod ''spec'') (\<lambda>spec.
       let sc = jget spec ''securityContext'';
           fs_group = Option.bind sc (\<lambda>s. jget s ''fsGroup'')
       in if fs_group \<noteq> None then None
          else
            (let run_as_non_root_pod = runs_as_non_root spec;
                 run_as_non_root_container =
                   (case Option.bind (jget spec ''containers'') as_array of
                      Some containers \<Rightarrow> list_ex runs_as_non_root containers
                    | None \<Rightarrow> False)
             in if \<not> run_as_non_root_pod \<and> \<not> run_as_non_root_container then None
                else
                  (let uid = JNumber (PosInt (uid_range_for_namespace hash namespace))
                   in if sc \<noteq> None
                      then Some [add_op ''/spec/securityContext/fsGroup'' uid]
                      else Some [add_op ''/spec/securityContext'' (JObject [(''fsGroup'', uid)])])))"

text \<open>\<^const>\<open>None\<close> is the error of a body that cannot be read; \<open>collected\<close> is the body.\<close>

definition mutate_handle_request ::
    "weblib \<Rightarrow> (string \<Rightarrow> u64) \<Rightarrow> request \<Rightarrow> bytes option \<Rightarrow> response option" where
  "mutate_handle_request web hash req collected =
     (if rq_method req \<noteq> ''POST'' \<or> rq_path req \<noteq> ''/mutate/pods''
      then Some \<lparr>rs_status = NOT_FOUND, rs_headers = [], rs_body = ''not found'' @ nl\<rparr>
      else Option.bind collected (\<lambda>body.
        case json_parse web body of
          None \<Rightarrow> Some \<lparr>rs_status = BAD_REQUEST, rs_headers = [], rs_body = ''bad request'' @ nl\<rparr>
        | Some review \<Rightarrow>
            (let request = jindex review ''request'';
                 uid = unwrap_or (as_str (jindex request ''uid'')) [];
                 namespace = unwrap_or (as_str (jindex request ''namespace'')) ''default'';
                 pod = jindex request ''object'';
                 patch = compute_patch hash pod namespace
             in Some \<lparr>rs_status = OK, rs_headers = [(''content-type'', ''application/json'')],
                  rs_body = json_print web (build_admission_response web uid patch)\<rparr>)))"

definition scc_webhook :: "weblib \<Rightarrow> ca_state \<Rightarrow> string \<Rightarrow> webhook_configuration" where
  "scc_webhook web ca node_ip =
     (let ca_bundle = b64_encode web (ca_cert_pem ca)
      in \<lparr>wc_meta = default_meta\<lparr>om_name := Some ''ocp-sim-scc''\<rparr>,
          wc_webhooks = Some [\<lparr>wh_name = ''scc.ocp-sim.io'',
            wh_url = Some (''https://'' @ node_ip @ '':'' @ show_nat (unat WEBHOOK_PORT) @ ''/mutate/pods''),
            wh_ca_bundle = Some (unwrap_or (b64_decode web ca_bundle) []),
            wh_rules = Some [\<lparr>rwo_api_groups = Some [''''], rwo_api_versions = Some [''v1''],
              rwo_operations = Some [''CREATE''], rwo_resources = Some [''pods''],
              rwo_scope = Some ''Namespaced''\<rparr>],
            wh_failure_policy = Some ''Ignore'', wh_side_effects = ''None'',
            wh_admission_review_versions = [''v1''],
            wh_ns_not_in = Some (''kubernetes.io/metadata.name'', SKIP_NAMESPACES),
            wh_reinvocation_policy = Some ''Never'', wh_timeout_seconds = Some 5\<rparr>]\<rparr>)"

definition setup_webhook_with_ip :: "api_server \<Rightarrow> weblib \<Rightarrow> ca_state \<Rightarrow> string \<Rightarrow> unit kio" where
  "setup_webhook_with_ip env web ca node_ip =
     api_patch env ResMutatingWebhook Cluster ''ocp-sim-scc'' (Some ''ocp-sim'')
       (ApplyObj (KMutatingWebhook (scc_webhook web ca node_ip)))"

definition uid_range_text :: "(string \<Rightarrow> u64) \<Rightarrow> string \<Rightarrow> string" where
  "uid_range_text hash name = show_nat (unat (uid_range_for_namespace hash name)) @ ''/10000''"

definition uid_range_patch :: "(string \<Rightarrow> u64) \<Rightarrow> string \<Rightarrow> json" where
  "uid_range_patch hash name =
     JObject [(''metadata'', JObject [(''annotations'', JObject
       [(UID_RANGE_ANNOTATION, JString (uid_range_text hash name)),
        (SUPPLEMENTAL_GROUPS_ANNOTATION, JString (uid_range_text hash name))])])]"

definition uid_reconcile_namespace :: "api_server \<Rightarrow> (string \<Rightarrow> u64) \<Rightarrow> namespace \<Rightarrow> action kio" where
  "uid_reconcile_namespace env hash ns =
     (let name = name_any (ns_meta ns)
      in if name \<in> set SKIP_NAMESPACES then kreturn AwaitChange
         else if (case om_annotations (ns_meta ns) of
                    Some a \<Rightarrow> map_of a UID_RANGE_ANNOTATION \<noteq> None | None \<Rightarrow> False)
         then kreturn AwaitChange
         else kbind (api_patch env ResNamespace Cluster name None (Merge (uid_range_patch hash name)))
                (\<lambda>_. kreturn AwaitChange))"

definition error_policy_ns :: "namespace \<Rightarrow> kube_error \<Rightarrow> action" where
  "error_policy_ns x e = Requeue 10"

text \<open>The start of \<^verbatim>\<open>run\<close> up to the listener; a failed registration is only logged.\<close>

definition pod_mutate_start ::
    "api_server \<Rightarrow> weblib \<Rightarrow> cert_lib \<Rightarrow> string option \<Rightarrow> ca_state \<Rightarrow> string kio" where
  "pod_mutate_start env web lib key ca =
     kbind (get_node_ip env) (\<lambda>node_ip.
       case sign_tls_config lib key ca [''ocp-sim-webhook.ocp-sim.svc'', node_ip] of
         None \<Rightarrow> kfail (OtherError ''failed to generate webhook TLS config'')
       | Some tls_config \<Rightarrow>
           ktry (setup_webhook_with_ip env web ca node_ip) (\<lambda>_. kreturn tls_config))"

definition uid_range_run ::
    "api_server \<Rightarrow> (string \<Rightarrow> u64) \<Rightarrow> namespace \<Rightarrow> req list \<Rightarrow> action \<times> req list" where
  "uid_range_run env hash = deliver (uid_reconcile_namespace env hash) error_policy_ns"

section \<open>Lemmas\<close>

lemma unat_uid_range:
  "unat (uid_range_for_namespace hash n) = 1000000000 + unat (hash n) mod 100000 * 10000"
proof -
  have "unat (hash n mod 100000) = unat (hash n) mod 100000" by (simp add: unat_mod)
  moreover have "unat (hash n) mod 100000 < 100000" by simp
  ultimately show ?thesis
    by (simp add: uid_range_for_namespace_def Let_def unat_word_ariths)
qed

text \<open>The effect of a list of \<^verbatim>\<open>add\<close> operations.\<close>

definition apply_add_op ::
    "(json \<Rightarrow> string list \<Rightarrow> json \<Rightarrow> json option) \<Rightarrow> json \<Rightarrow> json option \<Rightarrow> json option" where
  "apply_add_op add opn doc =
     Option.bind doc (\<lambda>d. Option.bind (get_str opn ''path'') (\<lambda>p.
       Option.bind (jget opn ''value'') (add d (pointer_keys p))))"

definition apply_patch ::
    "(json \<Rightarrow> string list \<Rightarrow> json \<Rightarrow> json option) \<Rightarrow> json list \<Rightarrow> json \<Rightarrow> json option" where
  "apply_patch add ops doc = fold (apply_add_op add) ops (Some doc)"

lemma pointer_simps:
  "pointer_keys ''/spec/securityContext/fsGroup'' = [''spec'', ''securityContext'', ''fsGroup'']"
  "pointer_keys ''/spec/securityContext'' = [''spec'', ''securityContext'']"
  by (simp_all add: pointer_keys_def)

lemma compute_patch_Some:
  assumes "compute_patch hash pod ns = Some ops"
  obtains spec where "jget pod ''spec'' = Some spec"
    "Option.bind (jget spec ''securityContext'') (\<lambda>s. jget s ''fsGroup'') = None"
    "ops = (if jget spec ''securityContext'' \<noteq> None
        then [add_op ''/spec/securityContext/fsGroup'' (JNumber (PosInt (uid_range_for_namespace hash ns)))]
        else [add_op ''/spec/securityContext''
          (JObject [(''fsGroup'', JNumber (PosInt (uid_range_for_namespace hash ns)))])])"
  using assms by (auto simp: compute_patch_def bind_eq_Some_conv Let_def split: if_splits)

lemma add_op_law_leaf:
  assumes "add_op_law add" and "is_object j"
  obtains j' where "add j [k] v = Some j'" "is_object j'"
    "\<And>k'. jget j' k' = (if k' = k then Some v else jget j k')"
  using assms unfolding add_op_law_def by metis

lemma add_op_law_step:
  assumes "add_op_law add" and "ks \<noteq> []" and "jget j k = Some u" and "add u ks v = Some u'"
  obtains j' where "add j (k # ks) v = Some j'"
    "\<And>k'. jget j' k' = (if k' = k then Some u' else jget j k')"
  using assms unfolding add_op_law_def by metis

text \<open>The security context of a pod, absent or an object as the API types have it.\<close>

definition context_ok :: "json \<Rightarrow> bool" where
  "context_ok pod \<longleftrightarrow>
     (case jget pod ''spec'' of
        Some spec \<Rightarrow> is_object spec \<and>
          (case jget spec ''securityContext'' of Some sc \<Rightarrow> is_object sc | None \<Rightarrow> True)
      | None \<Rightarrow> True)"

lemma compute_patch_effect:
  assumes law: "add_op_law add" and "context_ok pod" and patch: "compute_patch hash pod ns = Some ops"
  obtains pod' where "apply_patch add ops pod = Some pod'"
    "jpath pod' [''spec'', ''securityContext'', ''fsGroup''] =
       Some (JNumber (PosInt (uid_range_for_namespace hash ns)))"
    "\<And>k. k \<noteq> ''spec'' \<Longrightarrow> jget pod' k = jget pod k"
    "\<And>k. k \<noteq> ''securityContext'' \<Longrightarrow> jpath pod' [''spec'', k] = jpath pod [''spec'', k]"
proof -
  let ?uid = "JNumber (PosInt (uid_range_for_namespace hash ns))"
  obtain spec where spec: "jget pod ''spec'' = Some spec" and ops: "ops =
      (if jget spec ''securityContext'' \<noteq> None then [add_op ''/spec/securityContext/fsGroup'' ?uid]
       else [add_op ''/spec/securityContext'' (JObject [(''fsGroup'', ?uid)])])"
    by (rule compute_patch_Some [OF patch]) blast
  have obj: "is_object spec" using assms(2) spec by (simp add: context_ok_def)
  show thesis
  proof (cases "jget spec ''securityContext''")
    case None
    obtain spec' where s: "add spec [''securityContext''] (JObject [(''fsGroup'', ?uid)]) = Some spec'"
      "\<And>k. jget spec' k = (if k = ''securityContext'' then Some (JObject [(''fsGroup'', ?uid)]) else jget spec k)"
      by (rule add_op_law_leaf [OF law obj]) blast
    obtain pod' where p: "add pod [''spec'', ''securityContext''] (JObject [(''fsGroup'', ?uid)]) = Some pod'"
      "\<And>k. jget pod' k = (if k = ''spec'' then Some spec' else jget pod k)"
      by (rule add_op_law_step [OF law _ spec s(1)]) blast+
    show thesis
      by (rule that [of pod']) (simp_all add: ops None apply_patch_def apply_add_op_def pointer_simps p s spec)
  next
    case (Some sc)
    have sc_obj: "is_object sc" using Some assms(2) spec by (simp add: context_ok_def)
    obtain sc' where c: "add sc [''fsGroup''] ?uid = Some sc'"
      "\<And>k. jget sc' k = (if k = ''fsGroup'' then Some ?uid else jget sc k)"
      by (rule add_op_law_leaf [OF law sc_obj]) blast
    obtain spec' where s: "add spec [''securityContext'', ''fsGroup''] ?uid = Some spec'"
      "\<And>k. jget spec' k = (if k = ''securityContext'' then Some sc' else jget spec k)"
      by (rule add_op_law_step [OF law _ Some c(1)]) blast+
    obtain pod' where p: "add pod [''spec'', ''securityContext'', ''fsGroup''] ?uid = Some pod'"
      "\<And>k. jget pod' k = (if k = ''spec'' then Some spec' else jget pod k)"
      by (rule add_op_law_step [OF law _ spec s(1)]) blast+
    show thesis
      by (rule that [of pod']) (simp_all add: ops Some apply_patch_def apply_add_op_def pointer_simps p s c spec)
  qed
qed

lemma compute_patch_fs_group:
  "jpath pod [''spec'', ''securityContext'', ''fsGroup''] \<noteq> None \<Longrightarrow> compute_patch hash pod ns = None"
  by (auto simp: compute_patch_def bind_eq_Some_conv Let_def)

text \<open>The range annotation is there.\<close>

definition has_uid_range :: "namespace \<Rightarrow> bool" where
  "has_uid_range ns \<longleftrightarrow>
     (case om_annotations (ns_meta ns) of Some a \<Rightarrow> map_of a UID_RANGE_ANNOTATION \<noteq> None | None \<Rightarrow> False)"

section \<open>Properties\<close>

definition example_pod :: json where
  "example_pod = JObject [(''spec'', JObject [(''securityContext'',
     JObject [(''runAsNonRoot'', JBool True)])])]"



text \<open>
  C32.  Identifier ranges: for every hash function the range of a namespace starts at a multiple
  of its size between 1,000,000,000 and 1,999,990,000, and the ranges of two namespaces are the
  same or do not overlap.
\<close>

theorem uid_ranges_disjoint:
  defines "start \<equiv> \<lambda>hash n. unat (uid_range_for_namespace hash n)"
  shows "1000000000 \<le> start hash a \<and> start hash a \<le> 1999990000 \<and> 10000 dvd start hash a \<and>
    (start hash a = start hash b \<or>
     {start hash a ..< start hash a + 10000} \<inter> {start hash b ..< start hash b + 10000} = {})"
proof -
  let ?x = "unat (hash a) mod 100000" and ?y = "unat (hash b) mod 100000"
  have "?x \<le> 99999" by simp
  moreover have "10000 dvd start hash a"
    unfolding start_def unat_uid_range by (intro dvd_add dvd_triv_right) simp
  moreover have "?x < ?y \<or> ?y < ?x \<or> ?x = ?y" by linarith
  then have "start hash a = start hash b \<or>
      {start hash a ..< start hash a + 10000} \<inter> {start hash b ..< start hash b + 10000} = {}"
    unfolding start_def unat_uid_range by auto
  ultimately show ?thesis unfolding start_def unat_uid_range by simp
qed

text \<open>
  C33.  Annotation and webhook agree, and the annotation sticks: a namespace outside the skipped
  ones that carries no range gets one patch, which sets both annotations to a text whose part
  before the slash reads back as the group the webhook puts into pods of that namespace; a
  namespace that carries the annotation, or is skipped, gets none.
\<close>

theorem uid_annotation_agrees:
  "snd (uid_range_run env hash ns l) =
     (if name_any (ns_meta ns) \<in> set SKIP_NAMESPACES \<or> has_uid_range ns then l
      else l @ [Patch ResNamespace Cluster (name_any (ns_meta ns)) None
        (Merge (uid_range_patch hash (name_any (ns_meta ns))))]) \<and>
   path_str (uid_range_patch hash n) [''metadata'', ''annotations'', UID_RANGE_ANNOTATION] =
     Some (uid_range_text hash n) \<and>
   path_str (uid_range_patch hash n) [''metadata'', ''annotations'', SUPPLEMENTAL_GROUPS_ANNOTATION] =
     Some (uid_range_text hash n) \<and>
   Option.bind (split_once (CHR ''/'') (uid_range_text hash n)) (\<lambda>(start, size). parse_uint (2 ^ 64) start) =
     Some (unat (uid_range_for_namespace hash n))"
proof (intro conjI)
  have "CHR ''/'' \<notin> set (show_nat m)" for m
    by (rule show_nat_no_sep) (simp add: is_digit_def in_range_def)
  then show "Option.bind (split_once (CHR ''/'') (uid_range_text hash n)) (\<lambda>(start, size). parse_uint (2 ^ 64) start) =
     Some (unat (uid_range_for_namespace hash n))"
    using unsigned_less [of "uid_range_for_namespace hash n", where 'a = nat]
    by (simp add: uid_range_text_def parse_show_nat)
  show "snd (uid_range_run env hash ns l) =
     (if name_any (ns_meta ns) \<in> set SKIP_NAMESPACES \<or> has_uid_range ns then l
      else l @ [Patch ResNamespace Cluster (name_any (ns_meta ns)) None
        (Merge (uid_range_patch hash (name_any (ns_meta ns))))])"
    by (simp add: uid_range_run_def deliver_def uid_reconcile_namespace_def has_uid_range_def
        kube_simps Let_def split: sum.split option.split)
qed (simp_all add: uid_range_patch_def path_str_def UID_RANGE_ANNOTATION_def SUPPLEMENTAL_GROUPS_ANNOTATION_def)

end
