(* ===== verification/Net.thy ===== *)
theory Net
  imports Prelude
begin

text \<open>
  IP addresses of the standard library: \<^verbatim>\<open>IpAddr::from_str\<close>, a recursive-descent parser over
  the text with the limits the documentation states (at most three decimal digits without a
  leading zero in an IPv4 octet, at most four hexadecimal digits in an IPv6 group, one \<^verbatim>\<open>::\<close>,
  an embedded IPv4 address in the last two groups), and \<^verbatim>\<open>SocketAddr\<close>.
\<close>

section \<open>Definitions\<close>

datatype ip_addr = V4 "nat list" | V6 "nat list"

record socket_addr =
  sa_ip :: ip_addr
  sa_port :: u16

definition digit_value :: "nat \<Rightarrow> char \<Rightarrow> nat option" where
  "digit_value radix c =
     (let n = (of_char c :: nat);
          v = (if 48 \<le> n \<and> n \<le> 57 then n - 48
               else if 97 \<le> n \<and> n \<le> 102 then n - 87
               else if 65 \<le> n \<and> n \<le> 70 then n - 55 else 99)
      in if v < radix then Some v else None)"

text \<open>The digits read, their value, and the rest of the text.\<close>

fun read_digit_run :: "nat \<Rightarrow> string \<Rightarrow> nat \<times> nat \<times> string" where
  "read_digit_run radix [] = (0, 0, [])"
| "read_digit_run radix (c # cs) =
     (case digit_value radix c of
        None \<Rightarrow> (0, 0, c # cs)
      | Some d \<Rightarrow> (case read_digit_run radix cs of (k, v, rest) \<Rightarrow> (Suc k, d * radix ^ k + v, rest)))"

definition read_number :: "nat \<Rightarrow> nat \<Rightarrow> bool \<Rightarrow> nat \<Rightarrow> string \<Rightarrow> (nat \<times> string) option" where
  "read_number radix max_digits allow_zero_prefix bound s =
     (case read_digit_run radix s of
        (k, v, rest) \<Rightarrow>
          if k = 0 \<or> k > max_digits \<or> (\<not> allow_zero_prefix \<and> hd s = CHR ''0'' \<and> k > 1) \<or> v \<ge> bound
          then None else Some (v, rest))"

definition read_char_is :: "char \<Rightarrow> string \<Rightarrow> string option" where
  "read_char_is c s = (case s of [] \<Rightarrow> None | d # ds \<Rightarrow> if d = c then Some ds else None)"

definition read_separator ::
    "char \<Rightarrow> nat \<Rightarrow> (string \<Rightarrow> ('a \<times> string) option) \<Rightarrow> string \<Rightarrow> ('a \<times> string) option" where
  "read_separator sep index inner s =
     (if index > 0 then Option.bind (read_char_is sep s) inner else inner s)"

fun read_octets :: "nat \<Rightarrow> nat \<Rightarrow> string \<Rightarrow> (nat list \<times> string) option" where
  "read_octets 0 i s = Some ([], s)"
| "read_octets (Suc n) i s =
     Option.bind (read_separator (CHR ''.'') i (read_number 10 3 False 256) s) (\<lambda>(v, rest).
     map_option (\<lambda>(vs, rest'). (v # vs, rest')) (read_octets n (Suc i) rest))"

definition read_ipv4_addr :: "string \<Rightarrow> (nat list \<times> string) option" where
  "read_ipv4_addr s = read_octets 4 0 s"

text \<open>
  Groups \<open>i\<close>, \<open>i + 1\<close>, ... up to \<open>limit\<close>: the groups read, whether they end in an IPv4
  address, and the rest.
\<close>

fun read_groups :: "nat \<Rightarrow> nat \<Rightarrow> nat \<Rightarrow> string \<Rightarrow> nat list \<times> bool \<times> string" where
  "read_groups 0 limit i s = ([], False, s)"
| "read_groups (Suc n) limit i s =
     (case (if i + 1 < limit then read_separator (CHR '':'') i read_ipv4_addr s else None) of
        Some (vs, rest) \<Rightarrow> ([vs ! 0 * 256 + vs ! 1, vs ! 2 * 256 + vs ! 3], True, rest)
      | None \<Rightarrow>
          (case read_separator (CHR '':'') i (read_number 16 4 True 65536) s of
             Some (g, rest) \<Rightarrow>
               (case read_groups n limit (Suc i) rest of (gs, v4, rest') \<Rightarrow> (g # gs, v4, rest'))
           | None \<Rightarrow> ([], False, s)))"

definition read_ipv6_addr :: "string \<Rightarrow> (nat list \<times> string) option" where
  "read_ipv6_addr s =
     (case read_groups 8 8 0 s of
        (hd_groups, head_ipv4, rest) \<Rightarrow>
          if length hd_groups = 8 then Some (hd_groups, rest)
          else if head_ipv4 then None
          else Option.bind (strip_prefix ''::'' rest) (\<lambda>rest.
            let limit = 8 - (length hd_groups + 1)
            in case read_groups limit limit 0 rest of
                 (tl_groups, _, rest') \<Rightarrow>
                   Some (hd_groups @ replicate (8 - (length hd_groups + length tl_groups)) 0 @ tl_groups, rest')))"

definition parse_ip :: "string \<Rightarrow> ip_addr option" where
  "parse_ip s =
     (case (case read_ipv4_addr s of
              Some (vs, rest) \<Rightarrow> Some (V4 vs, rest)
            | None \<Rightarrow> map_option (\<lambda>(gs, rest). (V6 gs, rest)) (read_ipv6_addr s)) of
        Some (ip, []) \<Rightarrow> Some ip
      | _ \<Rightarrow> None)"

definition ipv4_text :: "nat list \<Rightarrow> string" where
  "ipv4_text vs = show_nat (vs ! 0) @ ''.'' @ show_nat (vs ! 1) @ ''.'' @ show_nat (vs ! 2) @ ''.'' @ show_nat (vs ! 3)"

section \<open>Lemmas\<close>

lemma digit_value_digit: "n < 10 \<Longrightarrow> digit_value 10 (digit n) = Some n"
  by (simp add: digit_value_def of_char_digit Let_def)

text \<open>A decimal number before something that is no digit is read completely.\<close>

definition no_digit_start :: "string \<Rightarrow> bool" where
  "no_digit_start s \<longleftrightarrow> (s = [] \<or> digit_value 10 (hd s) = None)"

lemma read_digit_run_digits:
  "\<forall>c \<in> set ds. \<exists>n<10. c = digit n \<Longrightarrow> no_digit_start rest \<Longrightarrow>
   read_digit_run 10 (ds @ rest) = (length ds, read_digits ds, rest)"
proof (induction ds)
  case Nil
  then show ?case by (cases rest) (auto simp: no_digit_start_def read_digits_def)
next
  case (Cons c ds)
  then obtain n where n: "n < 10" "c = digit n" by auto
  have shift: "foldl (\<lambda>n c. 10 * n + (of_char c - 48)) m ds = m * 10 ^ length ds + foldl (\<lambda>n c. 10 * n + (of_char c - 48)) 0 ds"
    for m :: nat
  proof (induction ds rule: rev_induct)
    case (snoc d ds)
    then show ?case by (simp add: algebra_simps)
  qed simp
  show ?case
    using Cons n shift [of n] by (simp add: digit_value_digit read_digits_def of_char_digit)
qed

lemma show_nat_is_digits: "c \<in> set (show_nat n) \<Longrightarrow> \<exists>k<10. c = digit k"
proof (induction n rule: show_nat.induct)
  case (1 n)
  then show ?case
    by (cases "n < 10") (auto simp: show_nat.simps [of n] intro: exI [of _ "n mod 10"])
qed

lemma show_nat_hd: "10 \<le> n \<Longrightarrow> hd (show_nat n) \<noteq> CHR ''0''"
proof (induction n rule: show_nat.induct)
  case (1 n)
  show ?case
  proof (cases "n div 10 < 10")
    case True
    then have "of_char (digit (n div 10)) \<noteq> (48 :: nat)" using 1(2) by (simp add: of_char_digit)
    then have "digit (n div 10) \<noteq> CHR ''0''" by auto
    with True 1(2) show ?thesis by (simp add: show_nat.simps [of n] show_nat.simps [of "n div 10"])
  next
    case False
    with 1 show ?thesis by (simp add: show_nat.simps [of n])
  qed
qed

lemma show_nat_length_byte: "n < 256 \<Longrightarrow> length (show_nat n) \<le> 3"
  by (simp add: show_nat.simps [of n] show_nat.simps [of "n div 10"] show_nat.simps [of "n div 10 div 10"])

lemma read_octet:
  assumes "n < 256" "no_digit_start rest"
  shows "read_number 10 3 False 256 (show_nat n @ rest) = Some (n, rest)"
proof -
  have run: "read_digit_run 10 (show_nat n @ rest) = (length (show_nat n), n, rest)"
    using read_digit_run_digits [of "show_nat n" rest] show_nat_is_digits [of _ n] assms(2) by simp
  have "length (show_nat n) > 1 \<Longrightarrow> 10 \<le> n"
    by (cases "n < 10") (simp_all add: show_nat.simps [of n])
  then have zero: "\<not> (hd (show_nat n @ rest) = CHR ''0'' \<and> length (show_nat n) > 1)"
    using show_nat_hd [of n] by (auto simp: hd_append)
  have "length (show_nat n) \<le> 3" using assms(1) by (rule show_nat_length_byte)
  with run zero assms(1) show ?thesis by (auto simp: read_number_def)
qed

lemma no_digit_start_simps [simp]:
  "no_digit_start []" "no_digit_start (CHR ''.'' # s)"
  by (simp_all add: no_digit_start_def digit_value_def)

lemma parse_ipv4_text:
  assumes "length vs = 4" "\<forall>v \<in> set vs. v < 256"
  shows "parse_ip (ipv4_text vs) = Some (V4 vs)"
proof -
  obtain a b c d where vs: "vs = [a, b, c, d]"
    using assms(1) by (auto simp: length_Suc_conv eval_nat_numeral)
  have four: "read_octets 4 0 s = read_octets (Suc (Suc (Suc (Suc 0)))) 0 s" for s
    by (simp add: eval_nat_numeral)
  show ?thesis
    using assms(2) read_octet [of d "[]"]
    by (simp add: vs four parse_ip_def read_ipv4_addr_def ipv4_text_def read_separator_def
          read_char_is_def read_octet)
qed

text \<open>An IPv4 text has four octets, and an IPv6 text eight groups.\<close>

lemma read_octets_length: "read_octets n i s = Some (vs, rest) \<Longrightarrow> length vs = n"
  by (induction n arbitrary: i s vs) (auto simp: bind_eq_Some_conv)

end
