(* ===== verification/Proxy.thy ===== *)
theory Proxy
  imports OAuth_Types Util Http Net
begin

text \<open>
  \<^verbatim>\<open>simulator/src/proxy.rs\<close>: the reverse proxy in front of the routes.  Two watchers write the
  route table, one from Routes and one from HTTPRoutes; a request is sent to the OAuth server,
  or to the address that the table and the cluster give for its host.
\<close>

section \<open>Definitions\<close>

datatype target_port = Number i32 | Name string

record route_backend =
  rb_service_name :: string
  rb_service_namespace :: string
  rb_target_port :: target_port
  rb_tls :: bool

subsection \<open>TLS to the services\<close>

text \<open>The signature schemes that the code names, and the others of the library.\<close>

datatype signature_scheme =
    RSA_PKCS1_SHA256 | RSA_PKCS1_SHA384 | RSA_PKCS1_SHA512
  | ECDSA_NISTP256_SHA256 | ECDSA_NISTP384_SHA384 | ECDSA_NISTP521_SHA512
  | RSA_PSS_SHA256 | RSA_PSS_SHA384 | RSA_PSS_SHA512 | ED25519
  | OtherScheme u16

datatype server_name = DnsName string | IpAddress ip_addr

text \<open>
  A certificate verifier, with \<^const>\<open>True\<close> for \<^verbatim>\<open>Ok\<close>.  The arguments are those of the trait: end-entity
  certificate, intermediates, server name, OCSP response and time; message, certificate and signature.
\<close>

record cert_verifier =
  verify_server_cert :: "bytes \<Rightarrow> bytes list \<Rightarrow> server_name \<Rightarrow> bytes \<Rightarrow> nat \<Rightarrow> bool"
  verify_tls12_signature :: "bytes \<Rightarrow> bytes \<Rightarrow> bytes \<Rightarrow> bool"
  verify_tls13_signature :: "bytes \<Rightarrow> bytes \<Rightarrow> bytes \<Rightarrow> bool"
  supported_verify_schemes :: "signature_scheme list"

definition NoVerifier :: cert_verifier where
  "NoVerifier =
     \<lparr>verify_server_cert = (\<lambda>end_entity intermediates server_name ocsp_response now. True),
      verify_tls12_signature = (\<lambda>message cert dss. True),
      verify_tls13_signature = (\<lambda>message cert dss. True),
      supported_verify_schemes =
        [RSA_PKCS1_SHA256, RSA_PKCS1_SHA384, RSA_PKCS1_SHA512,
         ECDSA_NISTP256_SHA256, ECDSA_NISTP384_SHA384, ECDSA_NISTP521_SHA512,
         RSA_PSS_SHA256, RSA_PSS_SHA384, RSA_PSS_SHA512, ED25519]\<rparr>"

record client_config =
  cc_verifier :: cert_verifier
  cc_client_auth :: "bytes list option"

definition make_tls_config :: client_config where
  "make_tls_config = \<lparr>cc_verifier = NoVerifier, cc_client_auth = None\<rparr>"

type_synonym route_table = "string \<rightharpoonup> route_backend"

subsection \<open>The table\<close>

definition extract_host :: "dynobj \<Rightarrow> string option" where
  "extract_host route =
     (case Option.bind (Option.bind (path_array (do_data route) [''status'', ''ingress'']) first)
             (\<lambda>ing. get_str ing ''host'') of
        Some h \<Rightarrow> Some h
      | None \<Rightarrow>
          (case path_str (do_data route) [''spec'', ''host''] of
             Some h \<Rightarrow> if h = [] then None else Some h
           | None \<Rightarrow> None))"

definition route_target_port :: "json \<Rightarrow> target_port" where
  "route_target_port spec =
     (case jpath spec [''port'', ''targetPort''] of
        None \<Rightarrow> Number 80
      | Some target \<Rightarrow>
          (case as_u64 target of
             Some num \<Rightarrow> Number (ucast num)
           | None \<Rightarrow> (case as_str target of Some name \<Rightarrow> Name name | None \<Rightarrow> Number 80)))"

definition extract_backend :: "dynobj \<Rightarrow> (string \<times> target_port \<times> bool) option" where
  "extract_backend route =
     Option.bind (jget (do_data route) ''spec'') (\<lambda>spec.
     Option.bind (jget spec ''to'') (\<lambda>to.
     Option.bind (get_str to ''name'') (\<lambda>svc_name.
       Some (svc_name, route_target_port spec,
         (case path_str spec [''tls'', ''termination''] of
            Some t \<Rightarrow> t = ''reencrypt'' \<or> t = ''passthrough''
          | None \<Rightarrow> False)))))"

text \<open>
  An event of a watcher is an applied object, or \<^const>\<open>None\<close> for a watch error.  What it does to
  the table is the list of the insertions it makes.
\<close>

type_synonym table_write = "string \<times> route_backend"

definition route_writes :: "dynobj option \<Rightarrow> table_write list" where
  "route_writes event =
     (case event of
        None \<Rightarrow> []
      | Some route \<Rightarrow>
          (case extract_host route of
             None \<Rightarrow> []
           | Some host \<Rightarrow>
               (let ns = unwrap_or (om_namespace (do_meta route)) []
                in case extract_backend route of
                     None \<Rightarrow> []
                   | Some (svc_name, target_port, tls) \<Rightarrow>
                       [(host, \<lparr>rb_service_name = svc_name, rb_service_namespace = ns,
                          rb_target_port = target_port, rb_tls = tls\<rparr>)])))"

definition build_route_table :: "dynobj option list \<Rightarrow> table_write list" where
  "build_route_table events = concat (map route_writes events)"

definition gateway_hosts ::
    "api_server \<Rightarrow> string \<Rightarrow> string \<Rightarrow> string list \<Rightarrow> req list \<Rightarrow> string list \<times> req list" where
  "gateway_hosts env gw_ns gw_name hostnames l =
     (if hostnames \<noteq> [] then (hostnames, l)
      else case api_get env as_dyn (ResDyn gateway_ar) (InNs gw_ns) gw_name l of
        (Inl e, l') \<Rightarrow> ([], l')
      | (Inr gw, l') \<Rightarrow>
          (case path_array (do_data gw) [''spec'', ''listeners''] of
             None \<Rightarrow> ([], l')
           | Some listeners \<Rightarrow> (filter_map (\<lambda>listener. get_str listener ''hostname'') listeners, l')))"

definition gateway_service_backend :: "string \<Rightarrow> service \<Rightarrow> route_backend" where
  "gateway_service_backend gw_ns svc =
     (let ports = Option.bind (svc_spec svc) ss_ports;
          find_port = (\<lambda>name n. Option.bind ports (find (\<lambda>p. sp_name p = Some name \<or> sp_port p = n)));
          http_port = find_port ''http'' 80;
          https_port = find_port ''https'' 443;
          (port, tls) =
            (case https_port of
               Some p \<Rightarrow> (sp_port p, True)
             | None \<Rightarrow> (case http_port of Some p \<Rightarrow> (sp_port p, False) | None \<Rightarrow> (80, False)))
      in \<lparr>rb_service_name = name_any (svc_meta svc),
          rb_service_namespace = unwrap_or (om_namespace (svc_meta svc)) gw_ns,
          rb_target_port = Number port, rb_tls = tls\<rparr>)"

definition gateway_label :: "string \<Rightarrow> string" where
  "gateway_label gw_name = ''gateway.networking.k8s.io/gateway-name='' @ gw_name"

text \<open>The insertions of a loop whose body makes requests, in order.\<close>

fun collect_writes :: "('a \<Rightarrow> req list \<Rightarrow> 'w list \<times> req list) \<Rightarrow> 'a list \<Rightarrow> req list \<Rightarrow> 'w list \<times> req list" where
  "collect_writes body [] l = ([], l)"
| "collect_writes body (x # xs) l =
     (case body x l of (ws, l') \<Rightarrow> (case collect_writes body xs l' of (ws', l'') \<Rightarrow> (ws @ ws', l'')))"

definition parent_writes ::
    "api_server \<Rightarrow> string \<Rightarrow> string list \<Rightarrow> json \<Rightarrow> req list \<Rightarrow> table_write list \<times> req list" where
  "parent_writes env route_ns hostnames parent l =
     (case get_str parent ''name'' of
        None \<Rightarrow> ([], l)
      | Some gw_name \<Rightarrow>
          (let gw_ns = unwrap_or (get_str parent ''namespace'') route_ns;
               (all_hosts, l') = gateway_hosts env gw_ns gw_name hostnames l
           in case api_list env as_service ResService (InNs gw_ns) (Some (gateway_label gw_name)) l' of
                (Inr (svc # _), l'') \<Rightarrow>
                  (map (\<lambda>host. (host, gateway_service_backend gw_ns svc)) all_hosts, l'')
              | (_, l'') \<Rightarrow> ([], l'')))"

definition route_hostnames :: "dynobj \<Rightarrow> string list" where
  "route_hostnames route =
     (case path_array (do_data route) [''spec'', ''hostnames''] of
        None \<Rightarrow> [] | Some arr \<Rightarrow> filter_map as_str arr)"

definition gateway_route_writes ::
    "api_server \<Rightarrow> dynobj option \<Rightarrow> req list \<Rightarrow> table_write list \<times> req list" where
  "gateway_route_writes env event l =
     (case event of
        None \<Rightarrow> ([], l)
      | Some route \<Rightarrow>
          collect_writes (parent_writes env (unwrap_or (om_namespace (do_meta route)) []) (route_hostnames route))
            (unwrap_or (path_array (do_data route) [''spec'', ''parentRefs'']) []) l)"

definition build_gateway_route_table ::
    "api_server \<Rightarrow> dynobj option list \<Rightarrow> req list \<Rightarrow> table_write list \<times> req list" where
  "build_gateway_route_table env events = collect_writes (gateway_route_writes env) events"

text \<open>The table after a sequence of insertions.\<close>

definition table_after :: "table_write list \<Rightarrow> route_table" where
  "table_after ws = fold (\<lambda>(host, b). \<lambda>t. t(host \<mapsto> b)) ws Map.empty"

subsection \<open>The address of a backend\<close>

definition cluster_ip_port :: "service \<Rightarrow> target_port \<Rightarrow> u16" where
  "cluster_ip_port svc tp =
     (case tp of
        Number n \<Rightarrow> ucast n
      | Name name \<Rightarrow>
          (case Option.bind (Option.bind (svc_spec svc) ss_ports) (find (\<lambda>p. sp_name p = Some name)) of
             Some p \<Rightarrow> ucast (sp_port p)
           | None \<Rightarrow> 80))"

definition service_address :: "service \<Rightarrow> target_port \<Rightarrow> socket_addr option" where
  "service_address svc tp =
     (case Option.bind (svc_spec svc) ss_cluster_ip of
        None \<Rightarrow> None
      | Some cluster_ip \<Rightarrow>
          if cluster_ip \<noteq> ''None'' \<and> cluster_ip \<noteq> []
          then map_option (\<lambda>ip. \<lparr>sa_ip = ip, sa_port = cluster_ip_port svc tp\<rparr>) (parse_ip cluster_ip)
          else None)"

fun port_matches :: "target_port \<Rightarrow> endpoint_port \<Rightarrow> bool" where
  "port_matches (Number n) p \<longleftrightarrow> ep_port_port p = n"
| "port_matches (Name name) p \<longleftrightarrow> ep_port_name p = Some name"

fun subset_address :: "target_port \<Rightarrow> endpoint_subset list \<Rightarrow> socket_addr option" where
  "subset_address tp [] = None"
| "subset_address tp (sub # subs) =
     (case es_ports sub of
        None \<Rightarrow> None
      | Some ports \<Rightarrow>
          (case find (port_matches tp) ports of
             None \<Rightarrow> subset_address tp subs
           | Some p \<Rightarrow>
               (case Option.bind (es_addresses sub) first of
                  None \<Rightarrow> subset_address tp subs
                | Some addr \<Rightarrow>
                    map_option (\<lambda>ip. \<lparr>sa_ip = ip, sa_port = ucast (ep_port_port p)\<rparr>) (parse_ip addr))))"

definition endpoints_address ::
    "api_server \<Rightarrow> route_backend \<Rightarrow> req list \<Rightarrow> socket_addr option \<times> req list" where
  "endpoints_address env b l =
     (case api_get env as_endpoints ResEndpoints (InNs (rb_service_namespace b)) (rb_service_name b) l of
        (Inl e, l') \<Rightarrow> (None, l')
      | (Inr ep, l') \<Rightarrow> (Option.bind (ep_subsets ep) (subset_address (rb_target_port b)), l'))"

definition resolve_endpoint ::
    "api_server \<Rightarrow> route_backend \<Rightarrow> req list \<Rightarrow> socket_addr option \<times> req list" where
  "resolve_endpoint env b l =
     (case api_get env as_service ResService (InNs (rb_service_namespace b)) (rb_service_name b) l of
        (Inl e, l') \<Rightarrow> endpoints_address env b l'
      | (Inr svc, l') \<Rightarrow>
          (case service_address svc (rb_target_port b) of
             Some addr \<Rightarrow> (Some addr, l')
           | None \<Rightarrow> endpoints_address env b l'))"

subsection \<open>Upstream connections\<close>

text \<open>
  A request as it is sent upstream.  Over TLS its target is the path alone; over plain HTTP
  the path is prefixed with \<^verbatim>\<open>http://\<close> and the address.
\<close>

datatype upstream_uri = PathOnly string | AtAddr socket_addr string

record upstream_req =
  uq_method :: string
  uq_uri :: upstream_uri
  uq_headers :: headers
  uq_body :: bytes

text \<open>A read from an upstream connection: some bytes (none at its end), or an error.\<close>

datatype read_result = ReadOk bytes | ReadErr

text \<open>
  The network, as far as the proxy sees it: TCP connections, TLS sessions (with the settings of the
  client and the name it asks for), the names the TLS library accepts, the HTTP handshake, the answer to a request or the text
  of the error, and what can be read after a WebSocket request was written.  \<open>up_uri_ok\<close> is
  whether the HTTP library accepts a request target.
\<close>

record upstream =
  up_connect :: "socket_addr \<Rightarrow> bool"
  up_server_name :: "string \<Rightarrow> server_name option"
  up_tls :: "client_config \<Rightarrow> socket_addr \<Rightarrow> server_name \<Rightarrow> bool"
  up_handshake :: "socket_addr \<Rightarrow> string \<Rightarrow> bool"
  up_send :: "bool \<Rightarrow> socket_addr \<Rightarrow> upstream_req \<Rightarrow> string + ext_resp"
  up_ws :: "bool \<Rightarrow> socket_addr \<Rightarrow> bytes \<Rightarrow> read_result list option"
  up_uri_ok :: "upstream_uri \<Rightarrow> bool"

text \<open>\<^verbatim>\<open>connector.connect(server_name, tcp)\<close>, with the address in place of a host that is no name.\<close>

definition tls_connect :: "upstream \<Rightarrow> string \<Rightarrow> socket_addr \<Rightarrow> bool" where
  "tls_connect up host addr =
     up_tls up make_tls_config addr (unwrap_or (up_server_name up host) (IpAddress (sa_ip addr)))"

definition plain_response :: "nat \<Rightarrow> string \<Rightarrow> response" where
  "plain_response status msg = \<lparr>rs_status = status, rs_headers = [], rs_body = msg\<rparr>"

definition path_and_query :: "request \<Rightarrow> string" where
  "path_and_query req =
     (case rq_query req of
        None \<Rightarrow> if rq_path req = [] then ''/'' else rq_path req
      | Some q \<Rightarrow> rq_path req @ ''?'' @ q)"

subsection \<open>WebSocket upgrades\<close>

definition ws_request_text :: "weblib \<Rightarrow> request \<Rightarrow> string \<Rightarrow> string \<Rightarrow> bool \<Rightarrow> string" where
  "ws_request_text web req host path tls_incoming =
     rq_method req @ '' '' @ path @ '' HTTP/1.1'' @ crlf @ ''Host: '' @ host @ crlf @
     concat (map (\<lambda>(key, value).
         if key \<noteq> ''host''
         then (case header_to_str web value of Some v \<Rightarrow> key @ '': '' @ v @ crlf | None \<Rightarrow> [])
         else []) (rq_headers req)) @
     (if tls_incoming then ''X-Forwarded-Proto: https'' @ crlf else []) @ crlf"

text \<open>Reads until the blank line after the header, the end, or an error.\<close>

fun read_head :: "bytes \<Rightarrow> read_result list \<Rightarrow> bytes option" where
  "read_head buf [] = Some buf"
| "read_head buf (ReadErr # rs) = None"
| "read_head buf (ReadOk b # rs) =
     (if b = [] then Some buf
      else let buf' = buf @ b in if str_contains buf' (crlf @ crlf) then Some buf' else read_head buf' rs)"

text \<open>What is left to read after the head, for the tunnel.\<close>

fun after_head :: "bytes \<Rightarrow> read_result list \<Rightarrow> read_result list" where
  "after_head buf [] = []"
| "after_head buf (ReadErr # rs) = rs"
| "after_head buf (ReadOk b # rs) =
     (if b = [] then rs
      else let buf' = buf @ b in if str_contains buf' (crlf @ crlf) then rs else after_head buf' rs)"

text \<open>The header fields of the lines up to the first empty one; \<^const>\<open>None\<close> where one is malformed.\<close>

fun response_fields :: "weblib \<Rightarrow> string list \<Rightarrow> headers option" where
  "response_fields web [] = Some []"
| "response_fields web (line # ls) =
     (if line = [] then Some []
      else case split_once (CHR '':'') line of
        None \<Rightarrow> response_fields web ls
      | Some (k, v) \<Rightarrow>
          Option.bind (header_parse web (trim k) (trim v)) (\<lambda>h. map_option ((#) h) (response_fields web ls)))"

definition build_response :: "nat \<Rightarrow> headers option \<Rightarrow> outcome" where
  "build_response status hs =
     (case hs of
        Some hfs \<Rightarrow>
          if 100 \<le> status \<and> status \<le> 999
          then Answer \<lparr>rs_status = status, rs_headers = hfs, rs_body = []\<rparr> else Panic
      | None \<Rightarrow> Panic)"

definition ws_handshake_and_tunnel ::
    "weblib \<Rightarrow> request \<Rightarrow> string \<Rightarrow> string \<Rightarrow> bool \<Rightarrow> (bytes \<Rightarrow> read_result list option) \<Rightarrow> outcome" where
  "ws_handshake_and_tunnel web req host path tls_incoming io =
     (case io (ws_request_text web req host path tls_incoming) of
        None \<Rightarrow> Answer (plain_response BAD_GATEWAY (''upstream write failed'' @ nl))
      | Some reads \<Rightarrow>
          (case read_head [] reads of
             None \<Rightarrow> Answer (plain_response BAD_GATEWAY (''upstream read failed'' @ nl))
           | Some resp_buf \<Rightarrow>
               (let resp_str = from_utf8_lossy resp_buf;
                    first_line = unwrap_or (first (str_lines resp_str)) [];
                    hfs = response_fields web (drop 1 (str_lines resp_str))
                in if \<not> str_contains first_line ''101''
                   then let ws = split_whitespace first_line;
                            status_code =
                              (if 1 < length ws then unwrap_or (parse_uint 65536 (ws ! 1)) 502 else 502)
                        in build_response status_code hfs
                   else build_response SWITCHING_PROTOCOLS hfs)))"

text \<open>
  The tunnel after a switch of protocols: two loops copy what is read on one side to the other.
  The end of either, by an empty read or by an error, ends both.  The result is what has been sent
  to the upstream server and what has been sent to the client.
\<close>

datatype tunnel_event = FromClient read_result | FromUpstream read_result | WriteFailed

fun tunnel :: "tunnel_event list \<Rightarrow> bytes \<times> bytes" where
  "tunnel [] = ([], [])"
| "tunnel (FromClient (ReadOk b) # es) = (if b = [] then ([], []) else apfst ((@) b) (tunnel es))"
| "tunnel (FromUpstream (ReadOk b) # es) = (if b = [] then ([], []) else apsnd ((@) b) (tunnel es))"
| "tunnel (FromClient ReadErr # es) = ([], [])"
| "tunnel (FromUpstream ReadErr # es) = ([], [])"
| "tunnel (WriteFailed # es) = ([], [])"

definition proxy_upgrade ::
    "weblib \<Rightarrow> upstream \<Rightarrow> request \<Rightarrow> string \<Rightarrow> socket_addr \<Rightarrow> bool \<Rightarrow> bool \<Rightarrow> outcome" where
  "proxy_upgrade web up req host addr tls tls_incoming =
     (let path = path_and_query req
      in if \<not> up_connect up addr
         then Answer (plain_response BAD_GATEWAY (''upstream connect failed'' @ nl))
         else if tls \<and> \<not> tls_connect up host addr
         then Answer (plain_response BAD_GATEWAY (''upstream TLS error'' @ nl))
         else ws_handshake_and_tunnel web req host path tls_incoming (up_ws up tls addr))"

subsection \<open>Requests\<close>

definition request_host :: "weblib \<Rightarrow> request \<Rightarrow> string" where
  "request_host web req =
     (case header_str web (rq_headers req) ''host'' of
        Some h \<Rightarrow> unwrap_or (first (split_char (CHR '':'') h)) h
      | None \<Rightarrow> [])"

definition is_oauth_host :: "string \<Rightarrow> bool" where
  "is_oauth_host host \<longleftrightarrow> host = OAUTH_HOST @ ''.'' @ DOMAIN \<or> host = ''entra.'' @ DOMAIN"

definition oauth_addr :: socket_addr where
  "oauth_addr = \<lparr>sa_ip = V4 [127, 0, 0, 1], sa_port = OAUTH_PORT\<rparr>"

text \<open>Where a request for a host goes, or the response if it goes nowhere.\<close>

definition proxy_target ::
    "api_server \<Rightarrow> route_table \<Rightarrow> string \<Rightarrow> req list \<Rightarrow> (response + socket_addr \<times> bool) \<times> req list" where
  "proxy_target env table host l =
     (if is_oauth_host host then (Inr (oauth_addr, True), l)
      else case table host of
        None \<Rightarrow> (Inl (plain_response BAD_GATEWAY (''no route for host: '' @ host @ nl)), l)
      | Some b \<Rightarrow>
          (case resolve_endpoint env b l of
             (Some addr, l') \<Rightarrow> (Inr (addr, rb_tls b), l')
           | (None, l') \<Rightarrow>
               (Inl (plain_response SERVICE_UNAVAILABLE
                  (''no endpoints for '' @ rb_service_namespace b @ ''/'' @ rb_service_name b @ nl)), l')))"

definition proxy_headers :: "headers \<Rightarrow> string \<Rightarrow> bool \<Rightarrow> headers" where
  "proxy_headers hs host tls_incoming =
     filter (\<lambda>(key, value). key \<noteq> ''host'') hs @ [(''host'', host)] @
     (if tls_incoming
      then [(''x-forwarded-proto'', ''https''), (''x-forwarded-scheme'', ''https''), (''x-forwarded-port'', ''443'')]
      else [(''x-forwarded-proto'', ''http'')])"

definition upstream_request :: "request \<Rightarrow> bytes \<Rightarrow> string \<Rightarrow> socket_addr \<Rightarrow> bool \<Rightarrow> bool \<Rightarrow> upstream_req" where
  "upstream_request req body host addr backend_tls tls_incoming =
     \<lparr>uq_method = rq_method req,
      uq_uri = (if backend_tls then PathOnly (path_and_query req) else AtAddr addr (path_and_query req)),
      uq_headers = proxy_headers (rq_headers req) host tls_incoming,
      uq_body = body\<rparr>"

definition relay :: "string + ext_resp \<Rightarrow> response" where
  "relay result =
     (case result of
        Inr resp \<Rightarrow> \<lparr>rs_status = xs_status resp, rs_headers = xs_headers resp, rs_body = unwrap_or (xs_body resp) []\<rparr>
      | Inl e \<Rightarrow> plain_response BAD_GATEWAY (''proxy error: '' @ e @ nl))"

definition forward :: "upstream \<Rightarrow> upstream_req \<Rightarrow> string \<Rightarrow> socket_addr \<Rightarrow> bool \<Rightarrow> response" where
  "forward up uq host addr backend_tls =
     (if backend_tls \<and> \<not> up_connect up addr
      then plain_response BAD_GATEWAY (''proxy error: connect failed'' @ nl)
      else if backend_tls \<and> \<not> tls_connect up host addr
      then plain_response BAD_GATEWAY (''proxy error: TLS failed'' @ nl)
      else if backend_tls \<and> \<not> up_handshake up addr host
      then plain_response BAD_GATEWAY (''proxy error: handshake failed'' @ nl)
      else relay (up_send up backend_tls addr uq))"

text \<open>
  The whole request; \<open>collected\<close> is the body, \<^const>\<open>None\<close> if the client does not deliver it.
\<close>

definition proxy_request ::
    "weblib \<Rightarrow> api_server \<Rightarrow> upstream \<Rightarrow> route_table \<Rightarrow> bool \<Rightarrow> request \<Rightarrow> bytes option \<Rightarrow> req list \<Rightarrow>
     outcome \<times> req list" where
  "proxy_request web env up table tls_incoming req collected l =
     (let host = request_host web req
      in case proxy_target env table host l of
           (Inl resp, l') \<Rightarrow> (Answer resp, l')
         | (Inr (addr, backend_tls), l') \<Rightarrow>
             if has_header (rq_headers req) ''upgrade''
             then (proxy_upgrade web up req host addr backend_tls tls_incoming, l')
             else (case collected of
                     None \<Rightarrow> (BodyError, l')
                   | Some body \<Rightarrow>
                       (let uq = upstream_request req body host addr backend_tls tls_incoming
                        in if up_uri_ok up (uq_uri uq)
                           then (Answer (forward up uq host addr backend_tls), l')
                           else (Panic, l'))))"

section \<open>Lemmas\<close>

interpretation hosts: write_table Map.empty "\<lambda>host b t. t(host \<mapsto> b)" "\<lambda>t. t"
  by unfold_locales auto

lemma table_after_mem: "table_after ws host = Some b \<Longrightarrow> (host, b) \<in> set ws"
  unfolding table_after_def by (rule hosts.written_mem)

lemma table_after_dom: "table_after ws host = None \<longleftrightarrow> host \<notin> fst ` set ws"
  unfolding table_after_def by (rule hosts.written_dom)

lemma table_after_last: "host \<notin> fst ` set ws' \<Longrightarrow> table_after (ws @ (host, b) # ws') host = Some b"
  unfolding table_after_def by (rule hosts.written_last)

text \<open>What a Route, and what an HTTPRoute, may put into the table.\<close>

definition routed_to :: "dynobj \<Rightarrow> string \<Rightarrow> route_backend \<Rightarrow> bool" where
  "routed_to route host b \<longleftrightarrow>
     extract_host route = Some host \<and>
     extract_backend route = Some (rb_service_name b, rb_target_port b, rb_tls b) \<and>
     rb_service_namespace b = unwrap_or (om_namespace (do_meta route)) []"

lemma route_writes_iff:
  "(host, b) \<in> set (route_writes event) \<longleftrightarrow> (\<exists>route. event = Some route \<and> routed_to route host b)"
  by (cases b) (auto simp: route_writes_def routed_to_def Let_def split: option.splits)

definition gateway_serves :: "api_server \<Rightarrow> string \<Rightarrow> string \<Rightarrow> route_backend \<Rightarrow> bool" where
  "gateway_serves env gw_ns gw_name b \<longleftrightarrow>
     (\<exists>l svc svcs.
        decode_list as_service (env l (ListAll ResService (InNs gw_ns) (Some (gateway_label gw_name)))) =
          Inr (svc # svcs) \<and> b = gateway_service_backend gw_ns svc)"

definition gateway_listens :: "api_server \<Rightarrow> string \<Rightarrow> string \<Rightarrow> string \<Rightarrow> bool" where
  "gateway_listens env gw_ns gw_name host \<longleftrightarrow>
     (\<exists>l gw listeners listener.
        decode_obj as_dyn (env l (Get (ResDyn gateway_ar) (InNs gw_ns) gw_name)) = Inr gw \<and>
        path_array (do_data gw) [''spec'', ''listeners''] = Some listeners \<and>
        listener \<in> set listeners \<and> get_str listener ''hostname'' = Some host)"

definition gateway_routed_to :: "api_server \<Rightarrow> dynobj \<Rightarrow> string \<Rightarrow> route_backend \<Rightarrow> bool" where
  "gateway_routed_to env route host b \<longleftrightarrow>
     (\<exists>parents parent gw_name gw_ns.
        path_array (do_data route) [''spec'', ''parentRefs''] = Some parents \<and> parent \<in> set parents \<and>
        get_str parent ''name'' = Some gw_name \<and>
        gw_ns = unwrap_or (get_str parent ''namespace'') (unwrap_or (om_namespace (do_meta route)) []) \<and>
        gateway_serves env gw_ns gw_name b \<and>
        (if route_hostnames route = [] then gateway_listens env gw_ns gw_name host
         else host \<in> set (route_hostnames route)))"

lemma filter_map_set: "set (filter_map f xs) = {y. \<exists>x \<in> set xs. f x = Some y}"
  by (induction xs) (auto simp: filter_map_def split: option.splits)

lemma gateway_hosts_mem:
  assumes "gateway_hosts env gw_ns gw_name hostnames l = (hosts, l')" and "host \<in> set hosts"
  shows "if hostnames = [] then gateway_listens env gw_ns gw_name host else host \<in> set hostnames"
proof (cases "hostnames = []")
  case True
  with assms have "gateway_listens env gw_ns gw_name host"
    unfolding gateway_listens_def gateway_hosts_def
    by (intro exI [of _ l])
       (auto simp: api_get_def perform_eq filter_map_set split: sum.splits option.splits)
  with True show ?thesis by simp
next
  case False
  with assms show ?thesis by (simp add: gateway_hosts_def)
qed

lemma parent_writes_mem:
  assumes "(host, b) \<in> set (fst (parent_writes env route_ns hostnames parent l))"
  shows "\<exists>gw_name gw_ns. get_str parent ''name'' = Some gw_name \<and>
    gw_ns = unwrap_or (get_str parent ''namespace'') route_ns \<and> gateway_serves env gw_ns gw_name b \<and>
    (if hostnames = [] then gateway_listens env gw_ns gw_name host else host \<in> set hostnames)"
proof (cases "get_str parent ''name''")
  case None
  with assms show ?thesis by (simp add: parent_writes_def)
next
  case (Some gw_name)
  define gw_ns where "gw_ns = unwrap_or (get_str parent ''namespace'') route_ns"
  obtain hosts l' where hosts: "gateway_hosts env gw_ns gw_name hostnames l = (hosts, l')" by fastforce
  let ?q = "ListAll ResService (InNs gw_ns) (Some (gateway_label gw_name))"
  from assms Some hosts obtain svc svcs where svc: "decode_list as_service (env l' ?q) = Inr (svc # svcs)"
    "b = gateway_service_backend gw_ns svc" "host \<in> set hosts"
    by (auto simp: parent_writes_def gw_ns_def [symmetric] api_list_def perform_eq split: sum.splits list.splits)
  then have "gateway_serves env gw_ns gw_name b" by (auto simp: gateway_serves_def)
  with Some gw_ns_def gateway_hosts_mem [OF hosts svc(3)] show ?thesis by blast
qed

lemma collect_writes_mem:
  "w \<in> set (fst (collect_writes body xs l)) \<Longrightarrow> \<exists>x \<in> set xs. \<exists>l'. w \<in> set (fst (body x l'))"
proof (induction xs arbitrary: l)
  case (Cons x xs)
  obtain ws l' where b: "body x l = (ws, l')" by fastforce
  with Cons.prems have "w \<in> set (fst (body x l)) \<or> w \<in> set (fst (collect_writes body xs l'))"
    by (auto split: prod.splits)
  with Cons.IH [of l'] show ?case by auto
qed simp

lemma gateway_route_writes_mem:
  assumes "(host, b) \<in> set (fst (gateway_route_writes env event l))"
  shows "\<exists>route. event = Some route \<and> gateway_routed_to env route host b"
proof (cases event)
  case None
  with assms show ?thesis by (simp add: gateway_route_writes_def)
next
  case (Some route)
  from assms Some obtain parents where "path_array (do_data route) [''spec'', ''parentRefs''] = Some parents"
    and "(host, b) \<in> set (fst (collect_writes (parent_writes env (unwrap_or (om_namespace (do_meta route)) [])
           (route_hostnames route)) parents l))"
    by (cases "path_array (do_data route) [''spec'', ''parentRefs'']")
       (auto simp: gateway_route_writes_def unwrap_or_def)
  with collect_writes_mem [of "(host, b)"] parent_writes_mem [of host b] Some show ?thesis
    unfolding gateway_routed_to_def by blast
qed

text \<open>Endpoints: the first subset with a matching port and an address is used.\<close>

definition subset_usable :: "target_port \<Rightarrow> endpoint_subset \<Rightarrow> bool" where
  "subset_usable tp s \<longleftrightarrow>
     (\<exists>ports. es_ports s = Some ports \<and> list_ex (port_matches tp) ports) \<and>
     Option.bind (es_addresses s) first \<noteq> None"

definition subset_gives :: "target_port \<Rightarrow> endpoint_subset \<Rightarrow> socket_addr \<Rightarrow> bool" where
  "subset_gives tp s addr \<longleftrightarrow>
     (\<exists>ports p t. es_ports s = Some ports \<and> find (port_matches tp) ports = Some p \<and>
        Option.bind (es_addresses s) first = Some t \<and> parse_ip t = Some (sa_ip addr) \<and>
        sa_port addr = ucast (ep_port_port p))"

lemma find_Some_list_ex: "find P xs = Some x \<Longrightarrow> list_ex P xs"
  by (induction xs) (auto split: if_splits)

lemma find_None_list_ex: "find P xs = None \<longleftrightarrow> \<not> list_ex P xs"
  by (auto simp: find_None_iff list_ex_iff)

lemma subset_address_skip:
  assumes "es_ports s \<noteq> None" and "\<not> subset_usable tp s"
  shows "subset_address tp (s # ss) = subset_address tp ss"
  using assms by (auto simp: subset_usable_def find_None_list_ex [symmetric] split: option.splits)

lemma subset_address_use:
  assumes "subset_usable tp s"
  shows "subset_address tp (s # ss) = Some addr \<longleftrightarrow> subset_gives tp s addr"
proof -
  from assms obtain ports t where s: "es_ports s = Some ports" "list_ex (port_matches tp) ports"
    "Option.bind (es_addresses s) first = Some t" by (auto simp: subset_usable_def)
  then obtain p where "find (port_matches tp) ports = Some p"
    by (cases "find (port_matches tp) ports") (auto simp: find_None_list_ex)
  with s show ?thesis
    by (cases addr) (auto simp: subset_gives_def)
qed

lemma subset_gives_usable: "subset_gives tp s addr \<Longrightarrow> subset_usable tp s"
  by (auto simp: subset_gives_def subset_usable_def dest: find_Some_list_ex)

lemma first_split_Cons:
  "(\<exists>pre x post. y # ys = pre @ x # post \<and> Q x \<and> list_all R pre) \<longleftrightarrow>
   Q y \<or> R y \<and> (\<exists>pre x post. ys = pre @ x # post \<and> Q x \<and> list_all R pre)"
  (is "?L \<longleftrightarrow> ?R")
proof
  assume ?L
  then show ?R by (fastforce simp: Cons_eq_append_conv)
next
  assume ?R
  then show ?L
  proof
    assume "Q y"
    then show ?L by (intro exI [of _ "[]"]) auto
  next
    assume "R y \<and> (\<exists>pre x post. ys = pre @ x # post \<and> Q x \<and> list_all R pre)"
    then obtain pre x post where "R y" "ys = pre @ x # post" "Q x" "list_all R pre" by blast
    then show ?L by (intro exI [of _ "y # pre"]) auto
  qed
qed

lemma subset_address_Some_iff:
  "subset_address tp ss = Some addr \<longleftrightarrow>
     (\<exists>pre s post. ss = pre @ s # post \<and> subset_gives tp s addr \<and>
        list_all (\<lambda>t. es_ports t \<noteq> None \<and> \<not> subset_usable tp t) pre)"
proof (induction ss)
  case (Cons s ss)
  show ?case
    unfolding first_split_Cons Cons.IH [symmetric]
    using subset_address_use [of tp s ss addr] subset_address_skip [of s tp ss]
      subset_gives_usable [of tp s addr]
    by (cases "subset_usable tp s"; cases "es_ports s") auto
qed simp

text \<open>A subset that lists no ports ends the search, even where a later one has the port.\<close>

lemma subset_without_ports_ends_search: "es_ports s = None \<Longrightarrow> subset_address tp (s # ss) = None"
  by simp

text \<open>
  A numeric target port is used on the cluster address as it is: the mapping from service ports
  to the ports of the pods is not consulted, and numbers beyond 16 bits wrap.
\<close>

lemma numeric_port_unmapped:
  "service_address svc (Number n) = Some addr \<Longrightarrow> sa_port addr = ucast n"
  by (auto simp: service_address_def cluster_ip_port_def split: option.splits if_splits)

text \<open>Two networks that look the same at one address.\<close>

definition same_at :: "socket_addr \<Rightarrow> upstream \<Rightarrow> upstream \<Rightarrow> bool" where
  "same_at a up up' \<longleftrightarrow>
     up_connect up a = up_connect up' a \<and> up_server_name up = up_server_name up' \<and>
     (\<forall>cfg. up_tls up cfg a = up_tls up' cfg a) \<and>
     up_handshake up a = up_handshake up' a \<and> up_send up True a = up_send up' True a \<and>
     up_send up False a = up_send up' False a \<and> up_ws up True a = up_ws up' True a \<and>
     up_ws up False a = up_ws up' False a \<and> up_uri_ok up = up_uri_ok up'"

lemma tls_connect_same_at: "same_at a up up' \<Longrightarrow> tls_connect up host a = tls_connect up' host a"
  by (simp add: same_at_def tls_connect_def)

lemma forward_same_at: "same_at a up up' \<Longrightarrow> forward up uq host a tls = forward up' uq host a tls"
  using tls_connect_same_at [of a up up' host] by (cases tls) (simp_all add: same_at_def forward_def)

lemma proxy_upgrade_same_at:
  "same_at a up up' \<Longrightarrow> proxy_upgrade web up req host a tls ti = proxy_upgrade web up' req host a tls ti"
  using tls_connect_same_at [of a up up' host] by (cases tls) (simp_all add: same_at_def proxy_upgrade_def)

lemma proxy_request_same_at:
  assumes "proxy_target env table (request_host web req) l = (Inr (a, tls), l')" and "same_at a up up'"
    and "proxy_target env' table' (request_host web req) l = (Inr (a, tls), l'')"
  shows "fst (proxy_request web env up table ti req body l) = fst (proxy_request web env' up' table' ti req body l)"
  using assms(1,3) forward_same_at [OF assms(2)] proxy_upgrade_same_at [OF assms(2)] assms(2)
  by (simp add: proxy_request_def Let_def same_at_def split: option.split)

lemma proxy_request_log:
  "snd (proxy_request web env up table ti req body l) = snd (proxy_target env table (request_host web req) l)"
  by (auto simp: proxy_request_def Let_def split: prod.splits sum.splits option.splits)

text \<open>
  What a TLS server proves to a client, and what the library documents of the handshake: it
  succeeds with a server whose proof the verifier of the client accepts and whose signature
  scheme the verifier supports.
\<close>

record tls_peer =
  tp_end_entity :: bytes
  tp_intermediates :: "bytes list"
  tp_ocsp_response :: bytes
  tp_time :: nat
  tp_tls13 :: bool
  tp_message :: bytes
  tp_dss :: bytes
  tp_scheme :: signature_scheme

definition peer_accepted :: "cert_verifier \<Rightarrow> server_name \<Rightarrow> tls_peer \<Rightarrow> bool" where
  "peer_accepted v name p \<longleftrightarrow>
     verify_server_cert v (tp_end_entity p) (tp_intermediates p) name (tp_ocsp_response p) (tp_time p) \<and>
     (if tp_tls13 p then verify_tls13_signature v (tp_message p) (tp_end_entity p) (tp_dss p)
      else verify_tls12_signature v (tp_message p) (tp_end_entity p) (tp_dss p)) \<and>
     tp_scheme p \<in> set (supported_verify_schemes v)"

definition tls_handshake_law :: "upstream \<Rightarrow> (socket_addr \<Rightarrow> tls_peer option) \<Rightarrow> bool" where
  "tls_handshake_law up peers \<longleftrightarrow>
     (\<forall>cfg addr name p. up_connect up addr \<and> peers addr = Some p \<and> peer_accepted (cc_verifier cfg) name p \<longrightarrow>
        up_tls up cfg addr name)"

text \<open>No certificate and no signature makes the proxy turn away from a service.\<close>

lemma tls_connect_any_certificate:
  assumes "tls_handshake_law up peers" and "up_connect up addr"
    and "peers addr = Some p" and "\<And>n. tp_scheme p \<noteq> OtherScheme n"
  shows "tls_connect up host addr"
proof -
  have "tp_scheme p \<in> set (supported_verify_schemes NoVerifier)"
    using assms(4) by (cases "tp_scheme p") (auto simp: NoVerifier_def)
  then have "peer_accepted (cc_verifier make_tls_config) name p" for name
    by (simp add: peer_accepted_def make_tls_config_def NoVerifier_def)
  with assms(1-3) show ?thesis unfolding tls_handshake_law_def tls_connect_def by blast
qed

text \<open>The values of a header field, in order.\<close>

definition header_values :: "headers \<Rightarrow> string \<Rightarrow> bytes list" where
  "header_values hs k = map snd (filter (\<lambda>(key, value). key = k) hs)"

lemma header_values_append: "header_values (hs @ hs') k = header_values hs k @ header_values hs' k"
  by (simp add: header_values_def)

lemma header_values_drop_host:
  "header_values (filter (\<lambda>(key, value). key \<noteq> h) hs) k = (if k = h then [] else header_values hs k)"
  by (induction hs) (auto simp: header_values_def)

section \<open>Properties\<close>

definition example_req :: request where
  "example_req = \<lparr>rq_method = ''GET'', rq_path = ''/'', rq_query = None,
     rq_headers = [(''host'', OAUTH_HOST @ ''.'' @ DOMAIN @ '':443'')], rq_body = []\<rparr>"

definition down :: upstream where
  "down = \<lparr>up_connect = \<lambda>a. False, up_server_name = \<lambda>h. Some (DnsName h), up_tls = \<lambda>cfg a n. False,
     up_handshake = \<lambda>a h. False,
     up_send = \<lambda>t a r. Inl ''down'', up_ws = \<lambda>t a r. None, up_uri_ok = \<lambda>u. True\<rparr>"

text \<open>
  C16.  The OAuth hosts cannot be taken over: a request for one of them is answered from the
  local OAuth server alone.  Whatever Routes the table holds, whatever the API server says and
  whatever the network is like at other addresses, the outcome is the same, and the API server
  is not asked.
\<close>

theorem oauth_hosts_not_hijackable:
  assumes "is_oauth_host (request_host web req)" and "same_at oauth_addr up up'"
  shows "fst (proxy_request web env up table ti req body l) = fst (proxy_request web env' up' table' ti req body l) \<and>
    snd (proxy_request web env up table ti req body l) = l"
proof
  have target: "proxy_target env table (request_host web req) l = (Inr (oauth_addr, True), l)" for env table
    using assms(1) by (simp add: proxy_target_def)
  show "fst (proxy_request web env up table ti req body l) = fst (proxy_request web env' up' table' ti req body l)"
    by (rule proxy_request_same_at [OF target assms(2) target])
  show "snd (proxy_request web env up table ti req body l) = l"
    by (simp add: proxy_request_log target)
qed

theorem oauth_hosts_not_hijackable_witness:
  "fst (proxy_request plain_web (\<lambda>l q. RErr SerdeError) down Map.empty True example_req (Some []) []) =
   fst (proxy_request plain_web (\<lambda>l q. RErr SerdeError) down
     [OAUTH_HOST @ ''.'' @ DOMAIN \<mapsto> \<lparr>rb_service_name = ''evil'', rb_service_namespace = ''x'',
        rb_target_port = Number 80, rb_tls = False\<rparr>] True example_req (Some []) [])"
proof -
  have "is_oauth_host (request_host plain_web example_req)"
    by (simp add: is_oauth_host_def request_host_def example_req_def header_str_def plain_web_def
        OAUTH_HOST_def DOMAIN_def first_def unwrap_or_def)
  moreover have "same_at oauth_addr down down" by (simp add: same_at_def)
  ultimately show ?thesis using oauth_hosts_not_hijackable by blast
qed


definition example_web_route :: dynobj where
  "example_web_route = \<lparr>do_meta = default_meta\<lparr>om_name := Some ''r'', om_namespace := Some ''n''\<rparr>,
     do_data = JObject [(''spec'', JObject [(''host'', JString ''a.b''),
       (''to'', JObject [(''name'', JString ''web'')])])]\<rparr>"


text \<open>
  C24.  Where a routed request goes: \<^verbatim>\<open>resolve_endpoint\<close> returns the cluster address of the
  service when it has one that reads as an IP address, and otherwise the first address of the
  first endpoint subset that has the port and an address, provided that every subset before it
  lists its ports.  It asks for the service, and for the endpoints only in the second case.
\<close>

theorem resolve_endpoint_correct:
  fixes env l b
  defines "q \<equiv> Get ResService (InNs (rb_service_namespace b)) (rb_service_name b)"
    and "q' \<equiv> Get ResEndpoints (InNs (rb_service_namespace b)) (rb_service_name b)"
  defines "cluster_addr \<equiv> (case decode_obj as_service (env l q) of
      Inl e \<Rightarrow> None | Inr svc \<Rightarrow> service_address svc (rb_target_port b))"
  shows "resolve_endpoint env b l = (Some a, l') \<longleftrightarrow>
    (if cluster_addr \<noteq> None then cluster_addr = Some a \<and> l' = l @ [q]
     else l' = l @ [q, q'] \<and>
       (\<exists>ep pre s post. decode_obj as_endpoints (env (l @ [q]) q') = Inr ep \<and>
          ep_subsets ep = Some (pre @ s # post) \<and> subset_gives (rb_target_port b) s a \<and>
          list_all (\<lambda>t. es_ports t \<noteq> None \<and> \<not> subset_usable (rb_target_port b) t) pre))"
proof -
  have eps: "endpoints_address env b (l @ [q]) = (Some a, l') \<longleftrightarrow>
    l' = l @ [q, q'] \<and>
       (\<exists>ep pre s post. decode_obj as_endpoints (env (l @ [q]) q') = Inr ep \<and>
          ep_subsets ep = Some (pre @ s # post) \<and> subset_gives (rb_target_port b) s a \<and>
          list_all (\<lambda>t. es_ports t \<noteq> None \<and> \<not> subset_usable (rb_target_port b) t) pre)"
    by (cases "decode_obj as_endpoints (env (l @ [q]) q')")
       (auto simp: endpoints_address_def api_get_def perform_eq q'_def bind_eq_Some_conv subset_address_Some_iff)
  show ?thesis
    by (cases "decode_obj as_service (env l q)")
       (auto simp: resolve_endpoint_def api_get_def perform_eq q_def [symmetric] cluster_addr_def eps
         split: option.split)
qed

text \<open>
  C22.  A request that can be routed is passed on unchanged, and so is its answer, whatever
  certificate a TLS service presents: the upstream server sees the method, path, query and body of the client, the routed host as the only host,
  every other header field with its values in order, and its own answer reaches the client.
  Only the forwarding headers are extended, at their end.
\<close>

theorem proxy_transparent:
  fixes ti :: bool and body :: bytes
  assumes "proxy_target env table (request_host web req) l = (Inr (addr, tls), l')"
    and "\<not> has_header (rq_headers req) ''upgrade''"
    and "tls_handshake_law up peers"
    and "tls \<Longrightarrow> up_connect up addr \<and> up_handshake up addr (request_host web req) \<and>
           peers addr = Some p \<and> (\<forall>n. tp_scheme p \<noteq> OtherScheme n)"
  defines "uq \<equiv> upstream_request req body (request_host web req) addr tls ti"
  assumes "up_uri_ok up (uq_uri uq)" and "up_send up tls addr uq = Inr resp"
  shows "proxy_request web env up table ti req (Some body) l =
      (Answer \<lparr>rs_status = xs_status resp, rs_headers = xs_headers resp,
         rs_body = unwrap_or (xs_body resp) []\<rparr>, l') \<and>
    uq_method uq = rq_method req \<and> uq_body uq = body \<and>
    uq_uri uq = (if tls then PathOnly (path_and_query req) else AtAddr addr (path_and_query req)) \<and>
    header_values (uq_headers uq) ''host'' = [request_host web req] \<and>
    header_values (uq_headers uq) ''x-forwarded-proto'' =
      header_values (rq_headers req) ''x-forwarded-proto'' @ [if ti then ''https'' else ''http''] \<and>
    (k \<notin> {''host'', ''x-forwarded-proto'', ''x-forwarded-scheme'', ''x-forwarded-port''} \<longrightarrow>
      header_values (uq_headers uq) k = header_values (rq_headers req) k)"
proof (intro conjI impI)
  show "proxy_request web env up table ti req (Some body) l =
      (Answer \<lparr>rs_status = xs_status resp, rs_headers = xs_headers resp,
         rs_body = unwrap_or (xs_body resp) []\<rparr>, l')"
    using assms(1,2,6,7) assms(4) tls_connect_any_certificate [OF assms(3), of addr p]
    by (cases tls) (simp_all add: proxy_request_def uq_def forward_def relay_def)
  have hs: "uq_headers uq = proxy_headers (rq_headers req) (request_host web req) ti"
    by (simp add: uq_def upstream_request_def)
  note header_simps = hs proxy_headers_def header_values_append header_values_drop_host
  show "header_values (uq_headers uq) ''host'' = [request_host web req]"
    by (simp add: header_simps) (simp add: header_values_def)
  show "header_values (uq_headers uq) ''x-forwarded-proto'' =
      header_values (rq_headers req) ''x-forwarded-proto'' @ [if ti then ''https'' else ''http'']"
    by (simp add: header_simps) (simp add: header_values_def)
  show "header_values (uq_headers uq) k = header_values (rq_headers req) k"
    if "k \<notin> {''host'', ''x-forwarded-proto'', ''x-forwarded-scheme'', ''x-forwarded-port''}"
    using that by (simp add: header_simps) (auto simp: header_values_def)
qed (simp_all add: uq_def upstream_request_def)

definition echo :: upstream where
  "echo = down\<lparr>up_connect := \<lambda>a. True, up_tls := \<lambda>cfg a n. True, up_handshake := \<lambda>a h. True,
     up_send := \<lambda>t a r. Inr \<lparr>xs_status = 200, xs_headers = [], xs_body = Some (uq_body r)\<rparr>\<rparr>"

definition self_signed_peer :: tls_peer where
  "self_signed_peer = \<lparr>tp_end_entity = ''cert'', tp_intermediates = [], tp_ocsp_response = [], tp_time = 0,
     tp_tls13 = True, tp_message = ''hello'', tp_dss = ''sig'', tp_scheme = ED25519\<rparr>"

theorem proxy_transparent_witness:
  "proxy_request plain_web (\<lambda>l q. RErr SerdeError) echo Map.empty True example_req (Some ''hi'') [] =
     (Answer \<lparr>rs_status = 200, rs_headers = [], rs_body = ''hi''\<rparr>, [])"
proof -
  let ?resp = "\<lparr>xs_status = 200, xs_headers = [], xs_body = Some ''hi''\<rparr> :: ext_resp"
  have "is_oauth_host (request_host plain_web example_req)"
    by (simp add: is_oauth_host_def request_host_def example_req_def header_str_def plain_web_def
        OAUTH_HOST_def DOMAIN_def first_def unwrap_or_def)
  then have target: "proxy_target (\<lambda>l q. RErr SerdeError) Map.empty (request_host plain_web example_req) [] =
      (Inr (oauth_addr, True), [])" by (simp add: proxy_target_def)
  have plain: "\<not> has_header (rq_headers example_req) ''upgrade''"
    by (simp add: has_header_def example_req_def)
  have up: "up_uri_ok echo u" "up_send echo True oauth_addr (upstream_request example_req ''hi'' h oauth_addr True True) = Inr ?resp"
    "up_connect echo oauth_addr \<and> up_handshake echo oauth_addr h \<and>
      (\<lambda>a. Some self_signed_peer) oauth_addr = Some self_signed_peer \<and> (\<forall>n. tp_scheme self_signed_peer \<noteq> OtherScheme n)"
    "tls_handshake_law echo (\<lambda>a. Some self_signed_peer)" for u h
    by (simp_all add: echo_def down_def upstream_request_def self_signed_peer_def tls_handshake_law_def)
  have "proxy_request plain_web (\<lambda>l q. RErr SerdeError) echo Map.empty True example_req (Some ''hi'') [] =
      (Answer \<lparr>rs_status = xs_status ?resp, rs_headers = xs_headers ?resp,
         rs_body = unwrap_or (xs_body ?resp) []\<rparr>, [])"
    by (rule proxy_transparent [THEN conjunct1, OF target plain up(4,3) up(1,2)])
  then show ?thesis by (simp add: unwrap_or_def)
qed

text \<open>
  Requests that cannot be routed: for a host without an entry the answer is 502, and the
  API server is not asked; for an entry whose service has no address it is 503.  In both cases
  nothing is sent upstream.
\<close>

lemma unroutable_requests:
  assumes "\<not> is_oauth_host (request_host web req)"
    and "case table (request_host web req) of None \<Rightarrow> True | Some b \<Rightarrow> fst (resolve_endpoint env b l) = None"
  shows "proxy_request web env up table ti req body l =
    (case table (request_host web req) of
       None \<Rightarrow> (Answer (plain_response BAD_GATEWAY (''no route for host: '' @ request_host web req @ nl)), l)
     | Some b \<Rightarrow>
         (Answer (plain_response SERVICE_UNAVAILABLE
            (''no endpoints for '' @ rb_service_namespace b @ ''/'' @ rb_service_name b @ nl)),
          snd (resolve_endpoint env b l)))"
  using assms
  by (cases "table (request_host web req)")
     (auto simp: proxy_request_def proxy_target_def Let_def split: prod.splits)

end
