(* ===== verification/Listener.thy ===== *)
theory Listener
  imports Prelude
begin

text \<open>
  The accept loops of the servers (\<^verbatim>\<open>oauth/mod.rs\<close>, \<^verbatim>\<open>pod_mutate.rs\<close>, \<^verbatim>\<open>proxy.rs\<close>): which connections
  are handed to a task of their own, and when a loop ends.
\<close>

section \<open>Definitions\<close>

text \<open>What \<^verbatim>\<open>accept\<close> returns, and how far a server is.\<close>

datatype 's accept = AcceptError | Accepted 's

datatype status = Running | Ended

text \<open>
  One loop.  After an error it goes on (\<^verbatim>\<open>continue\<close>) or returns it (\<^verbatim>\<open>?\<close>), as \<open>lenient\<close> says; every
  accepted stream is handed to a new task.
\<close>

fun accept_loop :: "bool \<Rightarrow> 's accept list \<Rightarrow> 's list \<times> status" where
  "accept_loop lenient [] = ([], Running)"
| "accept_loop lenient (AcceptError # es) = (if lenient then accept_loop lenient es else ([], Ended))"
| "accept_loop lenient (Accepted s # es) = (case accept_loop lenient es of (ss, r) \<Rightarrow> (s # ss, r))"

text \<open>The task of a stream that is served over TLS ends when the handshake fails.\<close>

definition tls_accept_loop :: "('s \<Rightarrow> 't option) \<Rightarrow> bool \<Rightarrow> 's accept list \<Rightarrow> 't list \<times> status" where
  "tls_accept_loop handshake lenient es =
     (case accept_loop lenient es of (ss, r) \<Rightarrow> (filter_map handshake ss, r))"

section \<open>Lemmas\<close>

fun accepted :: "'s accept list \<Rightarrow> 's list" where
  "accepted [] = []"
| "accepted (AcceptError # es) = accepted es"
| "accepted (Accepted s # es) = s # accepted es"

lemma accept_loop_lenient: "accept_loop True es = (accepted es, Running)"
  by (induction es rule: accepted.induct) simp_all

lemma accept_loop_strict:
  "accept_loop False es =
   (accepted (takeWhile (\<lambda>e. e \<noteq> AcceptError) es), if AcceptError \<in> set es then Ended else Running)"
  by (induction es rule: accepted.induct) simp_all

lemma tls_accept_loop_status: "snd (tls_accept_loop h b es) = snd (accept_loop b es)"
  by (simp add: tls_accept_loop_def split_beta)

end
