(* ===== verification/Startup.thy ===== *)
theory Startup
  imports OAuth_Infra OAuth_Runs PodMutate Proxy Listener
begin

text \<open>
  \<^verbatim>\<open>simulator/src/main.rs\<close> and the \<^verbatim>\<open>run\<close> functions of the three servers: which tasks are started
  with which settings, the state in which the OAuth server begins to serve, the connections that
  are served, and when the program ends.
\<close>

section \<open>Definitions\<close>

record args =
  ar_proxy :: bool
  ar_proxy_port :: u16
  ar_users_file :: "string option"
  ar_auth_mode :: auth_mode
  ar_oidc_issuer_url :: "string option"
  ar_oidc_client_id :: "string option"
  ar_oidc_client_secret :: "string option"

datatype task =
    RouteTask
  | ServiceCaTask ca_state
  | ConfigMapTask ca_state
  | MutatingWebhookTask ca_state
  | ValidatingWebhookTask ca_state
  | GatewayTask
  | OAuthTask ca_state user_store auth_mode "byoidc_config option"
  | ProjectTask
  | PodMutateTask ca_state
  | JobSetTask
  | ImageStreamTask
  | LoadBalancerTask
  | ProxyTask u16 ca_state
  | PendingTask \<comment> \<open>never finishes\<close>

text \<open>The variable \<^verbatim>\<open>ENABLE_BUILTIN_GATEWAY\<close>; \<^const>\<open>None\<close> when it is not set or not Unicode.\<close>

definition builtin_gw :: "string option \<Rightarrow> bool" where
  "builtin_gw var =
     (case var of None \<Rightarrow> True | Some v \<Rightarrow> \<not> (v = ''0'' \<or> v = ''false'' \<or> v = ''no''))"

text \<open>The provider's settings; the outer \<^const>\<open>None\<close> is the panic of an \<^verbatim>\<open>expect\<close>.\<close>

definition byoidc_settings :: "args \<Rightarrow> byoidc_config option option" where
  "byoidc_settings a =
     (if ar_auth_mode a = Byoidc
      then Option.bind (ar_oidc_issuer_url a) (\<lambda>url.
           Option.bind (ar_oidc_client_id a) (\<lambda>cid.
           Some (Some \<lparr>bc_issuer_url = url, bc_client_id = cid,
             bc_client_secret = unwrap_or (ar_oidc_client_secret a) []\<rparr>)))
      else Some None)"

text \<open>
  The tasks in the order they are started, after the CA was generated and the cluster reached;
  \<^const>\<open>None\<close> is a panic on the way.
\<close>

definition main_tasks ::
    "(string \<Rightarrow> string option) \<Rightarrow> (string \<Rightarrow> user_entry list option) \<Rightarrow> string option \<Rightarrow> args \<Rightarrow> ca_state \<Rightarrow>
     task list option" where
  "main_tasks read_file parse_users gw_var a ca =
     (let user_store = store_load read_file parse_users (ar_users_file a)
      in Option.bind (byoidc_settings a) (\<lambda>byoidc_config. Some
        [RouteTask, ServiceCaTask ca, ConfigMapTask ca, MutatingWebhookTask ca, ValidatingWebhookTask ca,
         (if builtin_gw gw_var then GatewayTask else PendingTask),
         OAuthTask ca user_store (ar_auth_mode a) byoidc_config,
         ProjectTask, PodMutateTask ca, JobSetTask, ImageStreamTask, LoadBalancerTask,
         (if ar_proxy a then ProxyTask (ar_proxy_port a) ca else PendingTask)]))"

text \<open>
  The start of \<^verbatim>\<open>oauth::run\<close>: without a certificate the server ends before it writes anything; a
  failure to set up the cluster objects is only logged.
\<close>

definition oauth_start ::
    "cert_lib \<Rightarrow> string option \<Rightarrow> api_server \<Rightarrow> jwt_keys option \<Rightarrow> (string \<Rightarrow> jwks_cache) \<Rightarrow> ca_state \<Rightarrow>
     user_store \<Rightarrow> auth_mode \<Rightarrow> byoidc_config option \<Rightarrow> req list \<Rightarrow> oauth_state option \<times> req list" where
  "oauth_start lib key env gen fetch ca users mode byoidc l =
     (case generate_tls_config lib key ca of
        None \<Rightarrow> (None, l)
      | Some cfg \<Rightarrow>
          (case setup_infrastructure env mode l of
             (_, l') \<Rightarrow> (oauth_state_new gen fetch users mode byoidc, l')))"

text \<open>
  The start of \<^verbatim>\<open>proxy::run\<close>: the ports it listens on, each with the flag that its connections pass
  to \<^const>\<open>proxy_request\<close>.  \<open>bind\<close> says which ports can be bound beside those already bound; \<^const>\<open>None\<close> is a returned error.
\<close>

definition proxy_start ::
    "cert_lib \<Rightarrow> string option \<Rightarrow> ca_state \<Rightarrow> (u16 list \<Rightarrow> u16 \<Rightarrow> bool) \<Rightarrow> u16 \<Rightarrow> (u16 \<times> bool) list option" where
  "proxy_start lib key ca bind port =
     (if \<not> bind [] port then None
      else case sign_tls_config lib key ca [''*.apps.ocp-sim.test''] of
        None \<Rightarrow> None
      | Some cfg \<Rightarrow> if bind [port] 443 then Some [(port, False), (443, True)] else None)"

text \<open>
  The servers as a whole: the connections they serve, and whether they have ended.  \<open>bound\<close> says
  whether the port could be bound.
\<close>

definition oauth_run ::
    "cert_lib \<Rightarrow> string option \<Rightarrow> api_server \<Rightarrow> jwt_keys option \<Rightarrow> (string \<Rightarrow> jwks_cache) \<Rightarrow> ca_state \<Rightarrow>
     user_store \<Rightarrow> auth_mode \<Rightarrow> byoidc_config option \<Rightarrow> bool \<Rightarrow> ('s \<Rightarrow> 't option) \<Rightarrow> 's accept list \<Rightarrow> req list \<Rightarrow>
     't list \<times> status" where
  "oauth_run lib key env gen fetch ca users mode byoidc bound handshake accepts l =
     (case oauth_start lib key env gen fetch ca users mode byoidc l of
        (None, l') \<Rightarrow> ([], Ended)
      | (Some st, l') \<Rightarrow> if \<not> bound then ([], Ended) else tls_accept_loop handshake False accepts)"

definition pod_mutate_run ::
    "api_server \<Rightarrow> weblib \<Rightarrow> cert_lib \<Rightarrow> string option \<Rightarrow> ca_state \<Rightarrow> bool \<Rightarrow> ('s \<Rightarrow> 't option) \<Rightarrow> 's accept list \<Rightarrow>
     req list \<Rightarrow> 't list \<times> status" where
  "pod_mutate_run env web lib key ca bound handshake accepts l =
     (case pod_mutate_start env web lib key ca l of
        (Inl e, l') \<Rightarrow> ([], Ended)
      | (Inr tls_config, l') \<Rightarrow> if \<not> bound then ([], Ended) else tls_accept_loop handshake False accepts)"

text \<open>Each connection of the proxy comes with the flag for \<^const>\<open>proxy_request\<close>; the loop for TLS runs beside.\<close>

definition proxy_run ::
    "cert_lib \<Rightarrow> string option \<Rightarrow> ca_state \<Rightarrow> (u16 list \<Rightarrow> u16 \<Rightarrow> bool) \<Rightarrow> u16 \<Rightarrow> ('s \<Rightarrow> 's option) \<Rightarrow> 's accept list \<Rightarrow>
     's accept list \<Rightarrow> ('s \<times> bool) list \<times> status" where
  "proxy_run lib key ca bind port handshake accepts tls_accepts =
     (case proxy_start lib key ca bind port of
        None \<Rightarrow> ([], Ended)
      | Some ports \<Rightarrow>
          (let (tls, _) = tls_accept_loop handshake True tls_accepts;
               (plain, r) = accept_loop False accepts
           in (map (\<lambda>s. (s, True)) tls @ map (\<lambda>s. (s, False)) plain, r)))"

text \<open>
  What the tasks meet: libraries, the key each task generates, the API server and the requests
  made before, whether the event stream of a controller has ended, ports, and connections.
\<close>

record surroundings =
  su_web :: weblib
  su_lib :: cert_lib
  su_key :: "task \<Rightarrow> string option"
  su_env :: api_server
  su_log :: "task \<Rightarrow> req list"
  su_gen :: "jwt_keys option"
  su_fetch :: "string \<Rightarrow> jwks_cache"
  su_stream_ended :: "task \<Rightarrow> bool"
  su_oauth_bound :: bool
  su_webhook_bound :: bool
  su_bind :: "u16 list \<Rightarrow> u16 \<Rightarrow> bool"
  su_handshake :: "nat \<Rightarrow> nat option"
  su_oauth_accepts :: "nat accept list"
  su_webhook_accepts :: "nat accept list"
  su_http_accepts :: "nat accept list"
  su_https_accepts :: "nat accept list"

definition task_status :: "surroundings \<Rightarrow> task \<Rightarrow> status" where
  "task_status su t =
     (case t of
        OAuthTask ca users mode byoidc \<Rightarrow>
          snd (oauth_run (su_lib su) (su_key su t) (su_env su) (su_gen su) (su_fetch su) ca users mode byoidc
            (su_oauth_bound su) (su_handshake su) (su_oauth_accepts su) (su_log su t))
      | PodMutateTask ca \<Rightarrow>
          snd (pod_mutate_run (su_env su) (su_web su) (su_lib su) (su_key su t) ca
            (su_webhook_bound su) (su_handshake su) (su_webhook_accepts su) (su_log su t))
      | ProxyTask port ca \<Rightarrow>
          snd (proxy_run (su_lib su) (su_key su t) ca (su_bind su) port (su_handshake su)
            (su_http_accepts su) (su_https_accepts su))
      | PendingTask \<Rightarrow> Running
      | _ \<Rightarrow> if su_stream_ended su t then Ended else Running)"

text \<open>
  The whole of \<^verbatim>\<open>main\<close>.  \<open>crypto\<close> says whether the crypto provider could be installed, \<open>client\<close> whether
  a client for the cluster could be made.  \<^verbatim>\<open>tokio::select!\<close> waits for the first task to end, and
  \<^verbatim>\<open>main\<close> then returns without an error.
\<close>

datatype main_status = MainPanic | MainError | MainRunning "task list" | MainDone

definition main_run ::
    "bool \<Rightarrow> string option \<Rightarrow> bool \<Rightarrow> (string \<Rightarrow> string option) \<Rightarrow> (string \<Rightarrow> user_entry list option) \<Rightarrow>
     string option \<Rightarrow> args \<Rightarrow> surroundings \<Rightarrow> main_status" where
  "main_run crypto ca_key client read_file parse_users gw_var a su =
     (if \<not> crypto then MainPanic
      else case ca_generate (su_lib su) ca_key of
        None \<Rightarrow> MainPanic
      | Some ca \<Rightarrow>
          if \<not> client then MainError
          else (case main_tasks read_file parse_users gw_var a ca of
                  None \<Rightarrow> MainPanic
                | Some tasks \<Rightarrow>
                    if list_ex (\<lambda>t. task_status su t = Ended) tasks then MainDone else MainRunning tasks))"

section \<open>Lemmas\<close>

lemma proxy_start_listens:
  "proxy_start lib key ca bind port = Some ls \<Longrightarrow> (p, tls) \<in> set ls \<Longrightarrow> p = (if tls then 443 else port) \<and> bind (if tls then [port] else []) p"
  by (auto simp: proxy_start_def split: if_splits option.splits)

lemma main_tasks_byoidc:
  assumes "main_tasks rf pu gw a ca = Some ts" and "OAuthTask ca' users mode byoidc \<in> set ts"
  shows "ca' = ca \<and> mode = ar_auth_mode a \<and> (byoidc \<noteq> None \<longleftrightarrow> mode = Byoidc)"
  using assms
  by (auto simp: main_tasks_def byoidc_settings_def bind_eq_Some_conv split: if_splits)

text \<open>One certificate authority signs for every task.\<close>

fun task_ca :: "task \<Rightarrow> ca_state option" where
  "task_ca (ServiceCaTask ca) = Some ca"
| "task_ca (ConfigMapTask ca) = Some ca"
| "task_ca (MutatingWebhookTask ca) = Some ca"
| "task_ca (ValidatingWebhookTask ca) = Some ca"
| "task_ca (OAuthTask ca _ _ _) = Some ca"
| "task_ca (PodMutateTask ca) = Some ca"
| "task_ca (ProxyTask _ ca) = Some ca"
| "task_ca _ = None"

lemma main_tasks_one_ca:
  "main_tasks rf pu gw a ca = Some ts \<Longrightarrow> t \<in> set ts \<Longrightarrow> task_ca t \<in> {None, Some ca}"
  by (auto simp: main_tasks_def bind_eq_Some_conv split: if_splits)

text \<open>
  A server that has started is in an initial state of the transition system, so everything
  shown of reachable states holds of it.
\<close>

definition started :: "world \<Rightarrow> server" where
  "started w = \<lparr>sv_world = w, sv_begun = {#}, sv_cleared = {#}, sv_authed = {}, sv_issued = [], sv_minted = []\<rparr>"

lemma oauth_state_new_empty:
  "oauth_state_new gen fetch users mode byoidc = Some st \<Longrightarrow> st_codes st = Map.empty \<and> st_tokens st = Map.empty"
  by (auto simp: oauth_state_new_def bind_eq_Some_conv)

lemma oauth_start_init:
  assumes "oauth_start lib key env gen fetch ca users mode byoidc l = (Some st, l')" and "w_state w = st"
  shows "server_init (started w)"
  using assms oauth_state_new_empty
  by (fastforce simp: oauth_start_def server_init_def started_def split: option.splits prod.splits)

lemma oauth_start_wf:
  assumes "oauth_start lib key env gen fetch ca users mode byoidc l = (Some st, l')"
    and "byoidc \<noteq> None \<longleftrightarrow> mode = Byoidc"
  shows "oauth_wf st \<and> st_auth_mode st = mode"
  using assms
  by (auto simp: oauth_start_def oauth_state_new_def oauth_wf_def bind_eq_Some_conv split: option.splits prod.splits if_splits)

lemma oauth_start_inv:
  assumes "oauth_start lib key env gen fetch ca users mode byoidc l = (Some st, l')" and "w_state w = st"
    and "(oauth_step web)\<^sup>*\<^sup>* (started w) sv"
  shows "server_inv sv"
  using oauth.reachable_inv [OF oauth_start_init [OF assms(1,2)] assms(3)] .

subsection \<open>When the servers end\<close>

lemma not_Running: "r \<noteq> Running \<longleftrightarrow> r = Ended"
  by (cases r) simp_all

lemma main_run_running:
  "(\<exists>ts. main_run crypto ca_key client rf pu gw_var a su = MainRunning ts) \<longleftrightarrow>
   crypto \<and> client \<and> (\<exists>ca ts. ca_generate (su_lib su) ca_key = Some ca \<and> main_tasks rf pu gw_var a ca = Some ts \<and>
     list_all (\<lambda>t. task_status su t = Running) ts)"
  by (auto simp: main_run_def list_ex_iff list_all_iff not_Running [symmetric] split: option.splits)

lemma oauth_run_running:
  "snd (oauth_run lib key env gen fetch ca users mode byoidc bound handshake accepts l) = Running \<longleftrightarrow>
   fst (oauth_start lib key env gen fetch ca users mode byoidc l) \<noteq> None \<and> bound \<and> AcceptError \<notin> set accepts"
  by (auto simp: oauth_run_def tls_accept_loop_status accept_loop_strict split: prod.split option.split)

lemma pod_mutate_run_running:
  "snd (pod_mutate_run env web lib key ca bound handshake accepts l) = Running \<longleftrightarrow>
   \<not> isl (fst (pod_mutate_start env web lib key ca l)) \<and> bound \<and> AcceptError \<notin> set accepts"
  by (auto simp: pod_mutate_run_def tls_accept_loop_status accept_loop_strict split: prod.split sum.split)

lemma proxy_run_running:
  "snd (proxy_run lib key ca bind port handshake accepts tls_accepts) = Running \<longleftrightarrow>
   proxy_start lib key ca bind port \<noteq> None \<and> AcceptError \<notin> set accepts"
  by (auto simp: proxy_run_def split_beta accept_loop_strict split: option.split)

text \<open>The tasks that follow a stream of events.\<close>

definition controllers :: "string option \<Rightarrow> ca_state \<Rightarrow> task list" where
  "controllers gw_var ca =
     [RouteTask, ServiceCaTask ca, ConfigMapTask ca, MutatingWebhookTask ca, ValidatingWebhookTask ca] @
     (if builtin_gw gw_var then [GatewayTask] else []) @
     [ProjectTask, JobSetTask, ImageStreamTask, LoadBalancerTask]"

section \<open>Properties\<close>

text \<open>
  C26.  When the simulator keeps running: exactly as long as the crypto provider, the CA, the
  cluster client and the provider's settings are there, no stream of events has ended, each of
  the servers has started and bound its port, and no listener but the proxy's TLS listener has
  failed to accept a connection.  One accept error of any of the others ends the whole program.
\<close>

theorem main_keeps_running:
  fixes a :: args and rf :: "string \<Rightarrow> string option" and pu :: "string \<Rightarrow> user_entry list option"
  defines "oauth \<equiv> \<lambda>ca byoidc. OAuthTask ca (store_load rf pu (ar_users_file a)) (ar_auth_mode a) byoidc"
  shows "(\<exists>ts. main_run crypto ca_key client rf pu gw_var a su = MainRunning ts) =
    (crypto \<and> client \<and>
     (\<exists>ca byoidc. ca_generate (su_lib su) ca_key = Some ca \<and> byoidc_settings a = Some byoidc \<and>
        list_all (\<lambda>t. \<not> su_stream_ended su t) (controllers gw_var ca) \<and>
        fst (oauth_start (su_lib su) (su_key su (oauth ca byoidc)) (su_env su) (su_gen su) (su_fetch su) ca
          (store_load rf pu (ar_users_file a)) (ar_auth_mode a) byoidc (su_log su (oauth ca byoidc))) \<noteq> None \<and>
        su_oauth_bound su \<and> AcceptError \<notin> set (su_oauth_accepts su) \<and>
        \<not> isl (fst (pod_mutate_start (su_env su) (su_web su) (su_lib su) (su_key su (PodMutateTask ca)) ca
          (su_log su (PodMutateTask ca)))) \<and>
        su_webhook_bound su \<and> AcceptError \<notin> set (su_webhook_accepts su) \<and>
        (if ar_proxy a
         then proxy_start (su_lib su) (su_key su (ProxyTask (ar_proxy_port a) ca)) ca (su_bind su) (ar_proxy_port a) \<noteq> None \<and>
           AcceptError \<notin> set (su_http_accepts su)
         else True)))"
proof -
  have stream: "(if b then Ended else Running) = Running \<longleftrightarrow> \<not> b" for b by simp
  show ?thesis
    unfolding main_run_running oauth_def
    by (cases "ca_generate (su_lib su) ca_key"; cases "byoidc_settings a"; cases "ar_proxy a"; cases "builtin_gw gw_var")
       (simp_all add: main_tasks_def task_status_def controllers_def stream conj_ac
         oauth_run_running pod_mutate_run_running proxy_run_running)
qed

end
