(* ===== verification/Route.thy ===== *)
theory Route
  imports Util
begin

text \<open>
  \<^verbatim>\<open>simulator/src/route.rs\<close>: the controller that admits Routes by writing their status.
\<close>

section \<open>Definitions\<close>

definition ROUTE_DOMAIN :: string where "ROUTE_DOMAIN = ''apps.ocp-sim.test''"

definition is_admitted :: "dynobj \<Rightarrow> bool" where
  "is_admitted route =
     (case path_array (do_data route) [''status'', ''ingress''] of
        Some arr \<Rightarrow>
          list_ex (\<lambda>ingress.
            case Option.bind (jget ingress ''conditions'') as_array of
              Some conds \<Rightarrow>
                list_ex (\<lambda>c. get_str c ''type'' = Some ''Admitted'' \<and>
                             get_str c ''status'' = Some ''True'') conds
            | None \<Rightarrow> False) arr
      | None \<Rightarrow> False)"

definition compute_host :: "dynobj \<Rightarrow> string" where
  "compute_host route =
     (let default = name_any (do_meta route) @ ''-'' @
            unwrap_or (om_namespace (do_meta route)) [] @ ''.'' @ ROUTE_DOMAIN
      in case path_str (do_data route) [''spec'', ''host''] of
           Some host \<Rightarrow> if host \<noteq> [] then host else default
         | None \<Rightarrow> default)"

definition admission_patch :: "string \<Rightarrow> string \<Rightarrow> json" where
  "admission_patch host now =
     JObject [(''status'', JObject [(''ingress'', JArray [JObject [
       (''host'', JString host), (''routerName'', JString ''default''),
       (''routerCanonicalHostname'', JString (''router-default.'' @ ROUTE_DOMAIN)),
       (''conditions'', JArray [JObject [(''type'', JString ''Admitted''),
          (''status'', JString ''True''), (''lastTransitionTime'', JString now)]])]])])]"

definition reconcile_route :: "api_server \<Rightarrow> string \<Rightarrow> dynobj \<Rightarrow> action kio" where
  "reconcile_route env now route =
     (let ns = unwrap_or (om_namespace (do_meta route)) [];
          name = name_any (do_meta route);
          host = compute_host route
      in if \<not> is_admitted route
         then kbind (api_patch_status env (ResDyn route_ar) (InNs ns) name (Some ''ocp-sim'')
                (Merge (admission_patch host now))) (\<lambda>_. kreturn AwaitChange)
         else kreturn AwaitChange)"

definition route_error_policy :: "dynobj \<Rightarrow> kube_error \<Rightarrow> action" where
  "route_error_policy x e = Requeue 10"

definition route_run :: "api_server \<Rightarrow> string \<Rightarrow> dynobj \<Rightarrow> req list \<Rightarrow> action \<times> req list" where
  "route_run env now = deliver (reconcile_route env now) route_error_policy"

section \<open>Lemmas\<close>

lemma reconcile_route_requests:
  "snd (reconcile_route env now x l) =
     (if is_admitted x then l
      else l @ [PatchStatus (ResDyn route_ar) (InNs (unwrap_or (om_namespace (do_meta x)) []))
        (name_any (do_meta x)) (Some ''ocp-sim'') (Merge (admission_patch (compute_host x) now))])"
  by (simp add: reconcile_route_def kube_simps Let_def split: sum.split)

definition route_requests :: "api_server \<times> string \<Rightarrow> dynobj \<Rightarrow> req list" where
  "route_requests i x = snd (reconcile_route (fst i) (snd i) x [])"

context merge_server
begin

lemma route_pass_status:
  fixes i :: "api_server \<times> string"
  assumes "is_object (do_data x)" and "\<not> is_admitted x"
  defines "x' \<equiv> apply_statuses merge (route_requests i x) x"
  shows "path_array (do_data x') [''status'', ''ingress''] =
      path_array (admission_patch (compute_host x) (snd i)) [''status'', ''ingress'']"
    and "k \<noteq> ''status'' \<Longrightarrow> jget (do_data x') k = jget (do_data x) k"
    and "do_meta x' = do_meta x"
  using assms
  by (simp_all add: route_requests_def reconcile_route_requests admission_patch_def jget_jset
      path_array_def)

lemma route_pass_admits:
  assumes "is_object (do_data x)"
  shows "is_admitted (apply_statuses merge (route_requests i x) x)"
proof (cases "is_admitted x")
  case True
  then show ?thesis by (simp add: route_requests_def reconcile_route_requests)
next
  case False
  from route_pass_status(1) [OF assms False] show ?thesis
    by (simp add: is_admitted_def admission_patch_def path_array_def get_str_def)
qed

end

sublocale merge_server \<subseteq> route_ctl: settling_controller route_requests "apply_statuses merge"
    "\<lambda>i. True" "\<lambda>x. is_object (do_data x)"
proof
  show "apply_statuses merge [] x = x" for x by simp
  show "route_requests j (apply_statuses merge (route_requests i x) x) = []"
    if "is_object (do_data x)" for i j x
    using route_pass_admits [OF that] by (simp add: route_requests_def [of j] reconcile_route_requests)
qed

context merge_server
begin

lemma route_quiet:
  "is_object (do_data x) \<Longrightarrow> route_requests k (fold route_ctl.pass js (route_ctl.pass i x)) = []"
  by (rule route_ctl.quiet_after_first) simp_all

end

lemmas route_settles = merge_server.route_quiet [OF merge_server.intro]

section \<open>Properties\<close>

definition example_route :: dynobj where
  "example_route = \<lparr>do_meta = default_meta\<lparr>om_name := Some ''web'', om_namespace := Some ''demo''\<rparr>,
     do_data = JObject [(''spec'', JObject [(''host'', JString [])])]\<rparr>"

text \<open>
  C36.  Route admission converges: for every server that applies merge patches as RFC 7386
  says, after one pass the route is admitted under its host, its specification is untouched,
  and no later pass, whenever it runs, sends a request.
\<close>

theorem route_admission_settles:
  assumes "merge_patch_law merge" and "is_object (do_data x)"
  defines "pass \<equiv> \<lambda>i x. apply_statuses merge (route_requests i x) x"
  shows "is_admitted (pass i x) \<and> jget (do_data (pass i x)) ''spec'' = jget (do_data x) ''spec'' \<and>
    route_requests k (fold pass js (pass i x)) = []"
proof (intro conjI)
  note server = merge_server.intro [OF assms(1)]
  show "is_admitted (pass i x)"
    unfolding pass_def by (rule merge_server.route_pass_admits [OF server assms(2)])
  show "jget (do_data (pass i x)) ''spec'' = jget (do_data x) ''spec''"
  proof (cases "is_admitted x")
    case True
    then show ?thesis by (simp add: pass_def route_requests_def reconcile_route_requests)
  qed (simp add: pass_def merge_server.route_pass_status(2) [OF server assms(2)])
  show "route_requests k (fold pass js (pass i x)) = []"
    unfolding pass_def by (rule route_settles [OF assms(1,2)])
qed

theorem route_admission_settles_witness:
  "route_requests (\<lambda>l r. ROk, ''2'') (apply_statuses rfc_merge
     (route_requests (\<lambda>l r. ROk, ''1'') example_route) example_route) = [] \<and>
   route_requests (\<lambda>l r. ROk, ''1'') example_route \<noteq> []"
proof
  have "is_object (do_data example_route)" by (simp add: example_route_def)
  from route_admission_settles [OF rfc_merge_law this, where js = "[]", THEN conjunct2, THEN conjunct2]
  show "route_requests (\<lambda>l r. ROk, ''2'') (apply_statuses rfc_merge
     (route_requests (\<lambda>l r. ROk, ''1'') example_route) example_route) = []" by simp
qed (simp add: route_requests_def reconcile_route_requests example_route_def is_admitted_def path_array_def)

text \<open>
  The host of a route without one is its name and namespace under the cluster domain; two
  such routes in namespaces that contain no dash have the same host only when they have the
  same name and namespace.
\<close>

lemma route_default_hosts_distinct:
  assumes "path_str (do_data x) [''spec'', ''host''] = None"
    and "path_str (do_data y) [''spec'', ''host''] = None"
    and "om_namespace (do_meta x) = Some n" and "om_namespace (do_meta y) = Some m"
    and "CHR ''-'' \<notin> set n" and "CHR ''-'' \<notin> set m"
  shows "compute_host x = compute_host y \<longleftrightarrow>
    name_any (do_meta x) = name_any (do_meta y) \<and> n = m"
proof -
  note same = last_separator_unique [OF assms(5,6), of "name_any (do_meta x)" "name_any (do_meta y)"]
  have "compute_host x = (name_any (do_meta x) @ CHR ''-'' # n) @ ''.'' @ ROUTE_DOMAIN"
    "compute_host y = (name_any (do_meta y) @ CHR ''-'' # m) @ ''.'' @ ROUTE_DOMAIN"
    using assms(1-4) by (simp_all add: compute_host_def)
  then show ?thesis by (simp only: append_same_eq same)
qed

end
