(* ===== verification/Project.thy ===== *)
theory Project
  imports Util
begin

text \<open>
  \<^verbatim>\<open>simulator/src/project.rs\<close>: Namespaces and Projects are kept in step, in both directions.
\<close>

section \<open>Definitions\<close>

definition project_object :: "namespace \<Rightarrow> json" where
  "project_object ns =
     (let phase = unwrap_or (Option.bind (ns_status ns) (\<lambda>phase. phase)) ''Active'';
          labels = unwrap_or (om_labels (ns_meta ns)) []
      in JObject [(''apiVersion'', JString ''project.openshift.io/v1''), (''kind'', JString ''Project''),
           (''metadata'', JObject [(''name'', JString (name_any (ns_meta ns))),
              (''labels'', json_of_map labels)]),
           (''status'', JObject [(''phase'', JString phase)])])"

definition proj_reconcile_namespace :: "api_server \<Rightarrow> namespace \<Rightarrow> action kio" where
  "proj_reconcile_namespace env ns =
     kbind (api_patch env (ResDyn project_ar) Cluster (name_any (ns_meta ns)) (Some ''ocp-sim-project'')
       (ApplyJson (project_object ns))) (\<lambda>_. kreturn AwaitChange)"

definition project_namespace :: "dynobj \<Rightarrow> namespace" where
  "project_namespace proj =
     \<lparr>ns_meta = default_meta\<lparr>om_name := Some (name_any (do_meta proj)),
        om_labels := om_labels (do_meta proj)\<rparr>, ns_status = None\<rparr>"

definition reconcile_project :: "api_server \<Rightarrow> dynobj \<Rightarrow> action kio" where
  "reconcile_project env proj =
     (let name = name_any (do_meta proj)
      in kbind (api_get_opt env as_namespace ResNamespace Cluster name) (\<lambda>found.
         if found = None
         then ktry (api_create env ResNamespace Cluster (KNamespace (project_namespace proj))) (\<lambda>r.
                case r of
                  Inr _ \<Rightarrow> kreturn AwaitChange
                | Inl e \<Rightarrow> if e = Api 409 then kreturn AwaitChange else kfail e)
         else kreturn AwaitChange))"

definition ns_error_policy :: "namespace \<Rightarrow> kube_error \<Rightarrow> action" where
  "ns_error_policy x e = Requeue 10"

definition proj_error_policy :: "dynobj \<Rightarrow> kube_error \<Rightarrow> action" where
  "proj_error_policy x e = Requeue 10"

text \<open>One delivery of either controller of \<^verbatim>\<open>run\<close>.\<close>

datatype project_event = NamespaceEvent namespace | ProjectEvent dynobj

fun project_run :: "api_server \<Rightarrow> project_event \<Rightarrow> req list \<Rightarrow> action \<times> req list" where
  "project_run env (NamespaceEvent ns) = deliver (proj_reconcile_namespace env) ns_error_policy ns"
| "project_run env (ProjectEvent p) = deliver (reconcile_project env) proj_error_policy p"

section \<open>Properties\<close>

text \<open>The Project that the server stores for an applied document.\<close>

definition stored_project :: "namespace \<Rightarrow> dynobj" where
  "stored_project ns =
     \<lparr>do_meta = default_meta\<lparr>om_name := Some (name_any (ns_meta ns)),
        om_labels := Some (unwrap_or (om_labels (ns_meta ns)) [])\<rparr>,
      do_data = JObject [(''status'', jindex (project_object ns) ''status'')]\<rparr>"


text \<open>
  The two directions do not chase each other: for a namespace that exists, the project
  controller makes no change for the project that the namespace controller wrote, and that
  project would recreate the namespace with the same name and labels.
\<close>

lemma project_sync_stable:
  assumes "env l (GetOpt ResNamespace Cluster (name_any (ns_meta ns))) = ROpt (Some (KNamespace ns'))"
  shows "project_run env (ProjectEvent (stored_project ns)) l =
      (AwaitChange, l @ [GetOpt ResNamespace Cluster (name_any (ns_meta ns))]) \<and>
    name_any (ns_meta (project_namespace (stored_project ns))) = name_any (ns_meta ns) \<and>
    unwrap_or (om_labels (ns_meta (project_namespace (stored_project ns)))) [] =
      unwrap_or (om_labels (ns_meta ns)) []"
  using assms
  by (simp add: deliver_def reconcile_project_def kube_simps Let_def stored_project_def
      project_namespace_def name_any_def [of "_\<lparr>om_name := _\<rparr>"]
      name_any_def [of "_\<lparr>om_name := _, om_labels := _\<rparr>"])

end
