(* ===== verification/LoadBalancer.thy ===== *)
theory LoadBalancer
  imports Util
begin

text \<open>
  \<^verbatim>\<open>simulator/src/loadbalancer.rs\<close>: services of type LoadBalancer get an address from a
  counter.  The counter is an atomic byte, so \<^verbatim>\<open>fetch_add\<close> wraps.
\<close>

section \<open>Definitions\<close>

definition NEXT_OCTET :: u8 where "NEXT_OCTET = 1"

definition lb_ip :: "u8 \<Rightarrow> string" where
  "lb_ip n = ''10.254.0.'' @ show_nat (unat n)"

definition next_lb_ip :: "u8 \<Rightarrow> string \<times> u8" where
  "next_lb_ip octet = (lb_ip octet, octet + 1)"

definition needs_ip :: "service \<Rightarrow> bool" where
  "needs_ip svc =
     (if \<not> (case Option.bind (svc_spec svc) ss_type of
               Some t \<Rightarrow> t = ''LoadBalancer'' | None \<Rightarrow> False)
      then False
      else (case Option.bind (svc_status svc) (\<lambda>s. path_array s [''loadBalancer'', ''ingress'']) of
              None \<Rightarrow> True
            | Some list \<Rightarrow> list = []))"

definition lb_patch :: "string \<Rightarrow> json" where
  "lb_patch ip = JObject [(''status'', JObject [(''loadBalancer'',
     JObject [(''ingress'', JArray [JObject [(''ip'', JString ip)]])])])]"

text \<open>One event of the watch; \<^const>\<open>None\<close> is a watch error.  A failed patch is only logged.\<close>

definition lb_event :: "api_server \<Rightarrow> service option \<Rightarrow> u8 \<times> req list \<Rightarrow> u8 \<times> req list" where
  "lb_event env event s =
     (let (octet, l) = s
      in case event of
           None \<Rightarrow> s
         | Some svc \<Rightarrow>
             if \<not> needs_ip svc then s
             else
               (let ns = unwrap_or (om_namespace (svc_meta svc)) [];
                    name = name_any (svc_meta svc);
                    (ip, octet') = next_lb_ip octet;
                    (_, l') = api_patch_status env ResService (InNs ns) name (Some ''ocp-sim'')
                      (Merge (lb_patch ip)) l
                in (octet', l')))"

definition lb_run :: "api_server \<Rightarrow> service option list \<Rightarrow> u8 \<times> req list \<Rightarrow> u8 \<times> req list" where
  "lb_run env events s = fold (lb_event env) events s"

section \<open>Lemmas\<close>

definition lb_request :: "service \<Rightarrow> u8 \<Rightarrow> req" where
  "lb_request svc octet =
     PatchStatus ResService (InNs (unwrap_or (om_namespace (svc_meta svc)) []))
       (name_any (svc_meta svc)) (Some ''ocp-sim'') (Merge (lb_patch (lb_ip octet)))"

definition lb_wanting :: "service option list \<Rightarrow> service list" where
  "lb_wanting events = filter needs_ip (filter_map (\<lambda>e. e) events)"

lemma lb_event_eq:
  "lb_event env e (n, l) =
     (case e of
        Some svc \<Rightarrow> if needs_ip svc then (n + 1, l @ [lb_request svc n]) else (n, l)
      | None \<Rightarrow> (n, l))"
  by (auto simp: lb_event_def kube_simps next_lb_ip_def lb_request_def Let_def split: option.splits)

lemma lb_run_requests:
  "lb_run env events (n, l) =
     (n + of_nat (length (lb_wanting events)),
      l @ map (\<lambda>i. lb_request (lb_wanting events ! i) (n + of_nat i)) [0..<length (lb_wanting events)])"
proof (induction events arbitrary: n l)
  case Nil
  show ?case by (simp add: lb_run_def lb_wanting_def)
next
  case (Cons e events)
  show ?case
  proof (cases "\<exists>svc. e = Some svc \<and> needs_ip svc")
    case True
    then obtain svc where e: "e = Some svc" "needs_ip svc" by blast
    then have w: "lb_wanting (Some svc # events) = svc # lb_wanting events" by (simp add: lb_wanting_def)
    have "[0..<length (lb_wanting (Some svc # events))] = 0 # map Suc [0..<length (lb_wanting events)]"
      by (simp add: w map_Suc_upt upt_conv_Cons del: upt_Suc)
    then show ?thesis
      using Cons.IH [of "n + 1" "l @ [lb_request svc n]"]
      by (simp add: lb_run_def lb_event_eq e w algebra_simps o_def)
  next
    case False
    then have "lb_wanting (e # events) = lb_wanting events" "lb_event env e (n, l) = (n, l)"
      by (auto simp: lb_wanting_def lb_event_eq split: option.split)
    then show ?thesis using Cons.IH [of n l] by (simp add: lb_run_def)
  qed
qed

lemma lb_ip_inj: "lb_ip m = lb_ip n \<longleftrightarrow> m = n"
  by (simp add: lb_ip_def word_unat_eq_iff)

lemma distinct_map_Some: "distinct (map Some xs) = distinct xs"
  by (simp add: distinct_map)

lemma octets_distinct:
  "distinct (map (\<lambda>i. lb_ip (n + of_nat i)) [0..<k]) \<longleftrightarrow> k \<le> 256"
proof
  assume "k \<le> 256"
  then have "inj_on (\<lambda>i. of_nat i :: u8) {0..<k}"
    by (auto simp: inj_on_def word_of_nat_eq_iff take_bit_nat_def)
  then show "distinct (map (\<lambda>i. lb_ip (n + of_nat i)) [0..<k])"
    by (auto simp: distinct_map inj_on_def lb_ip_inj)
next
  assume d: "distinct (map (\<lambda>i. lb_ip (n + of_nat i)) [0..<k])"
  show "k \<le> 256"
  proof (rule ccontr)
    assume "\<not> k \<le> 256"
    moreover have "(256 :: u8) = 0" by simp
    ultimately show False
      using nth_eq_iff_index_eq [OF d, of 256 0] by (simp add: \<open>(256 :: u8) = 0\<close>)
  qed
qed

text \<open>The address of a status patch.\<close>

fun assigned_ip :: "req \<Rightarrow> string option" where
  "assigned_ip (PatchStatus r sc n pp (Merge p)) =
     Option.bind (path_array p [''status'', ''loadBalancer'', ''ingress'']) (\<lambda>is.
       Option.bind (first is) (\<lambda>i. get_str i ''ip''))"
| "assigned_ip r = None"

lemma assigned_ip_request [simp]: "assigned_ip (lb_request svc n) = Some (lb_ip n)"
  by (simp add: lb_request_def lb_patch_def path_array_def get_str_def)

text \<open>
  C37.  From a fresh start, every service event that wants an address gets exactly one status
  patch, in order, with consecutive addresses starting at 10.254.0.1; the addresses handed out
  are pairwise different exactly as long as there are at most 256 of them.
\<close>

theorem lb_addresses_distinct_iff:
  "length (snd (lb_run env events (NEXT_OCTET, []))) = length (lb_wanting events) \<and>
   (distinct (map assigned_ip (snd (lb_run env events (NEXT_OCTET, [])))) \<longleftrightarrow>
     length (lb_wanting events) \<le> 256)"
proof -
  let ?k = "length (lb_wanting events)"
  have ips: "map assigned_ip (snd (lb_run env events (NEXT_OCTET, []))) =
      map Some (map (\<lambda>i. lb_ip (NEXT_OCTET + of_nat i)) [0..<?k])"
    by (simp add: lb_run_requests)
  then show ?thesis
    unfolding ips distinct_map_Some octets_distinct by (simp add: lb_run_requests)
qed

text \<open>
  An address sticks: once the status of a service holds the patch that was sent for it,
  the service no longer wants an address, so further events for it change nothing.
\<close>

lemma lb_assignment_settles:
  assumes "svc_status svc' = jget (lb_patch (lb_ip n)) ''status''"
  shows "\<not> needs_ip svc' \<and> lb_event env (Some svc') s = s"
proof -
  have "\<not> needs_ip svc'"
    by (simp add: needs_ip_def assms lb_patch_def path_array_def)
  then show ?thesis by (cases s) (simp add: lb_event_eq)
qed

end
