(* ===== verification/ImageStream.thy ===== *)
theory ImageStream
  imports Util
begin

text \<open>
  \<^verbatim>\<open>simulator/src/imagestream.rs\<close>: the tags of an ImageStream are copied from its
  specification to its status.
\<close>

section \<open>Definitions\<close>

definition spec_tags :: "dynobj \<Rightarrow> json list option" where
  "spec_tags is = path_array (do_data is) [''spec'', ''tags'']"

definition status_tag_matches :: "string \<Rightarrow> string \<Rightarrow> json \<Rightarrow> bool" where
  "status_tag_matches tag_name spec_image st \<longleftrightarrow>
     (let st_name = unwrap_or (get_str st ''tag'') [];
          st_image = unwrap_or (Option.bind (Option.bind (Option.bind (jget st ''items'') as_array) first)
            (\<lambda>item. get_str item ''dockerImageReference'')) []
      in st_name = tag_name \<and> st_image = spec_image)"

definition status_needs_update :: "dynobj \<Rightarrow> bool" where
  "status_needs_update is =
     (case spec_tags is of
        None \<Rightarrow> False
      | Some spec \<Rightarrow>
          if spec = [] then False
          else (case path_array (do_data is) [''status'', ''tags''] of
                  None \<Rightarrow> True
                | Some status \<Rightarrow>
                    if length spec \<noteq> length status then True
                    else list_ex (\<lambda>spec_tag.
                      let tag_name = unwrap_or (get_str spec_tag ''name'') [];
                          spec_image = unwrap_or (path_str spec_tag [''from'', ''name'']) []
                      in \<not> list_ex (status_tag_matches tag_name spec_image) status) spec))"

definition status_tag :: "string \<Rightarrow> json \<Rightarrow> json option" where
  "status_tag now tag =
     Option.bind (get_str tag ''name'') (\<lambda>tag_name.
     Option.bind (jget tag ''from'') (\<lambda>from.
     Option.bind (get_str from ''name'') (\<lambda>image_ref.
     Some (JObject [(''tag'', JString tag_name),
       (''items'', JArray [JObject [(''dockerImageReference'', JString image_ref),
          (''created'', JString now), (''generation'', JNumber (PosInt 1)),
          (''image'', JString [])]])]))))"

definition imagestream_patch :: "string \<Rightarrow> json list \<Rightarrow> json" where
  "imagestream_patch now spec =
     JObject [(''status'', JObject [(''dockerImageRepository'', JString []),
       (''tags'', JArray (filter_map (status_tag now) spec))])]"

definition reconcile_imagestream :: "api_server \<Rightarrow> string \<Rightarrow> dynobj \<Rightarrow> action kio" where
  "reconcile_imagestream env now is =
     (let ns = unwrap_or (om_namespace (do_meta is)) [];
          name = name_any (do_meta is)
      in if \<not> status_needs_update is then kreturn AwaitChange
         else (case spec_tags is of
                 None \<Rightarrow> kreturn AwaitChange
               | Some spec \<Rightarrow>
                   if spec = [] then kreturn AwaitChange
                   else kbind (api_patch_status env (ResDyn imagestream_ar) (InNs ns) name
                          (Some ''ocp-sim'') (Merge (imagestream_patch now spec)))
                          (\<lambda>_. kreturn AwaitChange)))"

definition imagestream_error_policy :: "dynobj \<Rightarrow> kube_error \<Rightarrow> action" where
  "imagestream_error_policy x e = Requeue 30"

definition imagestream_run :: "api_server \<Rightarrow> string \<Rightarrow> dynobj \<Rightarrow> req list \<Rightarrow> action \<times> req list" where
  "imagestream_run env now = deliver (reconcile_imagestream env now) imagestream_error_policy"

section \<open>Lemmas\<close>

definition tag_well_formed :: "json \<Rightarrow> bool" where
  "tag_well_formed tag \<longleftrightarrow> get_str tag ''name'' \<noteq> None \<and> path_str tag [''from'', ''name''] \<noteq> None"

lemma status_tag_None: "status_tag now tag = None \<longleftrightarrow> \<not> tag_well_formed tag"
  by (cases "get_str tag ''name''"; cases "jget tag ''from''")
     (auto simp: status_tag_def tag_well_formed_def path_str_def get_str_def split: Option.bind_splits)

lemma status_tag_matches_own:
  assumes "status_tag now tag = Some st"
  shows "status_tag_matches (unwrap_or (get_str tag ''name'') [])
    (unwrap_or (path_str tag [''from'', ''name'']) []) st"
  using assms
  by (auto simp: status_tag_def status_tag_matches_def path_str_def get_str_def bind_eq_Some_conv)

lemma length_filter_map: "length (filter_map f xs) = length xs \<longleftrightarrow> list_all (\<lambda>x. f x \<noteq> None) xs"
proof (induction xs)
  case (Cons x xs)
  have "length (filter_map f xs) \<le> length xs" by (simp add: filter_map_def)
  with Cons show ?case by (auto split: option.split)
qed simp

definition imagestream_requests :: "api_server \<times> string \<Rightarrow> dynobj \<Rightarrow> req list" where
  "imagestream_requests i x = snd (reconcile_imagestream (fst i) (snd i) x [])"

lemma imagestream_requests_eq:
  "imagestream_requests i x =
     (if status_needs_update x
      then [PatchStatus (ResDyn imagestream_ar) (InNs (unwrap_or (om_namespace (do_meta x)) []))
        (name_any (do_meta x)) (Some ''ocp-sim'')
        (Merge (imagestream_patch (snd i) (the (spec_tags x))))]
      else [])"
  by (auto simp: imagestream_requests_def reconcile_imagestream_def status_needs_update_def Let_def
      kube_simps split: sum.splits option.splits)

context merge_server
begin

lemma imagestream_pass:
  fixes i :: "api_server \<times> string"
  assumes "is_object (do_data x)" and "status_needs_update x"
  defines "x' \<equiv> apply_statuses merge (imagestream_requests i x) x"
  shows "spec_tags x' = spec_tags x"
    and "path_array (do_data x') [''status'', ''tags''] =
      Some (filter_map (status_tag (snd i)) (the (spec_tags x)))"
  using assms
  by (simp_all add: imagestream_requests_eq imagestream_patch_def jget_jset path_array_def
      spec_tags_def jget_merge)

lemma imagestream_settles_iff:
  fixes i :: "api_server \<times> string"
  assumes "is_object (do_data x)" and "status_needs_update x"
  shows "status_needs_update (apply_statuses merge (imagestream_requests i x) x) \<longleftrightarrow>
    \<not> list_all tag_well_formed (the (spec_tags x))"
proof -
  let ?x' = "apply_statuses merge (imagestream_requests i x) x"
  let ?st = "filter_map (status_tag (snd i)) (the (spec_tags x))"
  obtain spec where spec: "spec_tags x = Some spec" "spec \<noteq> []"
    using assms(2) by (auto simp: status_needs_update_def split: option.splits if_splits)
  have wf: "length ?st = length spec \<longleftrightarrow> list_all tag_well_formed spec"
    using spec by (simp add: length_filter_map status_tag_None)
  have found: "list_ex (status_tag_matches (unwrap_or (get_str t ''name'') [])
      (unwrap_or (path_str t [''from'', ''name'']) [])) ?st"
    if "t \<in> set spec" "tag_well_formed t" for t
    using that spec status_tag_None [of "snd i" t] status_tag_matches_own [of "snd i" t]
    by (fastforce simp: list_ex_iff set_filter_map)
  show ?thesis
    using imagestream_pass [OF assms, of i] spec wf found
    by (auto simp: status_needs_update_def list_ex_iff list_all_iff Let_def)
qed

end

lemma status_current_quiet: "\<not> status_needs_update x \<Longrightarrow> imagestream_requests i x = []"
  by (simp add: imagestream_requests_eq)

sublocale merge_server \<subseteq> imagestream_ctl: settling_controller imagestream_requests
    "apply_statuses merge" "\<lambda>i. True" "\<lambda>x. is_object (do_data x) \<and> list_all tag_well_formed (unwrap_or (spec_tags x) [])"
proof
  show "apply_statuses merge [] x = x" for x by simp
  show "imagestream_requests j (apply_statuses merge (imagestream_requests i x) x) = []"
    if "is_object (do_data x) \<and> list_all tag_well_formed (unwrap_or (spec_tags x) [])" for i j x
  proof (cases "status_needs_update x")
    case True
    then have "spec_tags x \<noteq> None" by (auto simp: status_needs_update_def split: option.splits)
    with True that show ?thesis
      by (auto intro!: status_current_quiet simp: imagestream_settles_iff)
  qed (simp add: status_current_quiet)
qed

context merge_server
begin

lemma imagestream_quiet:
  "is_object (do_data x) \<and> list_all tag_well_formed (unwrap_or (spec_tags x) []) \<Longrightarrow>
   imagestream_requests k (fold imagestream_ctl.pass js (imagestream_ctl.pass i x)) = []"
  by (rule imagestream_ctl.quiet_after_first) simp_all

end

section \<open>Properties\<close>

definition example_stream :: dynobj where
  "example_stream = \<lparr>do_meta = default_meta\<lparr>om_name := Some ''img'', om_namespace := Some ''d''\<rparr>,
     do_data = JObject [(''spec'', JObject [(''tags'', JArray [JObject [(''name'', JString ''v1''),
       (''from'', JObject [(''name'', JString ''reg/img:v1'')])]])])]\<rparr>"

definition example_broken_stream :: dynobj where
  "example_broken_stream = example_stream\<lparr>do_data := JObject [(''spec'', JObject [(''tags'',
     JArray [JObject [(''name'', JString ''v1'')]])])]\<rparr>"



text \<open>
  C39.  A tag without a name or an image keeps an ImageStream from ever converging: such a
  stream needs an update after its own update, so every status change triggers the next.
\<close>

theorem imagestream_malformed_tag_loops:
  assumes "merge_patch_law merge" and "is_object (do_data x)"
    and "t \<in> set (unwrap_or (spec_tags x) [])" and "\<not> tag_well_formed t"
    and "status_needs_update x"
  shows "imagestream_requests j (apply_statuses merge (imagestream_requests i x) x) \<noteq> []"
proof -
  have "\<not> list_all tag_well_formed (the (spec_tags x))"
    using assms(3,4) by (cases "spec_tags x") (auto simp: list_all_iff)
  then show ?thesis
    using merge_server.imagestream_settles_iff [OF merge_server.intro [OF assms(1)] assms(2,5), of i]
    by (simp add: imagestream_requests_eq [of j])
qed

theorem imagestream_malformed_tag_loops_witness:
  "imagestream_requests (\<lambda>l r. ROk, ''2'') (apply_statuses rfc_merge
     (imagestream_requests (\<lambda>l r. ROk, ''1'') example_broken_stream) example_broken_stream) \<noteq> []"
  by (rule imagestream_malformed_tag_loops [OF rfc_merge_law, of _ "JObject [(''name'', JString ''v1'')]"])
     (simp_all add: example_broken_stream_def example_stream_def spec_tags_def path_array_def
        tag_well_formed_def path_str_def get_str_def status_needs_update_def)

end
