(* ===== verification/JobSet.thy ===== *)
theory JobSet
  imports Util
begin

text \<open>
  \<^verbatim>\<open>simulator/src/jobset.rs\<close>: a JobSet creates its child Jobs, counts the finished ones and
  writes its state.  The counters are \<^verbatim>\<open>u32\<close> and wrap, as in the release build.  The typed
  deserialisation of the templates belongs to the API library and is a pair of parameters.
\<close>

section \<open>Definitions\<close>

record job_lib =
  parse_job_spec :: "json \<Rightarrow> job_spec option"
  parse_pod_template :: "json \<Rightarrow> pod_template_spec option"

record tallies =
  tl_total :: u32
  tl_succeeded :: u32
  tl_failed :: u32

definition jobset_job_name :: "string \<Rightarrow> string \<Rightarrow> nat \<Rightarrow> string" where
  "jobset_job_name name rj_name idx = name @ ''-'' @ rj_name @ ''-'' @ show_nat idx"

definition jobset_child_spec :: "job_spec option \<Rightarrow> pod_template_spec option \<Rightarrow> job_spec" where
  "jobset_child_spec job_template pod_template =
     (case job_template of
        Some jt \<Rightarrow>
          if pt_spec (js_template jt) = None
          then (case pod_template of Some pt \<Rightarrow> jt\<lparr>js_template := pt\<rparr> | None \<Rightarrow> jt)
          else jt
      | None \<Rightarrow>
          \<lparr>js_template = unwrap_or pod_template \<lparr>pt_labels = None, pt_spec = None\<rparr>,
           js_other = JObject []\<rparr>)"

definition jobset_child ::
    "string \<Rightarrow> string \<Rightarrow> string \<Rightarrow> string \<Rightarrow> nat \<Rightarrow> job_spec \<Rightarrow> job" where
  "jobset_child name ns uid rj_name idx spec =
     \<lparr>job_meta = default_meta\<lparr>om_name := Some (jobset_job_name name rj_name idx),
        om_namespace := Some ns,
        om_labels := Some [(''jobset.x-k8s.io/jobset-name'', name),
          (''jobset.x-k8s.io/replicatedjob-name'', rj_name),
          (''jobset.x-k8s.io/job-index'', show_nat idx)],
        om_owner_references := Some [\<lparr>or_api_version = ''jobset.x-k8s.io/v1alpha2'',
          or_kind = ''JobSet'', or_name = name, or_uid = uid, or_controller = Some True,
          or_block_owner_deletion = Some True\<rparr>]\<rparr>,
      job_spec_of = Some spec, job_status_of = None\<rparr>"

definition jobset_count :: "job \<Rightarrow> tallies \<Rightarrow> tallies" where
  "jobset_count existing t =
     (let status = job_status_of existing
      in if sint (unwrap_or (Option.bind status jst_succeeded) 0) > 0
         then t\<lparr>tl_succeeded := tl_succeeded t + 1\<rparr>
         else if sint (unwrap_or (Option.bind status jst_failed) 0) > 0
         then t\<lparr>tl_failed := tl_failed t + 1\<rparr>
         else t)"

definition jobset_index ::
    "api_server \<Rightarrow> string \<Rightarrow> string \<Rightarrow> string \<Rightarrow> string \<Rightarrow> job_spec \<Rightarrow> nat \<Rightarrow> tallies \<Rightarrow> tallies kio" where
  "jobset_index env name ns uid rj_name spec idx t =
     (let job_name = jobset_job_name name rj_name idx;
          t = t\<lparr>tl_total := tl_total t + 1\<rparr>
      in kbind (api_get_opt env as_job ResJob (InNs ns) job_name) (\<lambda>found.
           case found of
             Some existing \<Rightarrow> kreturn (jobset_count existing t)
           | None \<Rightarrow>
               ktry (api_create env ResJob (InNs ns) (KJob (jobset_child name ns uid rj_name idx spec)))
                 (\<lambda>r. case r of
                        Inr _ \<Rightarrow> kreturn t
                      | Inl e \<Rightarrow> if e = Api 409 then kreturn t else kfail e)))"

definition rj_name_of :: "json \<Rightarrow> string" where
  "rj_name_of rj = unwrap_or (get_str rj ''name'') ''worker''"

definition rj_replicas :: "json \<Rightarrow> u32" where
  "rj_replicas rj = ucast (unwrap_or (Option.bind (jget rj ''replicas'') as_u64) 1)"

definition jobset_replicated ::
    "job_lib \<Rightarrow> api_server \<Rightarrow> string \<Rightarrow> string \<Rightarrow> string \<Rightarrow> json \<Rightarrow> tallies \<Rightarrow> tallies kio" where
  "jobset_replicated lib env name ns uid rj t =
     (let job_template = Option.bind (jpath rj [''template'', ''spec'']) (parse_job_spec lib);
          pod_template = Option.bind (jpath rj [''template'', ''spec'', ''template'']) (parse_pod_template lib)
      in kfold (jobset_index env name ns uid (rj_name_of rj) (jobset_child_spec job_template pod_template))
           [0..<unat (rj_replicas rj)] t)"

definition jobset_condition :: "string \<Rightarrow> string \<Rightarrow> string \<Rightarrow> string \<Rightarrow> json" where
  "jobset_condition type now reason message =
     JArray [JObject [(''type'', JString type), (''status'', JString ''True''),
       (''lastTransitionTime'', JString now), (''reason'', JString reason),
       (''message'', JString message)]]"

definition jobset_terminal_patch :: "string \<Rightarrow> tallies \<Rightarrow> json" where
  "jobset_terminal_patch now t =
     (let state = (if tl_failed t > 0 then ''Failed'' else ''Completed'')
      in JObject [(''status'', JObject [(''terminalState'', JString state),
           (''conditions'', jobset_condition state now state
              (show_nat (unat (tl_succeeded t)) @ ''/'' @ show_nat (unat (tl_total t)) @
               '' jobs succeeded''))])])"

definition jobset_running_patch :: "string \<Rightarrow> tallies \<Rightarrow> json" where
  "jobset_running_patch now t =
     JObject [(''status'', JObject [(''conditions'', jobset_condition ''Running'' now ''JobsRunning''
       (show_nat (unat (tl_succeeded t)) @ ''/'' @ show_nat (unat (tl_total t)) @
        '' jobs completed''))])]"

definition jobset_finish :: "api_server \<Rightarrow> string \<Rightarrow> string \<Rightarrow> string \<Rightarrow> tallies \<Rightarrow> action kio" where
  "jobset_finish env now name ns t =
     (let patch = (\<lambda>p. api_patch_status env (ResDyn jobset_ar) (InNs ns) name (Some ''ocp-sim'') (Merge p))
      in if tl_succeeded t + tl_failed t = tl_total t \<and> tl_total t > 0
         then kbind (patch (jobset_terminal_patch now t)) (\<lambda>_. kreturn AwaitChange)
         else if tl_total t > 0
         then kbind (patch (jobset_running_patch now t)) (\<lambda>_. kreturn (Requeue 5))
         else kreturn (Requeue 5))"

definition reconcile_jobset :: "job_lib \<Rightarrow> api_server \<Rightarrow> string \<Rightarrow> dynobj \<Rightarrow> action kio" where
  "reconcile_jobset lib env now js =
     (let name = name_any (do_meta js);
          ns = unwrap_or (om_namespace (do_meta js)) ''default'';
          suspended = unwrap_or (Option.bind (jpath (do_data js) [''spec'', ''suspend'']) as_bool) False
      in if suspended then kreturn AwaitChange
         else if path_str (do_data js) [''status'', ''terminalState''] \<noteq> None then kreturn AwaitChange
         else (case path_array (do_data js) [''spec'', ''replicatedJobs''] of
                 None \<Rightarrow> kreturn AwaitChange
               | Some replicated_jobs \<Rightarrow>
                   kbind (kfold (jobset_replicated lib env name ns (unwrap_or (om_uid (do_meta js)) []))
                            replicated_jobs \<lparr>tl_total = 0, tl_succeeded = 0, tl_failed = 0\<rparr>)
                     (jobset_finish env now name ns)))"

definition jobset_error_policy :: "dynobj \<Rightarrow> kube_error \<Rightarrow> action" where
  "jobset_error_policy x e = Requeue 10"

definition jobset_run :: "job_lib \<Rightarrow> api_server \<Rightarrow> string \<Rightarrow> dynobj \<Rightarrow> req list \<Rightarrow> action \<times> req list" where
  "jobset_run lib env now = deliver (reconcile_jobset lib env now) jobset_error_policy"

section \<open>Specification\<close>

text \<open>The children of a JobSet and what is known of each.\<close>

definition jobset_children :: "dynobj \<Rightarrow> json list \<Rightarrow> string list" where
  "jobset_children js rjs =
     concat (map (\<lambda>rj. map (jobset_job_name (name_any (do_meta js)) (rj_name_of rj))
       [0..<unat (rj_replicas rj)]) rjs)"

definition job_succeeded :: "job option \<Rightarrow> bool" where
  "job_succeeded j \<longleftrightarrow>
     (case Option.bind (Option.bind j job_status_of) jst_succeeded of Some n \<Rightarrow> sint n > 0 | None \<Rightarrow> False)"

definition job_failed :: "job option \<Rightarrow> bool" where
  "job_failed j \<longleftrightarrow> \<not> job_succeeded j \<and>
     (case Option.bind (Option.bind j job_status_of) jst_failed of Some n \<Rightarrow> sint n > 0 | None \<Rightarrow> False)"

text \<open>
  A server that holds the Jobs \<open>store\<close> of a namespace for the duration of a pass and accepts
  every create and patch.
\<close>

definition serves_jobs :: "api_server \<Rightarrow> string \<Rightarrow> (string \<rightharpoonup> job) \<Rightarrow> bool" where
  "serves_jobs env ns store \<longleftrightarrow>
     (\<forall>l n. env l (GetOpt ResJob (InNs ns) n) = ROpt (map_option KJob (store n))) \<and>
     (\<forall>l j. env l (Create ResJob (InNs ns) j) = ROk) \<and>
     (\<forall>l r sc n pp p. env l (PatchStatus r sc n pp p) = ROk)"

definition jobset_tally :: "(string \<rightharpoonup> job) \<Rightarrow> string list \<Rightarrow> tallies" where
  "jobset_tally store names =
     \<lparr>tl_total = of_nat (length names),
      tl_succeeded = of_nat (length (filter (\<lambda>n. job_succeeded (store n)) names)),
      tl_failed = of_nat (length (filter (\<lambda>n. job_failed (store n)) names))\<rparr>"

fun created_job :: "req \<Rightarrow> string option" where
  "created_job (Create ResJob sc (KJob j)) = om_name (job_meta j)"
| "created_job r = None"

definition created_jobs :: "req list \<Rightarrow> string list" where
  "created_jobs rs = filter_map created_job rs"

section \<open>Lemmas\<close>

lemma created_jobs_append [simp]: "created_jobs (a @ b) = created_jobs a @ created_jobs b"
  by (simp add: created_jobs_def filter_map_def)

lemma created_jobs_concat: "created_jobs (concat xss) = concat (map created_jobs xss)"
  by (induction xss) (simp_all, simp add: created_jobs_def)

lemma concat_map_if: "concat (map (\<lambda>x. if P x then [g x] else []) xs) = map g (filter P xs)"
  by (induction xs) auto

lemma jobset_count_eq:
  "jobset_count j t = t\<lparr>tl_succeeded := tl_succeeded t + (if job_succeeded (Some j) then 1 else 0),
     tl_failed := tl_failed t + (if job_failed (Some j) then 1 else 0)\<rparr>"
  by (auto simp: jobset_count_def job_succeeded_def job_failed_def Let_def split: option.splits
      Option.bind_splits)

definition add_tally :: "job option \<Rightarrow> tallies \<Rightarrow> tallies" where
  "add_tally j t =
     \<lparr>tl_total = tl_total t + 1,
      tl_succeeded = tl_succeeded t + (if job_succeeded j then 1 else 0),
      tl_failed = tl_failed t + (if job_failed j then 1 else 0)\<rparr>"

lemma fold_add_tally:
  "fold (\<lambda>n. add_tally (store n)) names t =
     \<lparr>tl_total = tl_total t + tl_total (jobset_tally store names),
      tl_succeeded = tl_succeeded t + tl_succeeded (jobset_tally store names),
      tl_failed = tl_failed t + tl_failed (jobset_tally store names)\<rparr>"
  by (induction names arbitrary: t) (auto simp: jobset_tally_def add_tally_def)

lemma jobset_index_run:
  assumes "serves_jobs env ns store"
  shows "jobset_index env name ns uid rj spec idx t l =
    (Inr (add_tally (store (jobset_job_name name rj idx)) t),
     l @ GetOpt ResJob (InNs ns) (jobset_job_name name rj idx) #
       (if store (jobset_job_name name rj idx) = None
        then [Create ResJob (InNs ns) (KJob (jobset_child name ns uid rj idx spec))] else []))"
proof (cases "store (jobset_job_name name rj idx)")
  case None
  then show ?thesis using assms
    by (simp add: jobset_index_def kube_simps serves_jobs_def Let_def add_tally_def
        job_succeeded_def job_failed_def)
next
  case (Some j)
  then show ?thesis using assms
    by (simp add: jobset_index_def kube_simps serves_jobs_def Let_def add_tally_def jobset_count_eq)
qed

lemma jobset_replicated_run:
  assumes "serves_jobs env ns store"
  shows "\<exists>rs. \<forall>t l. jobset_replicated lib env name ns uid rj t l =
      (Inr (fold (\<lambda>n. add_tally (store n)) (map (jobset_job_name name (rj_name_of rj))
         [0..<unat (rj_replicas rj)]) t), l @ rs) \<and>
    created_jobs rs = filter (\<lambda>n. store n = None)
      (map (jobset_job_name name (rj_name_of rj)) [0..<unat (rj_replicas rj)])"
proof -
  let ?name = "jobset_job_name name (rj_name_of rj)"
  let ?spec = "jobset_child_spec (Option.bind (jpath rj [''template'', ''spec'']) (parse_job_spec lib))
    (Option.bind (jpath rj [''template'', ''spec'', ''template'']) (parse_pod_template lib))"
  let ?r = "\<lambda>i. GetOpt ResJob (InNs ns) (?name i) # (if store (?name i) = None
    then [Create ResJob (InNs ns) (KJob (jobset_child name ns uid (rj_name_of rj) i ?spec))] else [])"
  let ?rs = "concat (map ?r [0..<unat (rj_replicas rj)])"
  have run: "jobset_replicated lib env name ns uid rj t l =
      (Inr (fold (\<lambda>i. add_tally (store (?name i))) [0..<unat (rj_replicas rj)] t), l @ ?rs)" for t l
    unfolding jobset_replicated_def Let_def
    by (rule kfold_run) (rule jobset_index_run [OF assms])
  have "created_jobs (?r i) = (if store (?name i) = None then [?name i] else [])" for i
    by (simp add: created_jobs_def jobset_child_def)
  then have "created_jobs ?rs = filter (\<lambda>n. store n = None) (map ?name [0..<unat (rj_replicas rj)])"
    by (simp add: created_jobs_concat o_def concat_map_if filter_map cong: if_cong)
  with run show ?thesis by (intro exI [of _ ?rs]) (simp add: fold_map o_def)
qed

lemma jobset_loop_run:
  assumes "serves_jobs env ns store"
  shows "\<exists>rs. kfold (jobset_replicated lib env (name_any (do_meta js)) ns uid) rjs t l =
      (Inr (fold (\<lambda>n. add_tally (store n)) (jobset_children js rjs) t), l @ rs) \<and>
    created_jobs rs = filter (\<lambda>n. store n = None) (jobset_children js rjs)"
proof -
  let ?names = "\<lambda>rj. map (jobset_job_name (name_any (do_meta js)) (rj_name_of rj)) [0..<unat (rj_replicas rj)]"
  obtain r where r: "\<And>rj t l. jobset_replicated lib env (name_any (do_meta js)) ns uid rj t l =
      (Inr (fold (\<lambda>n. add_tally (store n)) (?names rj) t), l @ r rj)"
    "\<And>rj. created_jobs (r rj) = filter (\<lambda>n. store n = None) (?names rj)"
    using jobset_replicated_run [OF assms, of lib "name_any (do_meta js)" uid] by metis
  have "kfold (jobset_replicated lib env (name_any (do_meta js)) ns uid) rjs t l =
      (Inr (fold (\<lambda>rj. fold (\<lambda>n. add_tally (store n)) (?names rj)) rjs t), l @ concat (map r rjs))"
    by (rule kfold_run) (rule r(1))
  moreover have "fold (\<lambda>rj. fold g (?names rj)) rjs t = fold g (concat (map ?names rjs)) t"
    for g :: "string \<Rightarrow> tallies \<Rightarrow> tallies" and t
    by (induction rjs arbitrary: t) auto
  moreover have "created_jobs (concat (map r rjs)) = filter (\<lambda>n. store n = None) (jobset_children js rjs)"
    by (simp add: created_jobs_concat o_def r(2) jobset_children_def filter_concat)
  ultimately show ?thesis by (auto simp: jobset_children_def)
qed

lemma length_filter_all: "length (filter P xs) = length xs \<longleftrightarrow> (\<forall>x \<in> set xs. P x)"
  using length_filter_less [of _ xs P] by (auto dest: less_imp_neq)

lemma counts_fill:
  assumes "\<And>x. x \<in> set xs \<Longrightarrow> \<not> (P x \<and> Q x)"
  shows "length (filter P xs) + length (filter Q xs) \<le> length xs"
    and "length (filter P xs) + length (filter Q xs) = length xs \<longleftrightarrow> (\<forall>x \<in> set xs. P x \<or> Q x)"
proof -
  have "length (filter P xs) + length (filter Q xs) = length (filter (\<lambda>x. P x \<or> Q x) xs)"
    using assms by (induction xs) auto
  then show "length (filter P xs) + length (filter Q xs) \<le> length xs"
    "length (filter P xs) + length (filter Q xs) = length xs \<longleftrightarrow> (\<forall>x \<in> set xs. P x \<or> Q x)"
    by (simp_all add: length_filter_all)
qed

lemma job_failed_not_succeeded: "job_failed j \<Longrightarrow> \<not> job_succeeded j"
  by (simp add: job_failed_def)

definition job_finished :: "job option \<Rightarrow> bool" where
  "job_finished j \<longleftrightarrow> job_succeeded j \<or> job_failed j"

lemma jobset_tally_verdict:
  assumes "length names < 2 ^ 32"
  shows "tl_succeeded (jobset_tally store names) + tl_failed (jobset_tally store names) =
      tl_total (jobset_tally store names) \<longleftrightarrow> (\<forall>n \<in> set names. job_finished (store n))"
    and "tl_total (jobset_tally store names) > 0 \<longleftrightarrow> names \<noteq> []"
    and "tl_failed (jobset_tally store names) > 0 \<longleftrightarrow> (\<exists>n \<in> set names. job_failed (store n))"
proof -
  let ?s = "length (filter (\<lambda>n. job_succeeded (store n)) names)"
  let ?f = "length (filter (\<lambda>n. job_failed (store n)) names)"
  note fill = counts_fill [of names "\<lambda>n. job_succeeded (store n)" "\<lambda>n. job_failed (store n)"]
  have le: "?s + ?f \<le> length names" using fill(1) job_failed_not_succeeded by blast
  have eq: "(of_nat a :: u32) = of_nat b \<longleftrightarrow> a = b" if "a < 2 ^ 32" "b < 2 ^ 32" for a b
    using that by (simp add: word_of_nat_eq_iff take_bit_nat_def)
  have "tl_succeeded (jobset_tally store names) + tl_failed (jobset_tally store names) =
      tl_total (jobset_tally store names) \<longleftrightarrow> (of_nat (?s + ?f) :: u32) = of_nat (length names)"
    by (simp add: jobset_tally_def)
  also have "\<dots> \<longleftrightarrow> ?s + ?f = length names" using le assms by (intro eq) auto
  also have "\<dots> \<longleftrightarrow> (\<forall>n \<in> set names. job_finished (store n))"
    using fill(2) job_failed_not_succeeded by (auto simp: job_finished_def)
  finally show "tl_succeeded (jobset_tally store names) + tl_failed (jobset_tally store names) =
      tl_total (jobset_tally store names) \<longleftrightarrow> (\<forall>n \<in> set names. job_finished (store n))" .
  show "tl_total (jobset_tally store names) > 0 \<longleftrightarrow> names \<noteq> []"
    using eq [of "length names" 0] assms by (simp add: jobset_tally_def word_neq_0_conv [symmetric])
  show "tl_failed (jobset_tally store names) > 0 \<longleftrightarrow> (\<exists>n \<in> set names. job_failed (store n))"
    using eq [of ?f 0] le assms
    by (simp add: jobset_tally_def word_neq_0_conv [symmetric] filter_empty_conv)
qed

definition jobset_active :: "dynobj \<Rightarrow> json list \<Rightarrow> bool" where
  "jobset_active js rjs \<longleftrightarrow>
     \<not> unwrap_or (Option.bind (jpath (do_data js) [''spec'', ''suspend'']) as_bool) False \<and>
     path_str (do_data js) [''status'', ''terminalState''] = None \<and>
     path_array (do_data js) [''spec'', ''replicatedJobs''] = Some rjs"

definition jobset_verdict :: "(string \<rightharpoonup> job) \<Rightarrow> string list \<Rightarrow> string option" where
  "jobset_verdict store names =
     (if \<forall>n \<in> set names. job_finished (store n)
      then Some (if \<exists>n \<in> set names. job_failed (store n) then ''Failed'' else ''Completed'')
      else None)"

lemma jobset_finish_run:
  assumes "serves_jobs env ns store" and "names \<noteq> []" and "length names < 2 ^ 32"
  shows "\<exists>p. jobset_finish env now name ns (jobset_tally store names) l =
      (Inr (if jobset_verdict store names = None then Requeue 5 else AwaitChange),
       l @ [PatchStatus (ResDyn jobset_ar) (InNs ns) name (Some ''ocp-sim'') (Merge p)]) \<and>
    path_str p [''status'', ''terminalState''] = jobset_verdict store names"
  using assms
  by (auto simp: jobset_finish_def Let_def jobset_tally_verdict kube_simps serves_jobs_def
      jobset_verdict_def jobset_terminal_patch_def jobset_running_patch_def path_str_def)

lemma reconcile_jobset_run:
  fixes js :: dynobj
  defines "name \<equiv> name_any (do_meta js)" and "ns \<equiv> unwrap_or (om_namespace (do_meta js)) ''default''"
  assumes "jobset_active js rjs" and serves: "serves_jobs env ns store"
    and nonempty: "jobset_children js rjs \<noteq> []" and few: "length (jobset_children js rjs) < 2 ^ 32"
  shows "\<exists>rs p. reconcile_jobset lib env now js l =
      (Inr (if jobset_verdict store (jobset_children js rjs) = None then Requeue 5 else AwaitChange),
       l @ rs @ [PatchStatus (ResDyn jobset_ar) (InNs ns) name (Some ''ocp-sim'') (Merge p)]) \<and>
    created_jobs rs = filter (\<lambda>n. store n = None) (jobset_children js rjs) \<and>
    path_str p [''status'', ''terminalState''] = jobset_verdict store (jobset_children js rjs)"
proof -
  let ?t0 = "\<lparr>tl_total = 0, tl_succeeded = 0, tl_failed = 0\<rparr> :: tallies"
  let ?uid = "unwrap_or (om_uid (do_meta js)) []"
  obtain rs where loop: "kfold (jobset_replicated lib env name ns ?uid) rjs ?t0 l =
      (Inr (fold (\<lambda>n. add_tally (store n)) (jobset_children js rjs) ?t0), l @ rs)"
    and created: "created_jobs rs = filter (\<lambda>n. store n = None) (jobset_children js rjs)"
    using jobset_loop_run [OF serves] unfolding name_def by blast
  have tally: "fold (\<lambda>n. add_tally (store n)) (jobset_children js rjs) ?t0 =
      jobset_tally store (jobset_children js rjs)"
    unfolding fold_add_tally by (simp add: jobset_tally_def)
  obtain p where fin: "jobset_finish env now name ns (jobset_tally store (jobset_children js rjs)) (l @ rs) =
      (Inr (if jobset_verdict store (jobset_children js rjs) = None then Requeue 5 else AwaitChange),
       (l @ rs) @ [PatchStatus (ResDyn jobset_ar) (InNs ns) name (Some ''ocp-sim'') (Merge p)])"
    and state: "path_str p [''status'', ''terminalState''] = jobset_verdict store (jobset_children js rjs)"
    using jobset_finish_run [OF serves nonempty few] by blast
  have "reconcile_jobset lib env now js l =
      kbind (kfold (jobset_replicated lib env name ns ?uid) rjs ?t0) (jobset_finish env now name ns) l"
    using assms(3) by (simp add: reconcile_jobset_def jobset_active_def name_def ns_def Let_def)
  with loop tally fin created state show ?thesis
    by (intro exI [of _ rs] exI [of _ p]) (simp add: kbind_def)
qed

lemma terminal_quiet:
  "path_str (do_data js) [''status'', ''terminalState''] \<noteq> None \<Longrightarrow>
   reconcile_jobset lib env now js l = (Inr AwaitChange, l)"
  by (auto simp: reconcile_jobset_def Let_def kreturn_def)

section \<open>Properties\<close>

definition example_jobset :: dynobj where
  "example_jobset = \<lparr>do_meta = default_meta\<lparr>om_name := Some ''train'', om_namespace := Some ''ml''\<rparr>,
     do_data = JObject [(''spec'', JObject [(''replicatedJobs'',
       JArray [JObject [(''name'', JString ''w''), (''replicas'', JNumber (PosInt 2))]])])]\<rparr>"

definition example_rjs :: "json list" where
  "example_rjs = [JObject [(''name'', JString ''w''), (''replicas'', JNumber (PosInt 2))]]"

definition example_jobs :: api_server where
  "example_jobs l r = (case r of GetOpt _ _ _ \<Rightarrow> ROpt None | _ \<Rightarrow> ROk)"

lemma example_jobset_facts:
  "jobset_active example_jobset example_rjs"
  "jobset_children example_jobset example_rjs = [''train-w-0'', ''train-w-1'']"
  "serves_jobs example_jobs (unwrap_or (om_namespace (do_meta example_jobset)) ''default'') Map.empty"
  by (simp_all add: jobset_active_def example_jobset_def example_rjs_def path_str_def path_array_def
      jobset_children_def rj_name_of_def rj_replicas_def get_str_def jobset_job_name_def name_any_def
      upt_rec show_nat.simps serves_jobs_def example_jobs_def)

text \<open>
  C30.  One pass over an active JobSet creates exactly the children that do not exist, and
  writes exactly one status: a terminal state when every child has finished (Failed when one
  of them failed, Completed otherwise), a running condition when not; it asks to be run again
  in five seconds exactly in the second case.  The wrapping counters are exact up to 2^32 children.
\<close>

theorem jobset_pass_correct:
  assumes "jobset_active js rjs"
    and "serves_jobs env (unwrap_or (om_namespace (do_meta js)) ''default'') store"
    and "jobset_children js rjs \<noteq> []" and "length (jobset_children js rjs) < 2 ^ 32"
  shows "\<exists>rs p. reconcile_jobset lib env now js l =
      (Inr (if jobset_verdict store (jobset_children js rjs) = None then Requeue 5 else AwaitChange),
       l @ rs @ [PatchStatus (ResDyn jobset_ar) (InNs (unwrap_or (om_namespace (do_meta js)) ''default''))
         (name_any (do_meta js)) (Some ''ocp-sim'') (Merge p)]) \<and>
    created_jobs rs = filter (\<lambda>n. store n = None) (jobset_children js rjs) \<and>
    path_str p [''status'', ''terminalState''] = jobset_verdict store (jobset_children js rjs)"
  using assms by (rule reconcile_jobset_run)

theorem jobset_pass_correct_witness:
  "\<exists>rs p. reconcile_jobset \<lparr>parse_job_spec = \<lambda>j. None, parse_pod_template = \<lambda>j. None\<rparr> example_jobs ''now''
       example_jobset [] = (Inr (Requeue 5), rs @ [p]) \<and> created_jobs rs = [''train-w-0'', ''train-w-1'']"
  using jobset_pass_correct [OF example_jobset_facts(1,3), of
      "\<lparr>parse_job_spec = \<lambda>j. None, parse_pod_template = \<lambda>j. None\<rparr>" "''now''" "[]"]
  by (auto simp: example_jobset_facts(2) jobset_verdict_def job_finished_def job_succeeded_def job_failed_def)

text \<open>
  The name of a child determines which replicated job it belongs to and its index, so two
  children of a JobSet never share a name unless two replicated jobs do.
\<close>

lemma jobset_child_names_distinct:
  "jobset_job_name name rj idx = jobset_job_name name rj' idx' \<longleftrightarrow> rj = rj' \<and> idx = idx'"
proof -
  have "CHR ''-'' \<notin> set (show_nat n)" for n
    by (rule show_nat_no_sep) (simp add: is_digit_def in_range_def)
  then show ?thesis
    using last_separator_unique [of "CHR ''-''" "show_nat idx" "show_nat idx'" rj rj']
    by (simp add: jobset_job_name_def)
qed

text \<open>
  A JobSet is left alone once its terminal state is written: whatever the server does
  with later requests, a pass over the patched object makes none.
\<close>

lemma jobset_terminal_settles:
  assumes "merge_patch_law merge" and "is_object (do_data js)"
  shows "reconcile_jobset lib env now (apply_status merge (PatchStatus r sc n pp
      (Merge (jobset_terminal_patch now' t))) js) l = (Inr AwaitChange, l)"
proof (rule terminal_quiet)
  note jget = merge_server.jget_merge [OF merge_server.intro [OF assms(1)]]
    merge_server.merge_leaf [OF merge_server.intro [OF assms(1)]]
  show "path_str (do_data (apply_status merge (PatchStatus r sc n pp
      (Merge (jobset_terminal_patch now' t))) js)) [''status'', ''terminalState''] \<noteq> None"
    using assms(2) by (simp add: jobset_terminal_patch_def Let_def jget jget_jset path_str_def)
qed

end
