(* ===== verification/ServiceCA.thy ===== *)
theory ServiceCA
  imports Util Http
begin

text \<open>
  \<^verbatim>\<open>simulator/src/service_ca.rs\<close>: serving certificates for annotated Services, and injection of
  the CA certificate into ConfigMaps and webhook configurations.
\<close>

section \<open>Definitions\<close>

definition SERVING_CERT_ANNOTATION :: string where
  "SERVING_CERT_ANNOTATION = ''service.beta.openshift.io/serving-cert-secret-name''"

definition INJECT_CABUNDLE_ANNOTATION :: string where
  "INJECT_CABUNDLE_ANNOTATION = ''service.beta.openshift.io/inject-cabundle''"

definition ca_bundle_base64 :: "weblib \<Rightarrow> ca_state \<Rightarrow> string" where
  "ca_bundle_base64 web ca = b64_encode web (ca_cert_pem ca)"

definition serving_secret ::
    "string \<Rightarrow> string \<Rightarrow> string \<Rightarrow> string \<Rightarrow> string \<Rightarrow> string \<Rightarrow> string \<Rightarrow> secret" where
  "serving_secret secret_name ns svc_name uid fingerprint cert_pem key_pem =
     \<lparr>sec_meta = default_meta\<lparr>om_name := Some secret_name, om_namespace := Some ns,
        om_annotations := Some [(''ocp-sim/ca-fingerprint'', fingerprint)],
        om_owner_references := Some [\<lparr>or_api_version = ''v1'', or_kind = ''Service'',
          or_name = svc_name, or_uid = uid, or_controller = Some True,
          or_block_owner_deletion = Some True\<rparr>]\<rparr>,
      sec_type = Some ''kubernetes.io/tls'',
      sec_data = Some [(''tls.crt'', cert_pem), (''tls.key'', key_pem)],
      sec_string_data = None\<rparr>"

definition secret_fingerprint :: "secret \<Rightarrow> string option" where
  "secret_fingerprint s = Option.bind (om_annotations (sec_meta s)) (\<lambda>a. map_of a ''ocp-sim/ca-fingerprint'')"

definition create_serving_cert ::
    "api_server \<Rightarrow> weblib \<Rightarrow> cert_lib \<Rightarrow> string option \<Rightarrow> ca_state \<Rightarrow> service \<Rightarrow> string \<Rightarrow> action kio" where
  "create_serving_cert env web lib key ca svc secret_name =
     (let ns = unwrap_or (om_namespace (svc_meta svc)) [];
          svc_name = name_any (svc_meta svc);
          cn = svc_name @ ''.'' @ ns @ ''.svc'';
          fqdn = cn @ ''.cluster.local''
      in case sign_cert lib key ca [cn, fqdn] of
           None \<Rightarrow> kreturn (Requeue 30)
         | Some (cert_pem, key_pem) \<Rightarrow>
             kbind (api_create env ResSecret (InNs ns) (KSecret (serving_secret secret_name ns svc_name
                  (unwrap_or (om_uid (svc_meta svc)) []) (ca_bundle_base64 web ca) cert_pem key_pem)))
               (\<lambda>_. kreturn AwaitChange))"

definition reconcile_service ::
    "api_server \<Rightarrow> weblib \<Rightarrow> cert_lib \<Rightarrow> string option \<Rightarrow> ca_state \<Rightarrow> service \<Rightarrow> action kio" where
  "reconcile_service env web lib key ca svc =
     (case Option.bind (om_annotations (svc_meta svc)) (\<lambda>a. map_of a SERVING_CERT_ANNOTATION) of
        None \<Rightarrow> kreturn AwaitChange
      | Some secret_name \<Rightarrow>
          (let ns = unwrap_or (om_namespace (svc_meta svc)) [];
               ca_fingerprint = ca_bundle_base64 web ca
           in kbind (api_get_opt env as_secret ResSecret (InNs ns) secret_name) (\<lambda>found.
                case found of
                  Some existing \<Rightarrow>
                    if secret_fingerprint existing = Some ca_fingerprint then kreturn AwaitChange
                    else kbind (api_delete env ResSecret (InNs ns) secret_name)
                           (\<lambda>_. create_serving_cert env web lib key ca svc secret_name)
                | None \<Rightarrow> create_serving_cert env web lib key ca svc secret_name)))"

definition error_policy_svc :: "service \<Rightarrow> kube_error \<Rightarrow> action" where
  "error_policy_svc x e = Requeue 10"

definition run_service_controller ::
    "api_server \<Rightarrow> weblib \<Rightarrow> cert_lib \<Rightarrow> string option \<Rightarrow> ca_state \<Rightarrow> service \<Rightarrow> req list \<Rightarrow> action \<times> req list" where
  "run_service_controller env web lib key ca = deliver (reconcile_service env web lib key ca) error_policy_svc"

text \<open>ConfigMaps.\<close>

definition is_true :: "str_map option \<Rightarrow> string \<Rightarrow> bool" where
  "is_true m k = (case Option.bind m (\<lambda>a. map_of a k) of Some v \<Rightarrow> v = ''true'' | None \<Rightarrow> False)"

definition ca_target_key :: "config_map \<Rightarrow> string option" where
  "ca_target_key cm =
     (let inject_serving = is_true (om_annotations (cm_meta cm)) INJECT_CABUNDLE_ANNOTATION;
          inject_trusted = is_true (om_labels (cm_meta cm)) ''config.openshift.io/inject-trusted-cabundle''
      in if \<not> inject_serving \<and> \<not> inject_trusted then None
         else if inject_trusted then Some ''odh-ca-bundle.crt'' else Some ''service-ca.crt'')"

definition has_ca_key :: "config_map \<Rightarrow> string \<Rightarrow> bool" where
  "has_ca_key cm target_key =
     (case Option.bind (cm_data cm) (\<lambda>d. map_of d target_key) of
        Some v \<Rightarrow> trim v \<noteq> [] | None \<Rightarrow> False)"

definition reconcile_configmap :: "api_server \<Rightarrow> ca_state \<Rightarrow> config_map \<Rightarrow> action kio" where
  "reconcile_configmap env ca cm =
     (case ca_target_key cm of
        None \<Rightarrow> kreturn AwaitChange
      | Some target_key \<Rightarrow>
          if has_ca_key cm target_key then kreturn AwaitChange
          else
            (let ns = unwrap_or (om_namespace (cm_meta cm)) [];
                 cm_name = name_any (cm_meta cm)
             in kbind (api_patch env ResConfigMap (InNs ns) cm_name (Some ''ocp-sim'')
                   (Merge (JObject [(''data'', JObject [(target_key, JString (ca_cert_pem ca))])])))
                  (\<lambda>_. kreturn AwaitChange)))"

definition error_policy_cm :: "config_map \<Rightarrow> kube_error \<Rightarrow> action" where
  "error_policy_cm x e = Requeue 10"

definition run_configmap_controller ::
    "api_server \<Rightarrow> ca_state \<Rightarrow> config_map \<Rightarrow> req list \<Rightarrow> action \<times> req list" where
  "run_configmap_controller env ca = deliver (reconcile_configmap env ca) error_policy_cm"

text \<open>Webhook configurations; the source has the same body once for each of the two kinds.\<close>

definition needs_cabundle_injection :: "str_map option \<Rightarrow> bool" where
  "needs_cabundle_injection annotations = is_true annotations INJECT_CABUNDLE_ANNOTATION"

definition ca_bundle_ops :: "string \<Rightarrow> webhook list option \<Rightarrow> json list" where
  "ca_bundle_ops ca_b64 webhooks =
     (case webhooks of
        Some whs \<Rightarrow> map (\<lambda>i. add_op (''/webhooks/'' @ show_nat i @ ''/clientConfig/caBundle'') (JString ca_b64))
          [0..<length whs]
      | None \<Rightarrow> [])"

definition reconcile_webhooks ::
    "api_server \<Rightarrow> weblib \<Rightarrow> resource \<Rightarrow> ca_state \<Rightarrow> webhook_configuration \<Rightarrow> action kio" where
  "reconcile_webhooks env web resource ca wc =
     (if \<not> needs_cabundle_injection (om_annotations (wc_meta wc)) then kreturn AwaitChange
      else
        (let expected_ca = ca_cert_pem ca;
             existing_bundle = Option.bind (Option.bind (wc_webhooks wc) first) wh_ca_bundle
         in if existing_bundle = Some expected_ca then kreturn AwaitChange
            else kbind (api_patch env resource Cluster (name_any (wc_meta wc)) None
                   (JsonPatch (ca_bundle_ops (ca_bundle_base64 web ca) (wc_webhooks wc))))
                   (\<lambda>_. kreturn AwaitChange)))"

definition reconcile_mutating_webhook ::
    "api_server \<Rightarrow> weblib \<Rightarrow> ca_state \<Rightarrow> webhook_configuration \<Rightarrow> action kio" where
  "reconcile_mutating_webhook env web ca mwc = reconcile_webhooks env web ResMutatingWebhook ca mwc"

definition reconcile_validating_webhook ::
    "api_server \<Rightarrow> weblib \<Rightarrow> ca_state \<Rightarrow> webhook_configuration \<Rightarrow> action kio" where
  "reconcile_validating_webhook env web ca vwc = reconcile_webhooks env web ResValidatingWebhook ca vwc"

definition error_policy_mwc :: "webhook_configuration \<Rightarrow> kube_error \<Rightarrow> action" where
  "error_policy_mwc x e = Requeue 10"

definition error_policy_vwc :: "webhook_configuration \<Rightarrow> kube_error \<Rightarrow> action" where
  "error_policy_vwc x e = Requeue 10"

definition run_mutating_webhook_controller ::
    "api_server \<Rightarrow> weblib \<Rightarrow> ca_state \<Rightarrow> webhook_configuration \<Rightarrow> req list \<Rightarrow> action \<times> req list" where
  "run_mutating_webhook_controller env web ca = deliver (reconcile_mutating_webhook env web ca) error_policy_mwc"

definition run_validating_webhook_controller ::
    "api_server \<Rightarrow> weblib \<Rightarrow> ca_state \<Rightarrow> webhook_configuration \<Rightarrow> req list \<Rightarrow> action \<times> req list" where
  "run_validating_webhook_controller env web ca = deliver (reconcile_validating_webhook env web ca) error_policy_vwc"

section \<open>Lemmas\<close>

subsection \<open>Serving certificates\<close>

lemma serving_secret_fingerprint [simp]:
  "secret_fingerprint (serving_secret sn ns svc uid fp c k) = Some fp"
  by (simp add: secret_fingerprint_def serving_secret_def)

definition service_dns_names :: "service \<Rightarrow> string list" where
  "service_dns_names svc =
     (let cn = name_any (svc_meta svc) @ ''.'' @ unwrap_or (om_namespace (svc_meta svc)) [] @ ''.svc''
      in [cn, cn @ ''.cluster.local''])"

definition expected_secret :: "weblib \<Rightarrow> ca_state \<Rightarrow> service \<Rightarrow> string \<Rightarrow> string \<times> string \<Rightarrow> secret" where
  "expected_secret web ca svc sn ck =
     serving_secret sn (unwrap_or (om_namespace (svc_meta svc)) []) (name_any (svc_meta svc))
       (unwrap_or (om_uid (svc_meta svc)) []) (ca_bundle_base64 web ca) (fst ck) (snd ck)"

lemma expected_secret_fingerprint:
  "secret_fingerprint (expected_secret web ca svc sn ck) = Some (ca_bundle_base64 web ca)"
  by (simp add: expected_secret_def)

subsection \<open>ConfigMaps\<close>

definition configmap_requests :: "api_server \<times> ca_state \<Rightarrow> config_map \<Rightarrow> req list" where
  "configmap_requests i cm = snd (reconcile_configmap (fst i) (snd i) cm [])"

lemma configmap_requests_eq:
  "configmap_requests i cm =
     (case ca_target_key cm of
        Some k \<Rightarrow> if has_ca_key cm k then []
          else [Patch ResConfigMap (InNs (unwrap_or (om_namespace (cm_meta cm)) [])) (name_any (cm_meta cm))
            (Some ''ocp-sim'') (Merge (JObject [(''data'', JObject [(k, JString (ca_cert_pem (snd i)))])]))]
      | None \<Rightarrow> [])"
  by (simp add: configmap_requests_def reconcile_configmap_def kube_simps Let_def
      split: option.split sum.split)

lemma configmap_pass:
  assumes "ca_target_key cm = Some k" and "\<not> has_ca_key cm k"
  shows "Option.bind (cm_data (apply_cm (configmap_requests i cm) cm)) (\<lambda>d. map_of d k) =
      Some (ca_cert_pem (snd i))"
    and "ca_target_key (apply_cm (configmap_requests i cm) cm) = Some k"
  using assms by (simp_all add: configmap_requests_eq update_conv' ca_target_key_def)

interpretation configmap_ctl: settling_controller configmap_requests apply_cm
    "\<lambda>i. trim (ca_cert_pem (snd i)) \<noteq> []" "\<lambda>cm. True"
proof
  show "apply_cm [] cm = cm" for cm by simp
  fix i j :: "api_server \<times> ca_state" and cm
  assume blank: "trim (ca_cert_pem (snd i)) \<noteq> []"
  show "configmap_requests j (apply_cm (configmap_requests i cm) cm) = []"
  proof (cases "\<exists>k. ca_target_key cm = Some k \<and> \<not> has_ca_key cm k")
    case True
    then obtain k where k: "ca_target_key cm = Some k" "\<not> has_ca_key cm k" by blast
    have "has_ca_key (apply_cm (configmap_requests i cm) cm) k"
      using configmap_pass(1) [OF k, of i] blank by (simp add: has_ca_key_def)
    then show ?thesis using configmap_pass(2) [OF k, of i] by (simp add: configmap_requests_eq [of j])
  next
    case False
    then show ?thesis by (auto simp: configmap_requests_eq split: option.split)
  qed
qed

subsection \<open>Webhook configurations\<close>

text \<open>
  The effect of an \<^verbatim>\<open>add\<close> of \<^verbatim>\<open>/webhooks/<i>/clientConfig/caBundle\<close>: the API server decodes
  the value and stores it; an index that is not there is an error, and nothing changes.
\<close>

definition apply_ca_op :: "weblib \<Rightarrow> json \<Rightarrow> webhook list \<Rightarrow> webhook list" where
  "apply_ca_op web opn whs =
     (case (map_option pointer_keys (get_str opn ''path''), get_str opn ''value'') of
        (Some [a, i, b, c], Some v) \<Rightarrow>
          (case parse_uint (2 ^ 64) i of
             Some n \<Rightarrow> if a = ''webhooks'' \<and> b = ''clientConfig'' \<and> c = ''caBundle'' \<and> n < length whs
               then whs[n := (whs ! n)\<lparr>wh_ca_bundle := b64_decode web v\<rparr>] else whs
           | None \<Rightarrow> whs)
      | _ \<Rightarrow> whs)"

fun apply_wh :: "weblib \<Rightarrow> req list \<Rightarrow> webhook_configuration \<Rightarrow> webhook_configuration" where
  "apply_wh web [] wc = wc"
| "apply_wh web (Patch r sc n pp (JsonPatch ops) # rs) wc =
     apply_wh web rs (wc\<lparr>wc_webhooks := map_option (fold (apply_ca_op web) ops) (wc_webhooks wc)\<rparr>)"
| "apply_wh web (r # rs) wc = apply_wh web rs wc"

lemma pointer_keys_webhook:
  "pointer_keys (''/webhooks/'' @ show_nat i @ ''/clientConfig/caBundle'') =
     [''webhooks'', show_nat i, ''clientConfig'', ''caBundle'']"
proof -
  have "CHR ''/'' \<notin> set (show_nat i)"
    by (rule show_nat_no_sep) (simp add: is_digit_def in_range_def)
  then have "split_char (CHR ''/'') (show_nat i @ CHR ''/'' # rest) = show_nat i # split_char (CHR ''/'') rest" for rest
    by (rule split_char_append)
  then show ?thesis by (simp add: pointer_keys_def)
qed

lemma get_str_add_op: "get_str (add_op p (JString v)) ''value'' = Some v"
  by (simp add: add_op_def get_str_def)

lemma apply_ca_op_index:
  "i < length whs \<Longrightarrow> i < 2 ^ 64 \<Longrightarrow>
   apply_ca_op web (add_op (''/webhooks/'' @ show_nat i @ ''/clientConfig/caBundle'') (JString v)) whs =
     whs[i := (whs ! i)\<lparr>wh_ca_bundle := b64_decode web v\<rparr>]"
  unfolding apply_ca_op_def get_str_add_op add_op_fields option.map pointer_keys_webhook
  by (simp add: parse_show_nat)

lemma apply_ca_ops_prefix:
  "n \<le> length whs \<Longrightarrow> length whs < 2 ^ 64 \<Longrightarrow>
   fold (apply_ca_op web) (map (\<lambda>i. add_op (''/webhooks/'' @ show_nat i @ ''/clientConfig/caBundle'') (JString v)) [0..<n]) whs =
     map (\<lambda>w. w\<lparr>wh_ca_bundle := b64_decode web v\<rparr>) (take n whs) @ drop n whs"
proof (induction n)
  case (Suc n)
  then have "fold (apply_ca_op web) (map (\<lambda>i. add_op (''/webhooks/'' @ show_nat i @ ''/clientConfig/caBundle'') (JString v)) [0..<Suc n]) whs =
      apply_ca_op web (add_op (''/webhooks/'' @ show_nat n @ ''/clientConfig/caBundle'') (JString v))
        (map (\<lambda>w. w\<lparr>wh_ca_bundle := b64_decode web v\<rparr>) (take n whs) @ drop n whs)"
    by (simp del: append.simps)
  also have "\<dots> = map (\<lambda>w. w\<lparr>wh_ca_bundle := b64_decode web v\<rparr>) (take (Suc n) whs) @ drop (Suc n) whs"
    using Suc.prems by (subst apply_ca_op_index)
      (auto simp: nth_append list_update_append take_Suc_conv_app_nth Cons_nth_drop_Suc [symmetric])
  finally show ?case .
qed simp

definition webhook_requests :: "weblib \<Rightarrow> api_server \<times> resource \<times> ca_state \<Rightarrow> webhook_configuration \<Rightarrow> req list" where
  "webhook_requests web i wc = snd (reconcile_webhooks (fst i) web (fst (snd i)) (snd (snd i)) wc [])"

lemma webhook_requests_eq:
  "webhook_requests web i wc =
     (if needs_cabundle_injection (om_annotations (wc_meta wc)) \<and>
         Option.bind (Option.bind (wc_webhooks wc) first) wh_ca_bundle \<noteq> Some (ca_cert_pem (snd (snd i)))
      then [Patch (fst (snd i)) Cluster (name_any (wc_meta wc)) None
        (JsonPatch (ca_bundle_ops (ca_bundle_base64 web (snd (snd i))) (wc_webhooks wc)))]
      else [])"
  by (simp add: webhook_requests_def reconcile_webhooks_def kube_simps Let_def split: sum.split)

lemma webhook_pass:
  assumes "needs_cabundle_injection (om_annotations (wc_meta wc))"
    and "Option.bind (Option.bind (wc_webhooks wc) first) wh_ca_bundle \<noteq> Some (ca_cert_pem ca)"
    and "wc_webhooks wc = Some whs" and "length whs < 2 ^ 64"
    and "b64_decode web (b64_encode web (ca_cert_pem ca)) = Some (ca_cert_pem ca)"
  shows "apply_wh web (webhook_requests web (env, r, ca) wc) wc =
    wc\<lparr>wc_webhooks := Some (map (\<lambda>w. w\<lparr>wh_ca_bundle := Some (ca_cert_pem ca)\<rparr>) whs)\<rparr>"
  using assms apply_ca_ops_prefix [of "length whs" whs web "b64_encode web (ca_cert_pem ca)"]
  by (simp add: webhook_requests_eq ca_bundle_ops_def ca_bundle_base64_def)

text \<open>Two limits of the checks: a key that holds some other certificate, and a second webhook.\<close>

lemma configmap_stale_ca_kept:
  "ca_target_key cm = Some k \<Longrightarrow> has_ca_key cm k \<Longrightarrow> configmap_requests i cm = []"
  by (simp add: configmap_requests_eq)

lemma webhook_only_first_checked:
  "wc_webhooks wc = Some (w # ws) \<Longrightarrow> wh_ca_bundle w = Some (ca_cert_pem ca) \<Longrightarrow>
   webhook_requests web (env, r, ca) wc = []"
  by (simp add: webhook_requests_eq)

section \<open>Properties\<close>

definition example_svc :: service where
  "example_svc = \<lparr>svc_meta = default_meta\<lparr>om_name := Some ''api'', om_namespace := Some ''demo'',
     om_annotations := Some [(SERVING_CERT_ANNOTATION, ''api-tls'')]\<rparr>, svc_spec = None, svc_status = None\<rparr>"

definition example_ca :: ca_state where
  "example_ca = \<lparr>ca_cert_pem = '':cert'', ca_key_pem = ''key''\<rparr>"

definition example_lib :: cert_lib where
  "example_lib = \<lparr>kp_from_pem = Some,
     params_new = (\<lambda>sans. Some \<lparr>cp_sans = sans, cp_is_ca = False, cp_common_name = []\<rparr>),
     self_signed = (\<lambda>p k. Some k), signed_by = (\<lambda>p k i ik. Some (concat (cp_sans p))),
     pem_certs = (\<lambda>p. Some [p]), pem_private_key = (\<lambda>p. Some (Some p)),
     with_single_cert = (\<lambda>cs k. Some k)\<rparr>"

text \<open>
  C34.  Serving certificates rotate with the CA: a pass over an annotated service leaves a
  secret that carries the fingerprint of the current CA alone, replaces one that does not, and
  creates a missing one, with a certificate for the two DNS names of the service; the secret it
  creates is one that the next pass leaves alone.
\<close>

theorem serving_cert_rotates:
  assumes "Option.bind (om_annotations (svc_meta svc)) (\<lambda>a. map_of a SERVING_CERT_ANNOTATION) = Some sn"
    and "sign_cert lib key ca (service_dns_names svc) = Some ck"
    and "\<And>l. env l (GetOpt ResSecret (InNs (unwrap_or (om_namespace (svc_meta svc)) [])) sn) =
      ROpt (map_option KSecret found)"
    and "\<And>l sc n. env l (Delete ResSecret sc n) = ROk"
  shows "snd (run_service_controller env web lib key ca svc l) =
      (let ns = InNs (unwrap_or (om_namespace (svc_meta svc)) []);
           new = Create ResSecret ns (KSecret (expected_secret web ca svc sn ck))
       in l @ GetOpt ResSecret ns sn #
         (case found of
            None \<Rightarrow> [new]
          | Some s \<Rightarrow> if secret_fingerprint s = Some (ca_bundle_base64 web ca) then []
              else [Delete ResSecret ns sn, new])) \<and>
    secret_fingerprint (expected_secret web ca svc sn ck) = Some (ca_bundle_base64 web ca)"
proof -
  obtain c k where ck: "ck = (c, k)" by fastforce
  from assms(2) have sign: "sign_cert lib key ca [name_any (svc_meta svc) @ ''.'' @
      unwrap_or (om_namespace (svc_meta svc)) [] @ ''.svc'', (name_any (svc_meta svc) @ ''.'' @
      unwrap_or (om_namespace (svc_meta svc)) [] @ ''.svc'') @ ''.cluster.local''] = Some (c, k)"
    by (simp add: service_dns_names_def Let_def ck)
  have create: "snd (create_serving_cert env web lib key ca svc sn l') = l' @
      [Create ResSecret (InNs (unwrap_or (om_namespace (svc_meta svc)) []))
         (KSecret (expected_secret web ca svc sn ck))]" for l'
    using sign by (simp add: create_serving_cert_def kube_simps Let_def expected_secret_def ck split: sum.split)
  let ?ns = "InNs (unwrap_or (om_namespace (svc_meta svc)) [])"
  let ?get = "GetOpt ResSecret ?ns sn"
  have "reconcile_service env web lib key ca svc l =
      (case found of
         None \<Rightarrow> create_serving_cert env web lib key ca svc sn (l @ [?get])
       | Some s \<Rightarrow> if secret_fingerprint s = Some (ca_bundle_base64 web ca) then (Inr AwaitChange, l @ [?get])
           else create_serving_cert env web lib key ca svc sn ((l @ [?get]) @ [Delete ResSecret ?ns sn]))"
    by (simp add: reconcile_service_def assms(1,3,4) kube_simps Let_def split: option.split)
  then have "snd (reconcile_service env web lib key ca svc l) =
      l @ ?get # (case found of
            None \<Rightarrow> [Create ResSecret ?ns (KSecret (expected_secret web ca svc sn ck))]
          | Some s \<Rightarrow> if secret_fingerprint s = Some (ca_bundle_base64 web ca) then []
              else [Delete ResSecret ?ns sn, Create ResSecret ?ns (KSecret (expected_secret web ca svc sn ck))])"
    by (simp add: create split: option.split)
  then show ?thesis
    by (simp add: run_service_controller_def deliver_log Let_def expected_secret_fingerprint)
qed

theorem serving_cert_rotates_witness:
  "\<exists>ck. snd (run_service_controller (\<lambda>l r. case r of GetOpt _ _ _ \<Rightarrow> ROpt None | _ \<Rightarrow> ROk) plain_web
      example_lib (Some ''k'') example_ca example_svc []) =
    [GetOpt ResSecret (InNs ''demo'') ''api-tls'',
     Create ResSecret (InNs ''demo'') (KSecret (expected_secret plain_web example_ca example_svc ''api-tls'' ck))]"
proof -
  let ?env = "\<lambda>l r. case r of GetOpt _ _ _ \<Rightarrow> ROpt None | _ \<Rightarrow> ROk"
  obtain ck where ck: "sign_cert example_lib (Some ''k'') example_ca (service_dns_names example_svc) = Some ck"
    by (simp add: sign_cert_def example_lib_def service_dns_names_def Let_def)
  have ann: "Option.bind (om_annotations (svc_meta example_svc)) (\<lambda>a. map_of a SERVING_CERT_ANNOTATION) = Some ''api-tls''"
    "unwrap_or (om_namespace (svc_meta example_svc)) [] = ''demo''"
    by (simp_all add: example_svc_def)
  show ?thesis
    using serving_cert_rotates [OF ann(1) ck, of ?env None plain_web "[]"] ann(2)
    by (intro exI [of _ ck]) (simp add: Let_def)
qed

text \<open>
  CA injection into a ConfigMap converges: after one pass with a certificate that is not
  blank, a ConfigMap that asked for it holds a certificate under its key, and no later pass
  sends a request.
\<close>

lemma configmap_injection_settles:
  assumes "trim (ca_cert_pem ca) \<noteq> []"
  defines "pass \<equiv> \<lambda>i cm. apply_cm (configmap_requests i cm) cm"
  shows "(\<forall>k. ca_target_key cm = Some k \<longrightarrow> has_ca_key (pass (env, ca) cm) k) \<and>
    configmap_requests j (fold pass js (pass (env, ca) cm)) = []"
proof (intro conjI allI impI)
  fix k assume k: "ca_target_key cm = Some k"
  show "has_ca_key (pass (env, ca) cm) k"
  proof (cases "has_ca_key cm k")
    case True
    with k show ?thesis by (simp add: pass_def configmap_requests_eq)
  next
    case False
    then show ?thesis
      using configmap_pass(1) [OF k False, of "(env, ca)"] assms(1) by (simp add: pass_def has_ca_key_def)
  qed
next
  show "configmap_requests j (fold pass js (pass (env, ca) cm)) = []"
    unfolding pass_def by (rule configmap_ctl.quiet_after_first) (use assms(1) in simp_all)
qed



end
