(* ===== verification/Gateway.thy ===== *)
theory Gateway
  imports Util
begin

text \<open>
  \<^verbatim>\<open>simulator/src/gateway.rs\<close>: the Gateway API controllers and the Envoy configuration they
  generate.  The generated texts are built from two tables, the routes of the route
  configuration and the clusters of the cluster configuration; \<open>rds_entries\<close> and \<open>cds_clusters\<close>
  are the loops that fill them.
\<close>

section \<open>Definitions\<close>

definition CONTROLLER_NAME :: string where "CONTROLLER_NAME = ''openshift.io/gateway-controller/v1''"
definition GATEWAY_NS :: string where "GATEWAY_NS = ''openshift-ingress''"
definition ENVOY_IMAGE :: string where "ENVOY_IMAGE = ''docker.io/envoyproxy/envoy:v1.31-latest''"
definition GATEWAY_CLASS_NAME :: string where "GATEWAY_CLASS_NAME = ''data-science-gateway-class''"
definition GATEWAY_NAME :: string where "GATEWAY_NAME = ''data-science-gateway''"
definition KUBE_AUTH_PROXY_SVC :: string where "KUBE_AUTH_PROXY_SVC = ''kube-auth-proxy''"
definition KUBE_AUTH_PROXY_PORT :: u16 where "KUBE_AUTH_PROXY_PORT = 8443"
definition ENVOY_LISTEN_PORT :: i32 where "ENVOY_LISTEN_PORT = 8443"
definition SERVICE_PORT :: i32 where "SERVICE_PORT = 443"
definition TLS_SECRET_NAME :: string where "TLS_SECRET_NAME = ''data-science-gateway-service-tls''"

definition service_full_name :: "string \<Rightarrow> string \<Rightarrow> string" where
  "service_full_name gateway_name class_name = gateway_name @ ''-'' @ class_name"

definition is_our_gateway_class :: "dynobj \<Rightarrow> bool" where
  "is_our_gateway_class gc \<longleftrightarrow> path_str (do_data gc) [''spec'', ''controllerName''] = Some CONTROLLER_NAME"

definition has_accepted_condition :: "dynobj \<Rightarrow> bool" where
  "has_accepted_condition x =
     (case path_array (do_data x) [''status'', ''conditions''] of
        Some arr \<Rightarrow> list_ex (\<lambda>cond. get_str cond ''type'' = Some ''Accepted'' \<and>
          get_str cond ''status'' = Some ''True'') arr
      | None \<Rightarrow> False)"

definition is_gateway_class_accepted :: "dynobj \<Rightarrow> bool" where
  "is_gateway_class_accepted gc = has_accepted_condition gc"

definition is_gateway_accepted :: "dynobj \<Rightarrow> bool" where
  "is_gateway_accepted gw = has_accepted_condition gw"

definition extract_listener_hostname :: "dynobj \<Rightarrow> string option" where
  "extract_listener_hostname gw =
     Option.bind (Option.bind (path_array (do_data gw) [''spec'', ''listeners'']) first)
       (\<lambda>listener. get_str listener ''hostname'')"

subsection \<open>Routes\<close>

record http_route_backend =
  hb_service_name :: string
  hb_namespace :: string
  hb_port :: u16

record http_route_rule =
  hr_path_prefix :: string
  hr_backends :: "http_route_backend list"

definition extract_backend_ref :: "string \<Rightarrow> json \<Rightarrow> http_route_backend option" where
  "extract_backend_ref route_ns backend =
     (let svc_name = unwrap_or (get_str backend ''name'') [];
          ns = unwrap_or (get_str backend ''namespace'') route_ns;
          port = ucast (unwrap_or (Option.bind (jget backend ''port'') as_u64) 80)
      in if svc_name \<noteq> []
         then Some \<lparr>hb_service_name = svc_name, hb_namespace = ns, hb_port = port\<rparr> else None)"

definition extract_rule :: "string \<Rightarrow> json \<Rightarrow> http_route_rule" where
  "extract_rule route_ns rule =
     \<lparr>hr_path_prefix = unwrap_or (Option.bind (Option.bind (Option.bind (jget rule ''matches'') as_array) first)
         (\<lambda>m. path_str m [''path'', ''value''])) ''/'',
      hr_backends = (case Option.bind (jget rule ''backendRefs'') as_array of
         Some backend_arr \<Rightarrow> filter_map (extract_backend_ref route_ns) backend_arr
       | None \<Rightarrow> [])\<rparr>"

definition extract_httproute_rules :: "dynobj \<Rightarrow> http_route_rule list" where
  "extract_httproute_rules route =
     (case jget (do_data route) ''spec'' of
        None \<Rightarrow> []
      | Some spec \<Rightarrow>
          (case Option.bind (jget spec ''rules'') as_array of
             None \<Rightarrow> []
           | Some rule_arr \<Rightarrow> map (extract_rule (unwrap_or (om_namespace (do_meta route)) [])) rule_arr))"

subsection \<open>Envoy configuration\<close>

definition generate_bootstrap_yaml :: string where
  \<open>generate_bootstrap_yaml = join_lines
    [''node:'',
     ''  cluster: ocp-sim-gateway'',
     ''  id: ocp-sim-gateway-node'',
     '''',
     ''dynamic_resources:'',
     ''  lds_config:'',
     ''    path_config_source:'',
     ''      path: /etc/envoy/xds/lds.yaml'',
     ''      watched_directory:'',
     ''        path: /etc/envoy/xds'',
     ''  cds_config:'',
     ''    path_config_source:'',
     ''      path: /etc/envoy/xds/cds.yaml'',
     ''      watched_directory:'',
     ''        path: /etc/envoy/xds'',
     '''',
     ''admin:'',
     ''  address:'',
     ''    socket_address:'',
     ''      address: 127.0.0.1'',
     ''      port_value: 15000'',
     '''']\<close>

definition indent_lines :: "string \<Rightarrow> nat \<Rightarrow> string" where
  "indent_lines s spaces =
     (let prefix = replicate spaces (CHR '' '')
      in join_lines (map (\<lambda>line. if line = [] then [] else prefix @ line) (str_lines s)))"

definition LUA_FILTER_SCRIPT :: string where
  \<open>LUA_FILTER_SCRIPT = join_lines
    [''function envoy_on_request(request_handle)'',
     ''  local access_token = request_handle:headers():get("x-auth-request-access-token")'',
     ''  local auth_user = request_handle:headers():get("x-auth-request-user")'',
     '''',
     ''  if access_token then'',
     ''    request_handle:headers():add("x-forwarded-access-token", access_token)'',
     ''    request_handle:headers():replace("authorization", "Bearer " .. access_token)'',
     ''  elseif auth_user then'',
     ''    local auth_header = request_handle:headers():get("authorization")'',
     ''    if auth_header then'',
     ''      local token = auth_header:match("^Bearer%s+(.+)")'',
     ''      if token then'',
     ''        request_handle:headers():add("x-forwarded-access-token", token)'',
     ''      end'',
     ''    end'',
     ''  end'',
     '''',
     ''  if access_token or auth_user then'',
     ''    local cookie_header = request_handle:headers():get("cookie")'',
     ''    if cookie_header then'',
     ''      local filtered_cookies = {}'',
     ''      local cookie_pattern = "^{{cookie_name}}"'',
     ''      for cookie in cookie_header:gmatch("([^;]+)") do'',
     ''        local trimmed = cookie:match("^%s*(.-)%s*$")'',
     ''        if trimmed and trimmed ~= "" then'',
     ''          local cookie_name = trimmed:match("^([^=]+)")'',
     ''          if cookie_name and not cookie_name:match(cookie_pattern) then'',
     ''            table.insert(filtered_cookies, trimmed)'',
     ''          end'',
     ''        end'',
     ''      end'',
     ''      if #filtered_cookies > 0 then'',
     ''        request_handle:headers():replace("cookie", table.concat(filtered_cookies, "; "))'',
     ''      else'',
     ''        request_handle:headers():remove("cookie")'',
     ''      end'',
     ''    end'',
     ''  end'',
     ''end'',
     '''']\<close>

definition lds_text :: "string \<Rightarrow> string" where
  \<open>lds_text lua_indented = join_lines
    [''resources:'',
     ''- "@type": type.googleapis.com/envoy.config.listener.v3.Listener'',
     ''  name: gateway-https'',
     ''  address:'',
     ''    socket_address:'',
     ''      address: 0.0.0.0'',
     ''      port_value: '' @ show_nat (unat ENVOY_LISTEN_PORT),
     ''  filter_chains:'',
     ''  - transport_socket:'',
     ''      name: envoy.transport_sockets.tls'',
     ''      typed_config:'',
     ''        "@type": type.googleapis.com/envoy.extensions.transport_sockets.tls.v3.DownstreamTlsContext'',
     ''        common_tls_context:'',
     ''          tls_certificates:'',
     ''          - certificate_chain:'',
     ''              filename: /etc/envoy/tls/tls.crt'',
     ''            private_key:'',
     ''              filename: /etc/envoy/tls/tls.key'',
     ''    filters:'',
     ''    - name: envoy.filters.network.http_connection_manager'',
     ''      typed_config:'',
     ''        "@type": type.googleapis.com/envoy.extensions.filters.network.http_connection_manager.v3.HttpConnectionManager'',
     ''        stat_prefix: gateway'',
     ''        rds:'',
     ''          route_config_name: gateway-routes'',
     ''          config_source:'',
     ''            path_config_source:'',
     ''              path: /etc/envoy/xds/rds.yaml'',
     ''              watched_directory:'',
     ''                path: /etc/envoy/xds'',
     ''        http_filters:'',
     ''        - name: envoy.filters.http.ext_authz'',
     ''          typed_config:'',
     ''            "@type": type.googleapis.com/envoy.extensions.filters.http.ext_authz.v3.ExtAuthz'',
     ''            transport_api_version: V3'',
     ''            http_service:'',
     ''              server_uri:'',
     ''                uri: https://'' @ KUBE_AUTH_PROXY_SVC @ ''.'' @ GATEWAY_NS @ ''.svc.cluster.local:'' @ show_nat (unat KUBE_AUTH_PROXY_PORT) @ ''/oauth2/auth'',
     ''                cluster: '' @ KUBE_AUTH_PROXY_SVC,
     ''                timeout: 5s'',
     ''              authorization_request:'',
     ''                allowed_headers:'',
     ''                  patterns:'',
     ''                  - exact: cookie'',
     ''                  - exact: authorization'',
     ''              authorization_response:'',
     ''                allowed_upstream_headers:'',
     ''                  patterns:'',
     ''                  - exact: x-auth-request-user'',
     ''                  - exact: x-auth-request-email'',
     ''                  - exact: x-auth-request-access-token'',
     ''                  - exact: authorization'',
     ''                allowed_client_headers:'',
     ''                  patterns:'',
     ''                  - exact: set-cookie'',
     ''        - name: envoy.filters.http.lua'',
     ''          typed_config:'',
     ''            "@type": type.googleapis.com/envoy.extensions.filters.http.lua.v3.Lua'',
     ''            inline_code: |'',
     lua_indented,
     ''        - name: envoy.filters.http.router'',
     ''          typed_config:'',
     ''            "@type": type.googleapis.com/envoy.extensions.filters.http.router.v3.Router'',
     ''        upgrade_configs:'',
     ''        - upgrade_type: websocket'',
     '''']\<close>

definition generate_lds_yaml :: "string \<Rightarrow> string" where
  "generate_lds_yaml hostname =
     (let lua_script = replace_str ''{{cookie_name}}'' ''_oauth2_proxy'' LUA_FILTER_SCRIPT
      in lds_text (indent_lines lua_script 14))"

definition cluster_name :: "http_route_backend \<Rightarrow> string" where
  "cluster_name b = hb_service_name b @ ''_'' @ hb_namespace b @ ''_'' @ show_nat (unat (hb_port b))"

text \<open>\<^verbatim>\<open>sort_by\<close> is stable; the key makes the longest prefix come first.\<close>

definition rds_entries :: "http_route_rule list \<Rightarrow> (string \<times> string) list" where
  "rds_entries routes =
     filter_map (\<lambda>rule. map_option (\<lambda>b. (hr_path_prefix rule, cluster_name b)) (first (hr_backends rule)))
       (sort_key (\<lambda>rule. - int (length (hr_path_prefix rule))) routes)"

definition rds_entry_text :: "string \<times> string \<Rightarrow> string" where
  \<open>rds_entry_text e = join_lines
    [''            - match:'',
     ''                prefix: "'' @ fst e @ ''"'',
     ''              route:'',
     ''                cluster: '' @ snd e,
     ''                upgrade_configs:'',
     ''                - upgrade_type: websocket'',
     '''']\<close>

definition rds_default_text :: string where
  \<open>rds_default_text = join_lines
    [''            - match:'',
     ''                prefix: "/"'',
     ''              direct_response:'',
     ''                status: 503'',
     ''                body:'',
     ''                  inline_string: "no backends configured"'',
     '''']\<close>

definition rds_head_text :: "string \<Rightarrow> string" where
  \<open>rds_head_text hostname = join_lines
    [''resources:'',
     ''- "@type": type.googleapis.com/envoy.config.route.v3.RouteConfiguration'',
     ''  name: gateway-routes'',
     ''  virtual_hosts:'',
     ''  - name: gateway'',
     ''    domains:'',
     ''    - "'' @ hostname @ ''"'',
     ''    - "*"'',
     ''    routes:'',
     '''']\<close>

definition generate_rds_yaml :: "string \<Rightarrow> http_route_rule list \<Rightarrow> string" where
  "generate_rds_yaml hostname routes =
     (let route_entries = concat (map rds_entry_text (rds_entries routes));
          route_entries = (if route_entries = [] then rds_default_text else route_entries)
      in rds_head_text hostname @ route_entries)"

definition extract_tls_ports :: "dynobj \<Rightarrow> u16 list" where
  "extract_tls_ports dr =
     (case path_array (do_data dr) [''spec'', ''trafficPolicy'', ''portLevelSettings''] of
        Some settings \<Rightarrow>
          filter_map (\<lambda>setting.
            if path_str setting [''tls'', ''mode''] \<noteq> None
            then map_option ucast (Option.bind (jpath setting [''port'', ''number'']) as_u64)
            else None) settings
      | None \<Rightarrow> [])"

record cluster =
  cl_name :: string
  cl_service :: string
  cl_namespace :: string
  cl_port :: u16
  cl_tls :: bool

text \<open>The loop over the backends; \<open>seen\<close> holds the names written so far.\<close>

fun cds_loop :: "u16 list \<Rightarrow> string list \<Rightarrow> http_route_backend list \<Rightarrow> cluster list" where
  "cds_loop tls_ports seen [] = []"
| "cds_loop tls_ports seen (b # bs) =
     (if cluster_name b \<in> set seen then cds_loop tls_ports seen bs
      else \<lparr>cl_name = cluster_name b, cl_service = hb_service_name b, cl_namespace = hb_namespace b,
            cl_port = hb_port b, cl_tls = (hb_port b \<in> set tls_ports)\<rparr>
           # cds_loop tls_ports (cluster_name b # seen) bs)"

definition cds_clusters :: "http_route_rule list \<Rightarrow> u16 list \<Rightarrow> cluster list" where
  "cds_clusters routes tls_ports = cds_loop tls_ports [] (concat (map hr_backends routes))"

definition cds_auth_text :: "string" where
  \<open>cds_auth_text = join_lines
    [''- "@type": type.googleapis.com/envoy.config.cluster.v3.Cluster'',
     ''  name: '' @ KUBE_AUTH_PROXY_SVC,
     ''  type: STRICT_DNS'',
     ''  lb_policy: ROUND_ROBIN'',
     ''  transport_socket:'',
     ''    name: envoy.transport_sockets.tls'',
     ''    typed_config:'',
     ''      "@type": type.googleapis.com/envoy.extensions.transport_sockets.tls.v3.UpstreamTlsContext'',
     ''      common_tls_context:'',
     ''        validation_context:'',
     ''          trust_chain_verification: ACCEPT_UNTRUSTED'',
     ''  load_assignment:'',
     ''    cluster_name: '' @ KUBE_AUTH_PROXY_SVC,
     ''    endpoints:'',
     ''    - lb_endpoints:'',
     ''      - endpoint:'',
     ''          address:'',
     ''            socket_address:'',
     ''              address: '' @ KUBE_AUTH_PROXY_SVC @ ''.'' @ GATEWAY_NS @ ''.svc.cluster.local'',
     ''              port_value: '' @ show_nat (unat KUBE_AUTH_PROXY_PORT),
     '''']\<close>

definition cds_tls_text :: string where
  \<open>cds_tls_text = join_lines
    [''  transport_socket:'',
     ''    name: envoy.transport_sockets.tls'',
     ''    typed_config:'',
     ''      "@type": type.googleapis.com/envoy.extensions.transport_sockets.tls.v3.UpstreamTlsContext'',
     ''      common_tls_context:'',
     ''        validation_context:'',
     ''          trust_chain_verification: ACCEPT_UNTRUSTED'',
     '''']\<close>

definition cds_cluster_text :: "cluster \<Rightarrow> string" where
  \<open>cds_cluster_text c = join_lines
    [''- "@type": type.googleapis.com/envoy.config.cluster.v3.Cluster'',
     ''  name: '' @ cl_name c,
     ''  type: STRICT_DNS'',
     ''  lb_policy: ROUND_ROBIN'',
     (if cl_tls c then cds_tls_text else []) @ ''  load_assignment:'',
     ''    cluster_name: '' @ cl_name c,
     ''    endpoints:'',
     ''    - lb_endpoints:'',
     ''      - endpoint:'',
     ''          address:'',
     ''            socket_address:'',
     ''              address: '' @ cl_service c @ ''.'' @ cl_namespace c @ ''.svc.cluster.local'',
     ''              port_value: '' @ show_nat (unat (cl_port c)),
     '''']\<close>

definition generate_cds_yaml :: "http_route_rule list \<Rightarrow> u16 list \<Rightarrow> string" where
  "generate_cds_yaml routes tls_ports =
     ''resources:'' @ [CHR 0x0A] @ cds_auth_text @ concat (map cds_cluster_text (cds_clusters routes tls_ports))"

subsection \<open>Controllers\<close>

definition json_int :: "int \<Rightarrow> json" where
  "json_int n = JNumber (if 0 \<le> n then PosInt (word_of_int n) else NegInt (word_of_int n))"

definition accepted_condition :: "string \<Rightarrow> string \<Rightarrow> string option \<Rightarrow> string \<Rightarrow> dynobj \<Rightarrow> json" where
  "accepted_condition type reason message now x =
     JObject ([(''type'', JString type), (''status'', JString ''True''), (''reason'', JString reason)] @
       (case message of Some m \<Rightarrow> [(''message'', JString m)] | None \<Rightarrow> []) @
       [(''lastTransitionTime'', JString now),
        (''observedGeneration'', json_int (unwrap_or (om_generation (do_meta x)) 0))])"

definition gateway_class_patch :: "string \<Rightarrow> dynobj \<Rightarrow> json" where
  "gateway_class_patch now gc =
     JObject [(''status'', JObject [(''conditions'', JArray [accepted_condition ''Accepted'' ''Accepted''
       (Some ''GatewayClass accepted by ocp-sim'') now gc])])]"

definition reconcile_gateway_class :: "api_server \<Rightarrow> string \<Rightarrow> dynobj \<Rightarrow> action kio" where
  "reconcile_gateway_class env now gc =
     (if \<not> is_our_gateway_class gc then kreturn AwaitChange
      else if is_gateway_class_accepted gc then kreturn AwaitChange
      else kbind (api_patch_status env (ResDyn gateway_class_ar) Cluster (name_any (do_meta gc))
             (Some ''ocp-sim-gateway'') (Merge (gateway_class_patch now gc))) (\<lambda>_. kreturn AwaitChange))"

definition string_map_cm :: "string \<Rightarrow> string \<Rightarrow> str_map \<Rightarrow> config_map" where
  "string_map_cm name ns data =
     \<lparr>cm_meta = default_meta\<lparr>om_name := Some name, om_namespace := Some ns\<rparr>, cm_data = Some data\<rparr>"

definition ensure_envoy_configmaps :: "api_server \<Rightarrow> string \<Rightarrow> string \<Rightarrow> unit kio" where
  "ensure_envoy_configmaps env ns hostname =
     kbind (api_get_opt env as_config_map ResConfigMap (InNs ns) ''envoy-bootstrap'') (\<lambda>found.
     kbind (if found = None
            then api_create env ResConfigMap (InNs ns) (KConfigMap (string_map_cm ''envoy-bootstrap'' ns
                   [(''bootstrap.yaml'', generate_bootstrap_yaml)]))
            else kreturn ()) (\<lambda>_.
     kbind (api_get_opt env as_config_map ResConfigMap (InNs ns) ''envoy-xds-config'') (\<lambda>found.
     if found = None
     then api_create env ResConfigMap (InNs ns) (KConfigMap (string_map_cm ''envoy-xds-config'' ns
            [(''lds.yaml'', generate_lds_yaml hostname), (''rds.yaml'', generate_rds_yaml hostname []),
             (''cds.yaml'', generate_cds_yaml [] [])]))
     else kreturn ())))"

definition envoy_deployment :: "string \<Rightarrow> string \<Rightarrow> deployment" where
  "envoy_deployment ns gateway_name =
     (let labels = [(''app'', ''envoy-gateway''),
            (''gateway.networking.k8s.io/gateway-name'', gateway_name)];
          mount = (\<lambda>n p. \<lparr>vm_name = n, vm_mount_path = p, vm_read_only = Some True\<rparr>)
      in \<lparr>dep_meta = default_meta\<lparr>om_name := Some gateway_name, om_namespace := Some ns\<rparr>,
          dep_replicas = Some 1, dep_match_labels = Some labels,
          dep_template = \<lparr>pt_labels = Some labels, pt_spec = Some
            \<lparr>ps_containers = [\<lparr>co_name = ''envoy'', co_image = Some ENVOY_IMAGE,
               co_args = Some [''-c'', ''/etc/envoy/bootstrap/bootstrap.yaml'', ''--log-level'', ''info''],
               co_ports = Some [\<lparr>cp_container_port = ENVOY_LISTEN_PORT, cp_name = Some ''https'',
                 cp_protocol = Some ''TCP''\<rparr>],
               co_volume_mounts = Some [mount ''bootstrap'' ''/etc/envoy/bootstrap'',
                 mount ''xds'' ''/etc/envoy/xds'', mount ''tls'' ''/etc/envoy/tls'']\<rparr>],
             ps_volumes = Some [\<lparr>vol_name = ''bootstrap'', vol_source = ConfigMapVol ''envoy-bootstrap''\<rparr>,
               \<lparr>vol_name = ''xds'', vol_source = ConfigMapVol ''envoy-xds-config''\<rparr>,
               \<lparr>vol_name = ''tls'', vol_source = SecretVol TLS_SECRET_NAME (Some True)\<rparr>],
             ps_other = JObject []\<rparr>\<rparr>\<rparr>)"

definition ensure_envoy_deployment :: "api_server \<Rightarrow> string \<Rightarrow> string \<Rightarrow> unit kio" where
  "ensure_envoy_deployment env ns gateway_name =
     kbind (api_get_opt env as_deployment ResDeployment (InNs ns) gateway_name) (\<lambda>found.
       if found \<noteq> None then kreturn ()
       else api_create env ResDeployment (InNs ns) (KDeployment (envoy_deployment ns gateway_name)))"

definition envoy_service :: "string \<Rightarrow> string \<Rightarrow> service" where
  "envoy_service ns svc_name =
     \<lparr>svc_meta = default_meta\<lparr>om_name := Some svc_name, om_namespace := Some ns,
        om_annotations := Some [(''service.beta.openshift.io/serving-cert-secret-name'', TLS_SECRET_NAME)]\<rparr>,
      svc_spec = Some \<lparr>ss_type = None, ss_cluster_ip = None,
        ss_ports = Some [\<lparr>sp_name = Some ''https'', sp_port = SERVICE_PORT,
          sp_target_port = Some (IntVal ENVOY_LISTEN_PORT), sp_protocol = Some ''TCP''\<rparr>],
        ss_selector = Some [(''app'', ''envoy-gateway'')]\<rparr>,
      svc_status = None\<rparr>"

definition ensure_envoy_service :: "api_server \<Rightarrow> string \<Rightarrow> string \<Rightarrow> unit kio" where
  "ensure_envoy_service env ns svc_name =
     kbind (api_get_opt env as_service ResService (InNs ns) svc_name) (\<lambda>found.
       if found \<noteq> None then kreturn ()
       else api_create env ResService (InNs ns) (KService (envoy_service ns svc_name)))"

definition references_our_gateway :: "dynobj \<Rightarrow> bool" where
  "references_our_gateway route =
     (case path_array (do_data route) [''spec'', ''parentRefs''] of
        Some refs \<Rightarrow> list_ex (\<lambda>pr. get_str pr ''name'' = Some GATEWAY_NAME) refs
      | None \<Rightarrow> False)"

definition all_route_rules :: "dynobj list \<Rightarrow> http_route_rule list" where
  "all_route_rules routes = concat (map extract_httproute_rules (filter references_our_gateway routes))"

definition xds_patch :: "string \<Rightarrow> http_route_rule list \<Rightarrow> u16 list \<Rightarrow> json" where
  "xds_patch hostname rules tls_ports =
     JObject [(''data'', JObject [(''lds.yaml'', JString (generate_lds_yaml hostname)),
       (''rds.yaml'', JString (generate_rds_yaml hostname rules)),
       (''cds.yaml'', JString (generate_cds_yaml rules tls_ports))])]"

text \<open>A failed list of DestinationRules counts as none.\<close>

definition sync_httproute_config :: "api_server \<Rightarrow> string \<Rightarrow> string \<Rightarrow> unit kio" where
  "sync_httproute_config env ns hostname =
     kbind (api_list env as_dyn (ResDyn httproute_ar) Cluster None) (\<lambda>route_list.
     ktry (api_list env as_dyn (ResDyn destination_rule_ar) (InNs ns) None) (\<lambda>drs.
       let all_rules = all_route_rules route_list;
           tls_ports = (case drs of Inr dr_list \<Rightarrow> concat (map extract_tls_ports dr_list) | Inl e \<Rightarrow> [])
       in api_patch env ResConfigMap (InNs ns) ''envoy-xds-config'' (Some ''ocp-sim-gateway'')
            (Merge (xds_patch hostname all_rules tls_ports))))"

definition gateway_patch :: "string \<Rightarrow> dynobj \<Rightarrow> json" where
  "gateway_patch now gw =
     JObject [(''status'', JObject [
       (''conditions'', JArray [
          accepted_condition ''Accepted'' ''Accepted'' (Some ''Gateway accepted by ocp-sim'') now gw,
          accepted_condition ''Programmed'' ''Programmed'' (Some ''Envoy configured by ocp-sim'') now gw]),
       (''listeners'', JArray [JObject [(''name'', JString ''https''),
          (''supportedKinds'', JArray [JObject [(''group'', JString ''gateway.networking.k8s.io''),
             (''kind'', JString ''HTTPRoute'')]]),
          (''attachedRoutes'', json_int 0),
          (''conditions'', JArray [accepted_condition ''Accepted'' ''Accepted'' None now gw])]])])]"

definition reconcile_gateway :: "api_server \<Rightarrow> string \<Rightarrow> dynobj \<Rightarrow> action kio" where
  "reconcile_gateway env now gw =
     (let name = name_any (do_meta gw);
          ns = unwrap_or (om_namespace (do_meta gw)) [];
          class_name = unwrap_or (path_str (do_data gw) [''spec'', ''gatewayClassName'']) []
      in if class_name \<noteq> GATEWAY_CLASS_NAME then kreturn AwaitChange
         else
           (let hostname = unwrap_or (extract_listener_hostname gw) [];
                svc_name = service_full_name name class_name
            in kbind (ensure_envoy_configmaps env ns hostname) (\<lambda>_.
               kbind (ensure_envoy_deployment env ns name) (\<lambda>_.
               kbind (ensure_envoy_service env ns svc_name) (\<lambda>_.
               kbind (sync_httproute_config env ns hostname) (\<lambda>_.
               if \<not> is_gateway_accepted gw
               then kbind (api_patch_status env (ResDyn gateway_ar) (InNs ns) name (Some ''ocp-sim-gateway'')
                      (Merge (gateway_patch now gw))) (\<lambda>_. kreturn AwaitChange)
               else kreturn AwaitChange))))))"

definition gateway_hostname :: "api_server \<Rightarrow> string kio" where
  "gateway_hostname env =
     kbind (api_get_opt env as_dyn (ResDyn gateway_ar) (InNs GATEWAY_NS) GATEWAY_NAME) (\<lambda>found.
       kreturn (case found of
                  Some gw \<Rightarrow> unwrap_or (extract_listener_hostname gw) []
                | None \<Rightarrow> []))"

definition reconcile_httproute :: "api_server \<Rightarrow> dynobj \<Rightarrow> action kio" where
  "reconcile_httproute env route =
     (if \<not> references_our_gateway route then kreturn AwaitChange
      else kbind (gateway_hostname env) (\<lambda>hostname.
           kbind (sync_httproute_config env GATEWAY_NS hostname) (\<lambda>_. kreturn AwaitChange)))"

definition reconcile_destination_rule :: "api_server \<Rightarrow> dynobj \<Rightarrow> action kio" where
  "reconcile_destination_rule env dr =
     kbind (gateway_hostname env) (\<lambda>hostname.
     kbind (sync_httproute_config env GATEWAY_NS hostname) (\<lambda>_. kreturn AwaitChange))"

definition gateway_error_policy :: "dynobj \<Rightarrow> kube_error \<Rightarrow> action" where
  "gateway_error_policy x e = Requeue 10"

text \<open>One delivery of one of the four controllers of \<^verbatim>\<open>run\<close>.\<close>

datatype gateway_event =
  GatewayClassEvent dynobj | GatewayEvent dynobj | HttpRouteEvent dynobj | DestinationRuleEvent dynobj

fun gateway_run :: "api_server \<Rightarrow> string \<Rightarrow> gateway_event \<Rightarrow> req list \<Rightarrow> action \<times> req list" where
  "gateway_run env now (GatewayClassEvent x) = deliver (reconcile_gateway_class env now) gateway_error_policy x"
| "gateway_run env now (GatewayEvent x) = deliver (reconcile_gateway env now) gateway_error_policy x"
| "gateway_run env now (HttpRouteEvent x) = deliver (reconcile_httproute env) gateway_error_policy x"
| "gateway_run env now (DestinationRuleEvent x) = deliver (reconcile_destination_rule env) gateway_error_policy x"

section \<open>Lemmas\<close>

subsection \<open>Clusters\<close>

lemma cds_loop_names: "cl_name ` set (cds_loop tls seen bs) = cluster_name ` set bs - set seen"
  by (induction tls seen bs rule: cds_loop.induct) auto

lemma cds_loop_distinct: "distinct (map cl_name (cds_loop tls seen bs))"
  by (induction tls seen bs rule: cds_loop.induct) (simp_all add: cds_loop_names)

lemma cds_loop_entries:
  "c \<in> set (cds_loop tls seen bs) \<Longrightarrow> \<exists>b \<in> set bs. cl_name c = cluster_name b \<and>
     cl_service c = hb_service_name b \<and> cl_namespace c = hb_namespace b \<and> cl_port c = hb_port b \<and>
     (cl_tls c \<longleftrightarrow> hb_port b \<in> set tls)"
  by (induction tls seen bs rule: cds_loop.induct) (auto split: if_splits)

definition dns_named :: "http_route_backend \<Rightarrow> bool" where
  "dns_named b \<longleftrightarrow> CHR ''_'' \<notin> set (hb_service_name b) \<and> CHR ''_'' \<notin> set (hb_namespace b)"

lemma split_cluster_name:
  "dns_named b \<Longrightarrow> split_char (CHR ''_'') (cluster_name b) =
     [hb_service_name b, hb_namespace b, show_nat (unat (hb_port b))]"
proof -
  have "CHR ''_'' \<notin> set (show_nat n)" for n
    by (rule show_nat_no_sep) (simp add: is_digit_def in_range_def)
  then show "dns_named b \<Longrightarrow> ?thesis"
    by (simp add: dns_named_def cluster_name_def split_char_append split_char_no_sep)
qed

lemma cluster_name_inj:
  "dns_named a \<Longrightarrow> dns_named b \<Longrightarrow> cluster_name a = cluster_name b \<longleftrightarrow> a = b"
  using split_cluster_name [of a] split_cluster_name [of b]
  by (auto simp: word_unat_eq_iff intro!: http_route_backend.equality)

subsection \<open>Routes\<close>

text \<open>Envoy takes the first entry whose prefix matches.\<close>

definition route_lookup :: "(string \<times> string) list \<Rightarrow> string \<Rightarrow> (string \<times> string) option" where
  "route_lookup es path = find (\<lambda>(p, c). starts_with path p) es"

definition rule_matches :: "string \<Rightarrow> http_route_rule \<Rightarrow> bool" where
  "rule_matches path r \<longleftrightarrow> hr_backends r \<noteq> [] \<and> starts_with path (hr_path_prefix r)"

definition rule_entry :: "http_route_rule \<Rightarrow> string \<times> string" where
  "rule_entry r = (hr_path_prefix r, cluster_name (hd (hr_backends r)))"

lemma first_hd: "first xs = (if xs = [] then None else Some (hd xs))"
  by (cases xs) auto

lemma rds_entries_eq:
  "rds_entries rules = map rule_entry (filter (\<lambda>r. hr_backends r \<noteq> [])
     (sort_key (\<lambda>r. - int (length (hr_path_prefix r))) rules))"
  by (simp add: rds_entries_def filter_map_def first_hd rule_entry_def comp_def cong: filter_cong)

lemma find_map: "find P (map f xs) = map_option f (find (P \<circ> f) xs)"
  by (induction xs) auto

lemma find_filter: "find P (filter Q xs) = find (\<lambda>x. Q x \<and> P x) xs"
  by (induction xs) auto

lemma route_lookup_rds:
  "route_lookup (rds_entries rules) path =
     map_option rule_entry (find (rule_matches path)
       (sort_key (\<lambda>r. - int (length (hr_path_prefix r))) rules))"
  by (simp add: route_lookup_def rds_entries_eq find_map find_filter rule_matches_def [abs_def]
      rule_entry_def comp_def)

lemma find_sorted_max:
  assumes "find P (sort_key (\<lambda>x. - int (f x)) xs) = Some x"
  shows "x \<in> set xs" "P x" "\<And>y. y \<in> set xs \<Longrightarrow> P y \<Longrightarrow> f y \<le> f x"
proof -
  let ?s = "sort_key (\<lambda>x. - int (f x)) xs"
  obtain i where i: "i < length ?s" "P (?s ! i)" "x = ?s ! i" "\<forall>j<i. \<not> P (?s ! j)"
    using assms by (auto simp: find_Some_iff)
  then show "x \<in> set xs" "P x" by (metis nth_mem set_sort, simp)
  show "f y \<le> f x" if "y \<in> set xs" "P y" for y
  proof -
    obtain j where j: "j < length ?s" "y = ?s ! j" using \<open>y \<in> set xs\<close> by (metis in_set_conv_nth set_sort)
    with i(4) \<open>P y\<close> have "i \<le> j" by (meson not_le)
    moreover have "sorted (map (\<lambda>x. - int (f x)) ?s)" by simp
    ultimately have "- int (f x) \<le> - int (f y)"
      using i(3) j sorted_nth_mono [of "map (\<lambda>x. - int (f x)) ?s" i j] by simp
    then show ?thesis by simp
  qed
qed

subsection \<open>Status\<close>

definition gateway_class_requests :: "api_server \<times> string \<Rightarrow> dynobj \<Rightarrow> req list" where
  "gateway_class_requests i x = snd (reconcile_gateway_class (fst i) (snd i) x [])"

lemma gateway_class_requests_eq:
  "gateway_class_requests i x =
     (if is_our_gateway_class x \<and> \<not> is_gateway_class_accepted x
      then [PatchStatus (ResDyn gateway_class_ar) Cluster (name_any (do_meta x)) (Some ''ocp-sim-gateway'')
        (Merge (gateway_class_patch (snd i) x))] else [])"
  by (simp add: gateway_class_requests_def reconcile_gateway_class_def kube_simps split: sum.split)

context merge_server
begin

lemma accepted_after:
  assumes "is_object (do_data x)" and "jpath p [''status'', ''conditions''] = Some (JArray (c # cs))"
    and "p = JObject [(''status'', JObject fs)]"
    and "get_str c ''type'' = Some ''Accepted''" and "get_str c ''status'' = Some ''True''"
  shows "has_accepted_condition (apply_status merge (PatchStatus r sc n pp (Merge p)) x)"
  using assms
  by (simp add: has_accepted_condition_def path_array_def jget_jset jget_merge split: option.splits)

lemma gateway_class_pass:
  "is_object (do_data x) \<Longrightarrow>
   \<not> is_our_gateway_class x \<or> is_gateway_class_accepted (apply_statuses merge (gateway_class_requests i x) x)"
  using accepted_after [of x "gateway_class_patch (snd i) x"]
  by (auto simp: gateway_class_requests_eq is_gateway_class_accepted_def gateway_class_patch_def
      accepted_condition_def get_str_def)

lemma gateway_class_spec_kept:
  "is_object (do_data x) \<Longrightarrow>
   is_our_gateway_class (apply_statuses merge (gateway_class_requests i x) x) = is_our_gateway_class x"
  by (simp add: gateway_class_requests_eq gateway_class_patch_def is_our_gateway_class_def path_str_def
      jget_jset split: option.split)

end

sublocale merge_server \<subseteq> gateway_class_ctl: settling_controller gateway_class_requests
    "apply_statuses merge" "\<lambda>i. True" "\<lambda>x. is_object (do_data x)"
proof
  show "apply_statuses merge [] x = x" for x by simp
  show "gateway_class_requests j (apply_statuses merge (gateway_class_requests i x) x) = []"
    if "is_object (do_data x)" for i j x
    using gateway_class_pass [OF that, of i] gateway_class_spec_kept [OF that, of i]
    by (auto simp: gateway_class_requests_eq [of j])
qed

context merge_server
begin

lemma gateway_class_quiet:
  "is_object (do_data x) \<Longrightarrow>
   gateway_class_requests k (fold gateway_class_ctl.pass js (gateway_class_ctl.pass i x)) = []"
  by (rule gateway_class_ctl.quiet_after_first) simp_all

end

section \<open>Properties\<close>

definition example_rules :: "http_route_rule list" where
  "example_rules =
     [\<lparr>hr_path_prefix = ''/'', hr_backends = [\<lparr>hb_service_name = ''ui'', hb_namespace = ''d'', hb_port = 80\<rparr>]\<rparr>,
      \<lparr>hr_path_prefix = ''/api'', hr_backends = [\<lparr>hb_service_name = ''api'', hb_namespace = ''d'', hb_port = 443\<rparr>]\<rparr>]"

definition example_class :: dynobj where
  "example_class = \<lparr>do_meta = default_meta\<lparr>om_name := Some ''c''\<rparr>,
     do_data = JObject [(''spec'', JObject [(''controllerName'', JString CONTROLLER_NAME)])]\<rparr>"

text \<open>
  C28.  The generated route table does longest-prefix matching: the first entry that matches a
  path is that of a rule with a backend whose prefix matches and than which no other such rule
  has a longer prefix; there is none exactly when no rule with a backend matches.
\<close>

theorem rds_longest_prefix:
  "case route_lookup (rds_entries rules) path of
     None \<Rightarrow> \<not> (\<exists>r \<in> set rules. rule_matches path r)
   | Some e \<Rightarrow> \<exists>r \<in> set rules. rule_matches path r \<and> e = rule_entry r \<and>
       (\<forall>r' \<in> set rules. rule_matches path r' \<longrightarrow> length (hr_path_prefix r') \<le> length (hr_path_prefix r))"
proof (cases "find (rule_matches path) (sort_key (\<lambda>r. - int (length (hr_path_prefix r))) rules)")
  case None
  then have "\<not> (\<exists>r \<in> set rules. rule_matches path r)" by (auto simp: find_None_iff)
  then show ?thesis by (simp add: route_lookup_rds None)
next
  case (Some r)
  note best = find_sorted_max [OF Some]
  show ?thesis
    unfolding route_lookup_rds Some option.map option.case by (intro bexI [of _ r]) (use best in auto)
qed

theorem rds_longest_prefix_witness:
  "\<exists>r \<in> set example_rules. rule_matches ''/api/x'' r \<and>
     route_lookup (rds_entries example_rules) ''/api/x'' = Some (rule_entry r) \<and>
     (\<forall>r' \<in> set example_rules. rule_matches ''/api/x'' r' \<longrightarrow>
        length (hr_path_prefix r') \<le> length (hr_path_prefix r))"
proof -
  have "rule_matches ''/api/x'' (example_rules ! 1)" "example_rules ! 1 \<in> set example_rules"
    by (simp_all add: rule_matches_def example_rules_def starts_with_def)
  then show ?thesis
    using rds_longest_prefix [of example_rules "''/api/x''"] by (auto split: option.splits)
qed

text \<open>
  Every cluster a route refers to is defined: the names in the route table are among the
  clusters generated from the same rules, whatever the TLS ports.
\<close>

lemma rds_clusters_defined:
  "snd ` set (rds_entries rules) \<subseteq> cl_name ` set (cds_clusters rules tls_ports)"
proof
  fix c assume "c \<in> snd ` set (rds_entries rules)"
  then obtain r where r: "r \<in> set rules" "hr_backends r \<noteq> []" "c = cluster_name (hd (hr_backends r))"
    by (auto simp: rds_entries_eq rule_entry_def)
  then have "hd (hr_backends r) \<in> set (hr_backends r)" by simp
  with r(1) have "hd (hr_backends r) \<in> set (concat (map hr_backends rules))" by auto
  then show "c \<in> cl_name ` set (cds_clusters rules tls_ports)"
    using r(3) by (simp add: cds_clusters_def cds_loop_names)
qed

text \<open>
  C29.  The cluster table fits the route table: every cluster that a route names is defined, names
  are unique, and for backends named as Kubernetes allows (no underscore) each backend has the
  cluster with its own service, namespace and port, which speaks TLS exactly when a destination
  rule names the port.
\<close>

theorem cds_cluster_of_backend:
  assumes "\<forall>b \<in> set (concat (map hr_backends rules)). dns_named b"
    and "b \<in> set (concat (map hr_backends rules))"
  shows "snd ` set (rds_entries rules) \<subseteq> cl_name ` set (cds_clusters rules tls_ports) \<and>
    distinct (map cl_name (cds_clusters rules tls_ports)) \<and>
    \<lparr>cl_name = cluster_name b, cl_service = hb_service_name b, cl_namespace = hb_namespace b,
     cl_port = hb_port b, cl_tls = (hb_port b \<in> set tls_ports)\<rparr> \<in> set (cds_clusters rules tls_ports)"
proof (intro conjI)
  show "snd ` set (rds_entries rules) \<subseteq> cl_name ` set (cds_clusters rules tls_ports)"
    by (rule rds_clusters_defined)
  show "distinct (map cl_name (cds_clusters rules tls_ports))"
    by (simp add: cds_clusters_def cds_loop_distinct)
  have "cluster_name b \<in> cl_name ` set (cds_clusters rules tls_ports)"
    using assms(2) by (simp add: cds_clusters_def cds_loop_names)
  then obtain c where c: "c \<in> set (cds_clusters rules tls_ports)" "cl_name c = cluster_name b" by auto
  then obtain b' where b': "b' \<in> set (concat (map hr_backends rules))" "cl_name c = cluster_name b'"
    "cl_service c = hb_service_name b'" "cl_namespace c = hb_namespace b'" "cl_port c = hb_port b'"
    "cl_tls c \<longleftrightarrow> hb_port b' \<in> set tls_ports"
    using cds_loop_entries unfolding cds_clusters_def by blast
  have "b' = b" using assms b'(1,2) c(2) cluster_name_inj by metis
  with b' c have "c = \<lparr>cl_name = cluster_name b, cl_service = hb_service_name b, cl_namespace = hb_namespace b,
     cl_port = hb_port b, cl_tls = (hb_port b \<in> set tls_ports)\<rparr>" by (intro cluster.equality) auto
  with c show "\<lparr>cl_name = cluster_name b, cl_service = hb_service_name b, cl_namespace = hb_namespace b,
     cl_port = hb_port b, cl_tls = (hb_port b \<in> set tls_ports)\<rparr> \<in> set (cds_clusters rules tls_ports)" by simp
qed

theorem cds_cluster_of_backend_witness:
  "\<lparr>cl_name = ''api_d_443'', cl_service = ''api'', cl_namespace = ''d'', cl_port = 443, cl_tls = True\<rparr>
     \<in> set (cds_clusters example_rules [443])"
proof -
  let ?b = "\<lparr>hb_service_name = ''api'', hb_namespace = ''d'', hb_port = 443\<rparr>"
  have "cluster_name ?b = ''api_d_443''" by (simp add: cluster_name_def show_nat.simps)
  moreover have "\<forall>b \<in> set (concat (map hr_backends example_rules)). dns_named b"
    "?b \<in> set (concat (map hr_backends example_rules))"
    by (simp_all add: example_rules_def dns_named_def)
  ultimately show ?thesis
    using cds_cluster_of_backend [of example_rules ?b "[443]"] by simp
qed

text \<open>
  A GatewayClass of this controller converges: after one pass it is accepted, and no later
  pass sends a request; a class of another controller never gets one.
\<close>

lemma gateway_class_settles:
  assumes "merge_patch_law merge" and "is_object (do_data x)"
  defines "pass \<equiv> \<lambda>i x. apply_statuses merge (gateway_class_requests i x) x"
  shows "(is_our_gateway_class x \<longrightarrow> is_gateway_class_accepted (pass i x)) \<and>
    (\<not> is_our_gateway_class x \<longrightarrow> gateway_class_requests i x = []) \<and>
    gateway_class_requests k (fold pass js (pass i x)) = []"
  unfolding pass_def
  using merge_server.gateway_class_pass [OF merge_server.intro [OF assms(1)] assms(2), of i]
    merge_server.gateway_class_quiet [OF merge_server.intro [OF assms(1)] assms(2), of k js i]
  by (auto simp: gateway_class_requests_eq [of i x])

end
