(* ===== verification/Proxy_WebSocket.thy ===== *)
theory Proxy_WebSocket
  imports Proxy
begin

text \<open>
  The WebSocket handshake of \<^verbatim>\<open>simulator/src/proxy.rs\<close>: the head of an upstream answer, in whatever
  pieces it arrives, reaches the client as the status and the header fields it stands for.
\<close>

section \<open>Lemmas\<close>

definition head_text :: "string \<Rightarrow> string list \<Rightarrow> string" where
  "head_text status_line field_lines = concat (map (\<lambda>a. a @ crlf) (status_line # field_lines @ [[]]))"

text \<open>Reading stops at the end of the head, not before.\<close>

lemma str_contains_prefix: "str_contains s p \<Longrightarrow> str_contains (s @ t) p"
  by (auto simp: str_contains_iff) (metis append.assoc)

lemma read_head_chunks:
  assumes "chunks \<noteq> []" and "[] \<notin> set chunks" and "\<not> str_contains (buf @ concat (butlast chunks)) (crlf @ crlf)"
    and "str_contains (buf @ concat chunks) (crlf @ crlf)"
  shows "read_head buf (map ReadOk chunks @ rest) = Some (buf @ concat chunks)"
    "after_head buf (map ReadOk chunks @ rest) = rest"
proof -
  have "read_head buf (map ReadOk chunks @ rest) = Some (buf @ concat chunks) \<and>
      after_head buf (map ReadOk chunks @ rest) = rest"
    using assms
  proof (induction chunks arbitrary: buf)
    case (Cons c chunks)
    show ?case
    proof (cases "chunks = []")
      case False
      then have "\<not> str_contains (buf @ c) (crlf @ crlf)"
        using Cons.prems(3) str_contains_prefix [of "buf @ c"] by auto
      with False Cons.IH [of "buf @ c"] Cons.prems show ?thesis by (auto simp: Let_def)
    qed (use Cons.prems in \<open>simp add: Let_def\<close>)
  qed simp
  then show "read_head buf (map ReadOk chunks @ rest) = Some (buf @ concat chunks)"
    "after_head buf (map ReadOk chunks @ rest) = rest" by simp_all
qed

lemma head_text_lines:
  assumes "CHR 0x0A \<notin> set status_line" and "list_all (\<lambda>a. CHR 0x0A \<notin> set a) field_lines"
  shows "str_lines (head_text status_line field_lines @ extra) = status_line # field_lines @ [] # str_lines extra"
proof -
  have "str_lines (concat (map (\<lambda>a. a @ crlf) as) @ extra) = as @ str_lines extra"
    if "list_all (\<lambda>a. CHR 0x0A \<notin> set a) as" for as
    using that
  proof (induction as)
    case (Cons a as)
    then show ?case using str_lines_crlf [of a "concat (map (\<lambda>a. a @ crlf) as) @ extra"] by simp
  qed simp
  from this [of "status_line # field_lines @ [[]]"] assms show ?thesis by (simp add: head_text_def)
qed

lemma head_text_complete: "str_contains (head_text status_line field_lines @ extra) (crlf @ crlf)"
proof -
  have "\<exists>pre. concat (map (\<lambda>a. a @ crlf) (as @ [[]])) = pre @ crlf @ crlf" if "as \<noteq> []" for as
    using that by (cases as rule: rev_cases) auto
  from this [of "status_line # field_lines"] obtain pre where "head_text status_line field_lines = pre @ crlf @ crlf"
    unfolding head_text_def append_Cons by blast
  then show ?thesis unfolding str_contains_iff by (metis append.assoc)
qed

lemma response_fields_blank:
  "list_all (\<lambda>a. a \<noteq> []) field_lines \<Longrightarrow>
   response_fields web (field_lines @ [] # ls) = response_fields web field_lines"
  by (induction field_lines) (auto split: option.split)

text \<open>The pieces that a tunnel relays while both sides are open.\<close>

fun event_open :: "tunnel_event \<Rightarrow> bool" where
  "event_open (FromClient (ReadOk b)) = (b \<noteq> [])"
| "event_open (FromUpstream (ReadOk b)) = (b \<noteq> [])"
| "event_open e = False"

fun client_part :: "tunnel_event \<Rightarrow> bytes" where
  "client_part (FromClient (ReadOk b)) = b"
| "client_part e = []"

fun upstream_reads :: "tunnel_event list \<Rightarrow> read_result list" where
  "upstream_reads [] = []"
| "upstream_reads (FromUpstream r # es) = r # upstream_reads es"
| "upstream_reads (e # es) = upstream_reads es"

lemma tunnel_open:
  "list_all event_open es \<Longrightarrow> upstream_reads es = map ReadOk bs \<Longrightarrow>
   tunnel es = (concat (map client_part es), concat bs)"
  by (induction es arbitrary: bs rule: tunnel.induct) (auto simp: Cons_eq_map_conv)

definition status_line :: "nat \<Rightarrow> string \<Rightarrow> string" where
  "status_line st reason = ''HTTP/1.1 '' @ show_nat st @ '' '' @ reason"

lemma digit_not_ws: "is_digit c \<Longrightarrow> c \<notin> ws_bytes"
  by (auto simp: is_digit_def in_range_def ws_bytes_def ws_encodings_def)

lemma status_line_words: "\<exists>ws. split_whitespace (status_line st reason) = ''HTTP/1.1'' # show_nat st # ws"
proof -
  have 1: "set ''HTTP/1.1'' \<inter> ws_bytes = {}" by (simp add: ws_bytes_def ws_encodings_def)
  have 2: "set (show_nat st) \<inter> ws_bytes = {}" using show_nat_digits digit_not_ws by blast
  have "split_whitespace (status_line st reason) =
      split_ws_from [] (''HTTP/1.1'' @ CHR '' '' # (show_nat st @ CHR '' '' # reason))"
    by (simp add: split_whitespace_def status_line_def)
  also have "\<dots> = ''HTTP/1.1'' # split_ws_from [] (show_nat st @ CHR '' '' # reason)"
    unfolding split_ws_word [OF 1] by (simp add: split_ws_space)
  also have "split_ws_from [] (show_nat st @ CHR '' '' # reason) = show_nat st # split_ws_from [] reason"
    unfolding split_ws_word [OF 2] by (simp add: split_ws_space)
  finally show ?thesis by blast
qed

lemma status_line_101: "str_contains (status_line 101 reason) ''101''"
proof -
  have "status_line 101 reason = ''HTTP/1.1 '' @ ''101'' @ '' '' @ reason"
    by (simp add: status_line_def show_nat.simps)
  then show ?thesis unfolding str_contains_iff by blast
qed

section \<open>Properties\<close>


definition example_answer :: "string list" where
  "example_answer = [''HTTP/1.1 10'', ''1 Up'' @ crlf @ ''a: b'' @ [CHR 0x0D], CHR 0x0A # crlf @ [CHR 0x81, CHR 0x00]]"


text \<open>
  The upgrade is recognised by the digits 101 anywhere in the status line, so a refusal whose
  reason contains them is passed on as a switch of protocols.
\<close>

lemma ws_refusal_taken_for_upgrade:
  "ws_handshake_and_tunnel plain_web example_req ''a.b'' ''/'' True
     (\<lambda>t. Some [ReadOk (''HTTP/1.1 404 room 101'' @ crlf @ crlf)]) =
   Answer \<lparr>rs_status = 101, rs_headers = [], rs_body = []\<rparr>"
  by code_simp

end
