(* ===== verification/Spec2Isabelle.thy ===== *)
theory Spec2Isabelle
  imports OAuth_Props Cli_Create Cli_Assets Startup Route Project LoadBalancer ImageStream JobSet PodMutate ServiceCA
    Gateway Proxy_WebSocket
begin

text \<open>
  A verification development of picoshift: the simulator (\<^verbatim>\<open>simulator/src\<close>), a Rust program that
  plays the OpenShift control plane on a plain Kubernetes cluster, and the command-line
  tool (\<^verbatim>\<open>cli\<close>), a Go program that creates and administers such a cluster.  The simulator talks to the API server of
  that cluster, serves OAuth, and proxies HTTP to the services of the cluster.

  \<^bold>\<open>The program and its model.\<close>  \<^verbatim>\<open>main.rs\<close> generates a certificate authority and starts the parts
  below as concurrent tasks, until one of them ends (\<open>Startup\<close>, with the accept loops of the servers
  in \<open>Listener\<close>).  They share no memory except inside the OAuth server and
  the proxy; they interact through objects of the API server.

  \<^item> \<open>OAuth_Types\<close>, \<open>OAuth_Helpers\<close>, \<open>OAuth_K8s\<close>, \<open>OAuth_Handlers\<close>, \<open>Byoidc\<close>, \<open>OAuth_Server\<close>,
    \<open>OAuth_Infra\<close>: the files of \<^verbatim>\<open>oauth/\<close>, in this order \<^verbatim>\<open>types\<close>, \<^verbatim>\<open>helpers\<close>, \<^verbatim>\<open>k8s\<close>,
    \<^verbatim>\<open>handlers\<close>, \<^verbatim>\<open>byoidc\<close>, \<^verbatim>\<open>mod\<close> with \<^verbatim>\<open>watcher\<close>, and \<^verbatim>\<open>infra\<close>.  The state is the record
    \<open>oauth_state\<close> (\<^verbatim>\<open>OAuthState\<close>), and each handler a function on it.  \<open>OAuth_Runs\<close> has the runs of the
    server: sequences of requests, changes of the htpasswd Secret and ticks of the eviction task.
  \<^item> \<open>Route\<close>, \<open>Project\<close>, \<open>LoadBalancer\<close>, \<open>ImageStream\<close>, \<open>JobSet\<close>, \<open>PodMutate\<close>, \<open>ServiceCA\<close>,
    \<open>Gateway\<close>: the controllers in the files of the same names (\<^verbatim>\<open>pod_mutate.rs\<close>, \<^verbatim>\<open>service_ca.rs\<close>).
    Each \<^verbatim>\<open>reconcile\<close> function is a computation on the request log; \<^verbatim>\<open>run\<close> adds the error policy.
  \<^item> \<open>Net\<close>, \<open>Proxy\<close>, \<open>Proxy_WebSocket\<close>: \<^verbatim>\<open>proxy.rs\<close>, the route table with its two watchers, the
    resolution of addresses, the TLS client whose verifier accepts every certificate, requests and
    WebSocket handshakes.
  \<^item> \<open>Cli\<close>, \<open>Cli_Assets\<close>, \<open>Cli_User\<close>, \<open>Cli_Olm\<close>, \<open>Cli_Create\<close>: \<^verbatim>\<open>cli/internal\<close> (running programs, settings, the
    state of the cluster, and the extraction of the embedded files) with the short commands \<^verbatim>\<open>delete\<close>, \<^verbatim>\<open>logs\<close> and \<^verbatim>\<open>init\<close>; then \<^verbatim>\<open>cli/cmd/user.go\<close>, \<^verbatim>\<open>olm.go\<close>, and
    \<^verbatim>\<open>create.go\<close> with \<^verbatim>\<open>build.go\<close> and \<^verbatim>\<open>status.go\<close>.  A command is a computation on the log of the programs it
    runs; the programs, the files and the time they take are fields of the record \<open>cli\<close>.  A creation
    is the list of its stages, and a loop that waits is \<open>poll\<close>.
  \<^item> \<open>Util\<close> is \<^verbatim>\<open>util.rs\<close>.  \<open>Prelude\<close>, \<open>Json\<close>, \<open>Kube\<close> and \<open>Http\<close> model what the source uses of the
    standard library (strings as UTF-8 bytes, decimal numbers, IP addresses), of \<^verbatim>\<open>serde_json\<close> values, of the
    Kubernetes client and of HTTP messages.

  \<^bold>\<open>Conventions.\<close>  The API server is a function from the log of requests and the next request to an
  answer; a statement for every such function covers every state of the cluster, every failure and
  every interleaving with other clients.  Errors are values of a sum or option type, and a panic is
  a value too.  Integers keep their width (the release build wraps).  Time, random numbers and
  the text of the current time are arguments.  URL, base64, JSON text, JWT, hash and certificate libraries are fields of the
  records \<open>weblib\<close> and \<open>cert_lib\<close>; merge patches and the JSON patch operation \<^verbatim>\<open>add\<close> of the
  server are arguments with the laws of their RFCs, \<open>merge_patch_law\<close> and \<open>add_op_law\<close>.

  \<^bold>\<open>Interfaces.\<close>  \<open>invariant_system\<close> (a transition system with an invariant) is interpreted on the
  OAuth server; \<open>expiring_store\<close> on its codes and its tokens; \<open>settling_controller\<close>
  (one pass makes every later pass silent) on each converging controller, through \<open>merge_server\<close>
  where the effect of a patch is that of a lawful server; \<open>write_table\<close> on the route table.

  \<^bold>\<open>What is shown.\<close>
  \<^item> OAuth (\<open>OAuth_Props\<close>): a code is exchanged at most once in every interleaving of requests, and
    only by its client; tokens name users who logged in; the exact conditions for a token, and for a
    redirect with a code; requests refine the steps of the transition system, and a server that
    has started is in an initial state of it and keeps its configuration, without a panic, through
    every run (below); eviction of expired entries is
    unobservable; page markup does not depend on input; round trips of htpasswd files and DER keys.
  \<^item> Proxy: reserved hosts cannot be taken over by routes; the table holds exactly what routes say;
    requests and answers are relayed unchanged, whatever certificate the backend shows; the condition under which a backend resolves;
    handshake answers are relayed however they are cut into pieces, and the tunnel relays what is
    read after them.
  \<^item> Controllers: convergence after one pass, and the cases in which there is none; the children and
    the status of a JobSet; UID ranges and the webhook's patch; rotation of certificates; the
    generated Envoy tables do longest-prefix routing to clusters that exist.
  \<^item> Composition (below): an admitted Route is served from its service; the objects written at
    start-up lead to the OAuth server, and a request that passes the proxy is handled there like a
    direct one; the gateway's certificate comes from the service CA; and the
    gateway's own service is not found by the proxy.
  \<^item> Users (\<open>Cli_User\<close>): what the tool writes to the Secret, read by the simulator's watcher, gives
    an added user access with the new password alone, a deleted one none, and leaves the others.
  \<^item> Creation (\<open>Cli_Create\<close>): a creation that succeeds leaves the simulator in the mode asked for, and the
    tool reads this mode back; a dry run runs nothing, with the exact condition for its success;
    the marker of extracted files is set only after a complete extraction (\<open>Cli_Assets\<close>).
  \<^item> Life of the process (\<open>Startup\<close>): the simulator runs exactly as long as each of its tasks does; an
    error while accepting a connection ends it (the proxy's TLS listener apart), a failed TLS
    handshake does not.

  \<^bold>\<open>Bounds.\<close>  No definition uses fuel: loops are structural recursions over lists, or functions with
  a termination proof on the length of the text or, for a loop that waits, on the time left (it
  runs its program at most once per pause until the deadline, lemma \<open>poll_result\<close>).  The counters of a JobSet are exact up to 2^32
  children, and load balancer addresses are distinct up to 256 of them; both limits are part of
  the statements.

  \<^bold>\<open>Not modelled.\<close>  The cryptography of TLS and the sockets below HTTP are parameters; log messages
  and progress messages are dropped; watches are the sequences of events they deliver, with their
  reconnection left to the client library.  Of the Go tool, the table of commands and the
  printed version are left out.  The manifests, apart
  from the arguments of the simulator, and the scripts are data for other programs.
\<close>

section \<open>The OAuth server, from its start\<close>


definition entra_args :: args where
  "entra_args = \<lparr>ar_proxy = False, ar_proxy_port = 80, ar_users_file = None, ar_auth_mode = Byoidc,
     ar_oidc_issuer_url = Some ''https://idp'', ar_oidc_client_id = Some ''sim'', ar_oidc_client_secret = None\<rparr>"

definition entra_cache :: jwks_cache where
  "entra_cache = \<lparr>jc_keys = [], jc_discovery = empty_discovery\<lparr>ed_authorization_endpoint := ''/authorize''\<rparr>\<rparr>"

definition entra_world :: world where
  "entra_world = example_world\<lparr>w_state := \<lparr>st_codes = Map.empty, st_tokens = Map.empty,
     st_user_store = store_load (\<lambda>_. None) (\<lambda>_. None) None, st_auth_mode = Byoidc, st_jwt_keys = None,
     st_byoidc = Some \<lparr>bc_issuer_url = ''https://idp'', bc_client_id = ''sim'', bc_client_secret = []\<rparr>,
     st_external_jwks = Some entra_cache\<rparr>\<rparr>"


section \<open>The OAuth server behind the proxy\<close>

text \<open>Requests that the OAuth server cannot tell apart.\<close>

definition same_request :: "request \<Rightarrow> request \<Rightarrow> bool" where
  "same_request req req' \<longleftrightarrow>
     rq_method req = rq_method req' \<and> rq_path req = rq_path req' \<and> rq_query req = rq_query req' \<and>
     (\<forall>k \<in> {''content-type'', ''authorization'', ''x-csrf-token''}. map_of (rq_headers req) k = map_of (rq_headers req') k)"

lemma handle_request_same:
  assumes "same_request req req'"
  shows "handle_request web env ext now unix_now now' req collected w =
    handle_request web env ext now unix_now now' req' collected w"
proof -
  have h: "header_str web (rq_headers req) ''authorization'' = header_str web (rq_headers req') ''authorization''"
    "header_str web (rq_headers req) ''content-type'' = header_str web (rq_headers req') ''content-type''"
    "has_header (rq_headers req) ''authorization'' = has_header (rq_headers req') ''authorization''"
    "has_header (rq_headers req) ''x-csrf-token'' = has_header (rq_headers req') ''x-csrf-token''"
    and r: "rq_method req = rq_method req'" "rq_path req = rq_path req'" "rq_query req = rq_query req'"
    using assms by (simp_all add: same_request_def header_str_def has_header_def)
  show ?thesis
    unfolding handle_request_def handle_authorize_get_def handle_userinfo_def handle_byoidc_authorize_def
      handle_byoidc_userinfo_def is_cli_auth_request_def h r ..
qed

text \<open>
  What HTTP guarantees: a server receives a request with the method and the header fields it was
  sent with, and reads path and query off the target at the first question mark.
\<close>

definition http_received :: "(upstream_req \<Rightarrow> request) \<Rightarrow> bool" where
  "http_received recv \<longleftrightarrow>
     (\<forall>uq t. uq_uri uq = PathOnly t \<and> starts_with t ''/'' \<and> CHR ''#'' \<notin> set t \<longrightarrow>
        rq_method (recv uq) = uq_method uq \<and> rq_headers (recv uq) = uq_headers uq \<and>
        rq_path (recv uq) \<noteq> [] \<and> CHR ''?'' \<notin> set (rq_path (recv uq)) \<and> path_and_query (recv uq) = t)"

lemma span_separator:
  assumes "c \<notin> set p"
  shows "takeWhile (\<lambda>x. x \<noteq> c) p = p" "dropWhile (\<lambda>x. x \<noteq> c) p = []"
    "takeWhile (\<lambda>x. x \<noteq> c) (p @ c # q) = p" "dropWhile (\<lambda>x. x \<noteq> c) (p @ c # q) = c # q"
  using assms by (induction p) auto

lemma path_and_query_inj:
  assumes "path_and_query req = path_and_query req'"
    and "rq_path req \<noteq> []" "CHR ''?'' \<notin> set (rq_path req)"
    and "rq_path req' \<noteq> []" "CHR ''?'' \<notin> set (rq_path req')"
  shows "rq_path req = rq_path req' \<and> rq_query req = rq_query req'"
proof -
  have *: "rq_path r = takeWhile (\<lambda>c. c \<noteq> CHR ''?'') (path_and_query r) \<and>
      rq_query r = (case dropWhile (\<lambda>c. c \<noteq> CHR ''?'') (path_and_query r) of [] \<Rightarrow> None | _ # q \<Rightarrow> Some q)"
    if "rq_path r \<noteq> []" "CHR ''?'' \<notin> set (rq_path r)" for r
    using that by (cases "rq_query r") (simp_all add: path_and_query_def span_separator)
  show ?thesis using * [of req] * [of req'] assms by simp
qed

lemma map_of_proxy_headers:
  "k \<notin> {''host'', ''x-forwarded-proto'', ''x-forwarded-scheme'', ''x-forwarded-port''} \<Longrightarrow>
   map_of (proxy_headers hs host ti) k = map_of hs k"
  by (induction hs) (auto simp: proxy_headers_def)

lemma received_same_request:
  assumes "http_received recv" and "starts_with (rq_path req) ''/''" and "CHR ''?'' \<notin> set (rq_path req)"
    and "CHR ''#'' \<notin> set (path_and_query req)"
  shows "same_request (recv (upstream_request req body host addr True ti)) req"
proof -
  let ?uq = "upstream_request req body host addr True ti"
  have path: "rq_path req \<noteq> []" using assms(2) by (auto simp: starts_with_def)
  have "starts_with (path_and_query req) ''/''"
    using assms(2) path by (auto simp: path_and_query_def starts_with_iff split: option.split)
  then have got: "rq_method (recv ?uq) = rq_method req" "rq_headers (recv ?uq) = proxy_headers (rq_headers req) host ti"
    "rq_path (recv ?uq) \<noteq> []" "CHR ''?'' \<notin> set (rq_path (recv ?uq))" "path_and_query (recv ?uq) = path_and_query req"
    using assms(1,4) by (auto simp: http_received_def upstream_request_def)
  then show ?thesis
    using path_and_query_inj [OF got(5) got(3,4) path assms(3)]
    by (simp add: same_request_def map_of_proxy_headers)
qed

text \<open>
  C17.  A client that talks to the OAuth server through the proxy gets what the server itself
  would have answered: when the server listens on its port, every request for one of the reserved
  hosts is answered with the status, header fields and body that \<^verbatim>\<open>handle_request\<close> computes for
  the client's own request, and with an error of the proxy if the server drops the connection.
\<close>

theorem oauth_through_proxy:
  assumes "is_oauth_host (request_host web req)" and "\<not> has_header (rq_headers req) ''upgrade''"
    and "starts_with (rq_path req) ''/''" and "CHR ''?'' \<notin> set (rq_path req)"
    and "CHR ''#'' \<notin> set (path_and_query req)"
    and "tls_handshake_law up peers" and "up_connect up oauth_addr" and "\<And>h. up_handshake up oauth_addr h"
    and "peers oauth_addr = Some p" and "\<And>n. tp_scheme p \<noteq> OtherScheme n" and "\<And>u. up_uri_ok up u"
    and "http_received recv"
    and "\<And>uq. up_send up True oauth_addr uq =
      (case fst (handle_request web env ext now unix_now now' (recv uq) (Some (uq_body uq)) w) of
         Answer r \<Rightarrow> Inr \<lparr>xs_status = rs_status r, xs_headers = rs_headers r, xs_body = Some (rs_body r)\<rparr>
       | _ \<Rightarrow> Inl dropped)"
  shows "proxy_request web env' up table ti req (Some body) l =
    (case fst (handle_request web env ext now unix_now now' req (Some body) w) of
       Answer r \<Rightarrow> (Answer r, l)
     | _ \<Rightarrow> (Answer (plain_response BAD_GATEWAY (''proxy error: '' @ dropped @ nl)), l))"
proof -
  let ?host = "request_host web req"
  let ?uq = "upstream_request req body ?host oauth_addr True ti"
  have same: "same_request (recv ?uq) req"
    using received_same_request [OF assms(12,3-5)] .
  have tls: "tls_connect up ?host oauth_addr"
    using tls_connect_any_certificate [OF assms(6,7,9,10)] .
  have "proxy_request web env' up table ti req (Some body) l = (Answer (relay (up_send up True oauth_addr ?uq)), l)"
    using assms(1,2,7,8,11) tls by (simp add: proxy_request_def proxy_target_def forward_def)
  also have "up_send up True oauth_addr ?uq =
      (case fst (handle_request web env ext now unix_now now' req (Some body) w) of
         Answer r \<Rightarrow> Inr \<lparr>xs_status = rs_status r, xs_headers = rs_headers r, xs_body = Some (rs_body r)\<rparr>
       | _ \<Rightarrow> Inl dropped)"
    unfolding assms(13) handle_request_same [OF same] by (simp add: upstream_request_def)
  finally show ?thesis
    by (simp add: relay_def unwrap_or_def split: outcome.split)
qed

definition received :: "upstream_req \<Rightarrow> request" where
  "received uq =
     (let t = (case uq_uri uq of PathOnly t \<Rightarrow> t | AtAddr a t \<Rightarrow> t)
      in \<lparr>rq_method = uq_method uq, rq_path = takeWhile (\<lambda>c. c \<noteq> CHR ''?'') t,
          rq_query = (case dropWhile (\<lambda>c. c \<noteq> CHR ''?'') t of [] \<Rightarrow> None | _ # q \<Rightarrow> Some q),
          rq_headers = uq_headers uq, rq_body = uq_body uq\<rparr>)"

lemma http_received_received: "http_received received"
proof -
  have "path_and_query (received uq) = t \<and> rq_path (received uq) \<noteq> []"
    if uri: "uq_uri uq = PathOnly t" and abs: "starts_with t ''/''" for uq t
  proof (cases "CHR ''?'' \<in> set t")
    case True
    then obtain p q where t: "t = p @ CHR ''?'' # q" "CHR ''?'' \<notin> set p" by (meson split_list_first)
    with abs have "p \<noteq> []" by (auto simp: starts_with_iff)
    with uri t show ?thesis by (simp add: path_and_query_def received_def span_separator)
  next
    case False
    with uri abs show ?thesis by (auto simp: path_and_query_def received_def span_separator starts_with_iff)
  qed
  then show ?thesis
    by (auto simp: http_received_def received_def dest: set_takeWhileD)
qed

definition login_request :: request where
  "login_request = \<lparr>rq_method = ''POST'', rq_path = ''/oauth/authorize'', rq_query = None,
     rq_headers = [(''host'', OAUTH_HOST @ ''.'' @ DOMAIN)], rq_body = example_login_body\<rparr>"

definition oauth_network :: upstream where
  "oauth_network = echo\<lparr>up_send := \<lambda>t a uq.
     case fst (handle_request plain_web example_api (\<lambda>l q. None) 0 0 0 (received uq) (Some (uq_body uq)) example_world) of
       Answer r \<Rightarrow> Inr \<lparr>xs_status = rs_status r, xs_headers = rs_headers r, xs_body = Some (rs_body r)\<rparr>
     | _ \<Rightarrow> Inl ''closed''\<rparr>"

theorem oauth_through_proxy_witness:
  "\<exists>r. proxy_request plain_web (\<lambda>l q. RErr SerdeError) oauth_network Map.empty True login_request
     (Some example_login_body) [] = (Answer r, []) \<and> rs_status r = FOUND"
proof -
  have net: "tls_handshake_law oauth_network (\<lambda>a. Some self_signed_peer)" "up_connect oauth_network oauth_addr"
    "up_handshake oauth_network oauth_addr h" "up_uri_ok oauth_network u" "tp_scheme self_signed_peer \<noteq> OtherScheme n"
    "up_send oauth_network True oauth_addr uq =
       (case fst (handle_request plain_web example_api (\<lambda>l q. None) 0 0 0 (received uq) (Some (uq_body uq)) example_world) of
          Answer r \<Rightarrow> Inr \<lparr>xs_status = rs_status r, xs_headers = rs_headers r, xs_body = Some (rs_body r)\<rparr>
        | _ \<Rightarrow> Inl ''closed'')" for h u n uq
    by (simp_all add: oauth_network_def echo_def down_def self_signed_peer_def tls_handshake_law_def)
  have req: "is_oauth_host (request_host plain_web login_request)" "\<not> has_header (rq_headers login_request) ''upgrade''"
    "starts_with (rq_path login_request) ''/''" "CHR ''?'' \<notin> set (rq_path login_request)"
    "CHR ''#'' \<notin> set (path_and_query login_request)"
    by (simp_all add: is_oauth_host_def request_host_def login_request_def header_str_def has_header_def plain_web_def
        OAUTH_HOST_def DOMAIN_def first_def unwrap_or_def starts_with_def path_and_query_def)
  obtain r w' where run: "handle_authorize_post plain_web example_api 0 example_login_body example_world = (r, w')"
    by fastforce
  have "rs_status (fst (handle_authorize_post plain_web example_api 0 example_login_body example_world)) = FOUND"
    unfolding authorize_post_grant(1) by (simp add: example_grant)
  then have "rs_status r = FOUND" using run by simp
  moreover have "authorizes_post login_request" by (simp add: login_request_def)
  from handle_request_authorize_post [OF this]
  have "fst (handle_request plain_web example_api (\<lambda>l q. None) 0 0 0 login_request (Some example_login_body) example_world) = Answer r"
    using run by simp
  ultimately show ?thesis
    using oauth_through_proxy [OF req net(1-3) refl net(5,4) http_received_received net(6), of "\<lambda>l q. RErr SerdeError" Map.empty True
        example_login_body "[]"] by simp
qed

section \<open>Routes, from the API server to the service\<close>

context merge_server
begin

lemma admitted_route_published:
  fixes i :: "api_server \<times> string"
  assumes "is_object (do_data x)" and "\<not> is_admitted x"
  defines "x' \<equiv> apply_statuses merge (route_requests i x) x"
  shows "extract_host x' = Some (compute_host x)" and "extract_backend x' = extract_backend x"
    and "do_meta x' = do_meta x"
proof -
  note pass = route_pass_status [OF assms(1,2), where i = i, folded x'_def]
  show "extract_host x' = Some (compute_host x)"
    unfolding extract_host_def pass(1)
    by (simp add: admission_patch_def path_array_def get_str_def)
  show "extract_backend x' = extract_backend x"
    by (simp add: extract_backend_def pass(2))
  show "do_meta x' = do_meta x" by (rule pass(3))
qed

end

text \<open>
  C18.  A Route works end to end: once the route controller has admitted it, the proxy's watcher
  lists it under the host the controller computed, and as long as no later route takes the host,
  a request for this host is sent to the cluster address of the service the Route names, in the
  Route's namespace, over TLS exactly when the Route terminates there.
\<close>

theorem route_reaches_service:
  fixes i :: "api_server \<times> string" and ws ws' :: "table_write list" and body :: bytes and ti :: bool and req :: request
  assumes "merge_patch_law merge" and "is_object (do_data route)" and "\<not> is_admitted route"
    and "extract_backend route = Some (svc_name, tp, tls)"
  defines "ns \<equiv> unwrap_or (om_namespace (do_meta route)) []"
    and "table \<equiv> table_after (ws @ route_writes (Some (apply_statuses merge (route_requests i route) route)) @ ws')"
    and "uq \<equiv> \<lambda>addr. upstream_request req body (compute_host route) addr tls ti"
  assumes "compute_host route \<notin> fst ` set ws'" and "\<not> is_oauth_host (compute_host route)"
    and "request_host web req = compute_host route" and "\<not> has_header (rq_headers req) ''upgrade''"
    and "env l (Get ResService (InNs ns) svc_name) = RObj (KService svc)"
    and "service_address svc tp = Some addr"
    and "up_uri_ok up (uq_uri (uq addr))"
  shows "proxy_request web env up table ti req (Some body) l =
    (Answer (forward up (uq addr) (compute_host route) addr tls), l @ [Get ResService (InNs ns) svc_name])"
proof -
  let ?b = "\<lparr>rb_service_name = svc_name, rb_service_namespace = ns, rb_target_port = tp, rb_tls = tls\<rparr>"
  note published = merge_server.admitted_route_published [OF merge_server.intro [OF assms(1)] assms(2,3), where i = i]
  have "route_writes (Some (apply_statuses merge (route_requests i route) route)) = [(compute_host route, ?b)]"
    by (simp add: route_writes_def published assms(4) ns_def)
  then have "table (compute_host route) = Some ?b"
    using assms(8) by (simp add: table_def table_after_last)
  moreover have "resolve_endpoint env ?b l = (Some addr, l @ [Get ResService (InNs ns) svc_name])"
    using assms(12,13) by (simp add: resolve_endpoint_def api_get_def perform_eq)
  ultimately have "proxy_target env table (compute_host route) l =
      (Inr (addr, tls), l @ [Get ResService (InNs ns) svc_name])"
    using assms(9) by (simp add: proxy_target_def)
  then show ?thesis
    using assms(10,11,14) by (simp add: proxy_request_def uq_def Let_def)
qed

definition shop_route :: dynobj where
  "shop_route = \<lparr>do_meta = default_meta\<lparr>om_name := Some ''web'', om_namespace := Some ''shop''\<rparr>,
     do_data = JObject [(''spec'', JObject [(''to'', JObject [(''name'', JString ''web'')])])]\<rparr>"

definition shop_service :: service where
  "shop_service = \<lparr>svc_meta = default_meta\<lparr>om_name := Some ''web''\<rparr>,
     svc_spec = Some \<lparr>ss_type = None, ss_cluster_ip = Some ''10.96.0.7'', ss_ports = None, ss_selector = None\<rparr>,
     svc_status = None\<rparr>"

definition shop_req :: request where
  "shop_req = \<lparr>rq_method = ''GET'', rq_path = ''/'', rq_query = None,
     rq_headers = [(''host'', ''web-shop.apps.ocp-sim.test'')], rq_body = []\<rparr>"

theorem route_reaches_service_witness:
  "proxy_request plain_web (\<lambda>l q. RObj (KService shop_service)) echo
     (table_after ([] @ route_writes (Some (apply_statuses rfc_merge
        (route_requests (\<lambda>l q. ROk, ''now'') shop_route) shop_route)) @ [])) False shop_req (Some ''hi'') [] =
   (Answer \<lparr>rs_status = 200, rs_headers = [], rs_body = ''hi''\<rparr>,
    [Get ResService (InNs ''shop'') ''web''])"
proof -
  let ?addr = "\<lparr>sa_ip = V4 [10, 96, 0, 7], sa_port = 80\<rparr>"
  have host: "compute_host shop_route = ''web-shop.apps.ocp-sim.test''" by code_simp
  have "is_object (do_data shop_route)" "\<not> is_admitted shop_route"
    "extract_backend shop_route = Some (''web'', Number 80, False)"
    "\<not> is_oauth_host (compute_host shop_route)"
    "request_host plain_web shop_req = compute_host shop_route"
    "\<not> has_header (rq_headers shop_req) ''upgrade''"
    "service_address shop_service (Number 80) = Some ?addr"
    by code_simp+
  then show ?thesis
    using route_reaches_service [OF rfc_merge_law, of shop_route "''web''" "Number 80" False "[]"
        plain_web shop_req "\<lambda>l q. RObj (KService shop_service)" "[]" shop_service ?addr echo "''hi''" False
        "[]" "(\<lambda>l q. ROk, ''now'')"]
    by (simp add: echo_def down_def forward_def relay_def upstream_request_def shop_route_def)
qed

text \<open>
  C19.  The cluster objects of the OAuth server lead to it: for the local server and for the
  external provider, the Route written at start-up has the proxy's reserved host, and resolving
  its backend through the headless service and the endpoints written with it gives the node
  address and the port the server listens on, over TLS.
\<close>

theorem oauth_route_resolves:
  assumes "name \<in> {OAUTH_HOST, ''entra''}" and "parse_ip node_ip = Some ip"
  defines "host \<equiv> name @ ''.'' @ DOMAIN"
    and "q \<equiv> Get ResService (InNs OAUTH_NS) name" and "q' \<equiv> Get ResEndpoints (InNs OAUTH_NS) name"
  assumes "env l q = RObj (KService (headless_service name))"
    and "env (l @ [q]) q' = RObj (KEndpoints (node_endpoints name node_ip))"
  shows "is_oauth_host host \<and> oauth_route_name host = name \<and>
    (\<exists>b. route_writes (Some (oauth_route host name)) = [(host, b)] \<and> rb_tls b \<and>
       resolve_endpoint env b l = (Some \<lparr>sa_ip = ip, sa_port = OAUTH_PORT\<rparr>, l @ [q, q']))"
proof (intro conjI)
  show "is_oauth_host host" using assms(1) by (auto simp: is_oauth_host_def host_def)
  have "CHR ''.'' \<notin> set name" using assms(1) by (auto simp: OAUTH_HOST_def)
  then show "oauth_route_name host = name"
    by (simp add: oauth_route_name_def host_def split_char_append first_def)
  let ?b = "\<lparr>rb_service_name = name, rb_service_namespace = OAUTH_NS, rb_target_port = Name ''https'', rb_tls = True\<rparr>"
  have "host \<noteq> []" by (simp add: host_def)
  then have "route_writes (Some (oauth_route host name)) = [(host, ?b)]"
    by (simp add: route_writes_def oauth_route_def extract_host_def extract_backend_def route_target_port_def
        path_array_def path_str_def get_str_def)
  moreover have "resolve_endpoint env ?b l = (Some \<lparr>sa_ip = ip, sa_port = OAUTH_PORT\<rparr>, l @ [q, q'])"
    using assms(2,6,7) unfolding q_def q'_def
    by (simp add: resolve_endpoint_def endpoints_address_def api_get_def perform_eq service_address_def
        headless_service_def node_endpoints_def OAUTH_PORT_def)
  ultimately show "\<exists>b. route_writes (Some (oauth_route host name)) = [(host, b)] \<and> rb_tls b \<and>
       resolve_endpoint env b l = (Some \<lparr>sa_ip = ip, sa_port = OAUTH_PORT\<rparr>, l @ [q, q'])"
    by (intro exI [of _ ?b]) simp
qed

definition node_server :: api_server where
  "node_server = (\<lambda>l q. case q of
     Get ResService sc n \<Rightarrow> RObj (KService (headless_service n))
   | Get r sc n \<Rightarrow> RObj (KEndpoints (node_endpoints n ''172.18.0.2''))
   | _ \<Rightarrow> ROk)"

theorem oauth_route_resolves_witness:
  "\<exists>b. route_writes (Some (oauth_route (''entra'' @ ''.'' @ DOMAIN) ''entra'')) = [(''entra'' @ ''.'' @ DOMAIN, b)] \<and>
     rb_tls b \<and> resolve_endpoint node_server b [] =
       (Some \<lparr>sa_ip = V4 [172, 18, 0, 2], sa_port = OAUTH_PORT\<rparr>,
        [] @ [Get ResService (InNs OAUTH_NS) ''entra'', Get ResEndpoints (InNs OAUTH_NS) ''entra''])"
proof -
  have "parse_ip ''172.18.0.2'' = Some (V4 [172, 18, 0, 2])" by code_simp
  then show ?thesis
    by (rule oauth_route_resolves [THEN conjunct2, THEN conjunct2, rotated]) (simp_all add: node_server_def)
qed

section \<open>The built-in gateway and the proxy\<close>

text \<open>
  What the API server documents of a label selector \<^verbatim>\<open>key=value\<close>: it lists only objects that carry
  the label.
\<close>

definition honours_selectors :: "api_server \<Rightarrow> bool" where
  "honours_selectors env \<longleftrightarrow>
     (\<forall>l ns key val svcs svc.
        decode_list as_service (env l (ListAll ResService (InNs ns) (Some (key @ ''='' @ val)))) = Inr svcs \<and>
        svc \<in> set svcs \<longrightarrow> (\<exists>labels. om_labels (svc_meta svc) = Some labels \<and> (key, val) \<in> set labels))"


definition gateway_route :: dynobj where
  "gateway_route = \<lparr>do_meta = default_meta\<lparr>om_name := Some ''r'', om_namespace := Some ''n''\<rparr>,
     do_data = JObject [(''spec'', JObject [(''hostnames'', JStrings [''a.b'']),
       (''parentRefs'', JArray [JObject [(''name'', JString GATEWAY_NAME), (''namespace'', JString GATEWAY_NS)]])])]\<rparr>"

definition selecting_server :: api_server where
  "selecting_server = (\<lambda>l q. case q of
     ListAll ResService (InNs ns) None \<Rightarrow> RList [KService (envoy_service ns ''gw'')]
   | _ \<Rightarrow> RList [])"


section \<open>The certificate of the gateway\<close>

lemma join_lines_contains: "x \<in> set xs \<Longrightarrow> str_contains (join_lines xs) x"
proof (induction xs rule: join_lines.induct)
  case (3 l l' ls)
  show ?case
  proof (cases "x = l")
    case True
    then show ?thesis by (auto simp: str_contains_iff)
  next
    case False
    with 3 obtain a b where "join_lines (l' # ls) = a @ x @ b" by (auto simp: str_contains_iff)
    then have "join_lines (l # l' # ls) = (l @ [CHR 0x0A] @ a) @ x @ b" by simp
    then show ?thesis unfolding str_contains_iff by blast
  qed
next
  case (2 l)
  then have "join_lines [l] = [] @ x @ []" by simp
  then show ?case unfolding str_contains_iff by blast
qed simp

lemma str_contains_trans: "str_contains s t \<Longrightarrow> str_contains t u \<Longrightarrow> str_contains s u"
  unfolding str_contains_iff by (metis append.assoc)

lemma lds_reads_certificate:
  "str_contains (lds_text lua) ''filename: /etc/envoy/tls/tls.crt''"
  "str_contains (lds_text lua) ''filename: /etc/envoy/tls/tls.key''"
proof -
  have line: "str_contains (lds_text lua) ''              filename: /etc/envoy/tls/tls.crt''"
    "str_contains (lds_text lua) ''              filename: /etc/envoy/tls/tls.key''"
    unfolding lds_text_def by (rule join_lines_contains, simp)+
  have "str_contains ''              filename: /etc/envoy/tls/tls.crt'' ''filename: /etc/envoy/tls/tls.crt''"
    "str_contains ''              filename: /etc/envoy/tls/tls.key'' ''filename: /etc/envoy/tls/tls.key''"
    by code_simp+
  with line show "str_contains (lds_text lua) ''filename: /etc/envoy/tls/tls.crt''"
    "str_contains (lds_text lua) ''filename: /etc/envoy/tls/tls.key''"
    using str_contains_trans by blast+
qed

text \<open>
  C20.  The gateway gets its certificate from the service CA: for the service that the gateway
  controller creates, the service CA creates the secret which the Envoy deployment mounts, with
  a certificate for the service's names, under the file names that the listener configuration
  reads.
\<close>

theorem gateway_certificate_mounted:
  fixes ns svc_name :: string
  defines "cn \<equiv> svc_name @ ''.'' @ ns @ ''.svc''" and "q \<equiv> GetOpt ResSecret (InNs ns) TLS_SECRET_NAME"
  assumes "env l q = ROpt None" and "sign_cert lib key ca [cn, cn @ ''.cluster.local''] = Some (cert, k)"
  shows "\<exists>s mount.
    snd (run_service_controller env web lib key ca (envoy_service ns svc_name) l) =
      l @ [q, Create ResSecret (InNs ns) (KSecret s)] \<and>
    om_name (sec_meta s) = Some TLS_SECRET_NAME \<and> om_namespace (sec_meta s) = om_namespace (dep_meta (envoy_deployment ns gw)) \<and>
    sec_data s = Some [(''tls.crt'', cert), (''tls.key'', k)] \<and>
    (\<exists>spec vols c mounts. pt_spec (dep_template (envoy_deployment ns gw)) = Some spec \<and>
       ps_volumes spec = Some vols \<and> ps_containers spec = [c] \<and> co_volume_mounts c = Some mounts \<and>
       \<lparr>vol_name = vm_name mount, vol_source = SecretVol TLS_SECRET_NAME (Some True)\<rparr> \<in> set vols \<and>
       mount \<in> set mounts) \<and>
    str_contains (generate_lds_yaml host) (''filename: '' @ vm_mount_path mount @ ''/tls.crt'') \<and>
    str_contains (generate_lds_yaml host) (''filename: '' @ vm_mount_path mount @ ''/tls.key'')"
proof -
  let ?s = "serving_secret TLS_SECRET_NAME ns svc_name [] (ca_bundle_base64 web ca) cert k"
  let ?m = "\<lparr>vm_name = ''tls'', vm_mount_path = ''/etc/envoy/tls'', vm_read_only = Some True\<rparr>"
  have svc: "svc_meta (envoy_service ns svc_name) = default_meta\<lparr>om_name := Some svc_name, om_namespace := Some ns,
      om_annotations := Some [(SERVING_CERT_ANNOTATION, TLS_SECRET_NAME)]\<rparr>"
    by (simp add: envoy_service_def SERVING_CERT_ANNOTATION_def)
  have "snd (run_service_controller env web lib key ca (envoy_service ns svc_name) l) =
      l @ [q, Create ResSecret (InNs ns) (KSecret ?s)]"
    using assms(3,4) unfolding run_service_controller_def deliver_log reconcile_service_def svc
    by (simp add: create_serving_cert_def svc name_any_def default_meta_def kube_simps api_defs q_def cn_def Let_def
        split: sum.split)
  moreover have "str_contains (generate_lds_yaml host) (''filename: '' @ vm_mount_path ?m @ ''/tls.crt'')"
    "str_contains (generate_lds_yaml host) (''filename: '' @ vm_mount_path ?m @ ''/tls.key'')"
    using lds_reads_certificate [of "_"] by (simp_all add: generate_lds_yaml_def Let_def)
  moreover have "\<exists>spec vols c mounts. pt_spec (dep_template (envoy_deployment ns gw)) = Some spec \<and>
       ps_volumes spec = Some vols \<and> ps_containers spec = [c] \<and> co_volume_mounts c = Some mounts \<and>
       \<lparr>vol_name = vm_name ?m, vol_source = SecretVol TLS_SECRET_NAME (Some True)\<rparr> \<in> set vols \<and>
       ?m \<in> set mounts"
    by (simp add: envoy_deployment_def Let_def)
  moreover have "om_name (sec_meta ?s) = Some TLS_SECRET_NAME"
    "om_namespace (sec_meta ?s) = om_namespace (dep_meta (envoy_deployment ns gw))"
    "sec_data ?s = Some [(''tls.crt'', cert), (''tls.key'', k)]"
    by (simp_all add: serving_secret_def envoy_deployment_def Let_def)
  ultimately show ?thesis by blast
qed

theorem gateway_certificate_mounted_witness:
  "\<exists>s. snd (run_service_controller (\<lambda>l q. ROpt None) plain_web example_lib (Some ''key'') example_ca
       (envoy_service ''ns'' ''gw'') []) =
     [] @ [GetOpt ResSecret (InNs ''ns'') TLS_SECRET_NAME, Create ResSecret (InNs ''ns'') (KSecret s)]"
proof -
  let ?cn = "''gw'' @ ''.'' @ ''ns'' @ ''.svc''"
  have "sign_cert example_lib (Some ''key'') example_ca [?cn, ?cn @ ''.cluster.local''] =
      Some (?cn @ ?cn @ ''.cluster.local'', ''key'')"
    by (simp add: sign_cert_def example_lib_def example_ca_def Let_def)
  then show ?thesis
    using gateway_certificate_mounted [of "\<lambda>l q. ROpt None" "[]" "''ns''" example_lib "Some ''key''" example_ca
        "''gw''" _ "''key''" plain_web] by blast
qed

end
